(* ===== verification/Prelude.thy ===== *)
theory Prelude
  imports Main "HOL-Library.AList"
begin

text \<open>
  What the components share. A Go map is an association list whose order is one order in
  which \<^theory_text>\<open>range\<close> may visit it: a lookup is \<^const>\<open>map_of\<close>, an assignment
  \<^const>\<open>AList.update\<close>, \<open>delete\<close> is \<^const>\<open>AList.delete\<close>, and a map value has
  distinct keys (\<open>gm_ok\<close>). A nil map reads as an empty one; where the code tells nil from
  empty, the field is an \<open>option\<close>. A run-time panic is the value \<open>Panic\<close>, so a
  function that may panic returns \<open>'a go\<close>. The locale \<open>keyed_store\<close> is the
  interface of every keyed table of the program; it is interpreted below on Go maps.
\<close>

named_theorems go_simps \<open>rewrite rules of the Go primitives the components use\<close>
named_theorems gm_intros \<open>well-formedness of Go maps\<close>

section \<open>Panics\<close>

datatype panic = NilDereference | IndexOutOfRange

datatype 'a go = Ret 'a | Panic panic

fun go_bind :: "'a go \<Rightarrow> ('a \<Rightarrow> 'b go) \<Rightarrow> 'b go" where
  "go_bind (Ret x) f = f x"
| "go_bind (Panic p) f = Panic p"

lemma go_bind_Ret_iff [go_simps]:
  "go_bind m f = Ret y \<longleftrightarrow> (\<exists>x. m = Ret x \<and> f x = Ret y)"
  by (cases m) auto

section \<open>Go maps\<close>

type_synonym ('k, 'v) gomap = "('k \<times> 'v) list"

definition gm_ok :: "('k, 'v) gomap \<Rightarrow> bool" where
  "gm_ok m \<longleftrightarrow> distinct (map fst m)"

text \<open>\<open>m[k]\<close> of a map whose values have the zero value \<open>z\<close>.\<close>

definition gm_index :: "'v \<Rightarrow> ('k, 'v) gomap \<Rightarrow> 'k \<Rightarrow> 'v" where
  "gm_index z m k = (case map_of m k of None \<Rightarrow> z | Some v \<Rightarrow> v)"

text \<open>\<open>for k, v := range new { m[k] = v }\<close>\<close>

fun gm_merge :: "('k, 'v) gomap \<Rightarrow> ('k, 'v) gomap \<Rightarrow> ('k, 'v) gomap" where
  "gm_merge m [] = m"
| "gm_merge m ((k, v) # new) = gm_merge (AList.update k v m) new"

text \<open>What \<open>reflect.DeepEqual\<close> says of two (non-nil) maps.\<close>

definition gm_equal :: "('k, 'v) gomap \<Rightarrow> ('k, 'v) gomap \<Rightarrow> bool" where
  "gm_equal m n \<longleftrightarrow> list_all (\<lambda>k. map_of m k = map_of n k) (map fst m @ map fst n)"

lemma gm_ok_Nil [simp, gm_intros]: "gm_ok []"
  by (simp add: gm_ok_def)

lemma gm_ok_update [simp, gm_intros]: "gm_ok m \<Longrightarrow> gm_ok (AList.update k v m)"
  by (simp add: gm_ok_def distinct_update)

lemma gm_ok_delete [simp, gm_intros]: "gm_ok m \<Longrightarrow> gm_ok (AList.delete k m)"
  by (simp add: gm_ok_def distinct_delete)

lemma gm_ok_merge [simp, gm_intros]: "gm_ok m \<Longrightarrow> gm_ok (gm_merge m new)"
  by (induction m new rule: gm_merge.induct) auto

lemma map_of_update [simp]: "map_of (AList.update k v m) = (map_of m)(k \<mapsto> v)"
  by (simp add: update_conv')

lemma map_of_delete [simp]: "map_of (AList.delete k m) = (map_of m)(k := None)"
  by (simp add: delete_conv')

lemma map_of_gm_merge_other: "k \<notin> fst ` set new \<Longrightarrow> map_of (gm_merge m new) k = map_of m k"
  by (induction m new rule: gm_merge.induct) auto

lemma map_of_gm_merge: "gm_ok new \<Longrightarrow> map_of (gm_merge m new) = map_of m ++ map_of new"
proof (induction m new rule: gm_merge.induct)
  case (1 m)
  then show ?case by simp
next
  case (2 m k v new)
  then have "k \<notin> fst ` set new" and "gm_ok new" by (auto simp: gm_ok_def)
  then show ?case
    using "2.IH" by (auto simp: fun_eq_iff map_add_def map_of_eq_None_iff split: option.splits)
qed

text \<open>The order in which \<open>range\<close> visits the new entries does not matter.\<close>

lemma gm_merge_order:
  assumes "gm_ok new" and "gm_ok new'" and "map_of new = map_of new'"
  shows "map_of (gm_merge m new) = map_of (gm_merge m new')"
  using assms by (simp add: map_of_gm_merge)

lemma map_of_in_set: "gm_ok m \<Longrightarrow> map_of m k = Some v \<longleftrightarrow> (k, v) \<in> set m"
  by (simp add: gm_ok_def)

lemma gm_equal_iff: "gm_equal m n \<longleftrightarrow> map_of m = map_of n"
proof
  assume eq: "gm_equal m n"
  show "map_of m = map_of n"
  proof
    fix k
    show "map_of m k = map_of n k"
    proof (cases "k \<in> fst ` set m \<union> fst ` set n")
      case True
      with eq show ?thesis by (auto simp: gm_equal_def list_all_iff)
    next
      case False
      then show ?thesis by (auto simp flip: map_of_eq_None_iff)
    qed
  qed
qed (simp add: gm_equal_def list_all_iff)

section \<open>Keyed tables\<close>

text \<open>
  The interface of a table indexed by key. Every component that keeps one (the cluster
  cache, the labels of an object, the environment) is a provider.
\<close>

locale keyed_store =
  fixes lkup :: "'s \<Rightarrow> 'k \<Rightarrow> 'v option"
    and put :: "'k \<Rightarrow> 'v \<Rightarrow> 's \<Rightarrow> 's"
    and del :: "'k \<Rightarrow> 's \<Rightarrow> 's"
    and ok :: "'s \<Rightarrow> bool"
  assumes lkup_put: "ok s \<Longrightarrow> lkup (put k v s) = (lkup s)(k \<mapsto> v)"
    and lkup_del: "ok s \<Longrightarrow> lkup (del k s) = (lkup s)(k := None)"
    and ok_put: "ok s \<Longrightarrow> ok (put k v s)"
    and ok_del: "ok s \<Longrightarrow> ok (del k s)"
begin

lemma lkup_put_same: "ok s \<Longrightarrow> lkup (put k v s) k = Some v"
  by (simp add: lkup_put)

lemma lkup_put_frame: "ok s \<Longrightarrow> j \<noteq> k \<Longrightarrow> lkup (put k v s) j = lkup s j"
  by (simp add: lkup_put)

lemma del_after_put: "ok s \<Longrightarrow> lkup (del k (put k v s)) = lkup (del k s)"
  by (simp add: lkup_put lkup_del ok_put)

lemma put_last_wins: "ok s \<Longrightarrow> lkup (put k v (put k w s)) = lkup (put k v s)"
  by (simp add: lkup_put ok_put)

text \<open>A fact about every entry survives an insertion that satisfies it, and a deletion.\<close>

lemma all_entries_put:
  "\<lbrakk> ok s; \<forall>j w. lkup s j = Some w \<longrightarrow> P j w; P k v; lkup (put k v s) j = Some w \<rbrakk> \<Longrightarrow> P j w"
  by (auto simp: lkup_put split: if_splits)

lemma all_entries_del:
  "\<lbrakk> ok s; \<forall>j w. lkup s j = Some w \<longrightarrow> P j w; lkup (del k s) j = Some w \<rbrakk> \<Longrightarrow> P j w"
  by (auto simp: lkup_del split: if_splits)

end

interpretation gomap: keyed_store map_of AList.update AList.delete gm_ok
  by unfold_locales (auto intro: gm_intros)

section \<open>Lists\<close>

text \<open>The index of the first element that satisfies a test: a loop that returns inside.\<close>

fun index_where :: "('a \<Rightarrow> bool) \<Rightarrow> 'a list \<Rightarrow> nat option" where
  "index_where p [] = None"
| "index_where p (x # xs) = (if p x then Some 0 else map_option Suc (index_where p xs))"

lemma index_where_None: "index_where p xs = None \<longleftrightarrow> (\<forall>x\<in>set xs. \<not> p x)"
  by (induction xs) auto

lemma index_where_SomeD:
  "index_where p xs = Some i \<Longrightarrow> i < length xs \<and> p (xs ! i) \<and> (\<forall>j<i. \<not> p (xs ! j))"
  by (induction xs arbitrary: i) (auto split: if_splits simp: less_Suc_eq_0_disj)

lemma find_index_where:
  "List.find p xs = map_option (\<lambda>i. xs ! i) (index_where p xs)"
  by (induction xs) (auto simp: option.map_comp comp_def)

lemma find_append: "List.find p (xs @ ys) = (case List.find p xs of None \<Rightarrow> List.find p ys | r \<Rightarrow> r)"
  by (induction xs) auto

lemma find_SomeD: "List.find p xs = Some x \<Longrightarrow> x \<in> set xs \<and> p x"
  by (auto simp: find_Some_iff)

lemma find_list_update:
  assumes "i < length xs" and "\<And>j. j < i \<Longrightarrow> \<not> p (xs ! j)" and "p y"
  shows "List.find p (xs[i := y]) = Some y"
  using assms
proof (induction xs arbitrary: i)
  case Nil
  then show ?case by simp
next
  case (Cons x xs)
  show ?case
  proof (cases i)
    case 0
    with Cons.prems show ?thesis by simp
  next
    case (Suc n)
    have "\<not> p x" using Cons.prems(2) [of 0] Suc by simp
    moreover have "List.find p (xs[n := y]) = Some y"
      using Cons.prems Suc by (intro Cons.IH) fastforce+
    ultimately show ?thesis using Suc by simp
  qed
qed

lemma find_list_update_other:
  "i < length xs \<Longrightarrow> \<not> p (xs ! i) \<Longrightarrow> \<not> p y \<Longrightarrow> List.find p (xs[i := y]) = List.find p xs"
  by (induction xs arbitrary: i) (auto split: nat.splits)

end
