(* ===== verification/GoStrings.thy ===== *)
theory GoStrings
  imports Prelude "HOL-Library.Word" "HOL-Library.Multiset" "HOL-Library.Char_ord" "HOL-Library.List_Lexorder"
begin

unbundle bit_operations_syntax

text \<open>
  The parts of Go's \<open>strings\<close>, \<open>unicode/utf8\<close>, \<open>strconv\<close>, \<open>sort\<close> and
  \<open>hash/crc32\<close> packages that the repository uses. A Go string is a sequence of bytes, so
  it is a HOL \<^typ>\<open>string\<close>, whose characters are bytes; a rune is a \<^typ>\<open>nat\<close>. The
  case tables of Unicode above ASCII are an argument of the functions that depend on them
  (\<open>ulow\<close>, \<open>uup\<close>).
\<close>

section \<open>Bytes and runes\<close>

definition byte :: "char \<Rightarrow> nat" where
  "byte c = of_char c"

definition chr :: "nat \<Rightarrow> char" where
  "chr n = char_of n"

lemma byte_chr [simp, go_simps]: "n < 256 \<Longrightarrow> byte (chr n) = n"
  by (simp add: byte_def chr_def)

lemma chr_byte [simp, go_simps]: "chr (byte c) = c"
  by (simp add: byte_def chr_def)

lemma byte_less [simp]: "byte c < 256"
  by (simp add: byte_def)

lemma byte_inject [simp]: "byte c = byte d \<longleftrightarrow> c = d"
  by (simp add: byte_def)

definition RuneError :: nat where
  "RuneError = 65533"

definition in_range :: "nat \<Rightarrow> nat \<Rightarrow> nat \<Rightarrow> bool" where
  "in_range lo hi n \<longleftrightarrow> lo \<le> n \<and> n \<le> hi"

text \<open>The range a second byte must lie in, and the length, of a sequence that starts with \<open>p\<close>.\<close>

definition rune_accept :: "nat \<Rightarrow> (nat \<times> nat \<times> nat) option" where
  "rune_accept p =
     (if in_range 194 223 p then Some (2, 128, 191)
      else if p = 224 then Some (3, 160, 191)
      else if p = 237 then Some (3, 128, 159)
      else if in_range 225 239 p then Some (3, 128, 191)
      else if p = 240 then Some (4, 144, 191)
      else if p = 244 then Some (4, 128, 143)
      else if in_range 241 243 p then Some (4, 128, 191)
      else None)"

text \<open>\<open>utf8.DecodeRuneInString\<close>: the first rune and the number of bytes it takes.\<close>

fun decode_rune :: "string \<Rightarrow> nat \<times> nat" where
  "decode_rune [] = (RuneError, 0)"
| "decode_rune (c # cs) =
     (let p = byte c in
      if p < 128 then (p, 1)
      else case rune_accept p of None \<Rightarrow> (RuneError, 1)
         | Some (sz, lo, hi) \<Rightarrow>
             (let s = map byte (take (sz - 1) cs) in
              if length s < sz - 1 \<or> \<not> in_range lo hi (hd s) \<or> \<not> list_all (in_range 128 191) (tl s)
              then (RuneError, 1)
              else (foldl (\<lambda>r b. r * 64 + b mod 64) (p mod (if sz = 2 then 32 else if sz = 3 then 16 else 8)) s, sz)))"

fun runes :: "string \<Rightarrow> nat list" where
  "runes [] = []"
| "runes (c # cs) = (let (r, n) = decode_rune (c # cs) in r # runes (drop (n - 1) cs))"

text \<open>\<open>utf8.EncodeRune\<close>; a surrogate or an out-of-range value is encoded as \<open>RuneError\<close>.\<close>

fun encode_valid :: "nat \<Rightarrow> string" where
  "encode_valid r =
     (if r < 128 then [chr r]
      else if r < 2048 then [chr (192 + r div 64), chr (128 + r mod 64)]
      else if r < 65536 then [chr (224 + r div 4096), chr (128 + r div 64 mod 64), chr (128 + r mod 64)]
      else [chr (240 + r div 262144), chr (128 + r div 4096 mod 64), chr (128 + r div 64 mod 64),
            chr (128 + r mod 64)])"

definition encode_rune :: "nat \<Rightarrow> string" where
  "encode_rune r = encode_valid (if in_range 55296 57343 r \<or> 1114111 < r then RuneError else r)"

definition is_digit :: "nat \<Rightarrow> bool" where "is_digit r \<longleftrightarrow> in_range 48 57 r"
definition is_lower :: "nat \<Rightarrow> bool" where "is_lower r \<longleftrightarrow> in_range 97 122 r"
definition is_upper :: "nat \<Rightarrow> bool" where "is_upper r \<longleftrightarrow> in_range 65 90 r"
definition is_alnum :: "nat \<Rightarrow> bool" where "is_alnum r \<longleftrightarrow> is_digit r \<or> is_lower r \<or> is_upper r"

lemmas rune_class_defs = is_digit_def is_lower_def is_upper_def is_alnum_def in_range_def

section \<open>Case\<close>

text \<open>\<open>unicode.ToLower\<close> and \<open>unicode.ToUpper\<close>, with the tables above ASCII as arguments.\<close>

definition lower_rune :: "(nat \<Rightarrow> nat) \<Rightarrow> nat \<Rightarrow> nat" where
  "lower_rune ulow r = (if is_upper r then r + 32 else if r < 128 then r else ulow r)"

definition upper_rune :: "(nat \<Rightarrow> nat) \<Rightarrow> nat \<Rightarrow> nat" where
  "upper_rune uup r = (if is_lower r then r - 32 else if r < 128 then r else uup r)"

definition ToLower :: "(nat \<Rightarrow> nat) \<Rightarrow> string \<Rightarrow> string" where
  "ToLower ulow s = concat (map (\<lambda>r. encode_rune (lower_rune ulow r)) (runes s))"

definition ToUpper :: "(nat \<Rightarrow> nat) \<Rightarrow> string \<Rightarrow> string" where
  "ToUpper uup s = concat (map (\<lambda>r. encode_rune (upper_rune uup r)) (runes s))"

text \<open>
  \<open>strings.EqualFold(s, t)\<close> for an ASCII \<open>t\<close>: besides the two ASCII cases, the long s
  (U+017F) folds to s and the Kelvin sign (U+212A) to k.
\<close>

definition fold_rune :: "nat \<Rightarrow> nat" where
  "fold_rune r = (if is_upper r then r + 32 else if r = 383 then 115 else if r = 8490 then 107 else r)"

definition EqualFold :: "string \<Rightarrow> string \<Rightarrow> bool" where
  "EqualFold s t \<longleftrightarrow> map fold_rune (runes s) = map fold_rune (runes t)"

section \<open>Searching, splitting, replacing\<close>

definition HasPrefix :: "string \<Rightarrow> string \<Rightarrow> bool" where
  "HasPrefix s p \<longleftrightarrow> take (length p) s = p"

definition HasSuffix :: "string \<Rightarrow> string \<Rightarrow> bool" where
  "HasSuffix s p \<longleftrightarrow> length p \<le> length s \<and> drop (length s - length p) s = p"

definition TrimPrefix :: "string \<Rightarrow> string \<Rightarrow> string" where
  "TrimPrefix s p = (if HasPrefix s p then drop (length p) s else s)"

definition TrimSuffix :: "string \<Rightarrow> string \<Rightarrow> string" where
  "TrimSuffix s p = (if HasSuffix s p then take (length s - length p) s else s)"

text \<open>\<open>strings.Trim\<close> with a cutset of one ASCII character.\<close>

definition Trim :: "string \<Rightarrow> char \<Rightarrow> string" where
  "Trim s c = rev (dropWhile (\<lambda>x. x = c) (rev (dropWhile (\<lambda>x. x = c) s)))"

fun Contains :: "string \<Rightarrow> string \<Rightarrow> bool" where
  "Contains [] sub = (sub = [])"
| "Contains (c # cs) sub = (HasPrefix (c # cs) sub \<or> Contains cs sub)"

definition ContainsAny :: "string \<Rightarrow> string \<Rightarrow> bool" where
  "ContainsAny s chars \<longleftrightarrow> list_ex (\<lambda>c. c \<in> set chars) s"

text \<open>\<open>strings.Split\<close> at a separator of one character.\<close>

fun Split :: "string \<Rightarrow> char \<Rightarrow> string list" where
  "Split [] sep = [[]]"
| "Split (c # cs) sep =
     (if c = sep then [] # Split cs sep
      else case Split cs sep of [] \<Rightarrow> [[c]] | w # ws \<Rightarrow> (c # w) # ws)"

text \<open>\<open>strings.ReplaceAll\<close> of a non-empty string.\<close>

function ReplaceAll :: "string \<Rightarrow> string \<Rightarrow> string \<Rightarrow> string" where
  "ReplaceAll [] old new = []"
| "ReplaceAll (c # cs) old new =
     (if old \<noteq> [] \<and> HasPrefix (c # cs) old
      then new @ ReplaceAll (drop (length old - 1) cs) old new
      else c # ReplaceAll cs old new)"
  by pat_completeness auto
termination
  by (relation "measure (\<lambda>(s, old, new). length s)") auto

text \<open>\<open>strings.Replace(s, old, new, 1)\<close>; an empty \<open>old\<close> matches at the beginning.\<close>

fun ReplaceFirst :: "string \<Rightarrow> string \<Rightarrow> string \<Rightarrow> string" where
  "ReplaceFirst s old new =
     (if HasPrefix s old then new @ drop (length old) s
      else case s of [] \<Rightarrow> [] | c # cs \<Rightarrow> c # ReplaceFirst cs old new)"

declare ReplaceFirst.simps [simp del]

text \<open>\<open>sort.Strings\<close>: strings are ordered byte by byte.\<close>

definition sort_Strings :: "string list \<Rightarrow> string list" where
  "sort_Strings xs = sort xs"

section \<open>Numbers and checksums\<close>

definition digit_char :: "nat \<Rightarrow> char" where
  "digit_char d = ''0123456789abcdefghijklmnopqrstuvwxyz'' ! d"

fun to_base :: "nat \<Rightarrow> nat \<Rightarrow> string" where
  "to_base b n = (if b < 2 \<or> n < b then [digit_char n] else to_base b (n div b) @ [digit_char (n mod b)])"

declare to_base.simps [simp del]

text \<open>\<open>strconv.Itoa\<close> and the verb \<open>%x\<close> of an unsigned number.\<close>

definition Itoa :: "int \<Rightarrow> string" where
  "Itoa n = (if n < 0 then ''-'' @ to_base 10 (nat (- n)) else to_base 10 (nat n))"

text \<open>
  \<open>time.Duration.String\<close>: below a second in the largest unit that gives a whole number,
  else in hours, minutes and seconds, with a fraction whose trailing zeros are dropped.
  The micro sign is the two bytes of U+00B5.
\<close>

definition fraction :: "nat \<Rightarrow> nat \<Rightarrow> string" where
  "fraction v prec =
     (let ds = rev (dropWhile (\<lambda>d. d = 0) (map (\<lambda>i. v div 10 ^ i mod 10) [0..<prec]))
      in if ds = [] then [] else CHR ''.'' # map digit_char ds)"

definition Duration_String :: "int \<Rightarrow> string" where
  "Duration_String d =
     (let u = nat \<bar>d\<bar>;
          body =
            (if u = 0 then ''0s''
             else if u < 10 ^ 3 then to_base 10 u @ ''ns''
             else if u < 10 ^ 6 then to_base 10 (u div 10 ^ 3) @ fraction u 3 @ [chr 194, chr 181] @ ''s''
             else if u < 10 ^ 9 then to_base 10 (u div 10 ^ 6) @ fraction u 6 @ ''ms''
             else let s = u div 10 ^ 9; secs = to_base 10 (s mod 60) @ fraction u 9 @ ''s''
                  in if s < 60 then secs
                     else if s < 3600 then to_base 10 (s div 60) @ ''m'' @ secs
                     else to_base 10 (s div 3600) @ ''h'' @ to_base 10 (s div 60 mod 60) @ ''m'' @ secs)
      in if d < 0 then ''-'' @ body else body)"

definition format_x :: "32 word \<Rightarrow> string" where
  "format_x w = to_base 16 (unat w)"

text \<open>\<open>crc32.Checksum(data, crc32.IEEETable)\<close>: the reflected polynomial 0xedb88320.\<close>

definition crc_bit :: "32 word \<Rightarrow> 32 word" where
  "crc_bit c = (if odd (unat c) then drop_bit 1 c XOR 0xedb88320 else drop_bit 1 c)"

definition crc_byte :: "32 word \<Rightarrow> char \<Rightarrow> 32 word" where
  "crc_byte c b = (crc_bit ^^ 8) (c XOR word_of_nat (byte b))"

definition crc32_Checksum :: "string \<Rightarrow> 32 word" where
  "crc32_Checksum s = NOT (foldl crc_byte (NOT 0) s)"

section \<open>Facts\<close>

lemma decode_rune_ascii [simp]: "byte c < 128 \<Longrightarrow> decode_rune (c # cs) = (byte c, 1)"
  by (simp add: Let_def)

lemma runes_ascii: "\<forall>c\<in>set s. byte c < 128 \<Longrightarrow> runes s = map byte s"
  by (induction s) auto

lemma runes_eq_Nil [simp]: "runes s = [] \<longleftrightarrow> s = []"
  by (cases s) (auto split: prod.splits)

lemma length_runes: "length (runes s) \<le> length s"
proof (induction s rule: runes.induct)
  case 1
  then show ?case by simp
next
  case (2 c cs)
  obtain r n where d: "decode_rune (c # cs) = (r, n)" by fastforce
  with "2.IH" [of "(r, n)" r n] show ?case by simp
qed

lemma HasPrefix_iff: "HasPrefix s p \<longleftrightarrow> (\<exists>t. s = p @ t)"
proof
  assume "HasPrefix s p"
  then have "s = p @ drop (length p) s"
    unfolding HasPrefix_def by (metis append_take_drop_id)
  then show "\<exists>t. s = p @ t" ..
qed (auto simp: HasPrefix_def)

lemma HasSuffix_iff: "HasSuffix s p \<longleftrightarrow> (\<exists>t. s = t @ p)"
proof
  assume "HasSuffix s p"
  then have "s = take (length s - length p) s @ p"
    unfolding HasSuffix_def by (metis append_take_drop_id)
  then show "\<exists>t. s = t @ p" ..
qed (auto simp: HasSuffix_def)

lemma HasPrefix_append [simp]: "HasPrefix (p @ t) p"
  by (simp add: HasPrefix_def)

lemma HasSuffix_append [simp]: "HasSuffix (t @ p) p"
  by (simp add: HasSuffix_def)

lemma HasPrefix_single: "HasPrefix s [c] \<longleftrightarrow> s \<noteq> [] \<and> hd s = c"
  by (cases s) (auto simp: HasPrefix_def)

lemma HasSuffix_single: "HasSuffix s [c] \<longleftrightarrow> s \<noteq> [] \<and> last s = c"
  by (cases s rule: rev_cases) (auto simp: HasSuffix_def)

lemma TrimSuffix_append [simp]: "TrimSuffix (s @ p) p = s"
  by (simp add: TrimSuffix_def)

lemma TrimPrefix_append [simp]: "TrimPrefix (p @ s) p = s"
  by (simp add: TrimPrefix_def)

lemma Split_not_Nil [simp]: "Split s sep \<noteq> []"
  by (cases s) (auto split: list.splits)

lemma Split_no_sep: "sep \<notin> set s \<Longrightarrow> Split s sep = [s]"
  by (induction s) auto

lemma Split_append: "sep \<notin> set s \<Longrightarrow> Split (s @ sep # t) sep = s # Split t sep"
  by (induction s) auto

text \<open>Splitting and joining with the separator are inverse to each other.\<close>

fun join :: "string list \<Rightarrow> char \<Rightarrow> string" where
  "join [] sep = []"
| "join [w] sep = w"
| "join (w # v # ws) sep = w @ sep # join (v # ws) sep"

lemma join_Cons_char: "join ((c # w) # ws) sep = c # join (w # ws) sep"
  by (cases ws) auto

lemma join_Split: "join (Split s sep) sep = s"
proof (induction s)
  case Nil
  then show ?case by simp
next
  case (Cons c s)
  obtain w ws where s: "Split s sep = w # ws" by (cases "Split s sep") auto
  with Cons.IH show ?case by (simp add: join_Cons_char)
qed

lemma Split_join:
  "ws \<noteq> [] \<Longrightarrow> \<forall>w\<in>set ws. sep \<notin> set w \<Longrightarrow> Split (join ws sep) sep = ws"
  by (induction ws sep rule: join.induct) (auto simp: Split_no_sep Split_append)

lemma length_to_base: "n < b ^ k \<Longrightarrow> 2 \<le> b \<Longrightarrow> length (to_base b n) \<le> max 1 k"
proof (induction b n arbitrary: k rule: to_base.induct)
  case (1 b n)
  show ?case
  proof (cases "n < b")
    case True
    then show ?thesis by (subst to_base.simps) simp
  next
    case False
    with "1.prems" obtain j where k: "k = Suc j" by (cases k) auto
    then have "n div b < b ^ j"
      using "1.prems" by (simp add: less_mult_imp_div_less mult.commute)
    moreover have "j \<noteq> 0" using False "1.prems" k by (cases j) auto
    ultimately show ?thesis
      using "1.IH" [of j] False "1.prems" k by (subst to_base.simps) simp
  qed
qed

lemma length_format_x: "length (format_x w) \<le> 8"
proof -
  have "unat w < 16 ^ 8" using unsigned_less [of w, where ?'a = nat] by simp
  from length_to_base [OF this] show ?thesis by (simp add: format_x_def)
qed

lemma to_base_not_Nil [simp]: "to_base b n \<noteq> []"
  by (subst to_base.simps) simp

lemma format_x_not_Nil [simp]: "format_x w \<noteq> []"
  by (simp add: format_x_def)

lemma byte_digit_char:
  assumes "d < 16"
  shows "is_digit (byte (digit_char d)) \<or> is_lower (byte (digit_char d))"
proof -
  have "\<forall>d\<in>set [0..<16]. is_digit (byte (digit_char d)) \<or> is_lower (byte (digit_char d))"
    by (simp add: upt_rec digit_char_def rune_class_defs byte_def)
  with assms show ?thesis by simp
qed

lemma to_base_chars: "2 \<le> b \<Longrightarrow> b \<le> 16 \<Longrightarrow> c \<in> set (to_base b n) \<Longrightarrow> is_digit (byte c) \<or> is_lower (byte c)"
proof (induction b n rule: to_base.induct)
  case (1 b n)
  show ?case
  proof (cases "n < b")
    case True
    with "1.prems" show ?thesis
      by (subst (asm) to_base.simps) (simp add: byte_digit_char)
  next
    case False
    with "1.prems" have "c \<in> set (to_base b (n div b)) \<or> c = digit_char (n mod b)"
      by (subst (asm) to_base.simps) auto
    moreover have "n mod b < 16"
      using "1.prems"(1,2) mod_less_divisor [of b n] by linarith
    ultimately show ?thesis
      using "1.IH" False "1.prems"(1,2) byte_digit_char [of "n mod b"] by auto
  qed
qed

lemma format_x_chars: "c \<in> set (format_x w) \<Longrightarrow> is_digit (byte c) \<or> is_lower (byte c)"
  unfolding format_x_def by (rule to_base_chars) auto

lemma sort_Strings_perm: "mset xs = mset ys \<Longrightarrow> sort_Strings xs = sort_Strings ys"
  by (simp add: sort_Strings_def properties_for_sort)

lemma crc_byte_unfold:
  "crc_byte c b =
     crc_bit (crc_bit (crc_bit (crc_bit (crc_bit (crc_bit (crc_bit (crc_bit
       (c XOR word_of_nat (byte b)))))))))"
  by (simp add: crc_byte_def eval_nat_numeral)

end
