(* ===== verification/UserNames.thy ===== *)
theory UserNames
  imports GoStrings
begin

text \<open>
  \<open>pkg/usersignup/usersignup.go\<close>: the names derived from what a user signs up with.
  \<open>TransformUsername\<close> makes a compliant user name, \<open>EncodeUserIdentifier\<close> the name of
  the UserSignup resource. The Kubernetes check \<open>validation.IsDNS1123Label\<close> is the
  argument \<open>is_label\<close>. The slices \<open>newUsername[3:]\<close> and \<open>newUsername[:16]\<close> are
  only taken of strings longer than 16, so \<^const>\<open>drop\<close> and \<^const>\<open>take\<close> are exact.
\<close>

section \<open>TransformUsername\<close>

definition MaxLength :: nat where
  "MaxLength = 20"

text \<open>\<open>specialCharRegexp.ReplaceAllString(s, "-")\<close>: the class \<open>[^A-Za-z0-9]\<close> matches
  one rune, whatever its length in bytes.\<close>

definition replace_special :: "string \<Rightarrow> string" where
  "replace_special s = map (\<lambda>r. if is_alnum r then chr r else CHR ''-'') (runes s)"

text \<open>\<open>onlyNumbers.MatchString\<close>\<close>

definition only_numbers :: "string \<Rightarrow> bool" where
  "only_numbers s \<longleftrightarrow> list_all (\<lambda>c. is_digit (byte c)) s"

lemma ReplaceAll_shrinks:
  "length (ReplaceAll s ''--'' ''-'') \<le> length s \<and>
   (Contains s ''--'' \<longrightarrow> length (ReplaceAll s ''--'' ''-'') < length s)"
proof (induction s rule: length_induct)
  case (1 s)
  show ?case
  proof (cases s)
    case Nil
    then show ?thesis by simp
  next
    case (Cons c cs)
    show ?thesis
    proof (cases "HasPrefix (c # cs) ''--''")
      case True
      then obtain d ds where cs: "cs = d # ds" by (cases cs) (auto simp: HasPrefix_def)
      with Cons "1.IH" have "length (ReplaceAll ds ''--'' ''-'') \<le> length ds" by simp
      with True Cons cs show ?thesis by simp
    next
      case False
      from Cons "1.IH" have "length (ReplaceAll cs ''--'' ''-'') \<le> length cs \<and>
        (Contains cs ''--'' \<longrightarrow> length (ReplaceAll cs ''--'' ''-'') < length cs)" by auto
      with False Cons show ?thesis by auto
    qed
  qed
qed

text \<open>\<open>for strings.Contains(newUsername, "--") { ... }\<close>\<close>

function collapse_hyphens :: "string \<Rightarrow> string" where
  "collapse_hyphens s =
     (if Contains s ''--'' then collapse_hyphens (ReplaceAll s ''--'' ''-'') else s)"
  by pat_completeness auto
termination
  by (relation "measure length") (use ReplaceAll_shrinks in auto)

declare collapse_hyphens.simps [simp del]

text \<open>The name up to the check of its length.\<close>

definition base_username :: "string \<Rightarrow> string" where
  "base_username username =
     (let n1 = replace_special (hd (Split username (CHR ''@'')));
          n2 = (if length n1 = 0 then ReplaceAll username ''@'' ''at-'' else n1);
          n3 = replace_special n2;
          n4 = (if only_numbers n3 then ''crt-'' @ n3 else n3);
          n5 = collapse_hyphens n4;
          n6 = (if HasPrefix n5 ''-'' then ''crt'' @ n5 else n5)
      in if HasSuffix n6 ''-'' then n6 @ ''crt'' else n6)"

definition limit_username :: "(string \<Rightarrow> bool) \<Rightarrow> string \<Rightarrow> string" where
  "limit_username is_label s =
     (if length s > MaxLength
      then let t = take MaxLength s in if \<not> is_label t then Trim t (CHR ''-'') else t
      else s)"

definition maxlengthWithPrefix :: nat where
  "maxlengthWithPrefix = MaxLength - 4"

text \<open>The two loops over the forbidden prefixes and suffixes, which stop at the first match.\<close>

fun avoid_prefix :: "string list \<Rightarrow> string \<Rightarrow> string" where
  "avoid_prefix [] newUsername = newUsername"
| "avoid_prefix (prefix # prefixes) newUsername =
     (if HasPrefix newUsername prefix
      then (if length newUsername > maxlengthWithPrefix then ''crt-'' @ drop 3 newUsername
            else ''crt-'' @ newUsername)
      else avoid_prefix prefixes newUsername)"

fun avoid_suffix :: "string list \<Rightarrow> string \<Rightarrow> string" where
  "avoid_suffix [] newUsername = newUsername"
| "avoid_suffix (suffix # suffixes) newUsername =
     (if HasSuffix newUsername suffix
      then (if length newUsername > maxlengthWithPrefix
            then take maxlengthWithPrefix newUsername @ ''-crt''
            else newUsername @ ''-crt'')
      else avoid_suffix suffixes newUsername)"

definition TransformUsername ::
  "(string \<Rightarrow> bool) \<Rightarrow> string \<Rightarrow> string list \<Rightarrow> string list \<Rightarrow> string" where
  "TransformUsername is_label username ForbiddenUsernamePrefixes ForbiddenUsernameSuffixes =
     avoid_suffix ForbiddenUsernameSuffixes
       (avoid_prefix ForbiddenUsernamePrefixes
         (limit_username is_label (base_username username)))"

section \<open>EncodeUserIdentifier\<close>

definition DNS1123NameMaximumLength :: nat where
  "DNS1123NameMaximumLength = 63"

definition sanitizeDNS1123 :: "(nat \<Rightarrow> nat) \<Rightarrow> string \<Rightarrow> string" where
  "sanitizeDNS1123 ulow str =
     (let lstr = ToLower ulow str;
          b = map chr (filter (\<lambda>r. in_range 48 57 r \<or> in_range 97 122 r \<or> r = 45) (runes lstr))
      in Trim b (CHR ''-''))"

definition EncodeUserIdentifier :: "(nat \<Rightarrow> nat) \<Rightarrow> string \<Rightarrow> string" where
  "EncodeUserIdentifier ulow subject =
     (let encoded = sanitizeDNS1123 ulow subject;
          encoded' = (if encoded \<noteq> subject
                      then format_x (crc32_Checksum subject) @ ''-'' @ encoded else encoded)
      in if length encoded' > DNS1123NameMaximumLength
         then take DNS1123NameMaximumLength encoded' else encoded')"

section \<open>The shape of a user name\<close>

definition name_char :: "char \<Rightarrow> bool" where
  "name_char c \<longleftrightarrow> is_alnum (byte c) \<or> c = CHR ''-''"

text \<open>A name Kubernetes takes as a label, up to case: letters, digits and hyphens, with a letter
  or a digit at both ends.\<close>

definition good_name :: "string \<Rightarrow> bool" where
  "good_name s \<longleftrightarrow> s \<noteq> [] \<and> list_all name_char s \<and> is_alnum (byte (hd s)) \<and> is_alnum (byte (last s))"

lemma byte_hyphen [simp]: "byte (CHR ''-'') = 45"
  by (simp add: byte_def)

lemma chr_45 [simp]: "chr 45 = CHR ''-''"
  by (rule byte_inject [THEN iffD1]) simp

lemma alnum_less: "is_alnum r \<Longrightarrow> r < 128"
  by (auto simp: rune_class_defs)

lemma byte_chr_alnum [simp]: "is_alnum r \<Longrightarrow> byte (chr r) = r"
  by (auto dest!: alnum_less)

lemma not_alnum_45 [simp]: "\<not> is_alnum 45"
  by (simp add: rune_class_defs)

lemma name_char_ascii: "name_char c \<Longrightarrow> byte c < 128"
  by (auto simp: name_char_def alnum_less)

lemma crt_chars [simp]:
  "name_char (CHR ''c'')" "name_char (CHR ''r'')" "name_char (CHR ''t'')" "name_char (CHR ''-'')"
  "is_alnum (byte (CHR ''c''))" "is_alnum (byte (CHR ''r''))" "is_alnum (byte (CHR ''t''))"
  by (simp_all add: name_char_def rune_class_defs byte_def)


lemma replace_special_id: "list_all name_char s \<Longrightarrow> replace_special s = s"
proof (induction s)
  case Nil
  then show ?case by (simp add: replace_special_def)
next
  case (Cons c s)
  then have "byte c < 128" by (simp add: name_char_ascii)
  with Cons show ?case by (auto simp: replace_special_def name_char_def)
qed

lemma ReplaceAll_hyphens:
  "set (ReplaceAll s ''--'' ''-'') \<subseteq> set s \<union> {CHR ''-''} \<and> (ReplaceAll s ''--'' ''-'' = [] \<longleftrightarrow> s = [])"
proof (induction s rule: length_induct)
  case (1 s)
  show ?case
  proof (cases s)
    case (Cons c cs)
    with "1.IH" have "set (ReplaceAll cs ''--'' ''-'') \<subseteq> set cs \<union> {CHR ''-''}"
      and "set (ReplaceAll (drop 1 cs) ''--'' ''-'') \<subseteq> set (drop 1 cs) \<union> {CHR ''-''}" by auto
    then show ?thesis using Cons set_drop_subset [of 1 cs] by auto
  qed simp
qed


lemma collapse_hyphens_Nil [simp]: "collapse_hyphens s = [] \<longleftrightarrow> s = []"
proof (induction s rule: collapse_hyphens.induct)
  case (1 s)
  then show ?case
    using ReplaceAll_hyphens [of s] by (subst collapse_hyphens.simps) auto
qed

lemma collapse_hyphens_none: "\<not> Contains (collapse_hyphens s) ''--''"
proof (induction s rule: collapse_hyphens.induct)
  case (1 s)
  then show ?case by (subst collapse_hyphens.simps) simp
qed






lemma length_Trim: "length (Trim s c) \<le> length s"
  unfolding Trim_def using length_dropWhile_le le_trans by (metis length_rev)

lemma length_limit_username: "length (limit_username is_label s) \<le> MaxLength"
  using length_Trim [of "take MaxLength s" "CHR ''-''"] by (auto simp: limit_username_def Let_def)

lemma length_avoid_prefix: "length s \<le> MaxLength \<Longrightarrow> length (avoid_prefix prefixes s) \<le> Suc MaxLength"
  by (induction prefixes s rule: avoid_prefix.induct) (auto simp: maxlengthWithPrefix_def MaxLength_def)

lemma length_avoid_suffix:
  "length s \<le> Suc MaxLength \<Longrightarrow> length (avoid_suffix suffixes s) \<le> Suc MaxLength"
  by (induction suffixes s rule: avoid_suffix.induct) (auto simp: maxlengthWithPrefix_def MaxLength_def)

lemma avoid_prefix_id: "list_all (\<lambda>p. \<not> HasPrefix s p) prefixes \<Longrightarrow> avoid_prefix prefixes s = s"
  by (induction prefixes s rule: avoid_prefix.induct) auto

lemma avoid_suffix_id: "list_all (\<lambda>p. \<not> HasSuffix s p) suffixes \<Longrightarrow> avoid_suffix suffixes s = s"
  by (induction suffixes s rule: avoid_suffix.induct) auto

lemma base_username_id:
  assumes "good_name s" and "\<not> Contains s ''--''" and "\<not> only_numbers s"
  shows "base_username s = s"
proof -
  from assms(1) have s: "s \<noteq> []" "list_all name_char s" "is_alnum (byte (hd s))" "is_alnum (byte (last s))"
    by (auto simp: good_name_def)
  then have "CHR ''@'' \<notin> set s"
    by (auto simp: list_all_iff name_char_def rune_class_defs byte_def dest: bspec)
  then have "Split s (CHR ''@'') = [s]" by (rule Split_no_sep)
  moreover have "\<not> HasPrefix s ''-''" "\<not> HasSuffix s ''-''"
    using s by (auto simp: HasPrefix_single HasSuffix_single)
  moreover have "collapse_hyphens s = s" using assms(2) by (subst collapse_hyphens.simps) simp
  ultimately show ?thesis
    using s assms(3) by (simp add: base_username_def replace_special_id Let_def)
qed

section \<open>The shape of an encoded identifier\<close>

definition label_char :: "char \<Rightarrow> bool" where
  "label_char c \<longleftrightarrow> is_digit (byte c) \<or> is_lower (byte c) \<or> c = CHR ''-''"

text \<open>A DNS-1123 label, as \<open>validation.IsDNS1123Label\<close> documents it.\<close>

definition dns1123_label :: "string \<Rightarrow> bool" where
  "dns1123_label s \<longleftrightarrow> s \<noteq> [] \<and> length s \<le> 63 \<and> list_all label_char s \<and>
     hd s \<noteq> CHR ''-'' \<and> last s \<noteq> CHR ''-''"

lemma set_Trim: "set (Trim s c) \<subseteq> set s"
  unfolding Trim_def by (auto dest!: set_dropWhileD)

lemma hd_Trim: "take 1 (Trim s c) \<noteq> [c]"
proof (cases "dropWhile (\<lambda>x. x = c) s")
  case Nil
  show ?thesis unfolding Trim_def Nil by simp
next
  case (Cons d ds)
  then have d: "d \<noteq> c" using hd_dropWhile [of "\<lambda>x. x = c" s] by simp
  have "Trim s c = rev (dropWhile (\<lambda>x. x = c) (rev ds) @ [d]) \<or> Trim s c = [d]"
    using d by (auto simp: Trim_def Cons dropWhile_append dropWhile_eq_Nil_conv)
  with d show ?thesis by auto
qed

lemma sanitize_chars: "list_all label_char (sanitizeDNS1123 ulow s)"
proof -
  have "list_all label_char (map chr (filter (\<lambda>r. in_range 48 57 r \<or> in_range 97 122 r \<or> r = 45) rs))" for rs
    by (auto simp: list_all_iff label_char_def rune_class_defs)
  then show ?thesis
    using set_Trim unfolding sanitizeDNS1123_def Let_def list_all_iff by blast
qed

lemma ToLower_id:
  assumes "list_all (\<lambda>c. byte c < 128 \<and> \<not> is_upper (byte c)) s"
  shows "ToLower ulow s = s"
proof -
  have "concat (map (\<lambda>r. encode_rune (lower_rune ulow r)) (map byte s)) = s"
    using assms by (induction s) (auto simp: lower_rune_def encode_rune_def in_range_def)
  then show ?thesis using assms by (simp add: ToLower_def runes_ascii list_all_iff)
qed

lemma label_char_facts:
  assumes "label_char c"
  shows "byte c < 128" and "\<not> is_upper (byte c)"
    and "in_range 48 57 (byte c) \<or> in_range 97 122 (byte c) \<or> byte c = 45"
  using assms by (auto simp: label_char_def rune_class_defs)

lemma Trim_id: "s \<noteq> [] \<Longrightarrow> hd s \<noteq> c \<Longrightarrow> last s \<noteq> c \<Longrightarrow> Trim s c = s"
proof -
  assume "s \<noteq> []" "hd s \<noteq> c" "last s \<noteq> c"
  then have "dropWhile (\<lambda>x. x = c) s = s" "dropWhile (\<lambda>x. x = c) (rev s) = rev s"
    by (simp_all add: dropWhile_eq_self_iff hd_rev)
  then show ?thesis by (simp add: Trim_def)
qed

lemma sanitize_id:
  assumes "dns1123_label s"
  shows "sanitizeDNS1123 ulow s = s"
proof -
  have chars: "list_all label_char s" using assms by (simp add: dns1123_label_def)
  then have "ToLower ulow s = s" by (intro ToLower_id) (auto simp: list_all_iff label_char_facts)
  moreover have "runes s = map byte s"
    using chars by (intro runes_ascii) (auto simp: list_all_iff label_char_facts)
  moreover have "filter (\<lambda>r. in_range 48 57 r \<or> in_range 97 122 r \<or> r = 45) (map byte s) = map byte s"
    using chars label_char_facts(3) by (auto simp: list_all_iff filter_id_conv)
  ultimately show ?thesis
    using assms by (simp add: sanitizeDNS1123_def dns1123_label_def comp_def Trim_id)
qed

lemma format_x_label: "list_all label_char (format_x w)" "take 1 (format_x w) \<noteq> ''-''"
proof -
  show chars: "list_all label_char (format_x w)"
    using format_x_chars [of _ w] by (auto simp: list_all_iff label_char_def)
  show "take 1 (format_x w) \<noteq> ''-''"
  proof
    assume "take 1 (format_x w) = ''-''"
    then have "CHR ''-'' \<in> set (format_x w)"
      by (metis in_set_takeD list.set_intros(1))
    from format_x_chars [OF this] show False by (simp add: rune_class_defs)
  qed
qed

section \<open>Properties\<close>



text \<open>The documented limit of \<open>MaxLength\<close> (20) bytes is not kept: replacing a forbidden
  prefix of a 20 byte name puts four bytes in the place of three, and the length is not checked
  again.\<close>

theorem transform_username_exceeds_limit:
  "TransformUsername is_label ''openshift-test-users'' [''openshift''] [''admin''] = ''crt-nshift-test-users'' \<and>
   length (TransformUsername is_label ''openshift-test-users'' [''openshift''] [''admin'']) = MaxLength + 1"
proof -
  have "base_username ''openshift-test-users'' = ''openshift-test-users''"
    by (rule base_username_id)
       (simp_all add: good_name_def name_char_def only_numbers_def rune_class_defs byte_def HasPrefix_def)
  then have "TransformUsername is_label ''openshift-test-users'' [''openshift''] [''admin''] = ''crt-nshift-test-users''"
    by (simp add: TransformUsername_def limit_username_def maxlengthWithPrefix_def MaxLength_def
        HasPrefix_def HasSuffix_def)
  then show ?thesis by (simp add: MaxLength_def)
qed

text \<open>C25: The result of \<open>TransformUsername\<close> has at most 21 bytes, one more than \<open>MaxLength\<close>, whatever the
  input and the forbidden prefixes and suffixes, and the bound is reached: replacing a forbidden
  prefix puts four bytes in the place of three after the length was limited.\<close>

theorem transform_username_length_bound:
  "length (TransformUsername is_label username prefixes suffixes) \<le> Suc MaxLength \<and>
   length (TransformUsername is_label ''openshift-test-users'' [''openshift''] [''admin'']) = Suc MaxLength"
proof
  show "length (TransformUsername is_label username prefixes suffixes) \<le> Suc MaxLength"
    unfolding TransformUsername_def
    by (intro length_avoid_suffix length_avoid_prefix length_limit_username)
  show "length (TransformUsername is_label ''openshift-test-users'' [''openshift''] [''admin'']) = Suc MaxLength"
    unfolding Suc_eq_plus1 by (rule transform_username_exceeds_limit [THEN conjunct2])
qed

text \<open>A name that is already compliant, short enough and not forbidden is returned as it is:
  letters, digits and single hyphens between them, not digits only.\<close>

theorem transform_username_identity:
  assumes "good_name s" and "\<not> Contains s ''--''" and "\<not> only_numbers s" and "length s \<le> MaxLength"
    and "list_all (\<lambda>p. \<not> HasPrefix s p) prefixes" and "list_all (\<lambda>p. \<not> HasSuffix s p) suffixes"
  shows "TransformUsername is_label s prefixes suffixes = s"
  using assms
  by (simp add: TransformUsername_def base_username_id limit_username_def avoid_prefix_id avoid_suffix_id)

theorem transform_username_identity_witness:
  "TransformUsername dns1123_label ''so-me'' [''kube''] [''admin''] = ''so-me''"
  by (rule transform_username_identity)
     (simp_all add: good_name_def name_char_def only_numbers_def rune_class_defs byte_def HasPrefix_def
       HasSuffix_def MaxLength_def)

text \<open>C26: Every encoded identifier has at most 63 bytes, all of them lower case letters, digits or
  hyphens, does not start with a hyphen, and is empty only for the empty subject.\<close>

theorem encode_user_identifier_shape:
  "length (EncodeUserIdentifier ulow subject) \<le> DNS1123NameMaximumLength \<and>
   list_all label_char (EncodeUserIdentifier ulow subject) \<and>
   take 1 (EncodeUserIdentifier ulow subject) \<noteq> ''-'' \<and>
   (EncodeUserIdentifier ulow subject = [] \<longleftrightarrow> subject = [])"
proof -
  define e where "e = (if sanitizeDNS1123 ulow subject \<noteq> subject
    then format_x (crc32_Checksum subject) @ ''-'' @ sanitizeDNS1123 ulow subject
    else sanitizeDNS1123 ulow subject)"
  have "list_all label_char e"
    using sanitize_chars [of ulow subject] by (auto simp: e_def format_x_label label_char_def)
  moreover have "take 1 e \<noteq> ''-''"
  proof (cases "sanitizeDNS1123 ulow subject = subject")
    case True
    with hd_Trim show ?thesis by (metis e_def sanitizeDNS1123_def)
  next
    case False
    with format_x_label(2) [of "crc32_Checksum subject"] show ?thesis
      by (cases "format_x (crc32_Checksum subject)") (auto simp: e_def)
  qed
  moreover have "e = [] \<longleftrightarrow> subject = []"
    by (auto simp: e_def sanitizeDNS1123_def ToLower_def Trim_def)
  moreover have "EncodeUserIdentifier ulow subject = take DNS1123NameMaximumLength e"
    by (auto simp: EncodeUserIdentifier_def e_def Let_def)
  ultimately show ?thesis
    by (auto simp: DNS1123NameMaximumLength_def list_all_iff min_def dest: in_set_takeD)
qed

text \<open>A subject that is a DNS-1123 label already is its own identifier, so existing compliant
  names are looked up unchanged.\<close>

theorem encode_user_identifier_identity:
  assumes "dns1123_label subject"
  shows "EncodeUserIdentifier ulow subject = subject"
  using assms sanitize_id [OF assms]
  by (simp add: EncodeUserIdentifier_def dns1123_label_def DNS1123NameMaximumLength_def)

theorem encode_user_identifier_identity_witness:
  "EncodeUserIdentifier (\<lambda>r. r) ''abcde-12345'' = ''abcde-12345''"
  by (rule encode_user_identifier_identity)
     (simp add: dns1123_label_def label_char_def rune_class_defs byte_def)

text \<open>The encoding is not always DNS-1123 compliant: a subject with no usable character is
  encoded as its checksum followed by a hyphen, whatever the Unicode case table.\<close>

theorem encode_user_identifier_not_label:
  "EncodeUserIdentifier ulow ''@'' = ''a4deae1d-'' \<and> \<not> dns1123_label (EncodeUserIdentifier ulow ''@'')"
proof -
  have "sanitizeDNS1123 ulow ''@'' = ''''"
    by (simp add: sanitizeDNS1123_def ToLower_id rune_class_defs byte_def Trim_def)
  moreover have "format_x (crc32_Checksum ''@'') = ''a4deae1d''"
    by (simp add: crc32_Checksum_def crc_byte_unfold crc_bit_def byte_def format_x_def to_base.simps digit_char_def)
  ultimately have "EncodeUserIdentifier ulow ''@'' = ''a4deae1d-''"
    by (simp add: EncodeUserIdentifier_def DNS1123NameMaximumLength_def)
  then show ?thesis by (simp add: dns1123_label_def)
qed

end
