(* ===== verification/ApiTypes.thy ===== *)
theory ApiTypes
  imports Prelude
begin

text \<open>
  The types of the toolchain and Kubernetes APIs that several components read. The API
  packages are not part of this repository, so only the fields the code uses are here, and
  a string constant of an API package is a constructor named like the constant, distinct
  from the others: the condition types, the reasons of a condition and the label keys. Any
  other string of the type is \<open>Other...\<close> (or \<open>Key\<close>, for a label key the
  source spells out). A \<open>metav1.Time\<close> is the number of nanoseconds since the zero
  time, so \<open>IsZero\<close> is the comparison with 0.
\<close>

type_synonym time = int

definition time_IsZero :: "time \<Rightarrow> bool" where
  "time_IsZero t \<longleftrightarrow> t = 0"

datatype cond_type = ConditionReady | OtherConditionType string

datatype cond_status = ConditionTrue | ConditionFalse | ConditionUnknown | OtherStatus string

datatype reason =
    ToolchainStatusDeploymentRevisionCheckDisabledReason
  | ToolchainStatusDeploymentRevisionCheckOperatorErrorReason
  | ToolchainStatusDeploymentRevisionCheckGitHubErrorReason
  | ToolchainStatusDeploymentNotUpToDateReason
  | ToolchainStatusDeploymentUpToDateReason
  | ToolchainStatusDeploymentNotFoundReason
  | ToolchainStatusDeploymentNotReadyReason
  | ToolchainStatusDeploymentReadyReason
  | ToolchainStatusClusterConnectionNotFoundReason
  | ToolchainStatusClusterConnectionNotReadyReason
  | ToolchainStatusClusterConnectionLastProbeTimeExceededReason
  | ToolchainStatusClusterConnectionReadyReason
  | ToolchainClusterClusterNotReachableReason
  | ToolchainClusterClusterReadyReason
  | ToolchainClusterClusterNotReadyReason
  | OtherReason string

text \<open>\<open>toolchainv1alpha1.Condition\<close>\<close>

record condition =
  Type :: cond_type
  Status :: cond_status
  Reason :: reason
  Message :: string
  LastTransitionTime :: time
  LastUpdatedTime :: "time option"

definition zero_condition :: condition where
  "zero_condition = \<lparr>Type = OtherConditionType '''', Status = OtherStatus '''', Reason = OtherReason '''',
     Message = '''', LastTransitionTime = 0, LastUpdatedTime = None\<rparr>"

text \<open>
  An error of the Kubernetes API: its status reason, which \<open>errors.IsNotFound\<close> looks at,
  and its message. An error of any other library is a message.
\<close>

datatype status_reason = NotFound | OtherStatusReason string

record api_error =
  StatusReason :: status_reason
  err_message :: string

definition IsNotFound :: "api_error \<Rightarrow> bool" where
  "IsNotFound err \<longleftrightarrow> StatusReason err = NotFound"

text \<open>Label and annotation keys.\<close>

datatype label_key =
    ProviderLabelKey
  | SpaceCreatorLabelKey
  | SpaceBindingMasterUserRecordLabelKey
  | SpaceBindingSpaceLabelKey
  | UserSignupUserEmailHashLabelKey
  | UserSignupUserPhoneHashLabelKey
  | BannedUserEmailHashLabelKey
  | BannedByLabelKey
  | BannedUserPhoneNumberHashLabelKey
  | NotificationTypeLabelKey
  | NotificationUserNameLabelKey
  | Key string

type_synonym labels = "(label_key, string) gomap"

text \<open>\<open>types.NamespacedName\<close>\<close>

datatype nsname = NamespacedName (ns_of: string) (name_of: string)

text \<open>\<open>toolchainv1alpha1.UserSignup\<close>, with the states of its spec.\<close>

datatype user_signup_state =
    UserSignupStateApproved
  | UserSignupStateVerificationRequired
  | UserSignupStateDeactivating
  | UserSignupStateDeactivated
  | UserSignupStateRejected
  | OtherUserSignupState string

record identity_claims =
  Sub :: string
  Email :: string
  GivenName :: string
  FamilyName :: string
  Company :: string

record user_signup =
  us_Name :: string
  us_Namespace :: string
  us_Labels :: labels
  States :: "user_signup_state list"
  IdentityClaims :: identity_claims
  CompliantUsername :: string

text \<open>\<open>Space\<close>, \<open>MasterUserRecord\<close> and \<open>SpaceBinding\<close>.\<close>

record space =
  sp_Name :: string
  ParentSpace :: string
  DisableInheritance :: bool

record master_user_record =
  mur_Name :: string
  mur_Namespace :: string

record space_binding =
  sb_Namespace :: string
  sb_Name :: string
  sb_Labels :: labels
  MasterUserRecord :: string
  SpaceOf :: string
  SpaceRole :: string

end
