(* ===== verification/SignupStates.thy ===== *)
theory SignupStates
  imports ApiTypes
begin

text \<open>
  \<open>pkg/states/state_manager.go\<close>: the states of a UserSignup, kept as a list in its spec
  and used as a set of flags. A handler takes the UserSignup and returns it updated.
\<close>

section \<open>The operations\<close>

fun contains :: "user_signup_state list \<Rightarrow> user_signup_state \<Rightarrow> bool" where
  "contains [] state = False"
| "contains (a # s) state = (if a = state then True else contains s state)"

text \<open>\<open>append(s[:i], s[i+1:]...)\<close> at the first index that holds the state.\<close>

definition remove :: "user_signup_state list \<Rightarrow> user_signup_state \<Rightarrow> user_signup_state list" where
  "remove s state =
     (case index_where (\<lambda>v. v = state) s of
        Some i \<Rightarrow> take i s @ drop (Suc i) s
      | None \<Rightarrow> s)"

definition setState :: "user_signup \<Rightarrow> user_signup_state \<Rightarrow> bool \<Rightarrow> user_signup" where
  "setState userSignup state val =
     (let u = (if val \<and> \<not> contains (States userSignup) state
               then userSignup\<lparr>States := States userSignup @ [state]\<rparr> else userSignup)
      in if \<not> val \<and> contains (States u) state
         then u\<lparr>States := remove (States u) state\<rparr> else u)"

definition ApprovedManually :: "user_signup \<Rightarrow> bool" where
  "ApprovedManually userSignup = contains (States userSignup) UserSignupStateApproved"

definition SetApprovedManually :: "user_signup \<Rightarrow> bool \<Rightarrow> user_signup" where
  "SetApprovedManually userSignup approved =
     (let u = setState userSignup UserSignupStateApproved approved
      in if approved
         then setState (setState (setState u UserSignupStateVerificationRequired False)
                UserSignupStateDeactivating False) UserSignupStateDeactivated False
         else u)"

definition VerificationRequired :: "user_signup \<Rightarrow> bool" where
  "VerificationRequired userSignup = contains (States userSignup) UserSignupStateVerificationRequired"

definition SetVerificationRequired :: "user_signup \<Rightarrow> bool \<Rightarrow> user_signup" where
  "SetVerificationRequired userSignup val = setState userSignup UserSignupStateVerificationRequired val"

definition Deactivating :: "user_signup \<Rightarrow> bool" where
  "Deactivating userSignup = contains (States userSignup) UserSignupStateDeactivating"

definition SetDeactivating :: "user_signup \<Rightarrow> bool \<Rightarrow> user_signup" where
  "SetDeactivating userSignup val =
     (let u = setState userSignup UserSignupStateDeactivating val
      in if val then setState u UserSignupStateDeactivated False else u)"

definition Deactivated :: "user_signup \<Rightarrow> bool" where
  "Deactivated userSignup = contains (States userSignup) UserSignupStateDeactivated"

definition SetDeactivated :: "user_signup \<Rightarrow> bool \<Rightarrow> user_signup" where
  "SetDeactivated userSignup deactivated =
     (let u = setState userSignup UserSignupStateDeactivated deactivated
      in if deactivated
         then setState (setState u UserSignupStateApproved False) UserSignupStateDeactivating False
         else u)"

definition Rejected :: "user_signup \<Rightarrow> bool" where
  "Rejected userSignup = contains (States userSignup) UserSignupStateRejected"

definition SetRejected :: "user_signup \<Rightarrow> bool \<Rightarrow> user_signup" where
  "SetRejected userSignup rejected = setState userSignup UserSignupStateRejected rejected"

lemmas getter_defs = ApprovedManually_def VerificationRequired_def Deactivating_def Deactivated_def
  Rejected_def

lemmas setter_defs = SetApprovedManually_def SetVerificationRequired_def SetDeactivating_def
  SetDeactivated_def SetRejected_def

section \<open>A set of flags\<close>

text \<open>The contract the setters rely on: setting a flag sets it and leaves the others alone.\<close>

locale flag_set =
  fixes has :: "'s \<Rightarrow> 'f \<Rightarrow> bool"
    and put :: "'s \<Rightarrow> 'f \<Rightarrow> bool \<Rightarrow> 's"
    and ok :: "'s \<Rightarrow> bool"
  assumes has_put: "ok s \<Longrightarrow> has (put s f v) g = (if g = f then v else has s g)"
    and ok_put: "ok s \<Longrightarrow> ok (put s f v)"
begin

fun puts :: "'s \<Rightarrow> ('f \<times> bool) list \<Rightarrow> 's" where
  "puts s [] = s"
| "puts s ((f, v) # fvs) = puts (put s f v) fvs"

lemma ok_puts: "ok s \<Longrightarrow> ok (puts s fvs)"
  by (induction s fvs rule: puts.induct) (auto simp: ok_put)

lemma has_puts:
  "ok s \<Longrightarrow> distinct (map fst fvs) \<Longrightarrow>
   has (puts s fvs) g = (case map_of fvs g of Some v \<Rightarrow> v | None \<Rightarrow> has s g)"
proof (induction s fvs rule: puts.induct)
  case (1 s)
  then show ?case by simp
next
  case (2 s f v fvs)
  then have "f \<in> fst ` set fvs \<Longrightarrow> False" by auto
  then have "map_of fvs f = None" by (auto simp: map_of_eq_None_iff)
  with 2 show ?case by (auto simp: has_put ok_put split: option.splits)
qed

end

lemma contains_iff [simp]: "contains s state \<longleftrightarrow> state \<in> set s"
  by (induction s) auto

lemma remove_eq: "remove s state = remove1 state s"
proof (induction s)
  case Nil
  then show ?case by (simp add: remove_def)
next
  case (Cons a s)
  then show ?case by (auto simp: remove_def split: option.splits)
qed

lemma States_setState:
  "States (setState u st v) =
     (if v then (if st \<in> set (States u) then States u else States u @ [st]) else remove1 st (States u))"
  by (auto simp: setState_def remove_eq remove1_idem)

interpretation signup: flag_set
  "\<lambda>u st. st \<in> set (States u)" setState "\<lambda>u. distinct (States u)"
  by unfold_locales (auto simp: States_setState)

lemma setters_puts:
  "SetApprovedManually u True = signup.puts u
     [(UserSignupStateApproved, True), (UserSignupStateVerificationRequired, False),
      (UserSignupStateDeactivating, False), (UserSignupStateDeactivated, False)]"
  "SetDeactivating u True = signup.puts u
     [(UserSignupStateDeactivating, True), (UserSignupStateDeactivated, False)]"
  "SetDeactivated u True = signup.puts u
     [(UserSignupStateDeactivated, True), (UserSignupStateApproved, False),
      (UserSignupStateDeactivating, False)]"
  "SetApprovedManually u False = signup.puts u [(UserSignupStateApproved, False)]"
  "SetDeactivating u False = signup.puts u [(UserSignupStateDeactivating, False)]"
  "SetDeactivated u False = signup.puts u [(UserSignupStateDeactivated, False)]"
  "SetVerificationRequired u v = signup.puts u [(UserSignupStateVerificationRequired, v)]"
  "SetRejected u v = signup.puts u [(UserSignupStateRejected, v)]"
  by (simp_all add: setter_defs)

section \<open>The state machine\<close>

text \<open>What the operators do to a UserSignup: any setter with any value, in any order.\<close>

inductive signup_step :: "user_signup \<Rightarrow> user_signup \<Rightarrow> bool" where
  approve: "signup_step u (SetApprovedManually u v)"
| verify: "signup_step u (SetVerificationRequired u v)"
| deactivating: "signup_step u (SetDeactivating u v)"
| deactivate: "signup_step u (SetDeactivated u v)"
| reject: "signup_step u (SetRejected u v)"

inductive_cases signup_stepE: "signup_step u u'"

inductive signup_reaches :: "user_signup \<Rightarrow> user_signup \<Rightarrow> bool" where
  start: "signup_reaches u u"
| step: "signup_reaches u v \<Longrightarrow> signup_step v w \<Longrightarrow> signup_reaches u w"

text \<open>A deactivated user is neither approved nor on the way to be deactivated.\<close>

definition signup_ok :: "user_signup \<Rightarrow> bool" where
  "signup_ok u \<longleftrightarrow> distinct (States u) \<and> \<not> (Deactivated u \<and> ApprovedManually u) \<and>
     \<not> (Deactivated u \<and> Deactivating u)"



lemma set_SetApprovedManually:
  assumes "distinct (States u)"
  shows "set (States (SetApprovedManually u v)) =
    (if v then set (States u) \<union> {UserSignupStateApproved} -
       {UserSignupStateVerificationRequired, UserSignupStateDeactivating, UserSignupStateDeactivated}
     else set (States u) - {UserSignupStateApproved})"
proof (rule set_eqI)
  fix st
  show "st \<in> set (States (SetApprovedManually u v)) \<longleftrightarrow> st \<in>
    (if v then set (States u) \<union> {UserSignupStateApproved} -
       {UserSignupStateVerificationRequired, UserSignupStateDeactivating, UserSignupStateDeactivated}
     else set (States u) - {UserSignupStateApproved})"
    using assms by (cases v) (auto simp: setters_puts signup.has_puts simp del: signup.puts.simps)
qed

lemma set_SetDeactivating:
  assumes "distinct (States u)"
  shows "set (States (SetDeactivating u v)) =
    (if v then set (States u) \<union> {UserSignupStateDeactivating} - {UserSignupStateDeactivated}
     else set (States u) - {UserSignupStateDeactivating})"
  using assms by (cases v) (auto simp: setters_puts signup.has_puts simp del: signup.puts.simps split: if_splits)

lemma set_SetDeactivated:
  assumes "distinct (States u)"
  shows "set (States (SetDeactivated u v)) =
    (if v then set (States u) \<union> {UserSignupStateDeactivated} -
       {UserSignupStateApproved, UserSignupStateDeactivating}
     else set (States u) - {UserSignupStateDeactivated})"
  using assms by (cases v) (auto simp: setters_puts signup.has_puts simp del: signup.puts.simps split: if_splits)

lemma set_single_setters:
  assumes "distinct (States u)"
  shows "set (States (SetVerificationRequired u v)) =
      (if v then insert UserSignupStateVerificationRequired (set (States u))
       else set (States u) - {UserSignupStateVerificationRequired})"
    and "set (States (SetRejected u v)) =
      (if v then insert UserSignupStateRejected (set (States u))
       else set (States u) - {UserSignupStateRejected})"
  using assms by (cases v; auto simp: setters_puts signup.has_puts simp del: signup.puts.simps split: if_splits)+

lemmas set_setters = set_SetApprovedManually set_SetDeactivating set_SetDeactivated set_single_setters

lemma distinct_setters:
  assumes "distinct (States u)"
  shows "distinct (States (SetApprovedManually u v))" "distinct (States (SetDeactivating u v))"
    "distinct (States (SetDeactivated u v))" "distinct (States (SetVerificationRequired u v))"
    "distinct (States (SetRejected u v))"
  using signup.ok_puts [OF assms] by (cases v; simp add: setters_puts del: signup.puts.simps)+

lemma signup_ok_step: "signup_step u u' \<Longrightarrow> signup_ok u \<Longrightarrow> signup_ok u'"
  by (erule signup_stepE; simp add: signup_ok_def getter_defs set_setters distinct_setters; blast)

section \<open>Properties\<close>

text \<open>C22: Whatever sequence of setters runs on a consistent UserSignup, no state is recorded
  twice and a deactivated user is never also approved or deactivating.\<close>

theorem signup_states_consistent:
  assumes "signup_reaches u v" and "signup_ok u"
  shows "signup_ok v"
  using assms by (induction rule: signup_reaches.induct) (auto intro: signup_ok_step)

definition sample_signup :: user_signup where
  "sample_signup = \<lparr>us_Name = ''jane'', us_Namespace = ''host-operator'', us_Labels = [],
     States = [UserSignupStateVerificationRequired],
     IdentityClaims = \<lparr>Sub = ''1'', Email = ''j@x'', GivenName = ''Jane'', FamilyName = ''D'', Company = ''''\<rparr>,
     CompliantUsername = ''jane''\<rparr>"

theorem signup_states_consistent_witness:
  "signup_ok (SetDeactivated (SetDeactivating (SetApprovedManually sample_signup True) True) True)"
proof (rule signup_states_consistent)
  show "signup_reaches sample_signup
    (SetDeactivated (SetDeactivating (SetApprovedManually sample_signup True) True) True)"
    by (rule signup_reaches.step [OF signup_reaches.step [OF signup_reaches.step
          [OF signup_reaches.start signup_step.approve] signup_step.deactivating] signup_step.deactivate])
  show "signup_ok sample_signup" by (simp add: signup_ok_def sample_signup_def getter_defs)
qed



text \<open>Approving a rejected UserSignup keeps the rejection, so the states hold more than the
  single entry the comment of \<open>SetApprovedManually\<close> announces.\<close>

theorem approved_keeps_rejected:
  "set (States (SetApprovedManually (SetRejected u True) True)) \<supseteq>
     {UserSignupStateApproved, UserSignupStateRejected}"
  by (auto simp: SetApprovedManually_def SetRejected_def Let_def States_setState remove1_append)

end
