(* ===== verification/GoSlices.thy ===== *)
theory GoSlices
  imports Prelude
begin

text \<open>
  Go slices in memory. The other theories take a slice for the list of its elements, which is
  right as long as nobody else looks at its array. Here a slice is what it is in Go, a window on
  an array: \<open>append\<close> writes behind the window when there is room and moves the elements to a new
  array otherwise, and cutting an element out shifts the others in place. A function on slices
  refines a function on lists (\<open>in_place\<close>), and what it leaves of the other slices is part of that.
\<close>

section \<open>Memory\<close>

text \<open>The arrays, each at its index. Arrays are never freed.\<close>

record 'a memory =
  arrays :: "'a list list"

text \<open>A slice is nil, or has an array, the offset of its window, a length and a capacity.\<close>

datatype slice = NilSlice | Slice nat nat nat nat

text \<open>The capacity of a reallocated array and the zero value behind its elements.\<close>

record 'a go_runtime =
  growth :: "nat \<Rightarrow> nat \<Rightarrow> nat"
  zero_value :: 'a

fun slice_contents :: "'a memory \<Rightarrow> slice \<Rightarrow> 'a list" where
  "slice_contents m NilSlice = []"
| "slice_contents m (Slice a i n c) = take n (drop i (arrays m ! a))"

fun slice_len :: "slice \<Rightarrow> nat" where
  "slice_len NilSlice = 0"
| "slice_len (Slice a i n c) = n"

fun slice_wf :: "'a memory \<Rightarrow> slice \<Rightarrow> bool" where
  "slice_wf m NilSlice \<longleftrightarrow> True"
| "slice_wf m (Slice a i n c) \<longleftrightarrow> a < length (arrays m) \<and> n \<le> c \<and> i + c \<le> length (arrays m ! a)"

fun arrays_of :: "slice \<Rightarrow> nat set" where
  "arrays_of NilSlice = {}"
| "arrays_of (Slice a i n c) = {a}"

text \<open>\<open>s[:j]\<close> and \<open>s[j:]\<close>, for an index within the length.\<close>

fun slice_upto :: "slice \<Rightarrow> nat \<Rightarrow> slice" where
  "slice_upto NilSlice j = NilSlice"
| "slice_upto (Slice a i n c) j = Slice a i j c"

fun slice_from :: "slice \<Rightarrow> nat \<Rightarrow> slice" where
  "slice_from NilSlice j = NilSlice"
| "slice_from (Slice a i n c) j = Slice a (i + j) (n - j) (c - j)"

definition alloc :: "'a go_runtime \<Rightarrow> 'a memory \<Rightarrow> 'a list \<Rightarrow> nat \<Rightarrow> 'a memory \<times> slice" where
  "alloc rt m xs extra =
     (m\<lparr>arrays := arrays m @ [xs @ replicate extra (zero_value rt)]\<rparr>,
      Slice (length (arrays m)) 0 (length xs) (length xs + extra))"

definition write_array :: "'a memory \<Rightarrow> nat \<Rightarrow> nat \<Rightarrow> 'a list \<Rightarrow> 'a memory" where
  "write_array m a k xs =
     m\<lparr>arrays := (arrays m)[a := take k (arrays m ! a) @ xs @ drop (k + length xs) (arrays m ! a)]\<rparr>"

text \<open>\<open>append(s, xs...)\<close>. The elements are read before they are written, as Go does when the
  arrays overlap.\<close>

fun append_slice :: "'a go_runtime \<Rightarrow> 'a memory \<Rightarrow> slice \<Rightarrow> 'a list \<Rightarrow> 'a memory \<times> slice" where
  "append_slice rt m NilSlice xs =
     (if xs = [] then (m, NilSlice) else alloc rt m xs (growth rt 0 (length xs)))"
| "append_slice rt m (Slice a i n c) xs =
     (if n + length xs \<le> c then (write_array m a (i + n) xs, Slice a i (n + length xs) c)
      else alloc rt m (slice_contents m (Slice a i n c) @ xs) (growth rt c (n + length xs)))"

text \<open>\<open>append(s[:k], s[k+1:]...)\<close>\<close>

definition delete_at :: "'a go_runtime \<Rightarrow> 'a memory \<Rightarrow> slice \<Rightarrow> nat \<Rightarrow> 'a memory \<times> slice" where
  "delete_at rt m s k = append_slice rt m (slice_upto s k) (slice_contents m (slice_from s (Suc k)))"

text \<open>\<open>copy(dst, xs)\<close>, and \<open>s[k] = x\<close> for an index within the length.\<close>

fun copy_slice :: "'a memory \<Rightarrow> slice \<Rightarrow> 'a list \<Rightarrow> 'a memory" where
  "copy_slice m NilSlice xs = m"
| "copy_slice m (Slice a i n c) xs = write_array m a i (take n xs)"

fun set_slice :: "'a memory \<Rightarrow> slice \<Rightarrow> nat \<Rightarrow> 'a \<Rightarrow> 'a memory" where
  "set_slice m NilSlice k x = m"
| "set_slice m (Slice a i n c) k x = write_array m a (i + k) [x]"

section \<open>What changes\<close>

definition changes_only :: "nat set \<Rightarrow> 'a memory \<Rightarrow> 'a memory \<Rightarrow> bool" where
  "changes_only A m m' \<longleftrightarrow> length (arrays m) \<le> length (arrays m') \<and>
     (\<forall>b < length (arrays m). length (arrays m' ! b) = length (arrays m ! b) \<and> (b \<notin> A \<longrightarrow> arrays m' ! b = arrays m ! b))"

lemma changes_only_refl [simp]: "changes_only A m m"
  by (simp add: changes_only_def)

lemma changes_only_trans:
  assumes "changes_only A m m1" and "changes_only B m1 m2" and "B \<subseteq> A \<union> {length (arrays m)..}"
  shows "changes_only A m m2"
  using assms by (auto simp: changes_only_def subset_iff) (metis le_trans less_le_trans not_less)+

lemma changes_only_mono: "changes_only A m m' \<Longrightarrow> A \<subseteq> B \<Longrightarrow> changes_only B m m'"
  by (auto simp: changes_only_def)

lemma slice_wf_changes: "changes_only A m m' \<Longrightarrow> slice_wf m s \<Longrightarrow> slice_wf m' s"
  by (cases s) (auto simp: changes_only_def)

lemma slice_contents_changes:
  "changes_only A m m' \<Longrightarrow> slice_wf m s \<Longrightarrow> arrays_of s \<inter> A = {} \<Longrightarrow> slice_contents m' s = slice_contents m s"
  by (cases s) (auto simp: changes_only_def)

lemma length_slice_contents: "slice_wf m s \<Longrightarrow> length (slice_contents m s) = slice_len s"
  by (cases s) auto

lemma slice_wf_arrays: "slice_wf m s \<Longrightarrow> a \<in> arrays_of s \<Longrightarrow> a < length (arrays m)"
  by (cases s) auto

text \<open>An operation that got the slice \<open>s\<close> and gives \<open>s'\<close> with the elements \<open>xs\<close>: it writes at
  most to the array of \<open>s\<close> and to new ones.\<close>

definition in_place :: "'a memory \<Rightarrow> slice \<Rightarrow> 'a memory \<Rightarrow> slice \<Rightarrow> 'a list \<Rightarrow> bool" where
  "in_place m s m' s' xs \<longleftrightarrow> slice_wf m' s' \<and> slice_contents m' s' = xs \<and> changes_only (arrays_of s) m m' \<and>
     arrays_of s' \<subseteq> arrays_of s \<union> {length (arrays m)..}"

lemma in_place_refl: "slice_wf m s \<Longrightarrow> in_place m s m s (slice_contents m s)"
  by (simp add: in_place_def)

lemma in_place_trans:
  assumes "in_place m s m1 s1 xs" and "in_place m1 s1 m2 s2 ys"
  shows "in_place m s m2 s2 ys"
proof -
  from assms have "changes_only (arrays_of s) m m1" "changes_only (arrays_of s1) m1 m2"
    "arrays_of s1 \<subseteq> arrays_of s \<union> {length (arrays m)..}" by (simp_all add: in_place_def)
  then have "changes_only (arrays_of s) m m2" by (rule changes_only_trans)
  moreover have "arrays_of s2 \<subseteq> arrays_of s \<union> {length (arrays m)..}"
    using assms by (auto simp: in_place_def changes_only_def subset_iff)
  ultimately show ?thesis using assms by (simp add: in_place_def)
qed

lemma in_place_others:
  "in_place m s m' s' xs \<Longrightarrow> slice_wf m t \<Longrightarrow> arrays_of t \<inter> arrays_of s = {} \<Longrightarrow>
   slice_contents m' t = slice_contents m t \<and> slice_wf m' t"
  by (auto simp: in_place_def slice_contents_changes slice_wf_changes)

text \<open>An operation that only makes new arrays.\<close>

lemma in_place_fresh:
  assumes "in_place m NilSlice m' s' xs"
  shows "in_place m s m' s' xs" and "arrays_of s' \<subseteq> {length (arrays m)..}"
    and "slice_wf m t \<Longrightarrow> slice_contents m' t = slice_contents m t"
  using assms by (auto simp: in_place_def intro: changes_only_mono slice_contents_changes)

section \<open>Append and delete\<close>

lemma alloc_in_place:
  assumes "alloc rt m xs extra = (m', s')"
  shows "in_place m s m' s' xs"
  using assms by (auto simp: alloc_def in_place_def changes_only_def nth_append)

lemma write_array_changes: "a < length (arrays m) \<Longrightarrow> k + length xs \<le> length (arrays m ! a) \<Longrightarrow> changes_only {a} m (write_array m a k xs)"
  by (auto simp: write_array_def changes_only_def nth_list_update)

lemma write_array_nth [simp]:
  "length (arrays (write_array m a k xs)) = length (arrays m)"
  "a < length (arrays m) \<Longrightarrow> arrays (write_array m a k xs) ! b =
     (if b = a then take k (arrays m ! a) @ xs @ drop (k + length xs) (arrays m ! a) else arrays m ! b)"
  by (simp_all add: write_array_def nth_list_update)

lemma append_slice_in_place:
  assumes "slice_wf m s" and "append_slice rt m s xs = (m', s')"
  shows "in_place m s m' s' (slice_contents m s @ xs)"
proof (cases s)
  case NilSlice
  with assms show ?thesis
    by (auto intro: alloc_in_place simp: in_place_refl [where s = NilSlice, simplified] split: if_splits)
next
  case (Slice a i n c)
  show ?thesis
  proof (cases "n + length xs \<le> c")
    case True
    with Slice assms have "m' = write_array m a (i + n) xs" "s' = Slice a i (n + length xs) c" by simp_all
    moreover from Slice assms(1) True have "i + n \<le> length (arrays m ! a)" "i + n + length xs \<le> length (arrays m ! a)" by auto
    ultimately show ?thesis using Slice True assms(1)
      by (cases "xs = []") (auto simp: in_place_def write_array_changes take_drop min_def add.commute neq_Nil_conv)
  next
    case False
    with Slice assms show ?thesis by (auto intro: alloc_in_place)
  qed
qed

lemma copy_slice_in_place:
  assumes "slice_wf m s" and "length xs = slice_len s"
  shows "in_place m s (copy_slice m s xs) s xs"
proof (cases s)
  case (Slice a i n c)
  with assms have "i + length xs \<le> length (arrays m ! a)" "a < length (arrays m)" by auto
  with Slice assms show ?thesis
    by (auto simp: in_place_def intro: write_array_changes)
qed (use assms in \<open>simp add: in_place_def\<close>)

lemma set_slice_in_place:
  assumes "slice_wf m s" and "k < slice_len s"
  shows "in_place m s (set_slice m s k x) s ((slice_contents m s)[k := x])"
proof (cases s)
  case (Slice a i n c)
  define D where "D = drop i (arrays m ! a)"
  from Slice assms have k: "k < n" "n \<le> length D" and a: "a < length (arrays m)" "i \<le> length (arrays m ! a)"
    and room: "i + k + length [x] \<le> length (arrays m ! a)"
    by (auto simp: D_def)
  have "drop i (arrays (set_slice m s k x) ! a) = take k D @ x # drop (Suc k) D"
    using a k by (simp add: Slice D_def take_drop add.commute)
  moreover have "take k D @ x # drop (Suc k) D = D[k := x]"
    using k by (simp add: upd_conv_take_nth_drop)
  ultimately have "slice_contents (set_slice m s k x) s = (slice_contents m s)[k := x]"
    by (simp add: Slice take_update_swap flip: D_def)
  moreover have "changes_only (arrays_of s) m (set_slice m s k x)"
    using write_array_changes [OF a(1) room] by (simp add: Slice)
  ultimately show ?thesis using assms(1) by (simp add: in_place_def slice_wf_changes)
qed (use assms in simp)

text \<open>Appending leaves the window it started from.\<close>

lemma append_slice_keeps:
  assumes "slice_wf m s" and "append_slice rt m s xs = (m', s')"
  shows "slice_contents m' s = slice_contents m s"
proof (cases s)
  case (Slice a i n c)
  then show ?thesis
    using assms by (auto simp: write_array_def alloc_def nth_append take_drop min_def split: if_splits)
qed simp

text \<open>The window of one slice is the beginning of the window of another.\<close>

fun extends :: "slice \<Rightarrow> slice \<Rightarrow> bool" where
  "extends (Slice a i n c) (Slice b j k d) \<longleftrightarrow> b = a \<and> j = i \<and> n \<le> k"
| "extends _ _ \<longleftrightarrow> False"

lemma extends_self: "s \<noteq> NilSlice \<Longrightarrow> extends s s"
  by (cases s) simp_all

lemma extends_trans: "extends r s \<Longrightarrow> extends s t \<Longrightarrow> extends r t"
  by (cases r; cases s; cases t) auto

lemma extends_contents: "extends t s \<Longrightarrow> slice_contents m t = take (slice_len t) (slice_contents m s)"
  by (cases t; cases s) (auto simp: min_def)

lemma extends_arrays: "extends t s \<Longrightarrow> arrays_of s = arrays_of t"
  by (cases t; cases s) auto

lemma append_slice_extends:
  assumes "append_slice rt m s xs = (m', s')"
  shows "extends s s' \<or> arrays_of s' \<subseteq> {length (arrays m)..}"
  using assms by (cases s) (auto simp: alloc_def split: if_splits)

text \<open>Deleting shifts the rest in place: whoever holds the slice sees its last element twice.\<close>

lemma delete_at_in_place:
  assumes "slice_wf m s" and "k < slice_len s" and "delete_at rt m s k = (m', s')"
  shows "in_place m s m' s' (take k (slice_contents m s) @ drop (Suc k) (slice_contents m s)) \<and>
    slice_contents m' s = take k (slice_contents m s) @ drop (Suc k) (slice_contents m s) @ [last (slice_contents m s)] \<and>
    arrays_of s' = arrays_of s"
proof (cases s)
  case (Slice a i n c)
  define D where "D = drop i (arrays m ! a)"
  define xs where "xs = take (n - Suc k) (drop (Suc k) D)"
  from Slice assms have k: "k < n" "n \<le> c" "a < length (arrays m)" "n \<le> length D" "length xs = n - Suc k"
    by (auto simp: D_def xs_def)
  have moved: "slice_contents m (slice_from s (Suc k)) = xs"
    by (simp add: Slice xs_def D_def add.commute)
  have wf: "slice_wf m (slice_upto s k)" using Slice assms by simp
  from assms(3) have app: "append_slice rt m (slice_upto s k) xs = (m', s')" by (simp add: delete_at_def moved)
  from k have room: "k + length xs \<le> c" "k + length xs = n - 1" by simp_all
  with app Slice have m': "m' = write_array m a (i + k) xs" and s': "s' = Slice a i (n - 1) c" by simp_all
  have "drop i (arrays m' ! a) = take k D @ xs @ drop (n - 1) D"
    using Slice assms k by (simp add: m' D_def take_drop add.commute)
  moreover have "take 1 (drop (n - 1) D) = [last (take n D)]"
    using k by (cases n) (auto simp: take_Suc_conv_app_nth hd_drop_conv_nth take_Suc)
  ultimately have "slice_contents m' s = take k D @ xs @ [last (take n D)]"
    using k by (simp add: Slice take_append)
  moreover have "take k (take n D) = take k D" "drop (Suc k) (take n D) = xs"
    using k by (simp_all add: xs_def min_def drop_take)
  moreover have "slice_contents m s = take n D" "slice_contents m (slice_upto s k) = take k D"
    by (simp_all add: Slice D_def)
  moreover have "in_place m (slice_upto s k) m' s' (slice_contents m (slice_upto s k) @ xs)"
    using wf app by (rule append_slice_in_place)
  ultimately show ?thesis by (simp add: in_place_def Slice s')
qed (use assms in simp)

section \<open>Operations\<close>

fun run_slices ::
  "('x \<Rightarrow> 'a memory \<Rightarrow> slice \<Rightarrow> 'a memory \<times> slice) \<Rightarrow> 'x list \<Rightarrow> 'a memory \<Rightarrow> slice \<Rightarrow> 'a memory \<times> slice" where
  "run_slices step [] m s = (m, s)"
| "run_slices step (x # xs) m s = (let (m', s') = step x m s in run_slices step xs m' s')"

text \<open>A family of operations on a slice that does to the elements what \<open>spec\<close> does to a list.\<close>

locale slice_operations =
  fixes step :: "'x \<Rightarrow> 'a memory \<Rightarrow> slice \<Rightarrow> 'a memory \<times> slice"
    and spec :: "'x \<Rightarrow> 'a list \<Rightarrow> 'a list"
  assumes step_in_place: "slice_wf m s \<Longrightarrow> step x m s = (m', s') \<Longrightarrow> in_place m s m' s' (spec x (slice_contents m s))"
begin

lemma run_in_place:
  assumes "slice_wf m s" and "run_slices step xs m s = (m', s')"
  shows "in_place m s m' s' (fold spec xs (slice_contents m s))"
  using assms
proof (induction xs arbitrary: m s)
  case Nil
  then show ?case by (simp add: in_place_refl)
next
  case (Cons x xs)
  obtain m1 s1 where step: "step x m s = (m1, s1)" by fastforce
  from step_in_place [OF Cons.prems(1) step]
  have one: "in_place m s m1 s1 (spec x (slice_contents m s))" and wf: "slice_wf m1 s1"
    and elems: "slice_contents m1 s1 = spec x (slice_contents m s)" by (simp_all add: in_place_def)
  from Cons.IH [OF wf] Cons.prems(2) step have "in_place m1 s1 m' s' (fold spec xs (slice_contents m1 s1))" by simp
  from in_place_trans [OF one this] show ?case by (simp add: elems)
qed

end

text \<open>What the caller of such an operation holds: the slice it passed, the beginnings of it, and
  slices with other arrays.\<close>

definition held :: "'a memory \<Rightarrow> slice \<Rightarrow> slice \<Rightarrow> bool" where
  "held m s t \<longleftrightarrow> slice_wf m t \<and> (extends t s \<or> arrays_of t \<inter> arrays_of s = {})"

lemma held_self: "slice_wf m s \<Longrightarrow> held m s s"
  by (cases s) (simp_all add: held_def)

text \<open>Operations that leave the slice they got as it was: they copy, or write behind it.\<close>

locale window_keeping = slice_operations +
  assumes step_keeps: "slice_wf m s \<Longrightarrow> step x m s = (m', s') \<Longrightarrow>
    slice_contents m' s = slice_contents m s \<and> (extends s s' \<or> arrays_of s' \<subseteq> {length (arrays m)..})"
begin

lemma run_keeps_window:
  assumes "slice_wf m s" and "slice_wf m t" and "extends t s \<or> arrays_of t \<inter> arrays_of s = {}"
    and "run_slices step xs m s = (m', s')"
  shows "slice_contents m' t = slice_contents m t"
  using assms
proof (induction xs arbitrary: m s)
  case (Cons x xs)
  obtain m1 s1 where step: "step x m s = (m1, s1)" by fastforce
  from step_in_place [OF Cons.prems(1) step] have one: "in_place m s m1 s1 (spec x (slice_contents m s))" .
  then have wf: "slice_wf m1 s1" "slice_wf m1 t" using Cons.prems(2)
    by (auto simp: in_place_def intro: slice_wf_changes)
  note keep = step_keeps [OF Cons.prems(1) step]
  have "slice_contents m1 t = slice_contents m t"
    using Cons.prems(3) keep in_place_others [OF one Cons.prems(2)] by (auto simp: extends_contents)
  moreover have "extends t s1 \<or> arrays_of t \<inter> arrays_of s1 = {}"
  proof (cases "arrays_of s1 \<subseteq> {length (arrays m)..}")
    case True
    with slice_wf_arrays [OF Cons.prems(2)] show ?thesis by (auto simp: subset_iff not_le [symmetric])
  next
    case False
    with keep have ext: "extends s s1" by blast
    then have "arrays_of s1 = arrays_of s" by (rule extends_arrays)
    with ext Cons.prems(3) extends_trans show ?thesis by auto
  qed
  ultimately show ?case using Cons.IH [OF wf] Cons.prems(4) step by simp
qed simp

lemma run_keeps_held:
  "slice_wf m s \<Longrightarrow> run_slices step xs m s = (m', s') \<Longrightarrow> held m s t \<Longrightarrow> slice_contents m' t = slice_contents m t"
  by (rule run_keeps_window) (simp_all add: held_def)

end

end
