(* ===== verification/StateSlices.thy ===== *)
theory StateSlices
  imports SignupStates GoSlices
begin

text \<open>
  The setters of \<open>pkg/states/state_manager.go\<close> on the states slice of a UserSignup in memory. A
  state is appended behind the window and removed by shifting the rest in the array, so a copy of
  the UserSignup that shares the array, as one from a cache does, may change with it.
\<close>

section \<open>The operations\<close>

definition remove_slice ::
  "user_signup_state go_runtime \<Rightarrow> user_signup_state memory \<Rightarrow> slice \<Rightarrow> user_signup_state \<Rightarrow>
   user_signup_state memory \<times> slice" where
  "remove_slice rt m s state =
     (case index_where (\<lambda>v. v = state) (slice_contents m s) of
        Some i \<Rightarrow> delete_at rt m s i
      | None \<Rightarrow> (m, s))"

text \<open>The slice is the field \<open>States\<close> of the UserSignup.\<close>

fun setState_slice ::
  "user_signup_state go_runtime \<Rightarrow> user_signup_state \<times> bool \<Rightarrow> user_signup_state memory \<Rightarrow> slice \<Rightarrow>
   user_signup_state memory \<times> slice" where
  "setState_slice rt (state, val) m s =
     (let (m1, s1) = (if val \<and> \<not> contains (slice_contents m s) state
                      then append_slice rt m s [state] else (m, s))
      in if \<not> val \<and> contains (slice_contents m1 s1) state
         then remove_slice rt m1 s1 state else (m1, s1))"

text \<open>A call of one of the setters, on a value and in memory.\<close>

datatype setter_call =
    CallSetApprovedManually bool
  | CallSetVerificationRequired bool
  | CallSetDeactivating bool
  | CallSetDeactivated bool
  | CallSetRejected bool

fun call_setter :: "setter_call \<Rightarrow> user_signup \<Rightarrow> user_signup" where
  "call_setter (CallSetApprovedManually v) u = SetApprovedManually u v"
| "call_setter (CallSetVerificationRequired v) u = SetVerificationRequired u v"
| "call_setter (CallSetDeactivating v) u = SetDeactivating u v"
| "call_setter (CallSetDeactivated v) u = SetDeactivated u v"
| "call_setter (CallSetRejected v) u = SetRejected u v"

fun call_setter_slice ::
  "user_signup_state go_runtime \<Rightarrow> setter_call \<Rightarrow> user_signup_state memory \<Rightarrow> slice \<Rightarrow>
   user_signup_state memory \<times> slice" where
  "call_setter_slice rt (CallSetApprovedManually approved) m s =
     (let (m1, s1) = setState_slice rt (UserSignupStateApproved, approved) m s
      in if approved
         then run_slices (setState_slice rt)
                [(UserSignupStateVerificationRequired, False), (UserSignupStateDeactivating, False),
                 (UserSignupStateDeactivated, False)] m1 s1
         else (m1, s1))"
| "call_setter_slice rt (CallSetVerificationRequired val) m s =
     setState_slice rt (UserSignupStateVerificationRequired, val) m s"
| "call_setter_slice rt (CallSetDeactivating val) m s =
     (let (m1, s1) = setState_slice rt (UserSignupStateDeactivating, val) m s
      in if val then setState_slice rt (UserSignupStateDeactivated, False) m1 s1 else (m1, s1))"
| "call_setter_slice rt (CallSetDeactivated deactivated) m s =
     (let (m1, s1) = setState_slice rt (UserSignupStateDeactivated, deactivated) m s
      in if deactivated
         then run_slices (setState_slice rt)
                [(UserSignupStateApproved, False), (UserSignupStateDeactivating, False)] m1 s1
         else (m1, s1))"
| "call_setter_slice rt (CallSetRejected rejected) m s = setState_slice rt (UserSignupStateRejected, rejected) m s"

section \<open>One state\<close>

lemma remove_slice_in_place:
  assumes "slice_wf m s" and "remove_slice rt m s state = (m', s')"
  shows "in_place m s m' s' (remove (slice_contents m s) state)"
proof (cases "index_where (\<lambda>v. v = state) (slice_contents m s)")
  case None
  with assms show ?thesis by (auto simp: remove_slice_def remove_def in_place_refl)
next
  case (Some i)
  with index_where_SomeD length_slice_contents [OF assms(1)] have "i < slice_len s" by fastforce
  with Some assms delete_at_in_place [OF assms(1), of i rt m' s'] show ?thesis
    by (simp add: remove_slice_def remove_def)
qed

lemma setState_slice_in_place:
  assumes "slice_wf m s" and "setState_slice rt sv m s = (m', s')"
  shows "in_place m s m' s' (States (setState (u\<lparr>States := slice_contents m s\<rparr>) (fst sv) (snd sv)))"
proof (cases sv)
  case (Pair st v)
  show ?thesis
  proof (cases "v \<and> st \<notin> set (slice_contents m s)")
    case True
    with Pair assms append_slice_in_place [OF assms(1), of rt "[st]" m' s'] show ?thesis
      by (auto simp: setState_def Let_def)
  next
    case False
    with Pair assms remove_slice_in_place [OF assms(1), of rt st m' s'] show ?thesis
      by (auto simp: setState_def in_place_refl Let_def split: if_splits)
  qed
qed

interpretation states: slice_operations "setState_slice rt"
  "\<lambda>sv xs. States (setState (u\<lparr>States := xs\<rparr>) (fst sv) (snd sv))" for rt u
  by unfold_locales (rule setState_slice_in_place)

section \<open>The setters\<close>

lemma setState_only: "setState u st v = u\<lparr>States := States (setState u st v)\<rparr>"
  by (simp add: setState_def Let_def)

lemma call_setter_only: "call_setter c u = u\<lparr>States := States (call_setter c u)\<rparr>"
  by (cases c) (simp_all add: setter_defs setState_def Let_def)

fun setter_states :: "setter_call \<Rightarrow> (user_signup_state \<times> bool) list" where
  "setter_states (CallSetApprovedManually v) = (UserSignupStateApproved, v) #
     (if v then [(UserSignupStateVerificationRequired, False), (UserSignupStateDeactivating, False),
                 (UserSignupStateDeactivated, False)] else [])"
| "setter_states (CallSetVerificationRequired v) = [(UserSignupStateVerificationRequired, v)]"
| "setter_states (CallSetDeactivating v) = (UserSignupStateDeactivating, v) # (if v then [(UserSignupStateDeactivated, False)] else [])"
| "setter_states (CallSetDeactivated v) = (UserSignupStateDeactivated, v) #
     (if v then [(UserSignupStateApproved, False), (UserSignupStateDeactivating, False)] else [])"
| "setter_states (CallSetRejected v) = [(UserSignupStateRejected, v)]"

lemma call_setter_slice_run: "call_setter_slice rt c m s = run_slices (setState_slice rt) (setter_states c) m s"
  by (cases c) (auto simp: Let_def split: prod.split simp del: setState_slice.simps)

lemma call_setter_fold: "call_setter c u = fold (\<lambda>sv u. setState u (fst sv) (snd sv)) (setter_states c) u"
  by (cases c) (simp_all add: setter_defs)

lemma fold_states:
  "(\<And>x u. f x u = u\<lparr>States := States (f x u)\<rparr>) \<Longrightarrow>
   fold (\<lambda>x xs. States (f x (u\<lparr>States := xs\<rparr>))) cs xs = States (fold f cs (u\<lparr>States := xs\<rparr>))"
proof (induction cs arbitrary: xs)
  case (Cons c cs)
  have "f c (u\<lparr>States := xs\<rparr>) = u\<lparr>States := States (f c (u\<lparr>States := xs\<rparr>))\<rparr>"
    by (subst Cons.prems) simp
  with Cons.IH [OF Cons.prems] show ?case by simp
qed simp

lemma call_setter_slice_in_place:
  assumes "slice_wf m s" and "call_setter_slice rt c m s = (m', s')"
  shows "in_place m s m' s' (States (call_setter c (u\<lparr>States := slice_contents m s\<rparr>)))"
  using states.run_in_place [OF assms(1) assms(2) [unfolded call_setter_slice_run], of u]
    fold_states [where f = "\<lambda>sv u. setState u (fst sv) (snd sv)", OF setState_only, of u "setter_states c" "slice_contents m s"]
  by (simp add: call_setter_fold)

interpretation setters: slice_operations "call_setter_slice rt" "\<lambda>c xs. States (call_setter c (u\<lparr>States := xs\<rparr>))" for rt u
  by unfold_locales (rule call_setter_slice_in_place)

text \<open>Whatever setters are called on a UserSignup in memory, its states are what the setters on
  values give, and only its own array and new ones are written: a UserSignup with another
  array keeps its states.\<close>

theorem setters_in_memory:
  assumes "slice_wf m s" and "run_slices (call_setter_slice rt) calls m s = (m', s')"
    and "States u = slice_contents m s"
  shows "slice_wf m' s' \<and> slice_contents m' s' = States (fold call_setter calls u) \<and>
    (\<forall>t. slice_wf m t \<longrightarrow> arrays_of t \<inter> arrays_of s = {} \<longrightarrow> slice_contents m' t = slice_contents m t)"
proof -
  note run = setters.run_in_place [OF assms(1,2), of u]
  have "fold (\<lambda>c xs. States (call_setter c (u\<lparr>States := xs\<rparr>))) calls (slice_contents m s)
      = States (fold call_setter calls (u\<lparr>States := slice_contents m s\<rparr>))"
    by (rule fold_states) (rule call_setter_only)
  also have "u\<lparr>States := slice_contents m s\<rparr> = u" using assms(3) by simp
  finally have "slice_wf m' s' \<and> slice_contents m' s' = States (fold call_setter calls u)"
    using run by (simp only: in_place_def)
  with in_place_others [OF run] show ?thesis by blast
qed

theorem setters_in_memory_witness:
  "case run_slices (call_setter_slice \<lparr>growth = (\<lambda>c n. n), zero_value = UserSignupStateRejected\<rparr>)
          [CallSetRejected True, CallSetDeactivated True]
          \<lparr>arrays = [[UserSignupStateVerificationRequired], [UserSignupStateApproved]]\<rparr> (Slice 0 0 1 1) of
     (m', s') \<Rightarrow> slice_contents m' s' =
         [UserSignupStateVerificationRequired, UserSignupStateRejected, UserSignupStateDeactivated] \<and>
       slice_contents m' (Slice 1 0 1 1) = [UserSignupStateApproved]"
proof -
  let ?m = "\<lparr>arrays = [[UserSignupStateVerificationRequired], [UserSignupStateApproved]]\<rparr>"
  let ?rt = "\<lparr>growth = (\<lambda>c n. n), zero_value = UserSignupStateRejected\<rparr> :: user_signup_state go_runtime"
  obtain m' s' where run: "run_slices (call_setter_slice ?rt) [CallSetRejected True, CallSetDeactivated True] ?m (Slice 0 0 1 1)
      = (m', s')" by fastforce
  from setters_in_memory [where u = sample_signup, OF _ run]
  have "slice_contents m' s' = States (fold call_setter [CallSetRejected True, CallSetDeactivated True] sample_signup)"
    and kept: "\<And>t. slice_wf ?m t \<Longrightarrow> arrays_of t \<inter> {0} = {} \<Longrightarrow> slice_contents m' t = slice_contents ?m t"
    by (simp_all add: sample_signup_def)
  with kept [of "Slice 1 0 1 1"] run show ?thesis
    by (simp add: sample_signup_def SetRejected_def SetDeactivated_def States_setState)
qed

text \<open>A copy of a UserSignup that shares its array, as a shallow copy does, has its states
  changed: removing the first state leaves the copy without it and with the last one twice.\<close>

theorem shallow_copy_sees_removal:
  "case call_setter_slice rt (CallSetVerificationRequired False)
          \<lparr>arrays = [[UserSignupStateVerificationRequired, UserSignupStateApproved]]\<rparr> (Slice 0 0 2 2) of
     (m', s') \<Rightarrow> slice_contents m' s' = [UserSignupStateApproved] \<and>
       slice_contents m' (Slice 0 0 2 2) = [UserSignupStateApproved, UserSignupStateApproved]"
  by (simp add: remove_slice_def delete_at_def write_array_def numeral_2_eq_2)

end
