(* ===== verification/SpaceBindings.thy ===== *)
theory SpaceBindings
  imports GoStrings ApiTypes
begin

text \<open>
  \<open>pkg/spacebinding\<close>: who may use a space. \<open>spacebindinglister.go\<close> collects the
  bindings of a space and of its parents; \<open>spacebinding.go\<close> makes a binding. The two
  functions of the lister (\<open>ListSpaceBindingsFunc\<close>, \<open>GetSpaceFunc\<close>) are arguments
  that return an error (\<open>Inl\<close>) or a value. Nothing in the code stops the recursion on a
  cycle of parents, so it is a \<^theory_text>\<open>partial_function\<close> in \<open>option\<close> and
  not returning is \<open>None\<close>. The in-place deletion \<open>append(parentBindings[:i],
  parentBindings[i+1:]...)\<close> is modelled by its result; what it does in memory, to the slice
  that \<open>ListSpaceBindingsFunc\<close> returned, is in \<open>BindingSlices\<close>.
\<close>

section \<open>The lister\<close>

text \<open>The inner loop, from the last index to the first, with a break at the first match.\<close>

primrec delete_last_for :: "nat \<Rightarrow> string \<Rightarrow> space_binding list \<Rightarrow> space_binding list" where
  "delete_last_for 0 mur parentBindings = parentBindings"
| "delete_last_for (Suc i) mur parentBindings =
     (if MasterUserRecord (parentBindings ! i) = mur
      then take i parentBindings @ drop (Suc i) parentBindings
      else delete_last_for i mur parentBindings)"

fun delete_overridden :: "space_binding list \<Rightarrow> space_binding list \<Rightarrow> space_binding list" where
  "delete_overridden [] parentBindings = parentBindings"
| "delete_overridden (spaceBinding # foundBindings) parentBindings =
     delete_overridden foundBindings
       (delete_last_for (length parentBindings) (MasterUserRecord spaceBinding) parentBindings)"

definition mergeSpaceBindings ::
  "space_binding list \<Rightarrow> space_binding list \<Rightarrow> space_binding list" where
  "mergeSpaceBindings foundBindings parentBindings =
     foundBindings @ delete_overridden foundBindings parentBindings"

datatype 'e lister_error = ListError 'e | ParentSpaceError 'e

text \<open>The result is the bindings found so far and the error, if any.\<close>

partial_function (option) ListForSpace ::
  "(string \<Rightarrow> 'e + space_binding list) \<Rightarrow> (string \<Rightarrow> 'e + space) \<Rightarrow> space \<Rightarrow> space_binding list \<Rightarrow>
   (space_binding list \<times> 'e lister_error option) option" where
  "ListForSpace list_fn get_fn space foundBindings =
     (case list_fn (sp_Name space) of
        Inl err \<Rightarrow> Some (foundBindings, Some (ListError err))
      | Inr parentBindings \<Rightarrow>
          (let merged = mergeSpaceBindings foundBindings parentBindings
           in if ParentSpace space = '''' \<or> DisableInheritance space then Some (merged, None)
              else case get_fn (ParentSpace space) of
                     Inl err \<Rightarrow> Some (merged, Some (ParentSpaceError err))
                   | Inr parentSpace \<Rightarrow> ListForSpace list_fn get_fn parentSpace merged))"

section \<open>Making a binding\<close>

definition defaultSpaceRole :: string where
  "defaultSpaceRole = ''admin''"

definition spaceBindingName :: "string \<Rightarrow> string \<Rightarrow> string" where
  "spaceBindingName spaceName murName =
     (let c = crc32_Checksum (spaceName @ ''-'' @ murName)
      in if length spaceName > 50 then take 50 spaceName @ ''-'' @ format_x c
         else spaceName @ ''-'' @ format_x c)"

definition WithRole :: "string \<Rightarrow> space_binding \<Rightarrow> space_binding" where
  "WithRole role sb = sb\<lparr>SpaceRole := role\<rparr>"

definition NewSpaceBinding ::
  "master_user_record \<Rightarrow> space \<Rightarrow> string \<Rightarrow> (space_binding \<Rightarrow> space_binding) list \<Rightarrow> space_binding" where
  "NewSpaceBinding mur space creator options =
     foldl (\<lambda>sb option. option sb)
       \<lparr>sb_Namespace = mur_Namespace mur,
        sb_Name = spaceBindingName (sp_Name space) (mur_Name mur),
        sb_Labels = [(SpaceCreatorLabelKey, creator),
                     (SpaceBindingMasterUserRecordLabelKey, mur_Name mur),
                     (SpaceBindingSpaceLabelKey, sp_Name space)],
        MasterUserRecord = mur_Name mur,
        SpaceOf = sp_Name space,
        SpaceRole = defaultSpaceRole\<rparr> options"

section \<open>Merging\<close>













section \<open>Walking up the parents\<close>



section \<open>Properties\<close>



text \<open>The lister returns, with a result or with an error, whenever some rank of the spaces
  goes down from a space to the parent it inherits from.\<close>

theorem list_for_space_terminates:
  assumes "\<And>t p. \<not> (ParentSpace t = '''' \<or> DisableInheritance t) \<Longrightarrow> get_fn (ParentSpace t) = Inr p \<Longrightarrow>
             rank p < (rank t :: nat)"
  shows "\<exists>r. ListForSpace list_fn get_fn s fs = Some r"
proof (induction "rank s" arbitrary: s fs rule: less_induct)
  case less
  show ?case
  proof (cases "\<exists>bs p. list_fn (sp_Name s) = Inr bs \<and> get_fn (ParentSpace s) = Inr p \<and>
      \<not> (ParentSpace s = '''' \<or> DisableInheritance s)")
    case True
    then obtain bs p where s: "list_fn (sp_Name s) = Inr bs" "get_fn (ParentSpace s) = Inr p"
      "\<not> (ParentSpace s = '''' \<or> DisableInheritance s)" by blast
    with less assms obtain r where "ListForSpace list_fn get_fn p (mergeSpaceBindings fs bs) = Some r"
      by blast
    with s show ?thesis by (subst ListForSpace.simps) (auto simp: Let_def)
  next
    case False
    then show ?thesis by (subst ListForSpace.simps) (auto simp: Let_def split: sum.splits)
  qed
qed

theorem list_for_space_terminates_witness:
  "\<exists>r. ListForSpace (\<lambda>n. Inl ''denied'')
         (\<lambda>n. if n = ''parent'' then Inr \<lparr>sp_Name = ''parent'', ParentSpace = '''', DisableInheritance = False\<rparr>
              else Inl ''not found'')
         \<lparr>sp_Name = ''child'', ParentSpace = ''parent'', DisableInheritance = False\<rparr> [] = Some r"
  by (rule list_for_space_terminates [where rank = "\<lambda>t. if ParentSpace t = '''' then 0 else 1"])
     (auto split: if_splits)

text \<open>A cycle of parents is never left: if every space of a set lists its bindings and
  inherits from a space of the set, the lister does not return on any of them.\<close>

theorem list_for_space_cycle:
  fixes get_fn :: "string \<Rightarrow> 'e + space"
  assumes "\<And>t. t \<in> S \<Longrightarrow> \<not> (ParentSpace t = '''' \<or> DisableInheritance t) \<and>
             (\<exists>bs p. list_fn (sp_Name t) = Inr bs \<and> get_fn (ParentSpace t) = Inr p \<and> p \<in> S)"
    and "s \<in> S"
  shows "ListForSpace list_fn get_fn s fs = None"
proof (rule ccontr)
  assume "ListForSpace list_fn get_fn s fs \<noteq> None"
  then obtain r where ret: "ListForSpace list_fn get_fn s fs = Some r" by blast
  have "s \<in> S \<longrightarrow> False"
  proof (rule ListForSpace.raw_induct [where P = "\<lambda>l g s fs r. l = list_fn \<longrightarrow> g = get_fn \<longrightarrow> s \<in> S \<longrightarrow> False",
        OF _ ret, THEN mp, THEN mp, OF _ refl refl])
    fix f fs r and l :: "string \<Rightarrow> 'e + space_binding list" and g :: "string \<Rightarrow> 'e + space" and t :: space
    assume IH: "\<And>l g (t :: space) fs r. f l g t fs = Some r \<Longrightarrow> l = list_fn \<longrightarrow> g = get_fn \<longrightarrow> t \<in> S \<longrightarrow> False"
      and eq: "(case l (sp_Name t) of Inl err \<Rightarrow> Some (fs, Some (ListError err))
        | Inr parentBindings \<Rightarrow> let merged = mergeSpaceBindings fs parentBindings
            in if ParentSpace t = '''' \<or> DisableInheritance t then Some (merged, None)
               else case g (ParentSpace t) of Inl err \<Rightarrow> Some (merged, Some (ParentSpaceError err))
                    | Inr parentSpace \<Rightarrow> f l g parentSpace merged) = Some r"
    show "l = list_fn \<longrightarrow> g = get_fn \<longrightarrow> t \<in> S \<longrightarrow> False"
    proof (intro impI)
      assume lg: "l = list_fn" "g = get_fn" and "t \<in> S"
      with assms(1) obtain bs p where t: "ParentSpace t \<noteq> ''''" "\<not> DisableInheritance t"
        "list_fn (sp_Name t) = Inr bs" "get_fn (ParentSpace t) = Inr p" "p \<in> S" by blast
      with eq lg have "f list_fn get_fn p (mergeSpaceBindings fs bs) = Some r" by (simp add: Let_def)
      with IH t(5) show False by blast
    qed
  qed
  with assms(2) show False by simp
qed

theorem list_for_space_cycle_witness:
  "ListForSpace (\<lambda>n. Inr [] :: string + space_binding list)
     (\<lambda>n. Inr \<lparr>sp_Name = n, ParentSpace = n, DisableInheritance = False\<rparr>)
     \<lparr>sp_Name = ''loop'', ParentSpace = ''loop'', DisableInheritance = False\<rparr> [] = None"
  by (rule list_for_space_cycle
      [where S = "{\<lparr>sp_Name = ''loop'', ParentSpace = ''loop'', DisableInheritance = False\<rparr>}"]) auto

text \<open>The lister goes on from a space to its parent: the space lists its bindings, inherits, and its
  parent is found.\<close>

definition climbs :: "(string \<Rightarrow> 'e + space_binding list) \<Rightarrow> (string \<Rightarrow> 'e + space) \<Rightarrow> space \<Rightarrow> space \<Rightarrow> bool" where
  "climbs list_fn get_fn t p \<longleftrightarrow>
     (\<exists>bs. list_fn (sp_Name t) = Inr bs) \<and> \<not> (ParentSpace t = '''' \<or> DisableInheritance t) \<and>
     get_fn (ParentSpace t) = Inr p"

lemma ListForSpace_None_climbs:
  assumes "ListForSpace list_fn get_fn s fs = None"
  shows "\<exists>p fs'. climbs list_fn get_fn s p \<and> ListForSpace list_fn get_fn p fs' = None"
  using assms by (subst (asm) ListForSpace.simps) (auto simp: climbs_def Let_def split: sum.splits if_splits)

lemma ListForSpace_None_chain:
  assumes "ListForSpace list_fn get_fn s fs = None"
  shows "\<exists>chain. chain 0 = s \<and> (\<forall>i. climbs list_fn get_fn (chain i) (chain (Suc i)))"
proof -
  have "\<exists>f. \<forall>n. (ListForSpace list_fn get_fn (fst (f n)) (snd (f n)) = None \<and> (n = 0 \<longrightarrow> f n = (s, fs))) \<and>
      climbs list_fn get_fn (fst (f n)) (fst (f (Suc n)))"
  proof (rule dependent_nat_choice)
    show "\<exists>x. ListForSpace list_fn get_fn (fst x) (snd x) = None \<and> ((0 :: nat) = 0 \<longrightarrow> x = (s, fs))"
      using assms by simp
    show "\<exists>y. (ListForSpace list_fn get_fn (fst y) (snd y) = None \<and> (Suc n = 0 \<longrightarrow> y = (s, fs))) \<and>
        climbs list_fn get_fn (fst x) (fst y)"
      if "ListForSpace list_fn get_fn (fst x) (snd x) = None \<and> (n = 0 \<longrightarrow> x = (s, fs))" for x n
      using ListForSpace_None_climbs [of list_fn get_fn "fst x" "snd x"] that by auto
  qed
  then obtain f where "\<forall>n. (ListForSpace list_fn get_fn (fst (f n)) (snd (f n)) = None \<and> (n = 0 \<longrightarrow> f n = (s, fs))) \<and>
      climbs list_fn get_fn (fst (f n)) (fst (f (Suc n)))" ..
  then show ?thesis by (intro exI [of _ "fst \<circ> f"]) simp
qed

text \<open>C18: The lister returns, with bindings or with an error, exactly when the parents do not go on
  for ever: it does not return if and only if there is an infinite chain of spaces, from
  the given one to ever new parents or around a cycle, that all list their bindings and inherit.\<close>

theorem list_for_space_terminates_iff:
  "(\<exists>r. ListForSpace list_fn get_fn s fs = Some r) \<longleftrightarrow>
   \<not> (\<exists>chain :: nat \<Rightarrow> space. chain 0 = s \<and> (\<forall>i. climbs list_fn get_fn (chain i) (chain (Suc i))))"
proof (cases "ListForSpace list_fn get_fn s fs")
  case None
  with ListForSpace_None_chain [OF None] show ?thesis by auto
next
  case (Some r)
  have False if "chain 0 = s" and chain: "\<And>i. climbs list_fn get_fn (chain i) (chain (Suc i))" for chain :: "nat \<Rightarrow> space"
  proof -
    have "ListForSpace list_fn get_fn s fs = None"
    proof (rule list_for_space_cycle [where S = "range chain"])
      show "s \<in> range chain" using that(1) by auto
      show "\<not> (ParentSpace t = '''' \<or> DisableInheritance t) \<and>
          (\<exists>bs p. list_fn (sp_Name t) = Inr bs \<and> get_fn (ParentSpace t) = Inr p \<and> p \<in> range chain)"
        if "t \<in> range chain" for t
        using that chain by (fastforce simp: climbs_def)
    qed
    with Some show False by simp
  qed
  with Some show ?thesis by auto
qed

text \<open>The merge deletes only the last of two bindings that a parent lists for one user, so the user
  is listed twice, against the comment that there are no duplicates.\<close>

theorem duplicate_parent_bindings_stay:
  assumes "MasterUserRecord own = mur" and "MasterUserRecord first = mur" and "MasterUserRecord second = mur"
  shows "mergeSpaceBindings [own] [first, second] = [own, first]"
  using assms by (simp add: mergeSpaceBindings_def)

text \<open>A generated SpaceBinding name fits a label value (at most 63 bytes, in fact 59), and the
  labels name the creator, the user and the space of the binding.\<close>

theorem new_space_binding_shape:
  "length (sb_Name (NewSpaceBinding mur space creator [])) \<le> 59 \<and>
   map_of (sb_Labels (NewSpaceBinding mur space creator [WithRole role])) SpaceBindingMasterUserRecordLabelKey
     = Some (MasterUserRecord (NewSpaceBinding mur space creator [WithRole role])) \<and>
   map_of (sb_Labels (NewSpaceBinding mur space creator [WithRole role])) SpaceBindingSpaceLabelKey
     = Some (SpaceOf (NewSpaceBinding mur space creator [WithRole role])) \<and>
   SpaceRole (NewSpaceBinding mur space creator [WithRole role]) = role \<and>
   SpaceRole (NewSpaceBinding mur space creator []) = defaultSpaceRole"
  using length_format_x [of "crc32_Checksum (sp_Name space @ ''-'' @ mur_Name mur)"]
  by (simp add: NewSpaceBinding_def spaceBindingName_def WithRole_def Let_def)

end
