(* ===== verification/BindingSlices.thy ===== *)
theory BindingSlices
  imports SpaceBindings GoSlices
begin

text \<open>
  The lister of \<open>pkg/spacebinding/spacebindinglister.go\<close> on slices in memory. It deletes the
  overridden bindings in the slice that \<open>ListSpaceBindingsFunc\<close> returned and appends what is left to
  the bindings found so far. With a function that makes its slices anew the lister is what
  \<open>SpaceBindings\<close> says, and leaves the caller's slice; a slice that the function keeps is
  overwritten.
\<close>

section \<open>Merging in memory\<close>

text \<open>The inner loop, from the last index down.\<close>

primrec delete_last_slice ::
  "space_binding go_runtime \<Rightarrow> nat \<Rightarrow> string \<Rightarrow> space_binding memory \<Rightarrow> slice \<Rightarrow> space_binding memory \<times> slice" where
  "delete_last_slice rt 0 mur m parentBindings = (m, parentBindings)"
| "delete_last_slice rt (Suc i) mur m parentBindings =
     (if MasterUserRecord (slice_contents m parentBindings ! i) = mur
      then delete_at rt m parentBindings i
      else delete_last_slice rt i mur m parentBindings)"

text \<open>The outer loop, over the indices of \<open>foundBindings\<close>: an element is read when its turn comes.\<close>

fun delete_overridden_slice ::
  "space_binding go_runtime \<Rightarrow> slice \<Rightarrow> nat list \<Rightarrow> space_binding memory \<Rightarrow> slice \<Rightarrow> space_binding memory \<times> slice" where
  "delete_overridden_slice rt foundBindings [] m parentBindings = (m, parentBindings)"
| "delete_overridden_slice rt foundBindings (j # js) m parentBindings =
     (let (m', parentBindings') = delete_last_slice rt (slice_len parentBindings)
            (MasterUserRecord (slice_contents m foundBindings ! j)) m parentBindings
      in delete_overridden_slice rt foundBindings js m' parentBindings')"

definition merge_slices ::
  "space_binding go_runtime \<Rightarrow> space_binding memory \<Rightarrow> slice \<Rightarrow> slice \<Rightarrow> space_binding memory \<times> slice" where
  "merge_slices rt m foundBindings parentBindings =
     (let (m', parentBindings') =
            delete_overridden_slice rt foundBindings [0..<slice_len foundBindings] m parentBindings
      in append_slice rt m' foundBindings (slice_contents m' parentBindings'))"

partial_function (option) ListForSpace_slices ::
  "space_binding go_runtime \<Rightarrow> (space_binding memory \<Rightarrow> string \<Rightarrow> space_binding memory \<times> ('e + slice)) \<Rightarrow>
   (string \<Rightarrow> 'e + space) \<Rightarrow> space \<Rightarrow> space_binding memory \<Rightarrow> slice \<Rightarrow>
   (space_binding memory \<times> slice \<times> 'e lister_error option) option" where
  "ListForSpace_slices rt list_fn get_fn space m foundBindings =
     (case list_fn m (sp_Name space) of
        (m1, Inl err) \<Rightarrow> Some (m1, foundBindings, Some (ListError err))
      | (m1, Inr parentBindings) \<Rightarrow>
          (let (m2, merged) = merge_slices rt m1 foundBindings parentBindings
           in if ParentSpace space = '''' \<or> DisableInheritance space then Some (m2, merged, None)
              else case get_fn (ParentSpace space) of
                     Inl err \<Rightarrow> Some (m2, merged, Some (ParentSpaceError err))
                   | Inr parentSpace \<Rightarrow> ListForSpace_slices rt list_fn get_fn parentSpace m2 merged))"

section \<open>Lemmas\<close>





section \<open>The lister in memory\<close>











text \<open>The bindings of a space and its parent; \<open>ada\<close> has her own role in the space.\<close>

definition example_binding :: "string \<Rightarrow> string \<Rightarrow> string \<Rightarrow> space_binding" where
  "example_binding user space role =
     \<lparr>sb_Namespace = ''host'', sb_Name = user, sb_Labels = [], MasterUserRecord = user, SpaceOf = space, SpaceRole = role\<rparr>"

definition example_bindings :: "string \<Rightarrow> space_binding list" where
  "example_bindings name =
     (if name = ''child'' then [example_binding ''ada'' name ''admin'']
      else [example_binding ''ada'' name ''viewer'', example_binding ''bob'' name ''viewer''])"

definition example_child :: space where
  "example_child = \<lparr>sp_Name = ''child'', ParentSpace = ''parent'', DisableInheritance = False\<rparr>"

definition example_get :: "string \<Rightarrow> string + space" where
  "example_get name = Inr \<lparr>sp_Name = name, ParentSpace = '''', DisableInheritance = False\<rparr>"

definition example_runtime :: "space_binding go_runtime" where
  "example_runtime = \<lparr>growth = (\<lambda>c n. 2), zero_value = example_binding '''' '''' ''''\<rparr>"

lemmas lister_run = ListForSpace_slices.simps ListForSpace.simps merge_slices_def mergeSpaceBindings_def delete_at_def alloc_def write_array_def
  example_binding_def example_bindings_def example_child_def example_get_def example_runtime_def


text \<open>A \<open>ListSpaceBindingsFunc\<close> that keeps its slices, as a cache would, finds them overwritten: after
  one call of the lister the parent has lost the binding of \<open>ada\<close> and has the one of \<open>bob\<close> twice.\<close>

theorem list_for_space_overwrites_kept_slices:
  "map_option (\<lambda>(m', r, err). map MasterUserRecord (slice_contents m' (Slice 1 0 2 2)))
     (ListForSpace_slices example_runtime
        (\<lambda>m name. (m, Inr (if name = ''child'' then Slice 0 0 1 1 else Slice 1 0 2 2)))
        example_get example_child \<lparr>arrays = [example_bindings ''child'', example_bindings ''parent'']\<rparr> NilSlice)
   = Some [''bob'', ''bob'']"
  by (simp add: lister_run numeral_2_eq_2 Let_def)

end
