(* ===== verification/Conditions.thy ===== *)
theory Conditions
  imports ApiTypes
begin

text \<open>
  \<open>pkg/condition/condition.go\<close>, the status conditions every controller keeps, and
  \<open>pkg/status/componentconditions.go\<close>, which builds on them. The clock is an argument:
  the \<open>i\<close>-th call of \<open>metav1.Now()\<close> in an operation reads \<open>now i\<close>. A nil
  slice and an empty one are both \<open>[]\<close>: the code's branch for nil returns what
  \<open>append\<close> to an empty slice returns.
\<close>

section \<open>The operations\<close>

definition FindConditionByType :: "condition list \<Rightarrow> cond_type \<Rightarrow> condition \<times> bool" where
  "FindConditionByType conditions conditionType =
     (case List.find (\<lambda>c. Type c = conditionType) conditions of
        Some c \<Rightarrow> (c, True)
      | None \<Rightarrow> (zero_condition, False))"

definition IsTrue :: "condition list \<Rightarrow> cond_type \<Rightarrow> bool" where
  "IsTrue conditions conditionType =
     (let (c, found) = FindConditionByType conditions conditionType
      in found \<and> Status c = ConditionTrue)"

definition IsFalse :: "condition list \<Rightarrow> cond_type \<Rightarrow> bool" where
  "IsFalse conditions conditionType =
     (let (c, found) = FindConditionByType conditions conditionType
      in found \<and> Status c = ConditionFalse)"

definition IsNotTrue :: "condition list \<Rightarrow> cond_type \<Rightarrow> bool" where
  "IsNotTrue conditions conditionType =
     (let (c, found) = FindConditionByType conditions conditionType
      in \<not> found \<or> Status c \<noteq> ConditionTrue)"

definition IsFalseWithReason :: "condition list \<Rightarrow> cond_type \<Rightarrow> reason \<Rightarrow> bool" where
  "IsFalseWithReason conditions conditionType reason =
     (let (c, found) = FindConditionByType conditions conditionType
      in found \<and> Status c = ConditionFalse \<and> Reason c = reason)"

definition IsTrueWithReason :: "condition list \<Rightarrow> cond_type \<Rightarrow> reason \<Rightarrow> bool" where
  "IsTrueWithReason conditions conditionType reason =
     (let (c, found) = FindConditionByType conditions conditionType
      in found \<and> Status c = ConditionTrue \<and> Reason c = reason)"

definition HasConditionReason :: "condition list \<Rightarrow> cond_type \<Rightarrow> reason \<Rightarrow> bool" where
  "HasConditionReason conditions conditionType reason =
     (let (con, found) = FindConditionByType conditions conditionType
      in found \<and> Reason con = reason)"

fun Count :: "condition list \<Rightarrow> cond_type \<Rightarrow> cond_status \<Rightarrow> reason \<Rightarrow> nat" where
  "Count [] conditionType status reason = 0"
| "Count (c # conditions) conditionType status reason =
     (if Type c = conditionType \<and> Status c = status \<and> Reason c = reason then 1 else 0)
     + Count conditions conditionType status reason"

text \<open>One condition: the loop over the slice returns at the first condition of the same type.\<close>

definition addOrUpdateStatusCondition ::
  "time \<Rightarrow> condition list \<Rightarrow> condition \<Rightarrow> bool \<Rightarrow> condition list \<times> bool" where
  "addOrUpdateStatusCondition now conditions newCondition0 updateLastUpdatedTimestamp =
     (let newCondition1 = newCondition0\<lparr>LastTransitionTime := now\<rparr>;
          newCondition = (if updateLastUpdatedTimestamp
                          then newCondition1\<lparr>LastUpdatedTime := Some now\<rparr> else newCondition1)
      in case index_where (\<lambda>c. Type c = Type newCondition) conditions of
           None \<Rightarrow> (conditions @ [newCondition], True)
         | Some i \<Rightarrow>
             let cond = conditions ! i
             in if \<not> updateLastUpdatedTimestamp \<and>
                   Status cond = Status newCondition \<and>
                   Reason cond = Reason newCondition \<and>
                   Message cond = Message newCondition
                then (conditions, False)
                else let newCondition' =
                           (if Status newCondition = Status cond
                            then newCondition\<lparr>LastTransitionTime := LastTransitionTime cond\<rparr>
                            else newCondition)
                     in (conditions[i := newCondition'], True))"

text \<open>The loop over the new conditions; \<open>n\<close> counts the readings of the clock.\<close>

fun addOrUpdateStatusConditions ::
  "(nat \<Rightarrow> time) \<Rightarrow> nat \<Rightarrow> condition list \<Rightarrow> bool \<Rightarrow> condition list \<Rightarrow> condition list \<times> bool" where
  "addOrUpdateStatusConditions now n conditions upd [] = (conditions, False)"
| "addOrUpdateStatusConditions now n conditions upd (cond # newConditions) =
     (let (conditions', updated) = addOrUpdateStatusCondition (now n) conditions cond upd;
          (result, more) = addOrUpdateStatusConditions now (Suc n) conditions' upd newConditions
      in (result, updated \<or> more))"

definition AddOrUpdateStatusConditions ::
  "(nat \<Rightarrow> time) \<Rightarrow> condition list \<Rightarrow> condition list \<Rightarrow> condition list \<times> bool" where
  "AddOrUpdateStatusConditions now conditions newConditions =
     addOrUpdateStatusConditions now 0 conditions False newConditions"

definition AddOrUpdateStatusConditionsWithLastUpdatedTimestamp ::
  "(nat \<Rightarrow> time) \<Rightarrow> condition list \<Rightarrow> condition list \<Rightarrow> condition list" where
  "AddOrUpdateStatusConditionsWithLastUpdatedTimestamp now conditions newConditions =
     fst (addOrUpdateStatusConditions now 0 conditions True newConditions)"

fun AddStatusConditions ::
  "(nat \<Rightarrow> time) \<Rightarrow> nat \<Rightarrow> condition list \<Rightarrow> condition list \<Rightarrow> condition list" where
  "AddStatusConditions now n conditions [] = conditions"
| "AddStatusConditions now n conditions (cond # newConditions) =
     (if time_IsZero (LastTransitionTime cond)
      then AddStatusConditions now (Suc n) (conditions @ [cond\<lparr>LastTransitionTime := now n\<rparr>]) newConditions
      else AddStatusConditions now n (conditions @ [cond]) newConditions)"

section \<open>Component conditions\<close>

definition NewComponentReadyCondition :: "time \<Rightarrow> reason \<Rightarrow> condition" where
  "NewComponentReadyCondition now reason =
     \<lparr>Type = ConditionReady, Status = ConditionTrue, Reason = reason, Message = '''',
      LastTransitionTime = now, LastUpdatedTime = Some now\<rparr>"

definition NewComponentErrorCondition :: "time \<Rightarrow> reason \<Rightarrow> string \<Rightarrow> condition" where
  "NewComponentErrorCondition now reason msg =
     \<lparr>Type = ConditionReady, Status = ConditionFalse, Reason = reason, Message = msg,
      LastTransitionTime = now, LastUpdatedTime = Some now\<rparr>"

text \<open>\<open>None\<close> is the nil error, \<open>Some m\<close> an error with the message \<open>m\<close>.\<close>

definition ValidateComponentConditionReady :: "condition list \<Rightarrow> string option" where
  "ValidateComponentConditionReady conditions =
     (let (c, found) = FindConditionByType conditions ConditionReady
      in if \<not> found then Some ''a ready condition was not found''
         else if Status c \<noteq> ConditionTrue then Some (Message c)
         else None)"


section \<open>What the operations promise\<close>

text \<open>
  The abstract view of a slice of conditions: the status, reason and message recorded for
  each type. Times are bookkeeping of the slice and not part of it.
\<close>

definition core :: "condition \<Rightarrow> cond_status \<times> reason \<times> string" where
  "core c = (Status c, Reason c, Message c)"

definition cond_abs :: "condition list \<Rightarrow> cond_type \<Rightarrow> (cond_status \<times> reason \<times> string) option" where
  "cond_abs conditions t = map_option core (List.find (\<lambda>c. Type c = t) conditions)"

text \<open>
  The contract of a table that is updated entry by entry and reports whether anything
  changed. \<open>upsert n\<close> is the update at clock reading \<open>n\<close> and \<open>loop\<close> the loop
  over the entries.
\<close>

locale upsert_table =
  fixes view :: "'s \<Rightarrow> 'k \<Rightarrow> 'v option"
    and key :: "'x \<Rightarrow> 'k"
    and val :: "'x \<Rightarrow> 'v"
    and upsert :: "nat \<Rightarrow> 's \<Rightarrow> 'x \<Rightarrow> 's \<times> bool"
    and loop :: "nat \<Rightarrow> 's \<Rightarrow> 'x list \<Rightarrow> 's \<times> bool"
  assumes view_upsert: "view (fst (upsert n s x)) = (view s)(key x \<mapsto> val x)"
    and unchanged_iff: "snd (upsert n s x) = (view s (key x) \<noteq> Some (val x))"
    and unchanged: "\<not> snd (upsert n s x) \<Longrightarrow> fst (upsert n s x) = s"
    and loop_Nil: "loop n s [] = (s, False)"
    and loop_Cons: "loop n s (x # xs) =
      (fst (loop (Suc n) (fst (upsert n s x)) xs),
       snd (upsert n s x) \<or> snd (loop (Suc n) (fst (upsert n s x)) xs))"
begin

lemma view_loop: "view (fst (loop n s xs)) = foldl (\<lambda>m x. m(key x \<mapsto> val x)) (view s) xs"
  by (induction xs arbitrary: n s) (simp_all add: loop_Nil loop_Cons view_upsert)

lemma loop_changed_iff:
  "snd (loop n s xs) \<longleftrightarrow> (\<exists>x\<in>set xs. view s (key x) \<noteq> Some (val x))"
proof (induction xs arbitrary: n s)
  case Nil
  then show ?case by (simp add: loop_Nil)
next
  case (Cons x xs)
  show ?case
  proof (cases "view s (key x) = Some (val x)")
    case True
    then have "fst (upsert n s x) = s" by (intro unchanged) (simp add: unchanged_iff)
    with True Cons.IH show ?thesis by (simp add: loop_Cons unchanged_iff)
  next
    case False
    then show ?thesis by (simp add: loop_Cons unchanged_iff)
  qed
qed

lemma loop_unchanged: "\<not> snd (loop n s xs) \<Longrightarrow> fst (loop n s xs) = s"
  by (induction xs arbitrary: n s) (auto simp: loop_Nil loop_Cons unchanged)

lemma view_loop_distinct:
  assumes "distinct (map key xs)" and "x \<in> set xs"
  shows "view (fst (loop n s xs)) (key x) = Some (val x)"
proof -
  have other: "k \<notin> key ` set ys \<Longrightarrow> foldl (\<lambda>m x. m(key x \<mapsto> val x)) m ys k = m k" for k m ys
    by (induction ys arbitrary: m) auto
  from assms have "foldl (\<lambda>m x. m(key x \<mapsto> val x)) m xs (key x) = Some (val x)" for m
    by (induction xs arbitrary: m) (auto simp: other)
  then show ?thesis by (simp add: view_loop)
qed

text \<open>Applying the same entries again changes nothing.\<close>

lemma loop_idempotent:
  assumes "distinct (map key xs)"
  shows "loop n' (fst (loop n s xs)) xs = (fst (loop n s xs), False)"
proof -
  have "\<not> snd (loop n' (fst (loop n s xs)) xs)"
    using assms by (auto simp: loop_changed_iff view_loop_distinct)
  then show ?thesis using loop_unchanged by (metis prod.collapse)
qed

end

text \<open>
  The two steps of an update: \<open>stamp\<close> sets the times, \<open>keep_transition\<close> puts the old
  transition time back when the status is the same.
\<close>

definition stamp :: "time \<Rightarrow> bool \<Rightarrow> condition \<Rightarrow> condition" where
  "stamp now upd c =
     (if upd then c\<lparr>LastTransitionTime := now, LastUpdatedTime := Some now\<rparr>
      else c\<lparr>LastTransitionTime := now\<rparr>)"

definition keep_transition :: "condition \<Rightarrow> condition \<Rightarrow> condition" where
  "keep_transition old c =
     (if Status c = Status old then c\<lparr>LastTransitionTime := LastTransitionTime old\<rparr> else c)"

lemma stamp_simps [simp]:
  "Type (stamp now upd c) = Type c" "core (stamp now upd c) = core c"
  "LastTransitionTime (stamp now upd c) = now" "Status (stamp now upd c) = Status c"
  by (simp_all add: stamp_def core_def)

lemma keep_transition_simps [simp]:
  "Type (keep_transition old c) = Type c" "core (keep_transition old c) = core c"
  by (simp_all add: keep_transition_def core_def)

lemma addOrUpdate_new:
  "index_where (\<lambda>d. Type d = Type c) cs = None \<Longrightarrow>
   addOrUpdateStatusCondition now cs c upd = (cs @ [stamp now upd c], True)"
  by (simp add: addOrUpdateStatusCondition_def stamp_def)

lemma addOrUpdate_present:
  "index_where (\<lambda>d. Type d = Type c) cs = Some i \<Longrightarrow>
   addOrUpdateStatusCondition now cs c upd =
     (if \<not> upd \<and> core (cs ! i) = core c then (cs, False)
      else (cs[i := keep_transition (cs ! i) (stamp now upd c)], True))"
  by (auto simp: addOrUpdateStatusCondition_def stamp_def keep_transition_def core_def Let_def)

lemmas addOrUpdate_cases = addOrUpdate_new addOrUpdate_present

lemma cond_abs_append:
  "cond_abs (cs @ [c]) = (\<lambda>t. case cond_abs cs t of None \<Rightarrow> if Type c = t then Some (core c) else None | r \<Rightarrow> r)"
  by (auto simp: cond_abs_def find_append fun_eq_iff split: option.splits)

lemma cond_abs_update:
  assumes "index_where (\<lambda>c. Type c = Type c') cs = Some i"
  shows "cond_abs (cs[i := c']) = (cond_abs cs)(Type c' \<mapsto> core c')"
proof -
  from index_where_SomeD [OF assms] have i: "i < length cs" "Type (cs ! i) = Type c'"
    and first: "\<And>j. j < i \<Longrightarrow> Type (cs ! j) \<noteq> Type c'" by auto
  show ?thesis
    using find_list_update [of i cs "\<lambda>c. Type c = Type c'" c'] i first
    by (auto simp: cond_abs_def fun_eq_iff find_list_update_other)
qed

lemma cond_abs_index:
  "index_where (\<lambda>c. Type c = t) cs = Some i \<Longrightarrow> cond_abs cs t = Some (core (cs ! i))"
  by (simp add: cond_abs_def find_index_where)

lemma cond_abs_no_index:
  "index_where (\<lambda>c. Type c = t) cs = None \<Longrightarrow> cond_abs cs t = None"
  unfolding cond_abs_def find_index_where by (metis option.map_disc_iff)

lemma cond_abs_addOrUpdate:
  "cond_abs (fst (addOrUpdateStatusCondition now cs c upd)) = (cond_abs cs)(Type c \<mapsto> core c)"
proof (cases "index_where (\<lambda>d. Type d = Type c) cs")
  case None
  then show ?thesis
    by (auto simp: addOrUpdate_new cond_abs_append cond_abs_no_index fun_eq_iff split: option.splits)
next
  case (Some i)
  then have "cond_abs cs (Type c) = Some (core (cs ! i))" by (rule cond_abs_index)
  with Some show ?thesis
    using cond_abs_update [of "keep_transition (cs ! i) (stamp now upd c)" cs i]
    by (simp add: addOrUpdate_present fun_upd_idem)
qed

lemma addOrUpdate_changed_iff:
  "snd (addOrUpdateStatusCondition now cs c False) \<longleftrightarrow> cond_abs cs (Type c) \<noteq> Some (core c)"
  by (cases "index_where (\<lambda>d. Type d = Type c) cs")
     (auto simp: addOrUpdate_cases cond_abs_index cond_abs_no_index)

lemma addOrUpdate_unchanged:
  "\<not> snd (addOrUpdateStatusCondition now cs c upd) \<Longrightarrow> fst (addOrUpdateStatusCondition now cs c upd) = cs"
  by (cases "index_where (\<lambda>d. Type d = Type c) cs") (auto simp: addOrUpdate_cases split: if_splits)

lemma loop_step:
  "addOrUpdateStatusConditions now n cs upd (c # news) =
     (let r = addOrUpdateStatusCondition (now n) cs c upd;
          q = addOrUpdateStatusConditions now (Suc n) (fst r) upd news
      in (fst q, snd r \<or> snd q))"
  by (simp add: Let_def split: prod.splits)

interpretation status: upsert_table cond_abs Type core
  "\<lambda>n cs c. addOrUpdateStatusCondition (now n) cs c False"
  "\<lambda>n cs. addOrUpdateStatusConditions now n cs False" for now :: "nat \<Rightarrow> time"
  by unfold_locales
     (simp_all add: cond_abs_addOrUpdate addOrUpdate_changed_iff addOrUpdate_unchanged loop_step Let_def
        del: addOrUpdateStatusConditions.simps(2))

lemma cond_abs_loop_True:
  "cond_abs (fst (addOrUpdateStatusConditions now n cs upd news)) =
   foldl (\<lambda>m c. m(Type c \<mapsto> core c)) (cond_abs cs) news"
proof (induction news arbitrary: n cs)
  case Nil
  then show ?case by simp
next
  case (Cons c news)
  then show ?case
    by (simp add: loop_step Let_def cond_abs_addOrUpdate del: addOrUpdateStatusConditions.simps(2))
qed

text \<open>Positions: an update never moves or drops a condition, it only appends new types.\<close>

lemma types_addOrUpdate:
  "map Type (fst (addOrUpdateStatusCondition now cs c upd)) =
   map Type cs @ (if Type c \<in> Type ` set cs then [] else [Type c])"
proof (cases "index_where (\<lambda>d. Type d = Type c) cs")
  case None
  then have "Type c \<notin> Type ` set cs" by (auto simp: index_where_None)
  with None show ?thesis by (simp add: addOrUpdate_new)
next
  case (Some i)
  from index_where_SomeD [OF Some] have i: "i < length cs" "Type (cs ! i) = Type c" by auto
  then have "Type c \<in> Type ` set cs" by (metis image_eqI nth_mem)
  moreover have "map Type (cs[i := c']) = map Type cs" if "Type c' = Type c" for c'
    using i that by (simp add: map_update list_update_same_conv)
  ultimately show ?thesis using Some by (simp add: addOrUpdate_present)
qed

section \<open>Properties\<close>

text \<open>C9: Whatever the clock and the timestamp mode, adding or updating conditions implements
  the abstract update: afterwards every new condition's type carries the status, reason and
  message given last for it, and every other type keeps what it had.\<close>

theorem add_or_update_refines:
  "cond_abs (fst (AddOrUpdateStatusConditions now cs news)) =
     foldl (\<lambda>m c. m(Type c \<mapsto> core c)) (cond_abs cs) news \<and>
   cond_abs (AddOrUpdateStatusConditionsWithLastUpdatedTimestamp now cs news) =
     foldl (\<lambda>m c. m(Type c \<mapsto> core c)) (cond_abs cs) news"
  by (simp add: AddOrUpdateStatusConditions_def AddOrUpdateStatusConditionsWithLastUpdatedTimestamp_def
      cond_abs_loop_True)

text \<open>\<open>AddOrUpdateStatusConditions\<close> returns its slice unchanged with the flag false
  exactly when every new condition is already recorded with the same status, reason and
  message; otherwise the flag is true.\<close>

theorem add_or_update_flag:
  "AddOrUpdateStatusConditions now cs news =
     (if list_all (\<lambda>c. cond_abs cs (Type c) = Some (core c)) news then (cs, False)
      else (fst (AddOrUpdateStatusConditions now cs news), True))"
proof -
  let ?r = "addOrUpdateStatusConditions now 0 cs False news"
  have "snd ?r \<longleftrightarrow> \<not> list_all (\<lambda>c. cond_abs cs (Type c) = Some (core c)) news"
    using status.loop_changed_iff [of now 0 cs news] by (auto simp: list_all_iff)
  with status.loop_unchanged [of now 0 cs news] show ?thesis
    by (cases ?r) (auto simp: AddOrUpdateStatusConditions_def)
qed

text \<open>Updating conditions never moves, drops or duplicates one: the types of the result are
  the types there were, in their order, followed by those of the new conditions that were
  missing, each once.\<close>

theorem add_or_update_positions:
  "\<exists>added. map Type (fst (addOrUpdateStatusConditions now n cs upd news)) = map Type cs @ added \<and>
     distinct added \<and> set added = Type ` set news - Type ` set cs"
proof (induction news arbitrary: n cs)
  case Nil
  then show ?case by simp
next
  case (Cons c news)
  define cs' where "cs' = fst (addOrUpdateStatusCondition (now n) cs c upd)"
  have cs': "map Type cs' = map Type cs @ (if Type c \<in> Type ` set cs then [] else [Type c])"
    by (simp add: cs'_def types_addOrUpdate)
  from arg_cong [OF cs', of set] have set_cs': "Type ` set cs' = insert (Type c) (Type ` set cs)"
    by (auto split: if_splits)
  obtain added where added:
    "map Type (fst (addOrUpdateStatusConditions now (Suc n) cs' upd news)) = map Type cs' @ added"
    "distinct added" "set added = Type ` set news - Type ` set cs'"
    using Cons.IH by blast
  have "fst (addOrUpdateStatusConditions now n cs upd (c # news)) =
        fst (addOrUpdateStatusConditions now (Suc n) cs' upd news)"
    by (simp add: cs'_def loop_step Let_def del: addOrUpdateStatusConditions.simps(2))
  then show ?case
    using added cs' set_cs'
    by (intro exI [of _ "(if Type c \<in> Type ` set cs then [] else [Type c]) @ added"]) auto
qed

text \<open>C10: The transition time of a type changes only with its status: after one update the first
  condition of that type carries the old transition time when the status is the same and the
  current time when the status changed or the type is new.\<close>

theorem transition_time_tracks_status:
  "map_option (\<lambda>d. LastTransitionTime d)
     (List.find (\<lambda>d. Type d = Type c) (fst (addOrUpdateStatusCondition now cs c upd))) =
   Some (case List.find (\<lambda>d. Type d = Type c) cs of
           None \<Rightarrow> now
         | Some d \<Rightarrow> if Status d = Status c then LastTransitionTime d else now)"
proof (cases "index_where (\<lambda>d. Type d = Type c) cs")
  case None
  then have "List.find (\<lambda>d. Type d = Type c) cs = None" by (simp add: find_index_where)
  with None show ?thesis by (simp add: addOrUpdate_new find_append)
next
  case (Some i)
  from index_where_SomeD [OF Some] have i: "i < length cs" "Type (cs ! i) = Type c"
    and first: "\<And>j. j < i \<Longrightarrow> Type (cs ! j) \<noteq> Type c" by auto
  have upd: "List.find (\<lambda>d. Type d = Type c) (cs[i := c']) = Some c'" if "Type c' = Type c" for c'
    using find_list_update [of i cs "\<lambda>d. Type d = Type c" c'] i first that by simp
  have old: "List.find (\<lambda>d. Type d = Type c) cs = Some (cs ! i)"
    using Some by (simp add: find_index_where)
  show ?thesis
    using Some upd [of "keep_transition (cs ! i) (stamp now upd c)"] old
    by (auto simp: addOrUpdate_present keep_transition_def core_def)
qed

end
