(* ===== verification/ConditionSlices.thy ===== *)
theory ConditionSlices
  imports Conditions GoSlices
begin

text \<open>
  The updates of \<open>pkg/condition/condition.go\<close> on slices in memory: a condition that is there is
  replaced in a copy, a new one is appended, and a condition that has not changed leaves the slice.
  The elements are those of \<open>Conditions\<close>, and whoever holds the old slice sees no change.
\<close>

section \<open>The operations\<close>

definition addOrUpdateStatusCondition_slice ::
  "condition go_runtime \<Rightarrow> bool \<Rightarrow> time \<Rightarrow> condition \<Rightarrow> condition memory \<Rightarrow> slice \<Rightarrow> condition memory \<times> slice \<times> bool" where
  "addOrUpdateStatusCondition_slice rt updateLastUpdatedTimestamp now newCondition0 m conditions =
     (let newCondition1 = newCondition0\<lparr>LastTransitionTime := now\<rparr>;
          newCondition = (if updateLastUpdatedTimestamp
                          then newCondition1\<lparr>LastUpdatedTime := Some now\<rparr> else newCondition1)
      in if conditions = NilSlice
         then let (m', res) = alloc rt m [newCondition] 0 in (m', res, True)
         else case index_where (\<lambda>c. Type c = Type newCondition) (slice_contents m conditions) of
           None \<Rightarrow> let (m', res) = append_slice rt m conditions [newCondition] in (m', res, True)
         | Some i \<Rightarrow>
             let cond = slice_contents m conditions ! i
             in if \<not> updateLastUpdatedTimestamp \<and>
                   Status cond = Status newCondition \<and>
                   Reason cond = Reason newCondition \<and>
                   Message cond = Message newCondition
                then (m, conditions, False)
                else let newCondition' =
                           (if Status newCondition = Status cond
                            then newCondition\<lparr>LastTransitionTime := LastTransitionTime cond\<rparr>
                            else newCondition);
                         (m1, res) = alloc rt m (replicate (slice_len conditions) (zero_value rt)) 0;
                         m2 = copy_slice m1 res (slice_contents m1 conditions)
                     in (set_slice m2 res i newCondition', res, True))"

text \<open>The loop; each new condition comes with what the clock reads in its turn.\<close>

fun addOrUpdateStatusConditions_slice ::
  "condition go_runtime \<Rightarrow> bool \<Rightarrow> (time \<times> condition) list \<Rightarrow> condition memory \<Rightarrow> slice \<Rightarrow>
   condition memory \<times> slice \<times> bool" where
  "addOrUpdateStatusConditions_slice rt upd [] m conditions = (m, conditions, False)"
| "addOrUpdateStatusConditions_slice rt upd ((now, cond) # newConditions) m conditions =
     (let (m1, conditions1, updated) = addOrUpdateStatusCondition_slice rt upd now cond m conditions;
          (m2, conditions2, more) = addOrUpdateStatusConditions_slice rt upd newConditions m1 conditions1
      in (m2, conditions2, updated \<or> more))"

fun AddStatusConditions_slice ::
  "condition go_runtime \<Rightarrow> (nat \<Rightarrow> time) \<Rightarrow> nat \<Rightarrow> condition memory \<Rightarrow> slice \<Rightarrow> condition list \<Rightarrow>
   condition memory \<times> slice" where
  "AddStatusConditions_slice rt now n m conditions [] = (m, conditions)"
| "AddStatusConditions_slice rt now n m conditions (cond # newConditions) =
     (if time_IsZero (LastTransitionTime cond)
      then let (m', conditions') = append_slice rt m conditions [cond\<lparr>LastTransitionTime := now n\<rparr>]
           in AddStatusConditions_slice rt now (Suc n) m' conditions' newConditions
      else let (m', conditions') = append_slice rt m conditions [cond]
           in AddStatusConditions_slice rt now n m' conditions' newConditions)"

section \<open>One condition\<close>




section \<open>Sequences of updates\<close>


interpretation appends: window_keeping "\<lambda>x m s. append_slice rt m s [x]" "\<lambda>x xs. xs @ [x]" for rt
  by unfold_locales (simp_all add: append_slice_in_place append_slice_keeps append_slice_extends)




text \<open>The new conditions with the time at which each is added.\<close>

definition timed :: "(nat \<Rightarrow> time) \<Rightarrow> condition list \<Rightarrow> (time \<times> condition) list" where
  "timed now cs = zip (map now [0..<length cs]) cs"



definition example_conditions :: "condition go_runtime" where
  "example_conditions = \<lparr>growth = (\<lambda>c n. n), zero_value = zero_condition\<rparr>"


section \<open>Adding without a check\<close>

fun stamped :: "(nat \<Rightarrow> time) \<Rightarrow> nat \<Rightarrow> condition list \<Rightarrow> condition list" where
  "stamped now n [] = []"
| "stamped now n (c # cs) =
     (if time_IsZero (LastTransitionTime c) then c\<lparr>LastTransitionTime := now n\<rparr> # stamped now (Suc n) cs
      else c # stamped now n cs)"

lemma AddStatusConditions_stamped: "AddStatusConditions now n xs cs = fold (\<lambda>x xs. xs @ [x]) (stamped now n cs) xs"
  by (induction now n xs cs rule: AddStatusConditions.induct) simp_all

lemma AddStatusConditions_slice_run:
  "AddStatusConditions_slice rt now n m s cs = run_slices (\<lambda>x m s. append_slice rt m s [x]) (stamped now n cs) m s"
  by (induction rt now n m s cs rule: AddStatusConditions_slice.induct) (auto simp: Let_def split: prod.split)

theorem add_conditions_in_memory:
  assumes "slice_wf m s" and run: "AddStatusConditions_slice rt now n m s cs = (m', s')"
  shows "slice_contents m' s' = AddStatusConditions now n (slice_contents m s) cs \<and>
    (\<forall>t. held m s t \<longrightarrow> slice_contents m' t = slice_contents m t)"
  using appends.run_in_place [OF assms(1) run [unfolded AddStatusConditions_slice_run]]
    appends.run_keeps_held [OF assms(1) run [unfolded AddStatusConditions_slice_run]]
  by (simp add: in_place_def AddStatusConditions_stamped)

text \<open>What is kept is what the caller had, not what it got: a second slice made from the same one
  overwrites the first behind the window when the array has room.\<close>

definition example_kind :: "cond_type \<Rightarrow> condition" where
  "example_kind k =
     \<lparr>Type = k, Status = ConditionTrue, Reason = OtherReason '''', Message = '''', LastTransitionTime = 0, LastUpdatedTime = None\<rparr>"

theorem second_append_overwrites_first:
  "let m0 = \<lparr>arrays = [[zero_condition]]\<rparr>; empty = Slice 0 0 0 1;
       (m1, first, _) = addOrUpdateStatusConditions_slice example_conditions False (timed (\<lambda>i. 0) [example_kind (OtherConditionType ''A'')]) m0 empty;
       (m2, second, _) = addOrUpdateStatusConditions_slice example_conditions False (timed (\<lambda>i. 0) [example_kind (OtherConditionType ''B'')]) m1 empty
   in map Type (slice_contents m1 first) = [OtherConditionType ''A''] \<and> map Type (slice_contents m2 first) = [OtherConditionType ''B'']"
  by (simp add: timed_def addOrUpdateStatusCondition_slice_def example_kind_def write_array_def Let_def)

end
