(* ===== verification/ResourceCache.thy ===== *)
theory ResourceCache
  imports ApiTypes
begin

text \<open>
  \<open>pkg/client/resource_cache.go\<close>: the API resources of the cluster, fetched once. The
  discovery client is the argument \<open>discover\<close>: the answer to its \<open>i\<close>-th call, an
  error or the lists (\<open>None\<close> for a nil slice). The cache counts its calls
  (\<open>discoveryCalls\<close>), which the code does not keep but the model needs to ask for the
  next answer. \<open>schema.ParseGroupVersion\<close> is the argument \<open>parse_gv\<close>. The mutex of
  \<open>ensureResourceList\<close> makes it one step.
\<close>

section \<open>The cache\<close>

record api_resource =
  ar_Name :: string
  ar_Kind :: string
  Namespaced :: bool

record api_resource_list =
  GroupVersion :: string
  APIResources :: "api_resource list"

record resource_cache =
  resourceLists :: "api_resource_list list option"
  discoveryCalls :: nat

datatype gvr = GroupVersionResource (gvr_group: string) (gvr_version: string) (gvr_resource: string)
datatype gvk = GroupVersionKind (gvk_group: string) (gvk_version: string) (gvk_kind: string)

datatype 'e cache_error = DiscoveryError 'e | ParseAPIVersionError string 'e | ParseGroupVersionError string 'e

definition NewResourceCache :: resource_cache where
  "NewResourceCache = \<lparr>resourceLists = None, discoveryCalls = 0\<rparr>"

definition ensureResourceList ::
  "(nat \<Rightarrow> 'e + api_resource_list list option) \<Rightarrow> resource_cache \<Rightarrow> resource_cache \<times> 'e option" where
  "ensureResourceList discover rc =
     (case resourceLists rc of
        Some rls \<Rightarrow> (rc, None)
      | None \<Rightarrow>
          (let rc' = rc\<lparr>discoveryCalls := Suc (discoveryCalls rc)\<rparr>
           in case discover (discoveryCalls rc) of
                Inl err \<Rightarrow> (rc', Some err)
              | Inr rls \<Rightarrow> (rc'\<lparr>resourceLists := rls\<rparr>, None)))"

text \<open>A nil slice ranges over nothing.\<close>

definition cached_lists :: "resource_cache \<Rightarrow> api_resource_list list" where
  "cached_lists rc = (case resourceLists rc of None \<Rightarrow> [] | Some rls \<Rightarrow> rls)"

text \<open>The two nested loops of \<open>GVRForKind\<close>, which return at the first match.\<close>

fun scan_kind ::
  "api_resource_list list \<Rightarrow> string \<times> string \<Rightarrow> string \<Rightarrow> string \<Rightarrow> (gvr \<times> bool) option" where
  "scan_kind [] gv kind apiVersion = None"
| "scan_kind (resourceList # rls) gv kind apiVersion =
     (if GroupVersion resourceList = apiVersion
      then case List.find (\<lambda>r. ar_Kind r = kind) (APIResources resourceList) of
             Some r \<Rightarrow> Some (GroupVersionResource (fst gv) (snd gv) (ar_Name r), Namespaced r)
           | None \<Rightarrow> scan_kind rls gv kind apiVersion
      else scan_kind rls gv kind apiVersion)"

text \<open>The result is an error, or whether a resource was found and then its GVR and scope.\<close>

definition GVRForKind ::
  "(nat \<Rightarrow> 'e + api_resource_list list option) \<Rightarrow> (string \<Rightarrow> 'e + string \<times> string) \<Rightarrow>
   resource_cache \<Rightarrow> string \<Rightarrow> string \<Rightarrow> resource_cache \<times> ('e cache_error + (gvr \<times> bool) option)" where
  "GVRForKind discover parse_gv rc kind apiVersion =
     (let (rc', err) = ensureResourceList discover rc
      in case err of
           Some e \<Rightarrow> (rc', Inl (DiscoveryError e))
         | None \<Rightarrow>
             (case parse_gv apiVersion of
                Inl e \<Rightarrow> (rc', Inl (ParseAPIVersionError apiVersion e))
              | Inr gv \<Rightarrow> (rc', Inr (scan_kind (cached_lists rc') gv kind apiVersion))))"

fun scan_resource ::
  "(string \<Rightarrow> 'e + string \<times> string) \<Rightarrow> api_resource_list list \<Rightarrow> string \<Rightarrow> string \<Rightarrow>
   'e cache_error + gvk option" where
  "scan_resource parse_gv [] grp resource = Inr None"
| "scan_resource parse_gv (resourceList # rls) grp resource =
     (case parse_gv (GroupVersion resourceList) of
        Inl e \<Rightarrow> Inl (ParseGroupVersionError (GroupVersion resourceList) e)
      | Inr gv \<Rightarrow>
          if fst gv \<noteq> grp then scan_resource parse_gv rls grp resource
          else case List.find (\<lambda>r. ar_Name r = resource) (APIResources resourceList) of
                 Some r \<Rightarrow> Inr (Some (GroupVersionKind (fst gv) (snd gv) (ar_Kind r)))
               | None \<Rightarrow> scan_resource parse_gv rls grp resource)"

definition GVKForGR ::
  "(nat \<Rightarrow> 'e + api_resource_list list option) \<Rightarrow> (string \<Rightarrow> 'e + string \<times> string) \<Rightarrow>
   resource_cache \<Rightarrow> string \<Rightarrow> string \<Rightarrow> resource_cache \<times> ('e cache_error + gvk option)" where
  "GVKForGR discover parse_gv rc grp resource =
     (let (rc', err) = ensureResourceList discover rc
      in case err of
           Some e \<Rightarrow> (rc', Inl (DiscoveryError e))
         | None \<Rightarrow> (rc', scan_resource parse_gv (cached_lists rc') grp resource))"

section \<open>What the cache promises\<close>

text \<open>
  The contract of a lookup service with a cache behind it: when it is ready to answer from a
  table, it answers from the table and stays ready.
\<close>

locale lookup_service =
  fixes query :: "'c \<Rightarrow> 'k \<Rightarrow> 'c \<times> 'r"
    and ready :: "'t \<Rightarrow> 'c \<Rightarrow> bool"
    and answer :: "'t \<Rightarrow> 'k \<Rightarrow> 'r"
  assumes query_answer: "ready t c \<Longrightarrow> snd (query c k) = answer t k"
    and query_ready: "ready t c \<Longrightarrow> ready t (fst (query c k))"
begin

lemma query_pair: "ready t c \<Longrightarrow> \<exists>c'. query c k = (c', answer t k) \<and> ready t c'"
  using query_answer query_ready by (metis prod.collapse)

end


text \<open>
  The cache is ready to answer from \<open>rls\<close> when it holds them, or when it is empty and the
  next call of the discovery client will return them.
\<close>

definition cache_ready ::
  "(nat \<Rightarrow> 'e + api_resource_list list option) \<Rightarrow> api_resource_list list \<Rightarrow> resource_cache \<Rightarrow> bool" where
  "cache_ready discover rls rc \<longleftrightarrow>
     resourceLists rc = Some rls \<or>
     resourceLists rc = None \<and> discover (discoveryCalls rc) = Inr (Some rls)"

definition kind_answer ::
  "(string \<Rightarrow> 'e + string \<times> string) \<Rightarrow> api_resource_list list \<Rightarrow> string \<times> string \<Rightarrow>
   'e cache_error + (gvr \<times> bool) option" where
  "kind_answer parse_gv rls = (\<lambda>(kind, apiVersion).
     case parse_gv apiVersion of
       Inl e \<Rightarrow> Inl (ParseAPIVersionError apiVersion e)
     | Inr gv \<Rightarrow> Inr (scan_kind rls gv kind apiVersion))"

definition resource_answer ::
  "(string \<Rightarrow> 'e + string \<times> string) \<Rightarrow> api_resource_list list \<Rightarrow> string \<times> string \<Rightarrow>
   'e cache_error + gvk option" where
  "resource_answer parse_gv rls = (\<lambda>(grp, resource). scan_resource parse_gv rls grp resource)"

lemma ensureResourceList_ready:
  assumes "cache_ready discover rls rc"
  shows "\<exists>rc'. ensureResourceList discover rc = (rc', None) \<and> resourceLists rc' = Some rls"
  using assms by (auto simp: cache_ready_def ensureResourceList_def)

interpretation kinds: lookup_service "\<lambda>rc (kind, apiVersion). GVRForKind discover parse_gv rc kind apiVersion"
  "cache_ready discover" "kind_answer parse_gv"
  for discover :: "nat \<Rightarrow> 'e + api_resource_list list option" and parse_gv :: "string \<Rightarrow> 'e + string \<times> string"
proof
  fix t c and k :: "string \<times> string"
  assume "cache_ready discover t c"
  from ensureResourceList_ready [OF this] obtain rc' where
    "ensureResourceList discover c = (rc', None)" "resourceLists rc' = Some t" by blast
  then show "snd ((\<lambda>(kind, apiVersion). GVRForKind discover parse_gv c kind apiVersion) k) = kind_answer parse_gv t k"
    and "cache_ready discover t (fst ((\<lambda>(kind, apiVersion). GVRForKind discover parse_gv c kind apiVersion) k))"
    by (auto simp: GVRForKind_def kind_answer_def cached_lists_def cache_ready_def split: prod.splits sum.splits)
qed

interpretation resources: lookup_service "\<lambda>rc (grp, resource). GVKForGR discover parse_gv rc grp resource"
  "cache_ready discover" "resource_answer parse_gv"
  for discover :: "nat \<Rightarrow> 'e + api_resource_list list option" and parse_gv :: "string \<Rightarrow> 'e + string \<times> string"
proof
  fix t c and k :: "string \<times> string"
  assume "cache_ready discover t c"
  from ensureResourceList_ready [OF this] obtain rc' where
    "ensureResourceList discover c = (rc', None)" "resourceLists rc' = Some t" by blast
  then show "snd ((\<lambda>(grp, resource). GVKForGR discover parse_gv c grp resource) k) = resource_answer parse_gv t k"
    and "cache_ready discover t (fst ((\<lambda>(grp, resource). GVKForGR discover parse_gv c grp resource) k))"
    by (auto simp: GVKForGR_def resource_answer_def cached_lists_def cache_ready_def split: prod.splits)
qed




lemma scan_kind_Some_iff:
  "(\<exists>n. scan_kind rls gv kind apiVersion = Some n) \<longleftrightarrow>
   (\<exists>l\<in>set rls. GroupVersion l = apiVersion \<and> (\<exists>r\<in>set (APIResources l). ar_Kind r = kind))"
proof (induction rls)
  case Nil
  then show ?case by simp
next
  case (Cons l rls)
  have "List.find (\<lambda>r. ar_Kind r = kind) (APIResources l) = None \<longleftrightarrow> \<not> (\<exists>r\<in>set (APIResources l). ar_Kind r = kind)"
    by (auto simp: find_None_iff)
  with Cons.IH show ?case by (auto split: option.splits)
qed

lemma scan_kind_SomeD:
  "scan_kind rls gv kind apiVersion = Some (g, ns) \<Longrightarrow>
   \<exists>l\<in>set rls. \<exists>r\<in>set (APIResources l). GroupVersion l = apiVersion \<and> ar_Kind r = kind \<and>
     g = GroupVersionResource (fst gv) (snd gv) (ar_Name r) \<and> ns = Namespaced r"
  by (induction rls) (auto split: if_splits option.splits dest!: find_SomeD)

text \<open>All lists parse, and a group and resource name stand for one kind and version.\<close>

definition one_kind_per_resource ::
  "(string \<Rightarrow> 'e + string \<times> string) \<Rightarrow> api_resource_list list \<Rightarrow> bool" where
  "one_kind_per_resource parse_gv rls \<longleftrightarrow>
     (\<forall>l\<in>set rls. isl (parse_gv (GroupVersion l)) = False) \<and>
     (\<forall>l\<in>set rls. \<forall>m\<in>set rls. \<forall>r\<in>set (APIResources l). \<forall>q\<in>set (APIResources m).
        fst (projr (parse_gv (GroupVersion l))) = fst (projr (parse_gv (GroupVersion m))) \<longrightarrow>
        ar_Name r = ar_Name q \<longrightarrow>
        snd (projr (parse_gv (GroupVersion l))) = snd (projr (parse_gv (GroupVersion m))) \<and>
        ar_Kind r = ar_Kind q)"

lemma one_kind_per_resourceD:
  "\<lbrakk> one_kind_per_resource parse_gv rls; l \<in> set rls; m \<in> set rls; r \<in> set (APIResources l);
     q \<in> set (APIResources m);
     fst (projr (parse_gv (GroupVersion l))) = fst (projr (parse_gv (GroupVersion m))); ar_Name r = ar_Name q \<rbrakk> \<Longrightarrow>
   snd (projr (parse_gv (GroupVersion l))) = snd (projr (parse_gv (GroupVersion m))) \<and> ar_Kind r = ar_Kind q"
  unfolding one_kind_per_resource_def by blast

lemma scan_resource_finds:
  assumes "\<And>m. m \<in> set rls \<Longrightarrow> \<exists>gv. parse_gv (GroupVersion m) = Inr gv"
    and "\<And>m q. m \<in> set rls \<Longrightarrow> q \<in> set (APIResources m) \<Longrightarrow>
           fst (projr (parse_gv (GroupVersion m))) = grp \<Longrightarrow> ar_Name q = resource \<Longrightarrow>
           snd (projr (parse_gv (GroupVersion m))) = version \<and> ar_Kind q = kind"
    and "l \<in> set rls" and "r \<in> set (APIResources l)"
    and "fst (projr (parse_gv (GroupVersion l))) = grp" and "ar_Name r = resource"
  shows "scan_resource parse_gv rls grp resource = Inr (Some (GroupVersionKind grp version kind))"
  using assms
proof (induction rls)
  case Nil
  then show ?case by simp
next
  case (Cons m rls)
  obtain gv where gv: "parse_gv (GroupVersion m) = Inr gv" using Cons.prems(1) [of m] by auto
  show ?case
  proof (cases "fst gv = grp \<and> (\<exists>q\<in>set (APIResources m). ar_Name q = resource)")
    case True
    then obtain q where q: "List.find (\<lambda>r. ar_Name r = resource) (APIResources m) = Some q"
      by (metis (mono_tags, lifting) find_None_iff option.exhaust)
    then have "q \<in> set (APIResources m)" "ar_Name q = resource" by (auto dest: find_SomeD)
    with Cons.prems(2) [of m q] gv True have "snd gv = version" "ar_Kind q = kind" by auto
    with gv q True show ?thesis by simp
  next
    case False
    then have other: "l \<noteq> m" using Cons.prems(4-6) gv by auto
    have "fst gv = grp \<Longrightarrow> List.find (\<lambda>r. ar_Name r = resource) (APIResources m) = None"
      using False by (auto simp: find_None_iff)
    moreover have "scan_resource parse_gv rls grp resource = Inr (Some (GroupVersionKind grp version kind))"
      using Cons.prems other by (intro Cons.IH) auto
    ultimately show ?thesis using gv by auto
  qed
qed

section \<open>Properties\<close>



text \<open>A failed discovery is not cached: the error is returned, the cache stays empty, and the
  next lookup asks the discovery client again.\<close>

theorem failed_discovery_is_retried:
  assumes "resourceLists rc = None" and "discover (discoveryCalls rc) = Inl e"
    and "discover (Suc (discoveryCalls rc)) = Inr (Some rls)"
  shows "\<exists>rc'. GVRForKind discover parse_gv rc kind apiVersion = (rc', Inl (DiscoveryError e)) \<and>
           resourceLists rc' = None \<and>
           snd (GVRForKind discover parse_gv rc' kind2 apiVersion2) = kind_answer parse_gv rls (kind2, apiVersion2)"
proof -
  define rc' where "rc' = rc\<lparr>discoveryCalls := Suc (discoveryCalls rc)\<rparr>"
  have "cache_ready discover rls rc'" using assms by (simp add: rc'_def cache_ready_def)
  from kinds.query_answer [OF this, of parse_gv "(kind2, apiVersion2)"]
  have "snd (GVRForKind discover parse_gv rc' kind2 apiVersion2) = kind_answer parse_gv rls (kind2, apiVersion2)"
    by simp
  moreover have "GVRForKind discover parse_gv rc kind apiVersion = (rc', Inl (DiscoveryError e))"
    using assms(1,2) by (simp add: GVRForKind_def ensureResourceList_def rc'_def)
  ultimately show ?thesis using assms(1) by (auto simp: rc'_def)
qed

theorem failed_discovery_is_retried_witness:
  "\<exists>rc'. GVRForKind (\<lambda>i. if i = 0 then Inl ''timeout'' else Inr (Some []))
          (\<lambda>s. Inr ('''', s)) NewResourceCache ''Pod'' ''v1'' = (rc', Inl (DiscoveryError ''timeout'')) \<and>
     resourceLists rc' = None"
proof -
  have "\<exists>rc'. GVRForKind (\<lambda>i. if i = 0 then Inl ''timeout'' else Inr (Some []))
          (\<lambda>s. Inr ('''', s)) NewResourceCache ''Pod'' ''v1'' = (rc', Inl (DiscoveryError ''timeout'')) \<and>
     resourceLists rc' = None \<and>
     snd (GVRForKind (\<lambda>i. if i = 0 then Inl ''timeout'' else Inr (Some [])) (\<lambda>s. Inr ('''', s)) rc' ''Pod'' ''v1'')
       = kind_answer (\<lambda>s. Inr ('''', s)) [] (''Pod'', ''v1'')"
    by (rule failed_discovery_is_retried) (simp_all add: NewResourceCache_def)
  then show ?thesis by blast
qed

text \<open>\<open>GVKForGR\<close> goes back from where \<open>GVRForKind\<close> went: with one kind and version
  per group and resource name, looking up the group and resource found for a kind and version
  gives that kind, in the group and version its API version parses to.\<close>

theorem gvr_gvk_roundtrip:
  assumes "cache_ready discover rls rc" and "one_kind_per_resource parse_gv rls"
    and "GVRForKind discover parse_gv rc kind apiVersion = (rc', Inr (Some (gvr, namespaced)))"
  shows "snd (GVKForGR discover parse_gv rc' (gvr_group gvr) (gvr_resource gvr)) =
           Inr (Some (GroupVersionKind (gvr_group gvr) (gvr_version gvr) kind))"
proof -
  have ready: "cache_ready discover rls rc'"
    and "kind_answer parse_gv rls (kind, apiVersion) = Inr (Some (gvr, namespaced))"
    using kinds.query_answer [OF assms(1), of parse_gv "(kind, apiVersion)"]
      kinds.query_ready [OF assms(1), of parse_gv "(kind, apiVersion)"] assms(3) by auto
  then obtain gv where gv: "parse_gv apiVersion = Inr gv" "scan_kind rls gv kind apiVersion = Some (gvr, namespaced)"
    by (auto simp: kind_answer_def split: sum.splits)
  from scan_kind_SomeD [OF gv(2)] obtain l r where lr: "l \<in> set rls" "r \<in> set (APIResources l)"
    "GroupVersion l = apiVersion" "ar_Kind r = kind" "gvr = GroupVersionResource (fst gv) (snd gv) (ar_Name r)" by blast
  have "scan_resource parse_gv rls (fst gv) (ar_Name r) = Inr (Some (GroupVersionKind (fst gv) (snd gv) kind))"
  proof (rule scan_resource_finds [where l = l and r = r])
    show "\<exists>gv. parse_gv (GroupVersion m) = Inr gv" if "m \<in> set rls" for m
      using assms(2) that by (cases "parse_gv (GroupVersion m)") (auto simp: one_kind_per_resource_def)
    show "snd (projr (parse_gv (GroupVersion m))) = snd gv \<and> ar_Kind q = kind"
      if "m \<in> set rls" "q \<in> set (APIResources m)" "fst (projr (parse_gv (GroupVersion m))) = fst gv"
        "ar_Name q = ar_Name r" for m q
      using one_kind_per_resourceD [OF assms(2) that(1) lr(1) that(2) lr(2)] that lr gv(1) by simp
  qed (use lr gv(1) in simp_all)
  then show ?thesis
    using resources.query_answer [OF ready, of parse_gv "(fst gv, ar_Name r)"] lr(5)
    by (simp add: resource_answer_def)
qed

theorem gvr_gvk_roundtrip_witness:
  "snd (GVKForGR (\<lambda>i. Inl ''unused'') (\<lambda>s. Inr (''apps'', ''v1''))
      \<lparr>resourceLists = Some [\<lparr>GroupVersion = ''apps/v1'',
            APIResources = [\<lparr>ar_Name = ''deployments'', ar_Kind = ''Deployment'', Namespaced = True\<rparr>]\<rparr>],
         discoveryCalls = 1\<rparr> ''apps'' ''deployments'') =
      Inr (Some (GroupVersionKind ''apps'' ''v1'' ''Deployment''))"
proof -
  let ?rls = "[\<lparr>GroupVersion = ''apps/v1'',
            APIResources = [\<lparr>ar_Name = ''deployments'', ar_Kind = ''Deployment'', Namespaced = True\<rparr>]\<rparr>]"
  let ?rc = "\<lparr>resourceLists = Some ?rls, discoveryCalls = 1\<rparr>"
  let ?gvr = "GroupVersionResource ''apps'' ''v1'' ''deployments''"
  have "snd (GVKForGR (\<lambda>i. Inl ''unused'') (\<lambda>s. Inr (''apps'', ''v1'')) ?rc (gvr_group ?gvr) (gvr_resource ?gvr)) =
      Inr (Some (GroupVersionKind (gvr_group ?gvr) (gvr_version ?gvr) ''Deployment''))"
    by (rule gvr_gvk_roundtrip [where rls = ?rls and rc = ?rc and apiVersion = "''apps/v1''" and namespaced = True])
       (simp_all add: cache_ready_def one_kind_per_resource_def GVRForKind_def ensureResourceList_def cached_lists_def)
  then show ?thesis by simp
qed

end
