(* ===== verification/Owners.thy ===== *)
theory Owners
  imports ResourceCache
begin

text \<open>
  \<open>pkg/owners/fetcher.go\<close>: the chain of owners of an object. \<open>lookup\<close> is the
  resource cache's \<open>GVRForKind\<close> with its state, \<open>fetch\<close> the dynamic client's
  \<open>Get\<close>: the resource, the namespace (\<open>None\<close> for a cluster-scoped resource) and the
  name give the object or an error. The recursion has no guard of its own, so
  \<open>GetOwners\<close> is a \<^theory_text>\<open>partial_function\<close> in \<open>option\<close>. A nil slice
  of owners is \<open>[]\<close>.
\<close>

section \<open>The fetcher\<close>

record owner_ref =
  or_APIVersion :: string
  or_Kind :: string
  or_Name :: string
  Controller :: "bool option"

record k8s_object =
  ko_Namespace :: string
  ko_Name :: string
  OwnerReferences :: "owner_ref list"

definition zero_owner_ref :: owner_ref where
  "zero_owner_ref = \<lparr>or_APIVersion = '''', or_Kind = '''', or_Name = '''', Controller = None\<rparr>"

text \<open>The loop over the references: the controller, and the first other owner before it.\<close>

fun scan_owners :: "owner_ref list \<Rightarrow> owner_ref \<Rightarrow> owner_ref \<times> owner_ref" where
  "scan_owners [] nonControllerOwner = (zero_owner_ref, nonControllerOwner)"
| "scan_owners (ownerRef # owners) nonControllerOwner =
     (if Controller ownerRef = Some True then (ownerRef, nonControllerOwner)
      else if or_Name nonControllerOwner = '''' then scan_owners owners ownerRef
      else scan_owners owners nonControllerOwner)"

definition preferred_owner :: "owner_ref list \<Rightarrow> owner_ref" where
  "preferred_owner owners =
     (let (ownerReference, nonControllerOwner) = scan_owners owners zero_owner_ref
      in if or_Name ownerReference = '''' then nonControllerOwner else ownerReference)"

datatype ('x, 'e) owner_error =
    LookupError 'x
  | NoResourceFound string string
  | FetchError gvr "string option" string 'e

partial_function (option) GetOwners ::
  "('c \<Rightarrow> string \<times> string \<Rightarrow> 'c \<times> ('x + (gvr \<times> bool) option)) \<Rightarrow>
   (gvr \<Rightarrow> string option \<Rightarrow> string \<Rightarrow> 'e + k8s_object) \<Rightarrow> 'c \<Rightarrow> k8s_object \<Rightarrow>
   ('c \<times> (k8s_object \<times> gvr) list \<times> ('x, 'e) owner_error option) option" where
  "GetOwners lookup fetch c obj =
     (let ownerReference = preferred_owner (OwnerReferences obj)
      in if or_Name ownerReference = '''' then Some (c, [], None)
         else let (c', answer) = lookup c (or_Kind ownerReference, or_APIVersion ownerReference)
              in case answer of
                   Inl err \<Rightarrow> Some (c', [], Some (LookupError err))
                 | Inr None \<Rightarrow>
                     Some (c', [], Some (NoResourceFound (or_Kind ownerReference) (or_APIVersion ownerReference)))
                 | Inr (Some (gvr, namespaced)) \<Rightarrow>
                     (let ns = (if namespaced then Some (ko_Namespace obj) else None)
                      in case fetch gvr ns (or_Name ownerReference) of
                           Inl err \<Rightarrow> Some (c', [], Some (FetchError gvr ns (or_Name ownerReference) err))
                         | Inr ownerObject \<Rightarrow>
                             Option.bind (GetOwners lookup fetch c' ownerObject)
                               (\<lambda>(c'', ownerOwners, err). Some (c'', ownerOwners @ [(ownerObject, gvr)], err))))"

section \<open>The chain of owners\<close>

text \<open>
  What the fetcher is to compute, from the table of resources and the cluster alone: the
  owners from the top one to the immediate one, and the error the walk ends with, if any.
\<close>

inductive owner_chain ::
  "(string \<times> string \<Rightarrow> 'x + (gvr \<times> bool) option) \<Rightarrow> (gvr \<Rightarrow> string option \<Rightarrow> string \<Rightarrow> 'e + k8s_object) \<Rightarrow>
   k8s_object \<Rightarrow> (k8s_object \<times> gvr) list \<Rightarrow> ('x, 'e) owner_error option \<Rightarrow> bool" for table fetch where
  no_owner: "or_Name (preferred_owner (OwnerReferences obj)) = '''' \<Longrightarrow> owner_chain table fetch obj [] None"
| lookup_error: "\<lbrakk> ref = preferred_owner (OwnerReferences obj); or_Name ref \<noteq> '''';
     table (or_Kind ref, or_APIVersion ref) = Inl err \<rbrakk> \<Longrightarrow>
     owner_chain table fetch obj [] (Some (LookupError err))"
| no_resource: "\<lbrakk> ref = preferred_owner (OwnerReferences obj); or_Name ref \<noteq> '''';
     table (or_Kind ref, or_APIVersion ref) = Inr None \<rbrakk> \<Longrightarrow>
     owner_chain table fetch obj [] (Some (NoResourceFound (or_Kind ref) (or_APIVersion ref)))"
| fetch_error: "\<lbrakk> ref = preferred_owner (OwnerReferences obj); or_Name ref \<noteq> '''';
     table (or_Kind ref, or_APIVersion ref) = Inr (Some (gvr, namespaced));
     ns = (if namespaced then Some (ko_Namespace obj) else None);
     fetch gvr ns (or_Name ref) = Inl err \<rbrakk> \<Longrightarrow>
     owner_chain table fetch obj [] (Some (FetchError gvr ns (or_Name ref) err))"
| owner: "\<lbrakk> ref = preferred_owner (OwnerReferences obj); or_Name ref \<noteq> '''';
     table (or_Kind ref, or_APIVersion ref) = Inr (Some (gvr, namespaced));
     fetch gvr (if namespaced then Some (ko_Namespace obj) else None) (or_Name ref) = Inr ownerObject;
     owner_chain table fetch ownerObject owners err \<rbrakk> \<Longrightarrow>
     owner_chain table fetch obj (owners @ [(ownerObject, gvr)]) err"

lemmas owner_chain_intros = owner_chain.no_owner owner_chain.lookup_error owner_chain.no_resource
  owner_chain.fetch_error [where namespaced = True, OF refl, simplified]
  owner_chain.fetch_error [where namespaced = False, OF refl, simplified]
  owner_chain.owner [where namespaced = True, OF refl, simplified]
  owner_chain.owner [where namespaced = False, OF refl, simplified]

text \<open>The owner fetcher is a client of the lookup service of the resource cache.\<close>

locale owner_lookup = lookup_service query ready answer
  for query :: "'c \<Rightarrow> string \<times> string \<Rightarrow> 'c \<times> ('x + (gvr \<times> bool) option)"
    and ready :: "'t \<Rightarrow> 'c \<Rightarrow> bool"
    and answer :: "'t \<Rightarrow> string \<times> string \<Rightarrow> 'x + (gvr \<times> bool) option"
begin

lemma GetOwners_complete:
  assumes "owner_chain (answer t) fetch obj owners err" and "ready t c"
  shows "\<exists>c'. GetOwners query fetch c obj = Some (c', owners, err) \<and> ready t c'"
  using assms
proof (induction arbitrary: c rule: owner_chain.induct)
  case (no_owner obj)
  then show ?case by (subst GetOwners.simps) simp
next
  case (lookup_error ref obj err)
  with query_pair [of t c "(or_Kind ref, or_APIVersion ref)"] show ?case
    by (subst GetOwners.simps) auto
next
  case (no_resource ref obj)
  with query_pair [of t c "(or_Kind ref, or_APIVersion ref)"] show ?case
    by (subst GetOwners.simps) (auto simp: Let_def)
next
  case (fetch_error ref obj gvr namespaced ns err)
  with query_pair [of t c "(or_Kind ref, or_APIVersion ref)"] show ?case
    by (subst GetOwners.simps) auto
next
  case (owner ref obj gvr namespaced ownerObject owners err)
  obtain c' where c': "query c (or_Kind ref, or_APIVersion ref) = (c', Inr (Some (gvr, namespaced)))" "ready t c'"
    using query_pair [OF owner.prems, of "(or_Kind ref, or_APIVersion ref)"] owner.hyps(3) by auto
  from owner.IH [OF this(2)] obtain c'' where
    "GetOwners query fetch c' ownerObject = Some (c'', owners, err)" "ready t c''" by blast
  with owner.hyps c'(1) show ?case by (subst GetOwners.simps) (simp add: Let_def)
qed

lemma GetOwners_sound:
  assumes "GetOwners query fetch c obj = Some r" and "ready t c"
  shows "owner_chain (answer t) fetch obj (fst (snd r)) (snd (snd r)) \<and> ready t (fst r)"
proof -
  have "l = query \<longrightarrow> g = fetch \<longrightarrow> ready t c \<longrightarrow>
      owner_chain (answer t) fetch obj (fst (snd r)) (snd (snd r)) \<and> ready t (fst r)"
    if "GetOwners l g c obj = Some r" for l g c r and obj :: k8s_object
    using that
  proof (rule GetOwners.raw_induct [rotated 1])
    fix f l g c r and obj :: k8s_object
    assume IH: "\<And>l g c (obj :: k8s_object) r. f l g c obj = Some r \<Longrightarrow> l = query \<longrightarrow> g = fetch \<longrightarrow> ready t c \<longrightarrow>
        owner_chain (answer t) fetch obj (fst (snd r)) (snd (snd r)) \<and> ready t (fst r)"
      and eq: "(let ownerReference = preferred_owner (OwnerReferences obj)
        in if or_Name ownerReference = '''' then Some (c, [], None)
         else let (c', answer) = l c (or_Kind ownerReference, or_APIVersion ownerReference)
              in case answer of
                   Inl err \<Rightarrow> Some (c', [], Some (LookupError err))
                 | Inr None \<Rightarrow>
                     Some (c', [], Some (NoResourceFound (or_Kind ownerReference) (or_APIVersion ownerReference)))
                 | Inr (Some (gvr, namespaced)) \<Rightarrow>
                     (let ns = (if namespaced then Some (ko_Namespace obj) else None)
                      in case g gvr ns (or_Name ownerReference) of
                           Inl err \<Rightarrow> Some (c', [], Some (FetchError gvr ns (or_Name ownerReference) err))
                         | Inr ownerObject \<Rightarrow>
                             Option.bind (f l g c' ownerObject)
                               (\<lambda>(c'', ownerOwners, err). Some (c'', ownerOwners @ [(ownerObject, gvr)], err)))) = Some r"
    show "l = query \<longrightarrow> g = fetch \<longrightarrow> ready t c \<longrightarrow>
        owner_chain (answer t) fetch obj (fst (snd r)) (snd (snd r)) \<and> ready t (fst r)"
    proof (intro impI)
      assume lg: "l = query" "g = fetch" and ready: "ready t c"
      let ?ref = "preferred_owner (OwnerReferences obj)"
      obtain c' where c': "query c (or_Kind ?ref, or_APIVersion ?ref) =
          (c', answer t (or_Kind ?ref, or_APIVersion ?ref))" "ready t c'"
        using query_pair [OF ready] by blast
      show "owner_chain (answer t) fetch obj (fst (snd r)) (snd (snd r)) \<and> ready t (fst r)"
        using eq lg ready c'
        by (auto simp: Let_def bind_eq_Some_conv split: if_splits sum.splits option.splits prod.splits
            intro: owner_chain_intros dest!: IH [THEN mp, THEN mp, THEN mp, OF _ refl refl])
    qed
  qed
  with assms show ?thesis by blast
qed

end

interpretation owners: owner_lookup
  "\<lambda>rc (kind, apiVersion). GVRForKind discover parse_gv rc kind apiVersion"
  "cache_ready discover" "kind_answer parse_gv"
  for discover :: "nat \<Rightarrow> 'e + api_resource_list list option" and parse_gv :: "string \<Rightarrow> 'e + string \<times> string"
  by unfold_locales

lemma scan_owners_named:
  "list_all (\<lambda>r. or_Name r \<noteq> '''') refs \<Longrightarrow>
   scan_owners refs nc =
     (case List.find (\<lambda>r. Controller r = Some True) refs of
        Some r \<Rightarrow> r | None \<Rightarrow> zero_owner_ref,
      if or_Name nc = ''''
      then (case takeWhile (\<lambda>r. Controller r \<noteq> Some True) refs of [] \<Rightarrow> nc | r # _ \<Rightarrow> r) else nc)"
  by (induction refs nc rule: scan_owners.induct) auto

section \<open>Properties\<close>

text \<open>The fetcher over the resource cache of \<open>pkg/client\<close>.\<close>

record 'e owner_fetcher =
  resourceCache :: resource_cache
  dynamicClient :: "gvr \<Rightarrow> string option \<Rightarrow> string \<Rightarrow> 'e + k8s_object"

definition NewOwnerFetcherWithCache ::
  "(gvr \<Rightarrow> string option \<Rightarrow> string \<Rightarrow> 'e + k8s_object) \<Rightarrow> resource_cache \<Rightarrow> 'e owner_fetcher" where
  "NewOwnerFetcherWithCache dynamic_client rc = \<lparr>resourceCache = rc, dynamicClient = dynamic_client\<rparr>"

definition NewOwnerFetcher :: "(gvr \<Rightarrow> string option \<Rightarrow> string \<Rightarrow> 'e + k8s_object) \<Rightarrow> 'e owner_fetcher" where
  "NewOwnerFetcher dynamic_client = NewOwnerFetcherWithCache dynamic_client NewResourceCache"

definition OwnerFetcher_GetOwners ::
  "(nat \<Rightarrow> 'e + api_resource_list list option) \<Rightarrow> (string \<Rightarrow> 'e + string \<times> string) \<Rightarrow>
   'e owner_fetcher \<Rightarrow> k8s_object \<Rightarrow>
   ('e owner_fetcher \<times> (k8s_object \<times> gvr) list \<times> ('e cache_error, 'e) owner_error option) option" where
  "OwnerFetcher_GetOwners discover parse_gv f obj =
     map_option (\<lambda>(rc, owners, err). (f\<lparr>resourceCache := rc\<rparr>, owners, err))
       (GetOwners (\<lambda>rc (kind, apiVersion). GVRForKind discover parse_gv rc kind apiVersion)
          (dynamicClient f) (resourceCache f) obj)"

text \<open>C21: With a resource cache that is ready to answer, the fetcher returns exactly the chain of
  owners, from the top-level owner to the immediate one, together with the error the walk ends
  with; it returns if and only if the chain is finite. The fetcher is then ready for the next
  object, with the same table of resources.\<close>

theorem get_owners_is_owner_chain:
  assumes "cache_ready discover rls (resourceCache f)"
  shows "((\<exists>rc'. OwnerFetcher_GetOwners discover parse_gv f obj = Some (f\<lparr>resourceCache := rc'\<rparr>, owners, err) \<and>
             cache_ready discover rls rc') \<longleftrightarrow>
          owner_chain (kind_answer parse_gv rls) (dynamicClient f) obj owners err) \<and>
         (OwnerFetcher_GetOwners discover parse_gv f obj = None \<longleftrightarrow>
            (\<nexists>owners err. owner_chain (kind_answer parse_gv rls) (dynamicClient f) obj owners err))"
proof -
  note fetcher = OwnerFetcher_GetOwners_def [of discover parse_gv f obj]
  have complete: "\<exists>rc'. OwnerFetcher_GetOwners discover parse_gv f obj = Some (f\<lparr>resourceCache := rc'\<rparr>, owners, err) \<and>
      cache_ready discover rls rc'"
    if "owner_chain (kind_answer parse_gv rls) (dynamicClient f) obj owners err" for owners err
    using owners.GetOwners_complete [OF that assms] fetcher by auto
  moreover have "owner_chain (kind_answer parse_gv rls) (dynamicClient f) obj (fst (snd r)) (snd (snd r))"
    if "OwnerFetcher_GetOwners discover parse_gv f obj = Some r" for r
    using owners.GetOwners_sound [OF _ assms, of parse_gv "dynamicClient f" obj] that fetcher
    by (fastforce split: prod.splits)
  ultimately show ?thesis by (metis fst_conv not_Some_eq option.distinct(1) snd_conv)
qed

theorem get_owners_is_owner_chain_witness:
  "\<exists>f'. OwnerFetcher_GetOwners (\<lambda>i. Inr (Some [\<lparr>GroupVersion = ''v1'',
        APIResources = [\<lparr>ar_Name = ''pods'', ar_Kind = ''Pod'', Namespaced = True\<rparr>]\<rparr>]))
      (\<lambda>s. Inr ('''', ''v1''))
      (NewOwnerFetcher (\<lambda>gvr ns n. if n = ''pod'' then Inr \<lparr>ko_Namespace = ''ns'', ko_Name = ''pod'', OwnerReferences = []\<rparr>
        else Inl ''not found''))
      \<lparr>ko_Namespace = ''ns'', ko_Name = ''cm'', OwnerReferences =
         [\<lparr>or_APIVersion = ''v1'', or_Kind = ''Pod'', or_Name = ''pod'', Controller = Some True\<rparr>]\<rparr>
    = Some (f', [(\<lparr>ko_Namespace = ''ns'', ko_Name = ''pod'', OwnerReferences = []\<rparr>,
                  GroupVersionResource '''' ''v1'' ''pods'')], None)"
  (is "\<exists>f'. OwnerFetcher_GetOwners ?discover ?parse (NewOwnerFetcher ?fetch) ?obj = Some (f', [(?pod, ?gvr)], None)")
proof -
  let ?rls = "[\<lparr>GroupVersion = ''v1'', APIResources = [\<lparr>ar_Name = ''pods'', ar_Kind = ''Pod'', Namespaced = True\<rparr>]\<rparr>]"
  have ready: "cache_ready ?discover ?rls (resourceCache (NewOwnerFetcher ?fetch))"
    and client: "dynamicClient (NewOwnerFetcher ?fetch) = ?fetch"
    by (simp_all add: cache_ready_def NewResourceCache_def NewOwnerFetcher_def NewOwnerFetcherWithCache_def)
  have "owner_chain (kind_answer ?parse ?rls) ?fetch ?pod [] None"
    by (rule owner_chain.no_owner) (simp add: preferred_owner_def zero_owner_ref_def)
  then have "owner_chain (kind_answer ?parse ?rls) ?fetch ?obj ([] @ [(?pod, ?gvr)]) None"
    by (rule owner_chain.owner [where namespaced = True, OF refl, rotated 3])
       (simp_all add: preferred_owner_def kind_answer_def)
  then have "owner_chain (kind_answer ?parse ?rls) (dynamicClient (NewOwnerFetcher ?fetch)) ?obj [(?pod, ?gvr)] None"
    by (simp add: client)
  with get_owners_is_owner_chain [OF ready, THEN conjunct1, THEN iffD2] show ?thesis by blast
qed

text \<open>The immediate owner is the controller when the object has one, else its first owner.\<close>

theorem controller_owner_preferred:
  assumes "list_all (\<lambda>r. or_Name r \<noteq> '''') refs"
  shows "preferred_owner refs =
     (case List.find (\<lambda>r. Controller r = Some True) refs of
        Some r \<Rightarrow> r
      | None \<Rightarrow> (case refs of [] \<Rightarrow> zero_owner_ref | r # _ \<Rightarrow> r))"
proof (cases "List.find (\<lambda>r. Controller r = Some True) refs")
  case None
  then have all: "takeWhile (\<lambda>r. Controller r \<noteq> Some True) refs = refs"
    by (auto simp: find_None_iff takeWhile_eq_all_conv)
  have "scan_owners refs zero_owner_ref = (zero_owner_ref, case refs of [] \<Rightarrow> zero_owner_ref | r # _ \<Rightarrow> r)"
    unfolding scan_owners_named [OF assms] None all by (simp add: zero_owner_ref_def)
  with None show ?thesis by (simp add: preferred_owner_def zero_owner_ref_def)
next
  case (Some r)
  then have "or_Name r \<noteq> ''''" using assms by (auto dest!: find_SomeD simp: list_all_iff)
  with Some show ?thesis
    using scan_owners_named [OF assms, of zero_owner_ref] by (simp add: preferred_owner_def)
qed

theorem controller_owner_preferred_witness:
  "preferred_owner [\<lparr>or_APIVersion = ''v1'', or_Kind = ''ConfigMap'', or_Name = ''cm'', Controller = None\<rparr>,
     \<lparr>or_APIVersion = ''apps/v1'', or_Kind = ''ReplicaSet'', or_Name = ''rs'', Controller = Some True\<rparr>] =
   \<lparr>or_APIVersion = ''apps/v1'', or_Kind = ''ReplicaSet'', or_Name = ''rs'', Controller = Some True\<rparr>"
  by (subst controller_owner_preferred) simp_all

text \<open>A cycle of owners is never left: if the preferred owner of every object of a set is an
  object of the set, the fetcher does not return on any of them.\<close>

theorem get_owners_cycle:
  assumes "cache_ready discover rls (resourceCache f)" and "obj \<in> S"
    and "\<And>x. x \<in> S \<Longrightarrow> \<exists>gvr namespaced owner.
           or_Name (preferred_owner (OwnerReferences x)) \<noteq> '''' \<and>
           kind_answer parse_gv rls (or_Kind (preferred_owner (OwnerReferences x)),
             or_APIVersion (preferred_owner (OwnerReferences x))) = Inr (Some (gvr, namespaced)) \<and>
           dynamicClient f gvr (if namespaced then Some (ko_Namespace x) else None)
             (or_Name (preferred_owner (OwnerReferences x))) = Inr owner \<and> owner \<in> S"
  shows "OwnerFetcher_GetOwners discover parse_gv f obj = None"
proof -
  have "owner_chain (kind_answer parse_gv rls) (dynamicClient f) x owners err \<Longrightarrow> x \<notin> S" for x owners err
  proof (induction rule: owner_chain.induct)
    case (fetch_error ref x gvr namespaced ns err)
    with assms(3) [of x] show ?case by (auto split: if_splits)
  next
    case (owner ref x gvr namespaced ownerObject owners err)
    with assms(3) [of x] show ?case by auto
  qed (use assms(3) in fastforce)+
  with assms(2) have "\<nexists>owners err. owner_chain (kind_answer parse_gv rls) (dynamicClient f) obj owners err" by blast
  with owners.GetOwners_sound [OF _ assms(1), of parse_gv "dynamicClient f" obj] show ?thesis
    unfolding OwnerFetcher_GetOwners_def option.map_disc_iff by (metis not_Some_eq)
qed

theorem get_owners_cycle_witness:
  "OwnerFetcher_GetOwners (\<lambda>i. Inl ''unused'') (\<lambda>s. Inr ('''', ''v1''))
     (NewOwnerFetcherWithCache
       (\<lambda>gvr ns n. Inr \<lparr>ko_Namespace = ''ns'', ko_Name = n,
          OwnerReferences = [\<lparr>or_APIVersion = ''v1'', or_Kind = ''Pod'', or_Name = n, Controller = Some True\<rparr>]\<rparr>)
       \<lparr>resourceLists = Some [\<lparr>GroupVersion = ''v1'',
          APIResources = [\<lparr>ar_Name = ''pods'', ar_Kind = ''Pod'', Namespaced = True\<rparr>]\<rparr>], discoveryCalls = 1\<rparr>)
     \<lparr>ko_Namespace = ''ns'', ko_Name = ''self'',
        OwnerReferences = [\<lparr>or_APIVersion = ''v1'', or_Kind = ''Pod'', or_Name = ''self'', Controller = Some True\<rparr>]\<rparr>
   = None"
  by (rule get_owners_cycle [where S = "{\<lparr>ko_Namespace = ''ns'', ko_Name = ''self'', OwnerReferences =
        [\<lparr>or_APIVersion = ''v1'', or_Kind = ''Pod'', or_Name = ''self'', Controller = Some True\<rparr>]\<rparr>}"
      and rls = "[\<lparr>GroupVersion = ''v1'', APIResources = [\<lparr>ar_Name = ''pods'', ar_Kind = ''Pod'', Namespaced = True\<rparr>]\<rparr>]"])
     (auto simp: cache_ready_def preferred_owner_def kind_answer_def NewOwnerFetcherWithCache_def)

end
