(* ===== verification/ClusterCache.thy ===== *)
theory ClusterCache
  imports Conditions
begin

text \<open>
  \<open>pkg/cluster\<close>: the cache of the connected clusters (\<open>cache.go\<close>) and the service
  that fills it (\<open>service.go\<close>). The state is the package variable \<open>clusterCache\<close>:
  its map and whether a refresh function is installed, and beside them how many clients were
  created (so that a new client is told from a reused one) and the trace of the lock
  operations and map accesses. What the Kubernetes client, clientcmd and the constructor of
  clients answer is the record \<open>kube_env\<close>, which may differ from one operation to the
  next.
\<close>

section \<open>Data\<close>

record toolchain_cluster_status =
  st_APIEndpoint :: string
  st_OperatorNamespace :: string
  Conditions :: "condition list"

record toolchain_cluster =
  tc_Name :: string
  tc_Namespace :: string
  SecretRefName :: string
  tc_Labels :: labels
  tc_Status :: toolchain_cluster_status

text \<open>\<open>rest.Config\<close>; the fields the code does not touch are one value.\<close>

record rest_config =
  Host :: string
  Timeout :: int
  OtherRest :: string

record cluster_config =
  RestConfig :: rest_config
  Name :: string
  APIEndpoint :: string
  OperatorNamespace :: string
  OwnerClusterName :: string
  Labels :: labels

record 'cl cached_cluster =
  Config :: cluster_config
  Client :: "'cl option"
  ClusterStatus :: toolchain_cluster_status

datatype lock_event = RLock | RUnlock | Lock | Unlock | ReadMap | WriteMap

record 'cl cluster_cache =
  clusters :: "(string, 'cl cached_cluster) gomap"
  hasRefreshCache :: bool
  clientsCreated :: nat
  lockTrace :: "lock_event list"

text \<open>
  What the code asks of the cluster and of the libraries: \<open>Get\<close> of a Secret's data and
  \<open>List\<close> of the Kubernetes client, the three calls of \<open>clientcmd\<close>,
  \<open>apis.AddToScheme\<close> and controller-runtime's \<open>client.New\<close>. A constructor of
  clients gets the number of clients created so far, so that two calls may return
  different clients; a client may be nil.
\<close>

record ('e, 'k, 'cl) kube_env =
  env_getSecret :: "nsname \<Rightarrow> 'e + (string, string) gomap"
  env_list :: "string \<Rightarrow> toolchain_cluster list \<times> 'e option"
  env_Load :: "string \<Rightarrow> 'e + 'k"
  env_ClientConfig :: "'k \<Rightarrow> 'e + rest_config"
  env_Namespace :: "'k \<Rightarrow> 'e + string"
  env_AddToScheme :: "'e option"
  env_clientNew :: "nat \<Rightarrow> rest_config \<Rightarrow> 'e + 'cl option"

record ('e, 'k, 'cl) cluster_service =
  svc_client :: "('e, 'k, 'cl) kube_env"
  svc_namespace :: string
  svc_timeout :: int
  svc_newClient :: "(nat \<Rightarrow> rest_config \<Rightarrow> 'e + 'cl option) option"

datatype 'e cluster_error =
    NoSecretName string
  | GetSecretError nsname string 'e
  | KubeConfigError 'e
  | OperatorNamespaceError 'e
  | ClusterConfigError "'e cluster_error"
  | SchemeError 'e
  | NewClientError 'e
  | OperatorNamespaceNotSet
  | NotAddedNorUpdated "'e cluster_error"
  | ListError 'e

section \<open>The cache\<close>

definition emit :: "lock_event list \<Rightarrow> 'cl cluster_cache \<Rightarrow> 'cl cluster_cache" where
  "emit evs c = c\<lparr>lockTrace := lockTrace c @ evs\<rparr>"

definition addCachedToolchainCluster :: "'cl cached_cluster \<Rightarrow> 'cl cluster_cache \<Rightarrow> 'cl cluster_cache" where
  "addCachedToolchainCluster cluster c =
     emit [Lock, WriteMap, Unlock]
       (c\<lparr>clusters := AList.update (Name (Config cluster)) cluster (clusters c)\<rparr>)"

definition deleteCachedToolchainCluster :: "string \<Rightarrow> 'cl cluster_cache \<Rightarrow> 'cl cluster_cache" where
  "deleteCachedToolchainCluster name c =
     emit [Lock, WriteMap, Unlock] (c\<lparr>clusters := AList.delete name (clusters c)\<rparr>)"

text \<open>\<open>refresh\<close> is what the installed \<open>refreshCache\<close> does; it runs with the lock released.\<close>

definition getCachedToolchainCluster ::
  "('cl cluster_cache \<Rightarrow> 'cl cluster_cache) \<Rightarrow> string \<Rightarrow> bool \<Rightarrow> 'cl cluster_cache \<Rightarrow>
   'cl cluster_cache \<times> 'cl cached_cluster option" where
  "getCachedToolchainCluster refresh name canRefreshCache c0 =
     (let c1 = emit [RLock, ReadMap] c0;
          c2 = (if map_of (clusters c1) name = None \<and> canRefreshCache \<and> hasRefreshCache c1
                then emit [RLock] (refresh (emit [RUnlock] c1)) else c1);
          c3 = emit [ReadMap, RUnlock] c2
      in (c3, map_of (clusters c2) name))"

fun matches :: "'cl cached_cluster \<Rightarrow> ('cl cached_cluster \<Rightarrow> bool) list \<Rightarrow> bool" where
  "matches cluster [] = True"
| "matches cluster (match # conditions) = (if \<not> match cluster then False else matches cluster conditions)"

fun Filter ::
  "(string, 'cl cached_cluster) gomap \<Rightarrow> ('cl cached_cluster \<Rightarrow> bool) list \<Rightarrow> 'cl cached_cluster list" where
  "Filter [] conditions = []"
| "Filter ((name, cluster) # cs) conditions =
     (if matches cluster conditions then cluster # Filter cs conditions else Filter cs conditions)"

definition getCachedToolchainClusters ::
  "('cl cached_cluster \<Rightarrow> bool) list \<Rightarrow> 'cl cluster_cache \<Rightarrow> 'cl cluster_cache \<times> 'cl cached_cluster list" where
  "getCachedToolchainClusters conditions c =
     (emit [RLock, ReadMap, RUnlock] c, Filter (clusters c) conditions)"

definition IsReady :: "toolchain_cluster_status \<Rightarrow> bool" where
  "IsReady clusterStatus \<longleftrightarrow>
     list_ex (\<lambda>condition. Type condition = ConditionReady \<and> Status condition = ConditionTrue)
       (Conditions clusterStatus)"

definition Ready :: "'cl cached_cluster \<Rightarrow> bool" where
  "Ready cluster = IsReady (ClusterStatus cluster)"

definition GetMemberClusters ::
  "('cl cluster_cache \<Rightarrow> 'cl cluster_cache) \<Rightarrow> ('cl cached_cluster \<Rightarrow> bool) list \<Rightarrow> 'cl cluster_cache \<Rightarrow>
   'cl cluster_cache \<times> 'cl cached_cluster list" where
  "GetMemberClusters refresh conditions c =
     (let (c1, found) = getCachedToolchainClusters conditions c
      in if found = []
         then getCachedToolchainClusters conditions (if hasRefreshCache c1 then refresh c1 else c1)
         else (c1, found))"

definition GetHostCluster ::
  "('cl cluster_cache \<Rightarrow> 'cl cluster_cache) \<Rightarrow> 'cl cluster_cache \<Rightarrow>
   'cl cluster_cache \<times> 'cl cached_cluster option" where
  "GetHostCluster refresh c =
     (let (c1, found) = getCachedToolchainClusters [] c
      in case found of
           x # _ \<Rightarrow> (c1, Some x)
         | [] \<Rightarrow>
             let (c2, found') = getCachedToolchainClusters [] (if hasRefreshCache c1 then refresh c1 else c1)
             in (c2, case found' of [] \<Rightarrow> None | x # _ \<Rightarrow> Some x))"


section \<open>The service\<close>

definition labelOwnerClusterName :: label_key where
  "labelOwnerClusterName = Key ''ownerClusterName''"

definition labelClusterRolePrefix :: string where
  "labelClusterRolePrefix = ''cluster-role''"

text \<open>\<open>LabelKeyPrefix\<close> is a constant of the API package.\<close>

definition RoleLabel :: "string \<Rightarrow> string \<Rightarrow> string" where
  "RoleLabel LabelKeyPrefix role = labelClusterRolePrefix @ ''.'' @ LabelKeyPrefix @ role"

definition loadConfigFromKubeConfig ::
  "('e, 'k, 'cl) kube_env \<Rightarrow> toolchain_cluster \<Rightarrow> (string, string) gomap \<Rightarrow> int \<Rightarrow>
   'e cluster_error + cluster_config" where
  "loadConfigFromKubeConfig cl toolchainCluster secret timeout =
     (case env_Load cl (gm_index '''' secret ''kubeconfig'') of
        Inl err \<Rightarrow> Inl (KubeConfigError err)
      | Inr cfg \<Rightarrow>
          (case env_ClientConfig cl cfg of
             Inl err \<Rightarrow> Inl (KubeConfigError err)
           | Inr restCfg0 \<Rightarrow>
               (let restCfg = restCfg0\<lparr>Timeout := timeout\<rparr>
                in case env_Namespace cl cfg of
                     Inl err \<Rightarrow> Inl (OperatorNamespaceError err)
                   | Inr operatorNamespace \<Rightarrow>
                       Inr \<lparr>RestConfig = restCfg,
                            Name = tc_Name toolchainCluster,
                            APIEndpoint = Host restCfg,
                            OperatorNamespace = operatorNamespace,
                            OwnerClusterName = gm_index '''' (tc_Labels toolchainCluster) labelOwnerClusterName,
                            Labels = tc_Labels toolchainCluster\<rparr>)))"

definition NewClusterConfig ::
  "('e, 'k, 'cl) kube_env \<Rightarrow> toolchain_cluster \<Rightarrow> int \<Rightarrow> 'e cluster_error + cluster_config" where
  "NewClusterConfig cl toolchainCluster timeout =
     (let secretName = SecretRefName toolchainCluster;
          name = NamespacedName (tc_Namespace toolchainCluster) secretName
      in if secretName = '''' then Inl (NoSecretName (tc_Name toolchainCluster))
         else case env_getSecret cl name of
                Inl err \<Rightarrow> Inl (GetSecretError name (tc_Name toolchainCluster) err)
              | Inr secret \<Rightarrow> loadConfigFromKubeConfig cl toolchainCluster secret timeout)"

text \<open>The branch of \<open>addToolchainCluster\<close> that creates a client, and its condition.\<close>

definition new_client ::
  "('e, 'k, 'cl) cluster_service \<Rightarrow> cluster_config \<Rightarrow> 'cl cluster_cache \<Rightarrow>
   'cl cluster_cache \<times> ('e cluster_error + 'cl option)" where
  "new_client s clusterConfig c =
     (case env_AddToScheme (svc_client s) of
        Some err \<Rightarrow> (c, Inl (SchemeError err))
      | None \<Rightarrow>
          (let create = (case svc_newClient s of None \<Rightarrow> env_clientNew (svc_client s) | Some f \<Rightarrow> f);
               c' = c\<lparr>clientsCreated := Suc (clientsCreated c)\<rparr>
           in case create (clientsCreated c) (RestConfig clusterConfig) of
                Inl err \<Rightarrow> (c', Inl (NewClientError err))
              | Inr cl \<Rightarrow> (c', Inr cl)))"

definition must_create :: "cluster_config \<Rightarrow> 'cl cached_cluster option \<Rightarrow> bool" where
  "must_create clusterConfig cached \<longleftrightarrow>
     (case cached of
        None \<Rightarrow> True
      | Some cachedToolchainCluster \<Rightarrow>
          Client cachedToolchainCluster = None \<or>
          RestConfig clusterConfig \<noteq> RestConfig (Config cachedToolchainCluster))"

definition client_for ::
  "('e, 'k, 'cl) cluster_service \<Rightarrow> cluster_config \<Rightarrow> 'cl cached_cluster option \<Rightarrow> 'cl cluster_cache \<Rightarrow>
   'cl cluster_cache \<times> ('e cluster_error + 'cl option)" where
  "client_for s clusterConfig cached c =
     (if must_create clusterConfig cached then new_client s clusterConfig c
      else (c, Inr (Client (the cached))))"

text \<open>The refresh function is never called from here, so it is the identity below.\<close>

definition addToolchainCluster ::
  "('e, 'k, 'cl) cluster_service \<Rightarrow> toolchain_cluster \<Rightarrow> 'cl cluster_cache \<Rightarrow>
   'cl cluster_cache \<times> 'e cluster_error option" where
  "addToolchainCluster s toolchainCluster c =
     (case NewClusterConfig (svc_client s) toolchainCluster (svc_timeout s) of
        Inl err \<Rightarrow> (c, Some (ClusterConfigError err))
      | Inr clusterConfig \<Rightarrow>
          (let (c1, cached) = getCachedToolchainCluster id (tc_Name toolchainCluster) False c;
               (c2, r) = client_for s clusterConfig cached c1
           in case r of
                Inl err \<Rightarrow> (c2, Some err)
              | Inr cl \<Rightarrow>
                  (let cluster = \<lparr>Config = clusterConfig, Client = cl,
                         ClusterStatus = tc_Status toolchainCluster\<rparr>
                   in if OperatorNamespace (Config cluster) = '''' then (c2, Some OperatorNamespaceNotSet)
                      else (addCachedToolchainCluster cluster c2, None))))"

definition AddOrUpdateToolchainCluster ::
  "('e, 'k, 'cl) cluster_service \<Rightarrow> toolchain_cluster \<Rightarrow> 'cl cluster_cache \<Rightarrow>
   'cl cluster_cache \<times> 'e cluster_error option" where
  "AddOrUpdateToolchainCluster s cluster c =
     (let (c', err) = addToolchainCluster s cluster c in (c', map_option NotAddedNorUpdated err))"

definition DeleteToolchainCluster :: "string \<Rightarrow> 'cl cluster_cache \<Rightarrow> 'cl cluster_cache" where
  "DeleteToolchainCluster name c = deleteCachedToolchainCluster name c"

text \<open>The loop over the listed items; an item that cannot be added is logged and skipped.\<close>

fun add_listed ::
  "('e, 'k, 'cl) cluster_service \<Rightarrow> toolchain_cluster list \<Rightarrow> 'cl cluster_cache \<Rightarrow> 'cl cluster_cache" where
  "add_listed s [] c = c"
| "add_listed s (cluster # rest) c = add_listed s rest (fst (addToolchainCluster s cluster c))"

text \<open>An error of \<open>List\<close> is logged, and the loop runs over the items that came with it.\<close>

definition refreshCache :: "('e, 'k, 'cl) cluster_service \<Rightarrow> 'cl cluster_cache \<Rightarrow> 'cl cluster_cache" where
  "refreshCache s c = add_listed s (fst (env_list (svc_client s) (svc_namespace s))) c"

definition GetCachedToolchainCluster ::
  "('e, 'k, 'cl) cluster_service \<Rightarrow> string \<Rightarrow> 'cl cluster_cache \<Rightarrow>
   'cl cluster_cache \<times> 'cl cached_cluster option" where
  "GetCachedToolchainCluster s name c = getCachedToolchainCluster (refreshCache s) name True c"

definition NewToolchainClusterService ::
  "('e, 'k, 'cl) kube_env \<Rightarrow> string \<Rightarrow> int \<Rightarrow> 'cl cluster_cache \<Rightarrow>
   'cl cluster_cache \<times> ('e, 'k, 'cl) cluster_service" where
  "NewToolchainClusterService cl namespace timeout c =
     (c\<lparr>hasRefreshCache := True\<rparr>,
      \<lparr>svc_client = cl, svc_namespace = namespace, svc_timeout = timeout, svc_newClient = None\<rparr>)"

definition NewToolchainClusterServiceWithClient ::
  "('e, 'k, 'cl) kube_env \<Rightarrow> string \<Rightarrow> int \<Rightarrow> (nat \<Rightarrow> rest_config \<Rightarrow> 'e + 'cl option) \<Rightarrow> 'cl cluster_cache \<Rightarrow>
   'cl cluster_cache \<times> ('e, 'k, 'cl) cluster_service" where
  "NewToolchainClusterServiceWithClient cl namespace timeout newClient c =
     (let (c1, service) = NewToolchainClusterService cl namespace timeout c
      in (c1\<lparr>hasRefreshCache := True\<rparr>, service\<lparr>svc_newClient := Some newClient\<rparr>))"

fun cluster_configs ::
  "('e, 'k, 'cl) kube_env \<Rightarrow> int \<Rightarrow> toolchain_cluster list \<Rightarrow> 'e cluster_error + cluster_config list" where
  "cluster_configs cl timeout [] = Inr []"
| "cluster_configs cl timeout (cluster # rest) =
     (case NewClusterConfig cl cluster timeout of
        Inl err \<Rightarrow> Inl err
      | Inr clusterConfig \<Rightarrow>
          (case cluster_configs cl timeout rest of
             Inl err \<Rightarrow> Inl err
           | Inr configs \<Rightarrow> Inr (clusterConfig # configs)))"

definition ListToolchainClusterConfigs ::
  "('e, 'k, 'cl) kube_env \<Rightarrow> string \<Rightarrow> int \<Rightarrow> 'e cluster_error + cluster_config list" where
  "ListToolchainClusterConfigs cl namespace timeout =
     (case env_list cl namespace of
        (items, Some err) \<Rightarrow> Inl (ListError err)
      | (items, None) \<Rightarrow> cluster_configs cl timeout items)"

section \<open>The cache as a store of named values\<close>

text \<open>
  The interface the service relies on: a value is stored under its own name. The refresh loop
  adds the listed clusters one by one; what a lookup returns then is proved here once.
\<close>

locale named_store =
  fixes lkup :: "'s \<Rightarrow> 'k \<Rightarrow> 'v option"
    and add :: "'v \<Rightarrow> 's \<Rightarrow> 's"
    and del :: "'k \<Rightarrow> 's \<Rightarrow> 's"
    and nm :: "'v \<Rightarrow> 'k"
  assumes lkup_add: "lkup (add v s) = (lkup s)(nm v \<mapsto> v)"
    and lkup_del: "lkup (del k s) = (lkup s)(k := None)"
begin

lemma names_match_add:
  assumes "\<And>k v. lkup s k = Some v \<Longrightarrow> nm v = k \<and> P v" and "P w" and "lkup (add w s) k = Some v"
  shows "nm v = k \<and> P v"
  using assms by (auto simp: lkup_add split: if_splits)

lemma names_match_del:
  assumes "\<And>k v. lkup s k = Some v \<Longrightarrow> nm v = k \<and> P v" and "lkup (del j s) k = Some v"
  shows "nm v = k \<and> P v"
  using assms by (auto simp: lkup_del split: if_splits)

lemma add_frame: "k \<noteq> nm v \<Longrightarrow> lkup (add v s) k = lkup s k"
  by (simp add: lkup_add)

lemma del_add: "lkup (del (nm v) (add v s)) = (lkup s)(nm v := None)"
  by (simp add: lkup_add lkup_del)

lemma add_replaces: "nm v = nm w \<Longrightarrow> lkup (add v (add w s)) = lkup (add v s)"
  by (simp add: lkup_add)

end

lemma emit_simps [simp]:
  "clusters (emit evs c) = clusters c" "hasRefreshCache (emit evs c) = hasRefreshCache c"
  "clientsCreated (emit evs c) = clientsCreated c" "lockTrace (emit evs c) = lockTrace c @ evs"
  by (simp_all add: emit_def)

interpretation cache: named_store "\<lambda>c :: 'cl cluster_cache. map_of (clusters c)" addCachedToolchainCluster
  deleteCachedToolchainCluster "\<lambda>cluster. Name (Config cluster)"
  by unfold_locales (simp_all add: addCachedToolchainCluster_def deleteCachedToolchainCluster_def)

lemma addCached_fields [simp]:
  "clientsCreated (addCachedToolchainCluster v c) = clientsCreated c"
  "hasRefreshCache (addCachedToolchainCluster v c) = hasRefreshCache c"
  "lockTrace (addCachedToolchainCluster v c) = lockTrace c @ [Lock, WriteMap, Unlock]"
  "gm_ok (clusters c) \<Longrightarrow> gm_ok (clusters (addCachedToolchainCluster v c))"
  by (simp_all add: addCachedToolchainCluster_def)

section \<open>Adding and updating\<close>

lemma NewClusterConfig_Inr:
  assumes "NewClusterConfig cl tc timeout = Inr cfg"
  shows "Name cfg = tc_Name tc \<and> Labels cfg = tc_Labels tc \<and> Timeout (RestConfig cfg) = timeout \<and>
    APIEndpoint cfg = Host (RestConfig cfg) \<and> SecretRefName tc \<noteq> ''''"
  using assms
  by (auto simp: NewClusterConfig_def loadConfigFromKubeConfig_def Let_def split: if_splits sum.splits)

lemma get_no_refresh:
  "getCachedToolchainCluster f name False c =
     (emit [RLock, ReadMap, ReadMap, RUnlock] c, map_of (clusters c) name)"
  by (simp add: getCachedToolchainCluster_def emit_def)

lemma new_client_frame:
  assumes "new_client s cfg c = (c', r)"
  shows "clusters c' = clusters c \<and> lockTrace c' = lockTrace c \<and> hasRefreshCache c' = hasRefreshCache c"
  using assms by (auto simp: new_client_def Let_def split: option.splits sum.splits)

lemma client_for_frame:
  assumes "client_for s cfg cached c = (c', r)"
  shows "clusters c' = clusters c \<and> lockTrace c' = lockTrace c \<and> hasRefreshCache c' = hasRefreshCache c"
  using assms by (auto simp: client_for_def split: if_splits dest: new_client_frame)

text \<open>The two outcomes of \<open>addToolchainCluster\<close>, from which every other fact about it follows.\<close>

lemma addToolchainCluster_cases:
  assumes "addToolchainCluster s tc c = (c', r)"
  obtains (error) e where "r = Some e" and "clusters c' = clusters c"
      and "lockTrace c' = lockTrace c @ [] \<or> lockTrace c' = lockTrace c @ [RLock, ReadMap, ReadMap, RUnlock]"
  | (added) cfg c1 cl where "r = None" and "NewClusterConfig (svc_client s) tc (svc_timeout s) = Inr cfg"
      and "OperatorNamespace cfg \<noteq> ''''"
      and "client_for s cfg (map_of (clusters c) (tc_Name tc))
             (emit [RLock, ReadMap, ReadMap, RUnlock] c) = (c1, Inr cl)"
      and "c' = addCachedToolchainCluster \<lparr>Config = cfg, Client = cl, ClusterStatus = tc_Status tc\<rparr> c1"
proof (cases "NewClusterConfig (svc_client s) tc (svc_timeout s)")
  case (Inl e)
  with assms error show ?thesis by (auto simp: addToolchainCluster_def)
next
  case (Inr cfg)
  obtain c1 r1 where cf: "client_for s cfg (map_of (clusters c) (tc_Name tc))
      (emit [RLock, ReadMap, ReadMap, RUnlock] c) = (c1, r1)" by fastforce
  note frame = client_for_frame [OF cf]
  show ?thesis
  proof (cases r1)
    case (Inl e)
    with assms Inr cf frame show ?thesis
      by (intro error) (auto simp: addToolchainCluster_def get_no_refresh)
  next
    case r1: (Inr cl)
    show ?thesis
    proof (cases "OperatorNamespace cfg = ''''")
      case True
      with assms Inr cf r1 frame show ?thesis
        by (intro error) (auto simp: addToolchainCluster_def get_no_refresh)
    next
      case False
      with assms Inr cf r1 show ?thesis
        by (intro added) (auto simp: addToolchainCluster_def get_no_refresh)
    qed
  qed
qed

lemma addToolchainCluster_other:
  assumes "name \<noteq> tc_Name tc"
  shows "map_of (clusters (fst (addToolchainCluster s tc c))) name = map_of (clusters c) name"
proof -
  obtain c' r where add: "addToolchainCluster s tc c = (c', r)" by fastforce
  then show ?thesis
  proof (cases rule: addToolchainCluster_cases)
    case (error e)
    with add show ?thesis by simp
  next
    case (added cfg c1 cl)
    have "Name cfg = tc_Name tc" using added(2) NewClusterConfig_Inr by blast
    then show ?thesis
      using assms added client_for_frame [OF added(4)] add by (simp add: cache.lkup_add)
  qed
qed

lemma add_listed_other:
  "name \<notin> tc_Name ` set items \<Longrightarrow>
   map_of (clusters (add_listed s items c)) name = map_of (clusters c) name"
  by (induction s items c rule: add_listed.induct) (auto simp: addToolchainCluster_other)

lemma add_listed_append: "add_listed s (xs @ ys) c = add_listed s ys (add_listed s xs c)"
  by (induction s xs c rule: add_listed.induct) auto

definition client_constructor ::
  "('e, 'k, 'cl) cluster_service \<Rightarrow> nat \<Rightarrow> rest_config \<Rightarrow> 'e + 'cl option" where
  "client_constructor s =
     (case svc_newClient s of None \<Rightarrow> env_clientNew (svc_client s) | Some f \<Rightarrow> f)"

definition creates_clients :: "('e, 'k, 'cl) cluster_service \<Rightarrow> rest_config \<Rightarrow> bool" where
  "creates_clients s cfg \<longleftrightarrow> env_AddToScheme (svc_client s) = None \<and>
     (\<forall>n. \<exists>cl. client_constructor s n cfg = Inr cl)"

lemma addToolchainCluster_no_error:
  assumes "NewClusterConfig (svc_client s) tc (svc_timeout s) = Inr cfg" and "OperatorNamespace cfg \<noteq> ''''"
    and "creates_clients s (RestConfig cfg)"
  shows "snd (addToolchainCluster s tc c) = None"
proof -
  obtain cl where "client_constructor s (clientsCreated c) (RestConfig cfg) = Inr cl"
    using assms(3) by (auto simp: creates_clients_def)
  with assms show ?thesis
    by (auto simp: addToolchainCluster_def get_no_refresh client_for_def new_client_def Let_def
        creates_clients_def client_constructor_def split: if_splits option.splits)
qed

lemma addToolchainCluster_succeeds:
  assumes "NewClusterConfig (svc_client s) tc (svc_timeout s) = Inr cfg" and "OperatorNamespace cfg \<noteq> ''''"
    and "creates_clients s (RestConfig cfg)"
  shows "\<exists>cl. map_of (clusters (fst (addToolchainCluster s tc c))) (tc_Name tc) =
    Some \<lparr>Config = cfg, Client = cl, ClusterStatus = tc_Status tc\<rparr>"
proof -
  obtain c' r where add: "addToolchainCluster s tc c = (c', r)" by fastforce
  then show ?thesis
  proof (cases rule: addToolchainCluster_cases)
    case (error e)
    with addToolchainCluster_no_error [OF assms, of c] add show ?thesis by simp
  next
    case (added cfg' c1 cl)
    have "cfg' = cfg" and "Name cfg = tc_Name tc"
      using assms(1) added(2) NewClusterConfig_Inr by auto
    with added add show ?thesis by (simp add: cache.lkup_add)
  qed
qed

lemma add_listed_finds:
  assumes "NewClusterConfig (svc_client s) tc (svc_timeout s) = Inr cfg" and "OperatorNamespace cfg \<noteq> ''''"
    and "creates_clients s (RestConfig cfg)" and "tc \<in> set items" and "distinct (map tc_Name items)"
  shows "\<exists>cl. map_of (clusters (add_listed s items c)) (tc_Name tc) =
    Some \<lparr>Config = cfg, Client = cl, ClusterStatus = tc_Status tc\<rparr>"
proof -
  obtain xs ys where items: "items = xs @ tc # ys" using assms(4) by (auto dest: split_list)
  with assms(5) have "tc_Name tc \<notin> tc_Name ` set ys" by auto
  with addToolchainCluster_succeeds [OF assms(1-3)] show ?thesis
    by (simp add: items add_listed_append add_listed_other)
qed

lemma getCached_clusters:
  "clusters (fst (getCachedToolchainCluster f name can c)) =
     clusters (if map_of (clusters c) name = None \<and> can \<and> hasRefreshCache c
               then f (emit [RLock, ReadMap, RUnlock] c) else c)"
  by (auto simp: getCachedToolchainCluster_def Let_def emit_def)

lemma getCached_result:
  "snd (getCachedToolchainCluster f name can c) =
     map_of (clusters (fst (getCachedToolchainCluster f name can c))) name"
  by (simp add: getCachedToolchainCluster_def Let_def)

section \<open>The selected clusters\<close>

lemma matches_list_all: "matches cl conds \<longleftrightarrow> list_all (\<lambda>match. match cl) conds"
  by (induction conds) auto

lemma Filter_filter: "Filter cs conds = filter (\<lambda>cl. list_all (\<lambda>match. match cl) conds) (map snd cs)"
  by (induction cs conds rule: Filter.induct) (auto simp: matches_list_all)

section \<open>Sequences of operations\<close>

text \<open>
  The entry points of the package, in any order and with any answers of the environment at
  each of them; and the state of the lock after a trace, which is undefined when a goroutine
  takes a lock it holds, releases one it does not hold, or touches the map without it.
\<close>

datatype ('e, 'k, 'cl) cache_op =
    NewServiceOp "('e, 'k, 'cl) kube_env" string int "(nat \<Rightarrow> rest_config \<Rightarrow> 'e + 'cl option) option"
  | AddOrUpdateOp "('e, 'k, 'cl) cluster_service" toolchain_cluster
  | DeleteOp string
  | GetOp "('e, 'k, 'cl) cluster_service" string
  | GetMembersOp "('e, 'k, 'cl) cluster_service" "('cl cached_cluster \<Rightarrow> bool) list"
  | GetHostOp "('e, 'k, 'cl) cluster_service"

fun run_op :: "('e, 'k, 'cl) cache_op \<Rightarrow> 'cl cluster_cache \<Rightarrow> 'cl cluster_cache" where
  "run_op (NewServiceOp env ns t None) c = fst (NewToolchainClusterService env ns t c)"
| "run_op (NewServiceOp env ns t (Some f)) c = fst (NewToolchainClusterServiceWithClient env ns t f c)"
| "run_op (AddOrUpdateOp s tc) c = fst (AddOrUpdateToolchainCluster s tc c)"
| "run_op (DeleteOp name) c = DeleteToolchainCluster name c"
| "run_op (GetOp s name) c = fst (GetCachedToolchainCluster s name c)"
| "run_op (GetMembersOp s conds) c = fst (GetMemberClusters (refreshCache s) conds c)"
| "run_op (GetHostOp s) c = fst (GetHostCluster (refreshCache s) c)"

definition initial_cache :: "'cl cluster_cache" where
  "initial_cache = \<lparr>clusters = [], hasRefreshCache = False, clientsCreated = 0, lockTrace = []\<rparr>"

datatype lock_mode = Free | Reading | Writing

fun lock_step :: "lock_mode \<Rightarrow> lock_event \<Rightarrow> lock_mode option" where
  "lock_step Free RLock = Some Reading"
| "lock_step Free Lock = Some Writing"
| "lock_step Reading RUnlock = Some Free"
| "lock_step Reading ReadMap = Some Reading"
| "lock_step Writing Unlock = Some Free"
| "lock_step Writing ReadMap = Some Writing"
| "lock_step Writing WriteMap = Some Writing"
| "lock_step _ _ = None"

fun lock_run :: "lock_mode \<Rightarrow> lock_event list \<Rightarrow> lock_mode option" where
  "lock_run m [] = Some m"
| "lock_run m (e # es) = (case lock_step m e of None \<Rightarrow> None | Some m' \<Rightarrow> lock_run m' es)"

lemma lock_run_append [simp]:
  "lock_run m (xs @ ys) = (case lock_run m xs of None \<Rightarrow> None | Some m' \<Rightarrow> lock_run m' ys)"
  by (induction m xs rule: lock_run.induct) (auto split: option.splits)

definition cache_ok :: "'cl cluster_cache \<Rightarrow> bool" where
  "cache_ok c \<longleftrightarrow> gm_ok (clusters c) \<and>
     list_all (\<lambda>(name, cl). Name (Config cl) = name \<and> OperatorNamespace (Config cl) \<noteq> '''') (clusters c)"

lemma cache_ok_iff:
  "cache_ok c \<longleftrightarrow> gm_ok (clusters c) \<and>
     (\<forall>name cl. map_of (clusters c) name = Some cl \<longrightarrow>
        Name (Config cl) = name \<and> OperatorNamespace (Config cl) \<noteq> '''')"
  by (auto simp: cache_ok_def list_all_iff map_of_in_set)

definition cache_inv :: "'cl cluster_cache \<Rightarrow> bool" where
  "cache_inv c \<longleftrightarrow> cache_ok c \<and> lock_run Free (lockTrace c) = Some Free"

lemma cache_inv_same:
  "\<lbrakk> cache_inv c; clusters c' = clusters c; lockTrace c' = lockTrace c @ evs;
     lock_run Free evs = Some Free \<rbrakk> \<Longrightarrow> cache_inv c'"
  by (simp add: cache_inv_def cache_ok_def)

lemma cache_inv_emit: "\<lbrakk> cache_inv c; lock_run Free evs = Some Free \<rbrakk> \<Longrightarrow> cache_inv (emit evs c)"
  by (rule cache_inv_same [of c _ evs]) simp_all

lemma cache_inv_added:
  assumes "cache_inv c" and "OperatorNamespace (Config v) \<noteq> ''''"
  shows "cache_inv (addCachedToolchainCluster v c)"
  using assms
  by (auto simp: cache_inv_def cache_ok_iff cache.lkup_add)

lemma cache_inv_delete: "cache_inv c \<Longrightarrow> cache_inv (deleteCachedToolchainCluster name c)"
  by (auto simp: cache_inv_def cache_ok_iff deleteCachedToolchainCluster_def split: if_splits)

lemma cache_inv_addToolchainCluster:
  assumes "cache_inv c"
  shows "cache_inv (fst (addToolchainCluster s tc c))"
proof -
  obtain c' r where add: "addToolchainCluster s tc c = (c', r)" by fastforce
  then show ?thesis
  proof (cases rule: addToolchainCluster_cases)
    case (error e)
    then show ?thesis
      using assms add by (auto intro: cache_inv_same [of c _ "[]"] cache_inv_same [of c _ "[RLock, ReadMap, ReadMap, RUnlock]"])
  next
    case (added cfg c1 cl)
    have "cache_inv c1"
      using assms client_for_frame [OF added(4)]
      by (auto intro: cache_inv_same [of c _ "[RLock, ReadMap, ReadMap, RUnlock]"])
    then show ?thesis
      using added add by (simp add: cache_inv_added)
  qed
qed

lemma cache_inv_add_listed: "cache_inv c \<Longrightarrow> cache_inv (add_listed s items c)"
  by (induction s items c rule: add_listed.induct) (auto simp: cache_inv_addToolchainCluster)

lemma cache_inv_refresh: "cache_inv c \<Longrightarrow> cache_inv (refreshCache s c)"
  by (simp add: refreshCache_def cache_inv_add_listed)

lemma cache_inv_getCached:
  assumes "cache_inv c" and refresh: "\<And>c. cache_inv c \<Longrightarrow> cache_inv (f c)"
  shows "cache_inv (fst (getCachedToolchainCluster f name can c))"
proof (cases "map_of (clusters c) name = None \<and> can \<and> hasRefreshCache c")
  case True
  have "cache_inv (emit [RLock, ReadMap, RUnlock] c)" using assms(1) by (simp add: cache_inv_emit)
  then have "cache_inv (emit [RLock, ReadMap, RUnlock] (f (emit [RLock, ReadMap, RUnlock] c)))"
    by (simp add: cache_inv_emit refresh)
  with True show ?thesis by (simp add: getCachedToolchainCluster_def Let_def emit_def)
next
  case False
  have "cache_inv (emit [RLock, ReadMap, ReadMap, RUnlock] c)" using assms(1) by (simp add: cache_inv_emit)
  with False show ?thesis by (auto simp: getCachedToolchainCluster_def Let_def emit_def)
qed

lemma cache_inv_members:
  assumes "cache_inv c"
  shows "cache_inv (fst (GetMemberClusters (refreshCache s) conds c))"
    and "cache_inv (fst (GetHostCluster (refreshCache s) c))"
  using assms
  by (auto simp: GetMemberClusters_def GetHostCluster_def getCachedToolchainClusters_def Let_def
      cache_inv_emit cache_inv_refresh split: list.splits prod.splits)

lemma cache_inv_run_op: "cache_inv c \<Longrightarrow> cache_inv (run_op op c)"
proof (induction op c rule: run_op.induct)
  case (1 env ns t c)
  then show ?case by (auto simp: NewToolchainClusterService_def intro: cache_inv_same [of c _ "[]"])
next
  case (2 env ns t f c)
  then show ?case
    by (auto simp: NewToolchainClusterService_def NewToolchainClusterServiceWithClient_def
        intro: cache_inv_same [of c _ "[]"])
next
  case (3 s tc c)
  then show ?case
    by (simp add: AddOrUpdateToolchainCluster_def split_beta cache_inv_addToolchainCluster)
next
  case (4 name c)
  then show ?case by (simp add: DeleteToolchainCluster_def cache_inv_delete)
next
  case (5 s name c)
  then show ?case
    by (simp add: GetCachedToolchainCluster_def cache_inv_getCached cache_inv_refresh)
qed (simp_all add: cache_inv_members)

lemma cache_inv_fold: "cache_inv c \<Longrightarrow> cache_inv (fold run_op ops c)"
  by (induction ops arbitrary: c) (auto simp: cache_inv_run_op)

lemma cache_inv_initial: "cache_inv initial_cache"
  by (simp add: cache_inv_def cache_ok_def initial_cache_def)

section \<open>Properties\<close>

text \<open>After any sequence of operations of the package, whatever the environment answers
  in each of them, every entry of the cache is stored under its own cluster name, no name has
  two entries, and no entry has an empty operator namespace.\<close>

theorem cache_stays_consistent: "cache_ok (fold run_op ops initial_cache)"
  using cache_inv_fold [OF cache_inv_initial, of ops] by (simp add: cache_inv_def)

text \<open>The lock of the cache is used correctly in every sequence of operations: the map is
  read only under the read or write lock and written only under the write lock, no lock is
  taken while it is held (a refresh runs with it released), and every lock is released at
  the end.\<close>

theorem cache_lock_discipline: "lock_run Free (lockTrace (fold run_op ops initial_cache)) = Some Free"
  using cache_inv_fold [OF cache_inv_initial, of ops] by (simp add: cache_inv_def)

text \<open>C7: \<open>AddOrUpdateToolchainCluster\<close> either fails and leaves the entries as they were, or
  stores under the cluster's name the configuration read from its Secret with its status; the
  cached client is kept when it is not nil and its REST configuration has not changed,
  otherwise exactly one new client is created.\<close>

theorem add_or_update_cluster:
  "case AddOrUpdateToolchainCluster s tc c of
     (c', Some err) \<Rightarrow> clusters c' = clusters c
   | (c', None) \<Rightarrow>
       (\<exists>cfg cl. NewClusterConfig (svc_client s) tc (svc_timeout s) = Inr cfg \<and>
          OperatorNamespace cfg \<noteq> '''' \<and> Name cfg = tc_Name tc \<and>
          map_of (clusters c') = (map_of (clusters c))
            (tc_Name tc \<mapsto> \<lparr>Config = cfg, Client = cl, ClusterStatus = tc_Status tc\<rparr>) \<and>
          (if \<exists>old. map_of (clusters c) (tc_Name tc) = Some old \<and> Client old \<noteq> None \<and>
                RestConfig (Config old) = RestConfig cfg
           then clientsCreated c' = clientsCreated c \<and>
             Some cl = map_option Client (map_of (clusters c) (tc_Name tc))
           else clientsCreated c' = Suc (clientsCreated c) \<and>
             client_constructor s (clientsCreated c) (RestConfig cfg) = Inr cl))"
proof -
  obtain c' r where add: "addToolchainCluster s tc c = (c', r)" by fastforce
  then show ?thesis
  proof (cases rule: addToolchainCluster_cases)
    case (error e)
    with add show ?thesis by (simp add: AddOrUpdateToolchainCluster_def)
  next
    case (added cfg c1 cl)
    have names: "Name cfg = tc_Name tc" using added(2) NewClusterConfig_Inr by blast
    have made: "if \<exists>old. map_of (clusters c) (tc_Name tc) = Some old \<and> Client old \<noteq> None \<and>
          RestConfig (Config old) = RestConfig cfg
        then clientsCreated c1 = clientsCreated c \<and>
          Some cl = map_option Client (map_of (clusters c) (tc_Name tc))
        else clientsCreated c1 = Suc (clientsCreated c) \<and>
          client_constructor s (clientsCreated c) (RestConfig cfg) = Inr cl"
      using added(4)
      by (auto simp: client_for_def must_create_def new_client_def client_constructor_def Let_def
          split: option.splits sum.splits if_splits)
    with added names client_for_frame [OF added(4)] add show ?thesis
      by (auto simp: AddOrUpdateToolchainCluster_def cache.lkup_add)
  qed
qed

text \<open>A lookup that misses the cache refreshes it, and then finds every listed cluster
  whose configuration loads and whose client can be created, with its current configuration
  and status.\<close>

theorem lookup_refreshes_on_miss:
  assumes "map_of (clusters c) (tc_Name tc) = None" and "hasRefreshCache c"
    and "tc \<in> set (fst (env_list (svc_client s) (svc_namespace s)))"
    and "distinct (map tc_Name (fst (env_list (svc_client s) (svc_namespace s))))"
    and "NewClusterConfig (svc_client s) tc (svc_timeout s) = Inr cfg" and "OperatorNamespace cfg \<noteq> ''''"
    and "creates_clients s (RestConfig cfg)"
  shows "\<exists>cl. snd (GetCachedToolchainCluster s (tc_Name tc) c) =
    Some \<lparr>Config = cfg, Client = cl, ClusterStatus = tc_Status tc\<rparr>"
  using assms(1,2) add_listed_finds [OF assms(5-7) assms(3,4)]
  by (simp add: GetCachedToolchainCluster_def getCached_result getCached_clusters refreshCache_def)

definition sample_cluster :: toolchain_cluster where
  "sample_cluster = \<lparr>tc_Name = ''member-1'', tc_Namespace = ''host-operator'', SecretRefName = ''secret'',
     tc_Labels = [(labelOwnerClusterName, ''host'')],
     tc_Status = \<lparr>st_APIEndpoint = ''url'', st_OperatorNamespace = ''member-operator'', Conditions = []\<rparr>\<rparr>"

definition sample_env :: "(string, string, nat) kube_env" where
  "sample_env = \<lparr>env_getSecret = (\<lambda>name. Inr [(''kubeconfig'', ''cfg'')]),
     env_list = (\<lambda>ns. ([sample_cluster], None)), env_Load = Inr,
     env_ClientConfig = (\<lambda>k. Inr \<lparr>Host = k, Timeout = 0, OtherRest = ''''\<rparr>),
     env_Namespace = (\<lambda>k. Inr ''member-operator''), env_AddToScheme = None,
     env_clientNew = (\<lambda>n cfg. Inr (Some n))\<rparr>"

definition sample_service :: "(string, string, nat) cluster_service" where
  "sample_service = \<lparr>svc_client = sample_env, svc_namespace = ''host-operator'', svc_timeout = 3,
     svc_newClient = None\<rparr>"

theorem lookup_refreshes_on_miss_witness:
  "\<exists>cl. snd (GetCachedToolchainCluster sample_service ''member-1''
       (initial_cache\<lparr>hasRefreshCache := True\<rparr>)) =
     Some \<lparr>Config = \<lparr>RestConfig = \<lparr>Host = ''cfg'', Timeout = 3, OtherRest = ''''\<rparr>, Name = ''member-1'',
             APIEndpoint = ''cfg'', OperatorNamespace = ''member-operator'', OwnerClusterName = ''host'',
             Labels = [(labelOwnerClusterName, ''host'')]\<rparr>,
           Client = cl, ClusterStatus = tc_Status sample_cluster\<rparr>"
proof -
  have name: "tc_Name sample_cluster = ''member-1''" by (simp add: sample_cluster_def)
  show ?thesis
    unfolding name [symmetric]
    by (rule lookup_refreshes_on_miss)
      (simp_all add: sample_service_def sample_env_def sample_cluster_def initial_cache_def
        NewClusterConfig_def loadConfigFromKubeConfig_def creates_clients_def
        client_constructor_def gm_index_def labelOwnerClusterName_def)
qed

text \<open>\<open>GetMemberClusters\<close> returns exactly the cached clusters that satisfy all the given
  conditions, refreshing the cache first (when a refresh function is installed) when there is none.\<close>

theorem get_member_clusters:
  "(let found = filter (\<lambda>cl. list_all (\<lambda>match. match cl) conditions) (map snd (clusters c));
        c' = (if found = [] \<and> hasRefreshCache c
              then refresh (emit [RLock, ReadMap, RUnlock] c) else c)
    in snd (GetMemberClusters refresh conditions c) =
         filter (\<lambda>cl. list_all (\<lambda>match. match cl) conditions) (map snd (clusters c')) \<and>
       clusters (fst (GetMemberClusters refresh conditions c)) = clusters c')"
  by (simp add: GetMemberClusters_def getCachedToolchainClusters_def Let_def Filter_filter)

end
