(* ===== verification/ClusterControllers.thy ===== *)
theory ClusterControllers
  imports ClusterCache GoStrings
begin

text \<open>
  The controllers that keep the cluster cache and the status of a ToolchainCluster:
  \<open>controllers/toolchaincluster\<close> (the health check), \<open>controllers/toolchainclustercache\<close>
  (the cache), and \<open>pkg/status/toolchaincluster.go\<close>, which reads the status the first one
  wrote. The answers of the Kubernetes clients are fields of the reconcilers' records; a
  reconciliation returns the cache it leaves and the objects whose status it submitted.
\<close>

section \<open>The health controller\<close>

definition healthzOk :: string where
  "healthzOk = ''/healthz responded with ok''"

definition healthzNotOk :: string where
  "healthzNotOk = ''/healthz responded without ok''"

text \<open>
  \<open>rec_healthz\<close> is the body a GET of /healthz returns, \<open>rec_newForConfig\<close> is
  \<open>kubernetes.NewForConfig\<close>, \<open>rec_now\<close> the clock during one reconciliation.
\<close>

record 'cs health_reconciler =
  rec_get :: "nsname \<Rightarrow> api_error + toolchain_cluster"
  rec_statusUpdate :: "toolchain_cluster \<Rightarrow> api_error option"
  rec_newForConfig :: "rest_config \<Rightarrow> string + 'cs"
  rec_healthz :: "'cs \<Rightarrow> string + string"
  checkHealth :: "('cs \<Rightarrow> string + bool) option"
  RequeueAfterOf :: int
  rec_now :: "nat \<Rightarrow> time"

record reconcile_result =
  RequeueAfter :: int

definition no_requeue :: reconcile_result where
  "no_requeue = \<lparr>RequeueAfter = 0\<rparr>"

datatype reconcile_error =
    GetFailed api_error
  | ClusterNotInCache string
  | ClientSetFailed string
  | StatusUpdateFailed string api_error

definition getClusterHealthStatus :: "('cs \<Rightarrow> string + string) \<Rightarrow> 'cs \<Rightarrow> string + bool" where
  "getClusterHealthStatus healthz remoteClusterClientset =
     (case healthz remoteClusterClientset of
        Inl err \<Rightarrow> Inl err
      | Inr body \<Rightarrow> Inr (EqualFold body ''ok''))"

definition getClusterHealth :: "'cs health_reconciler \<Rightarrow> 'cs \<Rightarrow> string + bool" where
  "getClusterHealth r remoteClusterClientset =
     (case checkHealth r of
        Some f \<Rightarrow> f remoteClusterClientset
      | None \<Rightarrow> getClusterHealthStatus (rec_healthz r) remoteClusterClientset)"

definition clusterOfflineCondition :: "string \<Rightarrow> condition" where
  "clusterOfflineCondition errMsg = zero_condition\<lparr>Type := ConditionReady, Status := ConditionFalse,
     Reason := ToolchainClusterClusterNotReachableReason, Message := errMsg\<rparr>"

definition clusterReadyCondition :: condition where
  "clusterReadyCondition = zero_condition\<lparr>Type := ConditionReady, Status := ConditionTrue,
     Reason := ToolchainClusterClusterReadyReason, Message := healthzOk\<rparr>"

definition clusterNotReadyCondition :: condition where
  "clusterNotReadyCondition = zero_condition\<lparr>Type := ConditionReady, Status := ConditionFalse,
     Reason := ToolchainClusterClusterNotReadyReason, Message := healthzNotOk\<rparr>"

definition getClusterHealthCondition :: "'cs health_reconciler \<Rightarrow> 'cs \<Rightarrow> condition" where
  "getClusterHealthCondition r remoteClusterClientset =
     (case getClusterHealth r remoteClusterClientset of
        Inl err \<Rightarrow> clusterOfflineCondition err
      | Inr isHealthy \<Rightarrow> if \<not> isHealthy then clusterNotReadyCondition else clusterReadyCondition)"

text \<open>The object as it is submitted, and the error of the update.\<close>

definition updateStatus ::
  "'cs health_reconciler \<Rightarrow> toolchain_cluster \<Rightarrow> 'cl cached_cluster option \<Rightarrow> condition list \<Rightarrow>
   toolchain_cluster \<times> reconcile_error option" where
  "updateStatus r toolchainCluster cachedToolchainCluster currentConditions =
     (let conds = AddOrUpdateStatusConditionsWithLastUpdatedTimestamp (rec_now r)
                    (Conditions (tc_Status toolchainCluster)) currentConditions;
          status = (case cachedToolchainCluster of
                      Some c \<Rightarrow> \<lparr>st_APIEndpoint = APIEndpoint (Config c),
                                 st_OperatorNamespace = OperatorNamespace (Config c), Conditions = conds\<rparr>
                    | None \<Rightarrow> \<lparr>st_APIEndpoint = '''', st_OperatorNamespace = '''', Conditions = conds\<rparr>);
          updated = toolchainCluster\<lparr>tc_Status := status\<rparr>
      in (updated, map_option (StatusUpdateFailed (tc_Name toolchainCluster)) (rec_statusUpdate r updated)))"

definition notInCacheMessage :: "string \<Rightarrow> string" where
  "notInCacheMessage name = ''cluster '' @ name @ '' not found in cache''"

text \<open>
  An error of the status update is logged and dropped when there is an earlier error to
  return. \<open>s\<close> is the service whose refresh function is installed in the cache.
\<close>

definition Reconcile ::
  "('e, 'k, 'cl) cluster_service \<Rightarrow> 'cs health_reconciler \<Rightarrow> nsname \<Rightarrow> 'cl cluster_cache \<Rightarrow>
   'cl cluster_cache \<times> toolchain_cluster list \<times> reconcile_result \<times> reconcile_error option" where
  "Reconcile s r request cache =
     (case rec_get r request of
        Inl err \<Rightarrow> if IsNotFound err then (cache, [], no_requeue, None)
                   else (cache, [], no_requeue, Some (GetFailed err))
      | Inr toolchainCluster \<Rightarrow>
          (let name = tc_Name toolchainCluster;
               (cache', cached) = GetCachedToolchainCluster s name cache
           in case cached of
                None \<Rightarrow>
                  (let (upd, _) = updateStatus r toolchainCluster (None :: 'cl cached_cluster option)
                                    [clusterOfflineCondition (notInCacheMessage name)]
                   in (cache', [upd], no_requeue, Some (ClusterNotInCache name)))
              | Some cachedCluster \<Rightarrow>
                  (case rec_newForConfig r (RestConfig (Config cachedCluster)) of
                     Inl err \<Rightarrow>
                       (let (upd, _) = updateStatus r toolchainCluster (Some cachedCluster)
                                         [clusterOfflineCondition err]
                        in (cache', [upd], no_requeue, Some (ClientSetFailed err)))
                   | Inr clientSet \<Rightarrow>
                       (let healthCheckResult = getClusterHealthCondition r clientSet;
                            (upd, err) = updateStatus r toolchainCluster (Some cachedCluster) [healthCheckResult]
                        in case err of
                             Some e \<Rightarrow> (cache', [upd], no_requeue, Some e)
                           | None \<Rightarrow> (cache', [upd], \<lparr>RequeueAfter = RequeueAfterOf r\<rparr>, None)))))"

section \<open>The cache controller\<close>

text \<open>
  \<open>namespacePredicate\<close>: the namespace of the event's object (the new one of an update)
  must be the watched one. A reconciler made by \<open>NewReconciler\<close> has a service with the
  manager's client.
\<close>

datatype event = CreateEvent string | UpdateEvent string string | DeleteEvent string | GenericEvent string

fun namespacePredicate :: "string \<Rightarrow> event \<Rightarrow> bool" where
  "namespacePredicate namespace (UpdateEvent objectOld objectNew) \<longleftrightarrow> objectNew = namespace"
| "namespacePredicate namespace (CreateEvent object) \<longleftrightarrow> object = namespace"
| "namespacePredicate namespace (DeleteEvent object) \<longleftrightarrow> object = namespace"
| "namespacePredicate namespace (GenericEvent object) \<longleftrightarrow> object = namespace"

record ('e, 'k, 'cl) cache_reconciler =
  client_get :: "nsname \<Rightarrow> api_error + toolchain_cluster"
  clusterCacheService :: "('e, 'k, 'cl) cluster_service"
  rec_namespace :: string

definition NewReconciler ::
  "(nsname \<Rightarrow> api_error + toolchain_cluster) \<Rightarrow> ('e, 'k, 'cl) kube_env \<Rightarrow> string \<Rightarrow> int \<Rightarrow> 'cl cluster_cache \<Rightarrow>
   'cl cluster_cache \<times> ('e, 'k, 'cl) cache_reconciler" where
  "NewReconciler get cl namespace timeout c =
     (let (c', service) = NewToolchainClusterService cl namespace timeout c
      in (c', \<lparr>client_get = get, clusterCacheService = service, rec_namespace = namespace\<rparr>))"

definition CacheReconcile ::
  "('e, 'k, 'cl) cache_reconciler \<Rightarrow> nsname \<Rightarrow> 'cl cluster_cache \<Rightarrow>
   'cl cluster_cache \<times> (api_error + 'e cluster_error) option" where
  "CacheReconcile r request c =
     (case client_get r request of
        Inl err \<Rightarrow> if IsNotFound err then (DeleteToolchainCluster (name_of request) c, None)
                   else (c, Some (Inl err))
      | Inr toolchainCluster \<Rightarrow>
          (let (c', err) = AddOrUpdateToolchainCluster (clusterCacheService r) toolchainCluster c
           in (c', map_option Inr err)))"

section \<open>The status of the connection\<close>

definition ErrMsgClusterConnectionNotFound :: string where
  "ErrMsgClusterConnectionNotFound = ''the cluster connection was not found''"

definition ErrMsgClusterConnectionLastProbeTimeExceeded :: string where
  "ErrMsgClusterConnectionLastProbeTimeExceeded = ''exceeded the maximum duration since the last probe''"

text \<open>The first Ready condition with a message.\<close>

fun not_ready_message :: "condition list \<Rightarrow> string option" where
  "not_ready_message [] = None"
| "not_ready_message (c # cs) =
     (if Type c = ConditionReady \<and> Message c \<noteq> '''' then Some (Message c) else not_ready_message cs)"

text \<open>The loop that keeps the time of the last Ready condition; it dereferences each one.\<close>

fun last_probe :: "condition list \<Rightarrow> time option \<Rightarrow> time option go" where
  "last_probe [] lastUpdatedTime = Ret lastUpdatedTime"
| "last_probe (condition # rest) lastUpdatedTime =
     (if Type condition = ConditionReady
      then case LastUpdatedTime condition of
             None \<Rightarrow> Panic NilDereference
           | Some t \<Rightarrow> last_probe rest (Some t)
      else last_probe rest lastUpdatedTime)"

text \<open>
  \<open>getCluster\<close> is what \<open>GetClusterFunc\<close> returned, \<open>now\<close> the clock of
  \<open>time.Since\<close> and \<open>made\<close> that of the condition made. Durations stay below the
  292 years an \<open>int64\<close> of nanoseconds holds.
\<close>

definition GetToolchainClusterConditions ::
  "'cl cached_cluster option \<Rightarrow> int \<Rightarrow> int \<Rightarrow> time \<Rightarrow> time \<Rightarrow> condition list go" where
  "GetToolchainClusterConditions getCluster period timeout now made =
     (case getCluster of
        None \<Rightarrow> Ret [NewComponentErrorCondition made
          ToolchainStatusClusterConnectionNotFoundReason ErrMsgClusterConnectionNotFound]
      | Some toolchainCluster \<Rightarrow>
          (let conditions = Conditions (ClusterStatus toolchainCluster)
           in if \<not> IsReady (ClusterStatus toolchainCluster)
              then Ret [NewComponentErrorCondition made ToolchainStatusClusterConnectionNotReadyReason
                (case not_ready_message conditions of
                   Some msg \<Rightarrow> msg
                 | None \<Rightarrow> ''the cluster connection is not ready'')]
              else go_bind (last_probe conditions None) (\<lambda>lastUpdatedTime.
                case lastUpdatedTime of
                  None \<Rightarrow> Ret [NewComponentErrorCondition made ToolchainStatusClusterConnectionNotReadyReason
                    ''the time of the last probe could not be determined'']
                | Some t \<Rightarrow>
                    (let maxDuration = period + timeout
                     in if now - t > maxDuration
                        then Ret [NewComponentErrorCondition made
                          ToolchainStatusClusterConnectionLastProbeTimeExceededReason
                          (ErrMsgClusterConnectionLastProbeTimeExceeded @ '': '' @ Duration_String maxDuration)]
                        else Ret [NewComponentReadyCondition made
                          ToolchainStatusClusterConnectionReadyReason]))))"

section \<open>What the status says after a health check\<close>

lemma filter_distinct_key:
  "distinct (map f xs) \<Longrightarrow> x \<in> set xs \<Longrightarrow> filter (\<lambda>y. f y = f x) xs = [x]"
proof (induction xs)
  case Nil
  then show ?case by simp
next
  case (Cons a xs)
  show ?case
  proof (cases "x = a")
    case True
    with Cons.prems have "f x \<notin> f ` set xs" by simp
    then have "\<forall>y\<in>set xs. f y \<noteq> f x" by (metis image_eqI)
    with True show ?thesis by simp
  next
    case False
    with Cons.prems have "f a \<noteq> f x" by auto
    with False Cons show ?thesis by simp
  qed
qed

lemma stamped_condition:
  assumes "distinct (map Type cs)"
  shows "\<exists>t. filter (\<lambda>d. Type d = Type c)
      (AddOrUpdateStatusConditionsWithLastUpdatedTimestamp now cs [c]) =
    [c\<lparr>LastTransitionTime := t, LastUpdatedTime := Some (now 0)\<rparr>]"
proof -
  define r where "r = addOrUpdateStatusCondition (now 0) cs c True"
  have result: "AddOrUpdateStatusConditionsWithLastUpdatedTimestamp now cs [c] = fst r"
    by (simp add: r_def AddOrUpdateStatusConditionsWithLastUpdatedTimestamp_def split: prod.splits)
  have types: "map Type (fst r) = map Type cs @ (if Type c \<in> Type ` set cs then [] else [Type c])"
    by (simp add: r_def types_addOrUpdate)
  have "distinct (map Type (fst r))"
    unfolding types using assms by auto
  moreover have "\<exists>t. c\<lparr>LastTransitionTime := t, LastUpdatedTime := Some (now 0)\<rparr> \<in> set (fst r)"
  proof (cases "index_where (\<lambda>d. Type d = Type c) cs")
    case None
    then show ?thesis by (auto simp: r_def addOrUpdate_new stamp_def)
  next
    case (Some i)
    from index_where_SomeD [OF Some] have "i < length cs" by simp
    moreover have "\<exists>t. keep_transition (cs ! i) (stamp (now 0) True c) =
        c\<lparr>LastTransitionTime := t, LastUpdatedTime := Some (now 0)\<rparr>"
      by (cases c) (auto simp: keep_transition_def stamp_def)
    then obtain t where "keep_transition (cs ! i) (stamp (now 0) True c) =
        c\<lparr>LastTransitionTime := t, LastUpdatedTime := Some (now 0)\<rparr>" ..
    ultimately show ?thesis
      using Some by (auto simp: r_def addOrUpdate_present intro!: exI [of _ t] set_update_memI)
  qed
  ultimately show ?thesis
    using filter_distinct_key [of Type "fst r"] by (fastforce simp: result)
qed

abbreviation ready_conditions :: "condition list \<Rightarrow> condition list" where
  "ready_conditions cs \<equiv> filter (\<lambda>d. Type d = ConditionReady) cs"

lemma ready_only:
  "list_ex (\<lambda>d. Type d = ConditionReady \<and> Status d = ConditionTrue) cs =
     list_ex (\<lambda>d. Type d = ConditionReady \<and> Status d = ConditionTrue) (ready_conditions cs)"
  "not_ready_message cs = not_ready_message (ready_conditions cs)"
  "last_probe cs t = last_probe (ready_conditions cs) t"
    apply (induction cs; simp)
   apply (induction cs; simp)
  apply (induction cs t rule: last_probe.induct; simp split: option.splits)
  done

lemma status_of_single_ready:
  assumes "ready_conditions (Conditions (ClusterStatus cl)) = [d]" and "LastUpdatedTime d = Some t"
  shows "GetToolchainClusterConditions (Some cl) period timeout now made = Ret
    [if Status d = ConditionTrue
     then if now - t > period + timeout
       then NewComponentErrorCondition made ToolchainStatusClusterConnectionLastProbeTimeExceededReason
         (ErrMsgClusterConnectionLastProbeTimeExceeded @ '': '' @ Duration_String (period + timeout))
       else NewComponentReadyCondition made ToolchainStatusClusterConnectionReadyReason
     else NewComponentErrorCondition made ToolchainStatusClusterConnectionNotReadyReason
       (if Message d = '''' then ''the cluster connection is not ready'' else Message d)]"
proof -
  have "d \<in> set (ready_conditions (Conditions (ClusterStatus cl)))" by (simp only: assms list.set) simp
  then have d: "Type d = ConditionReady" by simp
  have ready: "IsReady (ClusterStatus cl) = (Status d = ConditionTrue)"
    unfolding IsReady_def by (subst ready_only(1)) (simp add: assms d)
  have msg: "not_ready_message (Conditions (ClusterStatus cl)) =
      (if Message d = '''' then None else Some (Message d))"
    by (subst ready_only(2)) (simp add: assms d)
  have probe: "last_probe (Conditions (ClusterStatus cl)) None = Ret (Some t)"
    by (subst ready_only(3)) (simp add: assms d)
  show ?thesis
    by (simp add: GetToolchainClusterConditions_def ready msg probe Let_def)
qed

definition health_condition ::
  "('e, 'k, 'cl) cluster_service \<Rightarrow> 'cs health_reconciler \<Rightarrow> toolchain_cluster \<Rightarrow> 'cl cluster_cache \<Rightarrow> condition" where
  "health_condition s r tc c =
     (case snd (GetCachedToolchainCluster s (tc_Name tc) c) of
        None \<Rightarrow> clusterOfflineCondition (notInCacheMessage (tc_Name tc))
      | Some cl \<Rightarrow>
          (case rec_newForConfig r (RestConfig (Config cl)) of
             Inl err \<Rightarrow> clusterOfflineCondition err
           | Inr cs \<Rightarrow>
               (case getClusterHealth r cs of
                  Inl err \<Rightarrow> clusterOfflineCondition err
                | Inr healthy \<Rightarrow> if healthy then clusterReadyCondition else clusterNotReadyCondition)))"

lemma health_condition_ready: "Type (health_condition s r tc c) = ConditionReady"
  by (simp add: health_condition_def clusterOfflineCondition_def clusterReadyCondition_def
      clusterNotReadyCondition_def split: option.splits sum.splits)

lemma Reconcile_submits:
  assumes "rec_get r request = Inr tc" and "Reconcile s r request c = (c', upds, res, err)"
  shows "\<exists>upd. upds = [upd] \<and>
    Conditions (tc_Status upd) = AddOrUpdateStatusConditionsWithLastUpdatedTimestamp (rec_now r)
      (Conditions (tc_Status tc)) [health_condition s r tc c] \<and>
    upd = tc\<lparr>tc_Status := tc_Status upd\<rparr> \<and>
    (err = None \<longleftrightarrow> rec_statusUpdate r upd = None \<and>
       (\<exists>cl cs. snd (GetCachedToolchainCluster s (tc_Name tc) c) = Some cl \<and>
          rec_newForConfig r (RestConfig (Config cl)) = Inr cs)) \<and>
    RequeueAfter res = (if err = None then RequeueAfterOf r else 0)"
  using assms
  by (auto simp: Reconcile_def Let_def updateStatus_def health_condition_def no_requeue_def
      getClusterHealthCondition_def split: option.splits sum.splits prod.splits)

lemma Reconcile_reported:
  assumes "rec_get r request = Inr tc" and "distinct (map Type (Conditions (tc_Status tc)))"
    and "Reconcile s r request c = (c', [upd], res, err)" and "ClusterStatus cl = tc_Status upd"
  shows "GetToolchainClusterConditions (Some cl) period timeout now made = Ret
    [let d = health_condition s r tc c
     in if Status d = ConditionTrue
        then if now - rec_now r 0 > period + timeout
          then NewComponentErrorCondition made ToolchainStatusClusterConnectionLastProbeTimeExceededReason
            (ErrMsgClusterConnectionLastProbeTimeExceeded @ '': '' @ Duration_String (period + timeout))
          else NewComponentReadyCondition made ToolchainStatusClusterConnectionReadyReason
        else NewComponentErrorCondition made ToolchainStatusClusterConnectionNotReadyReason
          (if Message d = '''' then ''the cluster connection is not ready'' else Message d)]"
proof -
  let ?d = "health_condition s r tc c"
  have conds: "Conditions (ClusterStatus cl) = AddOrUpdateStatusConditionsWithLastUpdatedTimestamp
      (rec_now r) (Conditions (tc_Status tc)) [?d]"
    using Reconcile_submits [OF assms(1,3)] assms(4) by auto
  obtain t where "ready_conditions (Conditions (ClusterStatus cl)) =
      [?d\<lparr>LastTransitionTime := t, LastUpdatedTime := Some (rec_now r 0)\<rparr>]"
    using stamped_condition [OF assms(2), of ?d "rec_now r"] by (auto simp: conds health_condition_ready)
  from status_of_single_ready [OF this, of "rec_now r 0"] show ?thesis
    by (simp add: Let_def)
qed

section \<open>Properties\<close>

text \<open>C8: A reconciliation of an existing ToolchainCluster submits exactly one status, which
  differs from the fetched object only in the status, whose Ready condition is the outcome of
  the health check (or why there was none) and whose other conditions are kept; it is
  requeued after the configured time exactly when there is no error, and there is none
  exactly when the cluster is cached, its client can be made and the update was accepted. A
  missing object ends the monitoring, and any other error of the read is returned.\<close>

theorem reconcile_submits_health:
  "case rec_get r request of
     Inl err \<Rightarrow> Reconcile s r request c =
       (c, [], no_requeue, if IsNotFound err then None else Some (GetFailed err))
   | Inr tc \<Rightarrow> \<exists>c' res err upd. Reconcile s r request c = (c', [upd], res, err) \<and>
       cond_abs (Conditions (tc_Status upd)) = (cond_abs (Conditions (tc_Status tc)))
         (ConditionReady \<mapsto> core (health_condition s r tc c)) \<and>
       upd = tc\<lparr>tc_Status := tc_Status upd\<rparr> \<and>
       (err = None \<longleftrightarrow> rec_statusUpdate r upd = None \<and>
          (\<exists>cl cs. snd (GetCachedToolchainCluster s (tc_Name tc) c) = Some cl \<and>
             rec_newForConfig r (RestConfig (Config cl)) = Inr cs)) \<and>
       RequeueAfter res = (if err = None then RequeueAfterOf r else 0)"
proof (cases "rec_get r request")
  case (Inl err)
  then show ?thesis by (simp add: Reconcile_def)
next
  case (Inr tc)
  have "cond_abs (AddOrUpdateStatusConditionsWithLastUpdatedTimestamp now cs [d]) =
      (cond_abs cs)(Type d \<mapsto> core d)" for now cs d
    by (simp add: AddOrUpdateStatusConditionsWithLastUpdatedTimestamp_def cond_abs_loop_True
        del: addOrUpdateStatusConditions.simps)
  moreover obtain c' upds res err where r: "Reconcile s r request c = (c', upds, res, err)"
    by (metis surj_pair)
  ultimately show ?thesis
    using Reconcile_submits [OF Inr r] Inr by (auto simp: health_condition_ready)
qed

text \<open>The status a health check submits is read back without a panic: once it is in the
  cache, the status of the connection is ready as long as the check succeeded and is not
  older than the period plus the timeout, and otherwise an error with the message of the
  failed check or of the exceeded time.\<close>

theorem submitted_health_is_reported:
  assumes "rec_get r request = Inr tc" and "distinct (map Type (Conditions (tc_Status tc)))"
    and "Reconcile s r request c = (c', [upd], res, err)" and "ClusterStatus cl = tc_Status upd"
  shows "GetToolchainClusterConditions (Some cl) period timeout now made = Ret
    [let d = health_condition s r tc c
     in if Status d = ConditionTrue
        then if now - rec_now r 0 > period + timeout
          then NewComponentErrorCondition made ToolchainStatusClusterConnectionLastProbeTimeExceededReason
            (ErrMsgClusterConnectionLastProbeTimeExceeded @ '': '' @ Duration_String (period + timeout))
          else NewComponentReadyCondition made ToolchainStatusClusterConnectionReadyReason
        else NewComponentErrorCondition made ToolchainStatusClusterConnectionNotReadyReason
          (if Message d = '''' then ''the cluster connection is not ready'' else Message d)]"
  using assms by (rule Reconcile_reported)

definition sample_tc_health :: "nat health_reconciler" where
  "sample_tc_health = \<lparr>rec_get = (\<lambda>n. Inr sample_cluster), rec_statusUpdate = (\<lambda>tc. None),
     rec_newForConfig = (\<lambda>cfg. Inr 0), rec_healthz = (\<lambda>cs. Inr ''ok''), checkHealth = None,
     RequeueAfterOf = 10, rec_now = (\<lambda>n. 100)\<rparr>"

theorem submitted_health_is_reported_witness:
  "\<forall>cfg. \<exists>c' upd res err. Reconcile sample_service sample_tc_health (NamespacedName ''host-operator'' ''member-1'')
       initial_cache = (c', [upd], res, err) \<and>
     GetToolchainClusterConditions (Some \<lparr>Config = cfg, Client = Some (0 :: nat), ClusterStatus = tc_Status upd\<rparr>)
       30 3 140 140 = Ret [NewComponentErrorCondition 140 ToolchainStatusClusterConnectionNotReadyReason
         ''cluster member-1 not found in cache'']"
proof
  fix cfg
  obtain c' upds res err where r: "Reconcile sample_service sample_tc_health
      (NamespacedName ''host-operator'' ''member-1'') initial_cache = (c', upds, res, err)"
    by (metis surj_pair)
  have get: "rec_get sample_tc_health (NamespacedName ''host-operator'' ''member-1'') = Inr sample_cluster"
    by (simp add: sample_tc_health_def)
  obtain upd where upd: "upds = [upd]" using Reconcile_submits [OF get r] by blast
  have miss: "snd (GetCachedToolchainCluster sample_service ''member-1'' initial_cache) = None"
    by (simp add: GetCachedToolchainCluster_def getCached_result getCached_clusters initial_cache_def)
  have d: "health_condition sample_service sample_tc_health sample_cluster initial_cache =
      clusterOfflineCondition ''cluster member-1 not found in cache''"
    using miss by (simp add: health_condition_def notInCacheMessage_def sample_cluster_def)
  have "distinct (map Type (Conditions (tc_Status sample_cluster)))" by (simp add: sample_cluster_def)
  from submitted_health_is_reported [OF get this r [unfolded upd], of
      "\<lparr>Config = cfg, Client = Some 0, ClusterStatus = tc_Status upd\<rparr>" 30 3 140 140]
  show "\<exists>c' upd res err. Reconcile sample_service sample_tc_health
      (NamespacedName ''host-operator'' ''member-1'') initial_cache = (c', [upd], res, err) \<and>
     GetToolchainClusterConditions (Some \<lparr>Config = cfg, Client = Some (0 :: nat), ClusterStatus = tc_Status upd\<rparr>)
       30 3 140 140 = Ret [NewComponentErrorCondition 140 ToolchainStatusClusterConnectionNotReadyReason
         ''cluster member-1 not found in cache'']"
    using r upd by (simp add: d clusterOfflineCondition_def)
qed

lemma last_probe_panics:
  "last_probe cs t = Panic p \<longleftrightarrow> p = NilDereference \<and>
     list_ex (\<lambda>d. Type d = ConditionReady \<and> LastUpdatedTime d = None) cs"
  by (induction cs t rule: last_probe.induct) (auto split: option.splits)

text \<open>Reading the status of a ready cluster panics exactly when one of its Ready
  conditions has no time of the last update: the code dereferences it without a check.\<close>

theorem missing_probe_time_panics:
  "(\<exists>p. GetToolchainClusterConditions (Some cl) period timeout now made = Panic p) \<longleftrightarrow>
     IsReady (ClusterStatus cl) \<and>
     list_ex (\<lambda>d. Type d = ConditionReady \<and> LastUpdatedTime d = None) (Conditions (ClusterStatus cl))"
proof -
  let ?probe = "last_probe (Conditions (ClusterStatus cl)) None"
  show ?thesis
    using last_probe_panics [of "Conditions (ClusterStatus cl)" None]
    by (cases ?probe) (auto simp: GetToolchainClusterConditions_def Let_def split: option.splits)
qed

text \<open>The cache follows the API: when a reconciliation of the cache controller returns no
  error, a missing object has no entry, and an existing one has an entry with its current
  configuration and status; when it returns an error, the entries are as they were.\<close>

theorem cache_follows_api:
  "case CacheReconcile r request c of
     (c', Some err) \<Rightarrow> clusters c' = clusters c
   | (c', None) \<Rightarrow>
       (case client_get r request of
          Inl err \<Rightarrow> map_of (clusters c') = (map_of (clusters c))(name_of request := None)
        | Inr tc \<Rightarrow> \<exists>cfg cl. NewClusterConfig (svc_client (clusterCacheService r)) tc
              (svc_timeout (clusterCacheService r)) = Inr cfg \<and>
            map_of (clusters c') = (map_of (clusters c))
              (tc_Name tc \<mapsto> \<lparr>Config = cfg, Client = cl, ClusterStatus = tc_Status tc\<rparr>))"
proof (cases "client_get r request")
  case (Inl err)
  then show ?thesis by (simp add: CacheReconcile_def DeleteToolchainCluster_def cache.lkup_del)
next
  case (Inr tc)
  obtain c' e where add: "addToolchainCluster (clusterCacheService r) tc c = (c', e)" by fastforce
  then show ?thesis
  proof (cases rule: addToolchainCluster_cases)
    case (error e')
    with add Inr show ?thesis by (simp add: CacheReconcile_def AddOrUpdateToolchainCluster_def)
  next
    case (added cfg c1 cl)
    have "Name cfg = tc_Name tc" using added(2) NewClusterConfig_Inr by blast
    with added client_for_frame [OF added(4)] add Inr show ?thesis
      by (auto simp: CacheReconcile_def AddOrUpdateToolchainCluster_def cache.lkup_add)
  qed
qed

end
