(* ===== verification/VersionChecks.thy ===== *)
theory VersionChecks
  imports Conditions GoStrings
begin

text \<open>
  \<open>pkg/status/versionchecks.go\<close> with the rate limit of \<open>pkg/client/github_client.go\<close>,
  and \<open>pkg/status/deployment.go\<close>. What GitHub and the Kubernetes client answer are
  arguments. The clock of one check is \<open>now\<close>: reading 0 is in
  \<open>CanIssueGitHubRequest\<close>, 1 is the recorded time of the call, 2 the comparison with
  the expected deployment and 3 the time of the condition made.
\<close>

section \<open>The rate limit\<close>

definition minute :: time where
  "minute = 60 * 10 ^ 9"

definition GitHubAPICallDelay :: time where
  "GitHubAPICallDelay = 1 * minute"

definition CanIssueGitHubRequest :: "time \<Rightarrow> time \<Rightarrow> bool" where
  "CanIssueGitHubRequest now lastGitHubAPICall \<longleftrightarrow>
     time_IsZero lastGitHubAPICall \<or> now > lastGitHubAPICall + GitHubAPICallDelay"

section \<open>The latest commit\<close>

record github_repository =
  Org :: string
  RepoName :: string
  Branch :: string
  DeployedCommitSHA :: string

text \<open>
  \<open>github.RepositoryCommit\<close>: its SHA, the commit's author date (the outer option is the
  pointer \<open>Commit\<close>, the inner one is \<open>Author\<close> or its date) and whether any other
  field is set. An error is a message, and whether it is a \<open>github.ErrorResponse\<close>,
  whose own message replaces it.
\<close>

record repository_commit =
  SHA :: "string option"
  AuthorDate :: "time option option"
  OtherFields :: bool

datatype github_error = ErrorResponse string string | OtherGithubError string

text \<open>
  An answer of \<open>GetCommit\<close>: the commit, the status code of the response (\<open>None\<close>
  for a nil response) and the error.
\<close>

record commit_answer =
  ans_commit :: "repository_commit option"
  ans_status :: "int option"
  ans_err :: "github_error option"

definition getLatestCommit :: "commit_answer \<Rightarrow> github_repository \<Rightarrow> (string + repository_commit) go" where
  "getLatestCommit ans githubRepo =
     (case ans_err ans of
        Some (ErrorResponse full msg) \<Rightarrow> Ret (Inl msg)
      | Some (OtherGithubError msg) \<Rightarrow> Ret (Inl msg)
      | None \<Rightarrow>
          (case ans_status ans of
             None \<Rightarrow> Panic NilDereference
           | Some code \<Rightarrow>
               if code \<noteq> 200
               then Ret (Inl (''invalid response code from github commits API. resp.Response.StatusCode: ''
                 @ Itoa code @ '', repoName: '' @ RepoName githubRepo @ '', repoBranch: '' @ Branch githubRepo))
               else case ans_commit ans of
                      None \<Rightarrow> Ret (Inl (''no commits returned. repoName: '' @ RepoName githubRepo
                        @ '', repoBranch: '' @ Branch githubRepo))
                    | Some c \<Rightarrow>
                        if SHA c = None \<and> AuthorDate c = None \<and> \<not> OtherFields c
                        then Ret (Inl (''no commits returned. repoName: '' @ RepoName githubRepo
                          @ '', repoBranch: '' @ Branch githubRepo))
                        else Ret (Inr c)))"

section \<open>The check\<close>

definition ErrMsgDeploymentIsNotUpToDate :: string where
  "ErrMsgDeploymentIsNotUpToDate = ''deployment version is not up to date with latest github commit SHA''"

definition DeploymentThreshold :: time where
  "DeploymentThreshold = 30 * minute"

text \<open>The map is nil until the first check that gets so far.\<close>

record version_check_manager =
  LastGHCallsPerRepo :: "(string, time) gomap option"

text \<open>The comparison of the commits, with the formatting of the expected time an argument.\<close>

definition compare_commits ::
  "(time \<Rightarrow> string) \<Rightarrow> (nat \<Rightarrow> time) \<Rightarrow> github_repository \<Rightarrow> repository_commit \<Rightarrow> condition go" where
  "compare_commits format now githubRepo latestCommit =
     (case AuthorDate latestCommit of
        None \<Rightarrow> Panic NilDereference
      | Some date \<Rightarrow>
          (let githubCommitTimestamp = (case date of Some t \<Rightarrow> t | None \<Rightarrow> 0);
               expectedDeploymentTime = githubCommitTimestamp + DeploymentThreshold
           in case SHA latestCommit of
                None \<Rightarrow> Panic NilDereference
              | Some githubCommitSHA \<Rightarrow>
                  if githubCommitSHA \<noteq> DeployedCommitSHA githubRepo \<and> now 2 > expectedDeploymentTime
                  then Ret (NewComponentErrorCondition (now 3) ToolchainStatusDeploymentNotUpToDateReason
                    (ErrMsgDeploymentIsNotUpToDate @ ''. deployed commit SHA '' @ DeployedCommitSHA githubRepo
                     @ '' ,github latest SHA '' @ githubCommitSHA
                     @ '', expected deployment timestamp: '' @ format expectedDeploymentTime))
                  else Ret (NewComponentReadyCondition (now 3) ToolchainStatusDeploymentUpToDateReason)))"

text \<open>
  The result is the manager afterwards, whether GitHub was called, and the condition (or the
  panic). \<open>get_commit\<close> is only asked when it is called.
\<close>

definition CheckDeployedVersionIsUpToDate ::
  "(time \<Rightarrow> string) \<Rightarrow> (nat \<Rightarrow> time) \<Rightarrow> (github_repository \<Rightarrow> commit_answer) \<Rightarrow> version_check_manager \<Rightarrow>
   bool \<Rightarrow> string \<Rightarrow> condition list \<Rightarrow> github_repository \<Rightarrow>
   version_check_manager \<times> bool \<times> condition go" where
  "CheckDeployedVersionIsUpToDate format now get_commit m isProd accessTokenKey
     alreadyExistingConditions githubRepo =
     (if \<not> isProd
      then (m, False, Ret ((NewComponentReadyCondition (now 3)
              ToolchainStatusDeploymentRevisionCheckDisabledReason)
              \<lparr>Message := ''is not running in prod environment''\<rparr>))
      else if accessTokenKey = ''''
      then (m, False, Ret ((NewComponentReadyCondition (now 3)
              ToolchainStatusDeploymentRevisionCheckDisabledReason)
              \<lparr>Message := ''access token key is not provided''\<rparr>))
      else
        let calls = (case LastGHCallsPerRepo m of None \<Rightarrow> [] | Some c \<Rightarrow> c);
            lastCall = map_of calls (RepoName githubRepo)
        in if lastCall \<noteq> None \<and> \<not> CanIssueGitHubRequest (now 0) (the lastCall)
           then (m\<lparr>LastGHCallsPerRepo := Some calls\<rparr>, False,
             let (previouslySet, found) = FindConditionByType alreadyExistingConditions ConditionReady
             in if \<not> found
                then Ret (NewComponentErrorCondition (now 3)
                  ToolchainStatusDeploymentRevisionCheckOperatorErrorReason
                  ''unable to find ConditionReady type in existing conditions. Waiting for next attempt ...'')
                else Ret previouslySet)
           else (m\<lparr>LastGHCallsPerRepo := Some (AList.update (RepoName githubRepo) (now 1) calls)\<rparr>, True,
             go_bind (getLatestCommit (get_commit githubRepo) githubRepo) (\<lambda>latest.
               case latest of
                 Inl err \<Rightarrow> Ret (NewComponentErrorCondition (now 3)
                   ToolchainStatusDeploymentRevisionCheckGitHubErrorReason err)
               | Inr latestCommit \<Rightarrow> compare_commits format now githubRepo latestCommit)))"

section \<open>Deployments\<close>

datatype deployment_condition_type = DeploymentAvailable | DeploymentProgressing
  | OtherDeploymentConditionType string

record deployment_condition =
  dc_Type :: deployment_condition_type
  dc_Status :: cond_status

fun deployment_type_string :: "deployment_condition_type \<Rightarrow> string" where
  "deployment_type_string DeploymentAvailable = ''Available''"
| "deployment_type_string DeploymentProgressing = ''Progressing''"
| "deployment_type_string (OtherDeploymentConditionType s) = s"

definition ErrMsgCannotGetDeployment :: string where
  "ErrMsgCannotGetDeployment = ''unable to get the deployment''"

definition ErrMsgDeploymentConditionNotReady :: string where
  "ErrMsgDeploymentConditionNotReady = ''deployment has unready status conditions''"

definition GetDeploymentStatusConditions ::
  "(nsname \<Rightarrow> string + deployment_condition list) \<Rightarrow> time \<Rightarrow> string \<Rightarrow> string \<Rightarrow> condition list" where
  "GetDeploymentStatusConditions get now name namespace =
     (case get (NamespacedName namespace name) of
        Inl err \<Rightarrow> [NewComponentErrorCondition now ToolchainStatusDeploymentNotFoundReason
          (ErrMsgCannotGetDeployment @ '': '' @ err)]
      | Inr conditions \<Rightarrow>
          (case List.find (\<lambda>c. (dc_Type c = DeploymentAvailable \<or> dc_Type c = DeploymentProgressing) \<and>
                              dc_Status c \<noteq> ConditionTrue) conditions of
             Some c \<Rightarrow> [NewComponentErrorCondition now ToolchainStatusDeploymentNotReadyReason
               (ErrMsgDeploymentConditionNotReady @ '': '' @ deployment_type_string (dc_Type c))]
           | None \<Rightarrow> [NewComponentReadyCondition now ToolchainStatusDeploymentReadyReason]))"

definition DeploymentAvailableCondition :: deployment_condition where
  "DeploymentAvailableCondition = \<lparr>dc_Type = DeploymentAvailable, dc_Status = ConditionTrue\<rparr>"

definition DeploymentNotAvailableCondition :: deployment_condition where
  "DeploymentNotAvailableCondition = \<lparr>dc_Type = DeploymentAvailable, dc_Status = ConditionFalse\<rparr>"

definition DeploymentProgressingCondition :: deployment_condition where
  "DeploymentProgressingCondition = \<lparr>dc_Type = DeploymentProgressing, dc_Status = ConditionTrue\<rparr>"

definition DeploymentNotProgressingCondition :: deployment_condition where
  "DeploymentNotProgressingCondition = \<lparr>dc_Type = DeploymentProgressing, dc_Status = ConditionFalse\<rparr>"

section \<open>A rate limiter\<close>

text \<open>
  The contract behind the rate limit: attempts on keys, at the times a clock gives; an
  attempt that is let through records its time, and one is let through only when the last
  recorded time of its key is more than \<open>delay\<close> ago. \<open>calls\<close> are the calls made.
\<close>

locale rate_limiter =
  fixes last_call :: "'s \<Rightarrow> 'k \<Rightarrow> int option"
    and attempt :: "'s \<Rightarrow> 'a \<Rightarrow> 's \<times> bool"
    and key_of :: "'a \<Rightarrow> 'k"
    and time_of :: "'a \<Rightarrow> int"
    and fair :: "'a \<Rightarrow> bool"
    and delay :: int
    and ok :: "'s \<Rightarrow> bool"
  assumes made: "\<lbrakk> ok s; fair a; attempt s a = (s', True) \<rbrakk> \<Longrightarrow>
      ok s' \<and> last_call s' = (last_call s)(key_of a \<mapsto> time_of a) \<and>
      (\<forall>t. last_call s (key_of a) = Some t \<longrightarrow> time_of a > t + delay)"
    and refused: "\<lbrakk> ok s; attempt s a = (s', False) \<rbrakk> \<Longrightarrow> ok s' \<and> last_call s' = last_call s"
    and delay_nonneg: "delay \<ge> 0"
begin

fun calls :: "'s \<Rightarrow> 'a list \<Rightarrow> ('k \<times> int) list" where
  "calls s [] = []"
| "calls s (a # as) =
     (case attempt s a of (s', made) \<Rightarrow> (if made then [(key_of a, time_of a)] else []) @ calls s' as)"

lemma calls_after:
  "\<lbrakk> ok s; list_all fair as; (k, t) \<in> set (calls s as); last_call s k = Some t0 \<rbrakk> \<Longrightarrow> t > t0 + delay"
proof (induction as arbitrary: s t0)
  case Nil
  then show ?case by simp
next
  case (Cons a as)
  obtain s' m where a: "attempt s a = (s', m)" by fastforce
  show ?case
  proof (cases m)
    case False
    with a Cons refused [of s a s'] show ?thesis by fastforce
  next
    case True
    with a Cons.prems made [of s a s'] have s': "ok s'"
        "last_call s' = (last_call s)(key_of a \<mapsto> time_of a)"
        "\<forall>t. last_call s (key_of a) = Some t \<longrightarrow> time_of a > t + delay"
      by auto
    from Cons.prems a True consider "k = key_of a" "t = time_of a" | "(k, t) \<in> set (calls s' as)"
      by auto
    then show ?thesis
    proof cases
      case 1
      with s' Cons.prems show ?thesis by auto
    next
      case 2
      show ?thesis
      proof (cases "k = key_of a")
        case True
        with Cons.IH [OF s'(1) _ 2, of "time_of a"] Cons.prems s' delay_nonneg show ?thesis by fastforce
      next
        case False
        with Cons.IH [OF s'(1) _ 2] Cons.prems s' show ?thesis by auto
      qed
    qed
  qed
qed

lemma calls_spaced:
  "\<lbrakk> ok s; list_all fair as \<rbrakk> \<Longrightarrow>
   sorted_wrt (\<lambda>(k, t) (k', t'). k = k' \<longrightarrow> t' > t + delay) (calls s as)"
proof (induction as arbitrary: s)
  case Nil
  then show ?case by simp
next
  case (Cons a as)
  obtain s' m where a: "attempt s a = (s', m)" by fastforce
  show ?case
  proof (cases m)
    case False
    with a Cons refused [of s a s'] show ?thesis by simp
  next
    case True
    with a Cons.prems made [of s a s'] have "ok s'" and "last_call s' (key_of a) = Some (time_of a)"
      by auto
    with a True Cons calls_after [of s' as] show ?thesis by fastforce
  qed
qed

end

section \<open>The version checks are rate limited\<close>

text \<open>One check: its clock, its arguments and what GitHub would answer.\<close>

record version_check =
  vc_format :: "time \<Rightarrow> string"
  vc_now :: "nat \<Rightarrow> time"
  vc_get_commit :: "github_repository \<Rightarrow> commit_answer"
  vc_isProd :: bool
  vc_token :: string
  vc_existing :: "condition list"
  vc_repo :: github_repository

definition run_check :: "version_check_manager \<Rightarrow> version_check \<Rightarrow> version_check_manager \<times> bool" where
  "run_check m a =
     (let (m', called, _) = CheckDeployedVersionIsUpToDate (vc_format a) (vc_now a) (vc_get_commit a) m
            (vc_isProd a) (vc_token a) (vc_existing a) (vc_repo a)
      in (m', called))"

definition last_gh_call :: "version_check_manager \<Rightarrow> string \<Rightarrow> time option" where
  "last_gh_call m repo = (case LastGHCallsPerRepo m of None \<Rightarrow> None | Some c \<Rightarrow> map_of c repo)"

definition check_clock_ok :: "version_check \<Rightarrow> bool" where
  "check_clock_ok a \<longleftrightarrow> 0 < vc_now a 1 \<and> vc_now a 0 \<le> vc_now a 1"

definition no_zero_call :: "version_check_manager \<Rightarrow> bool" where
  "no_zero_call m \<longleftrightarrow> (case LastGHCallsPerRepo m of None \<Rightarrow> True | Some c \<Rightarrow> 0 \<notin> ran (map_of c))"

lemma no_zero_callD: "no_zero_call m \<Longrightarrow> last_gh_call m repo = Some t \<Longrightarrow> t \<noteq> 0"
  by (auto simp: no_zero_call_def last_gh_call_def ran_def split: option.splits)

lemma run_check_cases:
  assumes "run_check m a = (m', called)"
  shows "if called
    then last_gh_call m' = (last_gh_call m)(RepoName (vc_repo a) \<mapsto> vc_now a 1) \<and>
      (case last_gh_call m (RepoName (vc_repo a)) of None \<Rightarrow> True
       | Some t \<Rightarrow> CanIssueGitHubRequest (vc_now a 0) t)
    else last_gh_call m' = last_gh_call m"
  using assms
  by (auto simp: run_check_def CheckDeployedVersionIsUpToDate_def last_gh_call_def fun_eq_iff Let_def
      split: if_splits option.splits prod.splits)

lemma no_zero_call_iff: "no_zero_call m \<longleftrightarrow> (\<forall>repo. last_gh_call m repo \<noteq> Some 0)"
  by (auto simp: no_zero_call_def last_gh_call_def ran_def split: option.splits)

interpretation version_checks: rate_limiter last_gh_call run_check "\<lambda>a. RepoName (vc_repo a)"
  "\<lambda>a. vc_now a 1" check_clock_ok GitHubAPICallDelay no_zero_call
proof (unfold_locales, goal_cases)
  case (1 s a s')
  then show ?case
    using run_check_cases [of s a s' True]
    by (auto simp: no_zero_call_iff check_clock_ok_def CanIssueGitHubRequest_def time_IsZero_def
        split: option.splits)
next
  case (2 s a s')
  then show ?case using run_check_cases [of s a s' False] by (auto simp: no_zero_call_iff)
next
  case 3
  show ?case by (simp add: GitHubAPICallDelay_def minute_def)
qed

text \<open>The calls a sequence of checks makes to GitHub: the repository and the recorded time.\<close>

fun github_calls :: "version_check_manager \<Rightarrow> version_check list \<Rightarrow> (string \<times> time) list" where
  "github_calls m [] = []"
| "github_calls m (a # as) =
     (let (m', called) = run_check m a
      in if called then (RepoName (vc_repo a), vc_now a 1) # github_calls m' as else github_calls m' as)"

lemma github_calls_eq: "github_calls m as = version_checks.calls m as"
  by (induction m as rule: github_calls.induct) (auto split: prod.splits simp del: One_nat_def)

section \<open>Properties\<close>

text \<open>C16: In any sequence of version checks from a fresh manager, whatever the answers and the
  conditions, two calls to GitHub for the same repository are more than a minute apart.\<close>

theorem github_calls_rate_limited:
  assumes "list_all check_clock_ok checks"
  shows "sorted_wrt (\<lambda>(repo, t) (repo', t'). if repo = repo' then t' > t + minute else True)
    (github_calls \<lparr>LastGHCallsPerRepo = None\<rparr> checks)"
proof -
  have "sorted_wrt (\<lambda>(repo, t) (repo', t'). repo = repo' \<longrightarrow> t' > t + GitHubAPICallDelay)
      (github_calls \<lparr>LastGHCallsPerRepo = None\<rparr> checks)"
    unfolding github_calls_eq by (rule version_checks.calls_spaced [OF _ assms]) (simp add: no_zero_call_def)
  then show ?thesis
    by (rule sorted_wrt_mono_rel [rotated]) (auto simp: GitHubAPICallDelay_def)
qed

definition sample_check :: "time \<Rightarrow> version_check" where
  "sample_check t = \<lparr>vc_format = (\<lambda>t. ''''), vc_now = (\<lambda>i. t), vc_get_commit = (\<lambda>r.
       \<lparr>ans_commit = None, ans_status = Some 503, ans_err = None\<rparr>), vc_isProd = True, vc_token = ''token'',
     vc_existing = [], vc_repo = \<lparr>Org = ''codeready'', RepoName = ''host-operator'', Branch = ''master'',
       DeployedCommitSHA = ''1234''\<rparr>\<rparr>"

theorem github_calls_rate_limited_witness:
  "github_calls \<lparr>LastGHCallsPerRepo = None\<rparr>
      [sample_check minute, sample_check (2 * minute), sample_check (3 * minute)] =
     [(''host-operator'', minute), (''host-operator'', 3 * minute)] \<and>
   sorted_wrt (\<lambda>(repo, t) (repo', t'). if repo = repo' then t' > t + minute else True)
     (github_calls \<lparr>LastGHCallsPerRepo = None\<rparr>
      [sample_check minute, sample_check (2 * minute), sample_check (3 * minute)])"
proof
  show "github_calls \<lparr>LastGHCallsPerRepo = None\<rparr>
      [sample_check minute, sample_check (2 * minute), sample_check (3 * minute)] =
     [(''host-operator'', minute), (''host-operator'', 3 * minute)]"
    by (simp add: run_check_def CheckDeployedVersionIsUpToDate_def sample_check_def
        CanIssueGitHubRequest_def time_IsZero_def GitHubAPICallDelay_def minute_def)
  show "sorted_wrt (\<lambda>(repo, t) (repo', t'). if repo = repo' then t' > t + minute else True)
     (github_calls \<lparr>LastGHCallsPerRepo = None\<rparr>
      [sample_check minute, sample_check (2 * minute), sample_check (3 * minute)])"
    by (rule github_calls_rate_limited) (simp add: check_clock_ok_def sample_check_def minute_def)
qed

text \<open>The verdict of a check that may call GitHub: an error exactly when GitHub gave none
  or another commit whose 30 minutes are over, the reason telling which, and otherwise that
  the deployment is up to date; while the limit holds, the condition found before.\<close>

theorem version_check_verdict:
  "CheckDeployedVersionIsUpToDate format now get_commit m True token existing repo =
     (if token = '''' then (m, False, Ret ((NewComponentReadyCondition (now 3)
          ToolchainStatusDeploymentRevisionCheckDisabledReason)
          \<lparr>Message := ''access token key is not provided''\<rparr>))
      else if case last_gh_call m (RepoName repo) of None \<Rightarrow> False
        | Some t \<Rightarrow> t \<noteq> 0 \<and> now 0 \<le> t + minute
      then (\<lparr>LastGHCallsPerRepo = Some (case LastGHCallsPerRepo m of None \<Rightarrow> [] | Some c \<Rightarrow> c)\<rparr>, False,
        Ret (case List.find (\<lambda>c. Type c = ConditionReady) existing of Some c \<Rightarrow> c
          | None \<Rightarrow> NewComponentErrorCondition (now 3) ToolchainStatusDeploymentRevisionCheckOperatorErrorReason
              ''unable to find ConditionReady type in existing conditions. Waiting for next attempt ...''))
      else (\<lparr>LastGHCallsPerRepo = Some (AList.update (RepoName repo) (now 1)
          (case LastGHCallsPerRepo m of None \<Rightarrow> [] | Some c \<Rightarrow> c))\<rparr>, True,
        case getLatestCommit (get_commit repo) repo of
          Panic p \<Rightarrow> Panic p
        | Ret (Inl err) \<Rightarrow> Ret (NewComponentErrorCondition (now 3)
            ToolchainStatusDeploymentRevisionCheckGitHubErrorReason err)
        | Ret (Inr c) \<Rightarrow>
            (case (AuthorDate c, SHA c) of
               (Some date, Some sha) \<Rightarrow>
                 let expected = (case date of Some t \<Rightarrow> t | None \<Rightarrow> 0) + 30 * minute
                 in Ret (if sha = DeployedCommitSHA repo \<or> now 2 \<le> expected
                   then NewComponentReadyCondition (now 3) ToolchainStatusDeploymentUpToDateReason
                   else NewComponentErrorCondition (now 3) ToolchainStatusDeploymentNotUpToDateReason
                    (ErrMsgDeploymentIsNotUpToDate @ ''. deployed commit SHA '' @ DeployedCommitSHA repo
                     @ '' ,github latest SHA '' @ sha @ '', expected deployment timestamp: '' @ format expected))
             | _ \<Rightarrow> Panic NilDereference)))"
  by (auto simp: CheckDeployedVersionIsUpToDate_def Let_def last_gh_call_def CanIssueGitHubRequest_def
      time_IsZero_def GitHubAPICallDelay_def FindConditionByType_def compare_commits_def
      DeploymentThreshold_def split: option.splits go.splits sum.splits)

text \<open>A deployment is ready exactly when neither of the two conditions that count is not true.\<close>

lemma deployment_ready_iff:
  "GetDeploymentStatusConditions get now name namespace =
     [NewComponentReadyCondition now ToolchainStatusDeploymentReadyReason] \<longleftrightarrow>
   (\<exists>conds. get (NamespacedName namespace name) = Inr conds \<and>
      (\<forall>c\<in>set conds. dc_Type c \<in> {DeploymentAvailable, DeploymentProgressing} \<longrightarrow>
         dc_Status c = ConditionTrue))"
  by (auto simp: GetDeploymentStatusConditions_def NewComponentErrorCondition_def
      NewComponentReadyCondition_def find_None_iff find_Some_iff split: sum.splits option.splits)

lemma deployment_not_available:
  "GetDeploymentStatusConditions (\<lambda>_. Inr [DeploymentProgressingCondition, DeploymentNotAvailableCondition]) now n ns =
     [NewComponentErrorCondition now ToolchainStatusDeploymentNotReadyReason
        ''deployment has unready status conditions: Available'']"
  by (simp add: GetDeploymentStatusConditions_def DeploymentProgressingCondition_def
      DeploymentNotAvailableCondition_def ErrMsgDeploymentConditionNotReady_def)

end
