(* ===== verification/ApplyClient.thy ===== *)
theory ApplyClient
  imports ResourceCache GoStrings
begin

text \<open>
  \<open>pkg/client/client.go\<close>: creating or updating objects in a cluster, and
  \<open>object.go\<close>. A \<open>client.Object\<close> is the record \<open>object\<close>: the metadata the code
  touches, and the Go type with the rest of the object as its content (the ClusterIP of a
  \<open>corev1.Service\<close> apart). The cluster is a state of type \<open>'s\<close> behind the record
  \<open>api_server\<close>, which holds the answers of the Kubernetes client and of the library
  functions the code calls. An update returns the object as the client leaves it. Labels and
  annotations may be nil maps, so they are options.
\<close>

section \<open>Objects\<close>

datatype 'c content = Service (service_ip: string) 'c | Unstructured 'c | OtherGoType 'c

text \<open>An entry of \<open>metadata.managedFields\<close>: its manager and the operation.\<close>

datatype fields_operation = ManagedFieldsOperationApply | ManagedFieldsOperationUpdate

record managed_field =
  Manager :: string
  Operation :: fields_operation

record 'c object =
  ob_GVK :: gvk
  ob_Namespace :: string
  ob_Name :: string
  ob_Labels :: "labels option"
  ob_Annotations :: "labels option"
  ob_ResourceVersion :: string
  ob_Generation :: int
  ManagedFields :: "managed_field list"
  Content :: "'c content"

definition the_map :: "labels option \<Rightarrow> labels" where
  "the_map m = (case m of None \<Rightarrow> [] | Some l \<Rightarrow> l)"

record ('s, 'c) api_server =
  srv_Get :: "'s \<Rightarrow> 'c object \<Rightarrow> nsname \<Rightarrow> api_error + 'c object"
  srv_Create :: "'s \<Rightarrow> 'c object \<Rightarrow> 's \<times> api_error option"
  srv_Update :: "'s \<Rightarrow> 'c object \<Rightarrow> 's \<times> (api_error + 'c object)"
  lib_NestedClusterIP :: "'c \<Rightarrow> string + string option"
  lib_SetNestedClusterIP :: "string \<Rightarrow> 'c \<Rightarrow> string + 'c"
  lib_SetControllerReference :: "nsname \<Rightarrow> 'c object \<Rightarrow> string + 'c object"
  lib_Marshal :: "'c object \<Rightarrow> string option"
  lib_MarshalContent :: "'c object \<Rightarrow> string option"
  lib_Sprint :: "'c object \<Rightarrow> string"

datatype apply_error =
    UnableToGet api_error
  | UnableToSetControllerReference string
  | CreateFailed api_error
  | ClusterIPFailed string
  | UnableToUpdate api_error
  | UnableToCreateResource string string apply_error
  | UnableToCastObject

section \<open>Labels and annotations\<close>

definition MergeLabels :: "'c object \<Rightarrow> labels \<Rightarrow> 'c object" where
  "MergeLabels toolchainObject newLabels =
     toolchainObject\<lparr>ob_Labels := Some (gm_merge (the_map (ob_Labels toolchainObject)) newLabels)\<rparr>"

definition MergeAnnotations :: "'c object \<Rightarrow> labels \<Rightarrow> 'c object" where
  "MergeAnnotations toolchainObject newAnnotations =
     toolchainObject\<lparr>ob_Annotations := Some (gm_merge (the_map (ob_Annotations toolchainObject)) newAnnotations)\<rparr>"

section \<open>The applied configuration\<close>

definition LastAppliedConfigurationAnnotationKey :: label_key where
  "LastAppliedConfigurationAnnotationKey = Key ''toolchain.dev.openshift.com/last-applied-configuration''"

text \<open>
  \<open>delete(copyResource.GetAnnotations(), key)\<close>: the map of a typed object is the object's
  own. \<open>(*Unstructured).GetAnnotations\<close> returns a new map made from the nested content,
  so for an unstructured object the deletion has no effect on the object.
\<close>

definition removeAnnotation :: "'c object \<Rightarrow> label_key \<Rightarrow> 'c object" where
  "removeAnnotation newResource annotationKey =
     (case Content newResource of
        Unstructured c \<Rightarrow> newResource
      | _ \<Rightarrow> newResource\<lparr>ob_Annotations := map_option (AList.delete annotationKey) (ob_Annotations newResource)\<rparr>)"

text \<open>
  \<open>json.Marshal\<close> of the object (\<open>lib_Marshal\<close>), or of the nested map an unstructured
  object is (\<open>lib_MarshalContent\<close>).
\<close>

definition marshalObjectContent :: "('s, 'c) api_server \<Rightarrow> 'c object \<Rightarrow> string option" where
  "marshalObjectContent srv newResource =
     (case Content newResource of
        Unstructured c \<Rightarrow> lib_MarshalContent srv newResource
      | _ \<Rightarrow> lib_Marshal srv newResource)"

definition GetNewConfiguration :: "('s, 'c) api_server \<Rightarrow> 'c object \<Rightarrow> string" where
  "GetNewConfiguration srv newResource =
     (let copyResource = removeAnnotation newResource LastAppliedConfigurationAnnotationKey
      in case marshalObjectContent srv copyResource of
           None \<Rightarrow> lib_Sprint srv copyResource
         | Some newJSON \<Rightarrow> newJSON)"

section \<open>The cluster IP of a service\<close>

definition clusterIP :: "('s, 'c) api_server \<Rightarrow> 'c object \<Rightarrow> string + string option" where
  "clusterIP srv obj =
     (case Content obj of
        Service ip c \<Rightarrow> Inr (if ip \<noteq> '''' then Some ip else None)
      | Unstructured c \<Rightarrow> lib_NestedClusterIP srv c
      | OtherGoType c \<Rightarrow> Inr None)"

definition RetainClusterIP :: "('s, 'c) api_server \<Rightarrow> 'c object \<Rightarrow> 'c object \<Rightarrow> string + 'c object" where
  "RetainClusterIP srv newResource existing =
     (case clusterIP srv existing of
        Inl err \<Rightarrow> Inl err
      | Inr None \<Rightarrow> Inr newResource
      | Inr (Some ip) \<Rightarrow>
          (case Content newResource of
             Service _ c \<Rightarrow> Inr (newResource\<lparr>Content := Service ip c\<rparr>)
           | Unstructured c \<Rightarrow>
               (case lib_SetNestedClusterIP srv ip c of
                  Inl err \<Rightarrow> Inl err
                | Inr c' \<Rightarrow> Inr (newResource\<lparr>Content := Unstructured c'\<rparr>))
           | OtherGoType c \<Rightarrow> Inr newResource))"

section \<open>Applying an object\<close>

record apply_configuration =
  owner :: "nsname option"
  forceUpdate :: bool
  saveConfiguration :: bool

type_synonym apply_option = "apply_configuration \<Rightarrow> apply_configuration"

definition newApplyObjectConfiguration :: "apply_option list \<Rightarrow> apply_configuration" where
  "newApplyObjectConfiguration options =
     foldl (\<lambda>config apply. apply config)
       \<lparr>owner = None, forceUpdate = False, saveConfiguration = True\<rparr> options"


definition ForceUpdate :: "bool \<Rightarrow> apply_option" where
  "ForceUpdate force = (\<lambda>config. config\<lparr>forceUpdate := force\<rparr>)"

definition SaveConfiguration :: "bool \<Rightarrow> apply_option" where
  "SaveConfiguration save = (\<lambda>config. config\<lparr>saveConfiguration := save\<rparr>)"

definition createObj ::
  "('s, 'c) api_server \<Rightarrow> 's \<Rightarrow> 'c object \<Rightarrow> nsname option \<Rightarrow> 's \<times> apply_error option" where
  "createObj srv s newResource own =
     (case own of
        None \<Rightarrow> (let (s', err) = srv_Create srv s newResource in (s', map_option CreateFailed err))
      | Some o1 \<Rightarrow>
          (case lib_SetControllerReference srv o1 newResource of
             Inl err \<Rightarrow> (s, Some (UnableToSetControllerReference err))
           | Inr obj \<Rightarrow> (let (s', err) = srv_Create srv s obj in (s', map_option CreateFailed err))))"

text \<open>The object with its configuration in the annotation, and the configuration.\<close>

definition annotate ::
  "('s, 'c) api_server \<Rightarrow> apply_configuration \<Rightarrow> 'c object \<Rightarrow> 'c object \<times> string" where
  "annotate srv config obj =
     (if saveConfiguration config
      then let newConfiguration = GetNewConfiguration srv obj
           in (obj\<lparr>ob_Annotations := Some (AList.update LastAppliedConfigurationAnnotationKey
                 newConfiguration (the_map (ob_Annotations obj)))\<rparr>, newConfiguration)
      else (obj, ''''))"

definition already_applied :: "'c object \<Rightarrow> string \<Rightarrow> bool" where
  "already_applied existing newConfiguration \<longleftrightarrow>
     (case ob_Annotations existing of
        None \<Rightarrow> False
      | Some existingAnnotations \<Rightarrow>
          (case map_of existingAnnotations LastAppliedConfigurationAnnotationKey of
             None \<Rightarrow> False
           | Some lastApplied \<Rightarrow> newConfiguration \<noteq> '''' \<and> newConfiguration = lastApplied))"

text \<open>The object to send when it exists: an existing ServiceAccount keeps its content.\<close>

definition to_update :: "'c object \<Rightarrow> 'c object \<Rightarrow> 'c object" where
  "to_update obj0 existing =
     (let obj = obj0\<lparr>ob_ResourceVersion := ob_ResourceVersion existing\<rparr>
      in if EqualFold (gvk_kind (ob_GVK obj)) ''ServiceAccount''
         then MergeLabels (MergeAnnotations existing (the_map (ob_Annotations obj))) (the_map (ob_Labels obj))
         else obj)"

text \<open>
  The result is whether the object was created or changed, and the error. \<open>existing\<close> is
  filled by \<open>Get\<close>, so only its type and key matter before. The cluster IP is read from
  \<open>existing\<close> after the annotations and labels were merged into it, which do not hold it.
\<close>

definition applyObject ::
  "('s, 'c) api_server \<Rightarrow> 's \<Rightarrow> 'c object \<Rightarrow> apply_option list \<Rightarrow> 's \<times> bool \<times> apply_error option" where
  "applyObject srv s obj0 options =
     (let config = newApplyObjectConfiguration options;
          (obj, newConfiguration) = annotate srv config obj0;
          namespacedName = NamespacedName (ob_Namespace obj) (ob_Name obj)
      in case srv_Get srv s obj0 namespacedName of
           Inl err \<Rightarrow>
             if IsNotFound err
             then let (s', e) = createObj srv s (obj\<lparr>ob_ResourceVersion := ''''\<rparr>) (owner config)
                  in (s', True, e)
             else (s, False, Some (UnableToGet err))
         | Inr existing \<Rightarrow>
             if \<not> forceUpdate config \<and> already_applied existing newConfiguration
             then (s, False, None)
             else let originalGeneration = ob_Generation existing
                  in case RetainClusterIP srv (to_update obj existing) existing of
                       Inl err \<Rightarrow> (s, False, Some (ClusterIPFailed err))
                     | Inr obj' \<Rightarrow>
                         (case srv_Update srv s obj' of
                            (s', Inl err) \<Rightarrow> (s', False, Some (UnableToUpdate err))
                          | (s', Inr after) \<Rightarrow> (s', originalGeneration \<noteq> ob_Generation after, None)))"

text \<open>
  A \<open>runtime.Object\<close> that is no \<open>client.Object\<close> is \<open>None\<close>. The error of the application
  is not wrapped.
\<close>

definition ApplyRuntimeObject ::
  "('s, 'c) api_server \<Rightarrow> 's \<Rightarrow> 'c object option \<Rightarrow> apply_option list \<Rightarrow> 's \<times> bool \<times> apply_error option" where
  "ApplyRuntimeObject srv s obj options =
     (case obj of
        None \<Rightarrow> (s, False, Some UnableToCastObject)
      | Some clientObj \<Rightarrow> applyObject srv s clientObj options)"

definition ApplyObject ::
  "('s, 'c) api_server \<Rightarrow> 's \<Rightarrow> 'c object \<Rightarrow> apply_option list \<Rightarrow> 's \<times> bool \<times> apply_error option" where
  "ApplyObject srv s obj options =
     (let (s', createdOrUpdated, err) = applyObject srv s obj options
      in (s', createdOrUpdated,
          map_option (UnableToCreateResource (gvk_kind (ob_GVK obj)) (gvk_version (ob_GVK obj))) err))"

fun Apply_loop ::
  "('s, 'c) api_server \<Rightarrow> labels \<Rightarrow> 's \<Rightarrow> 'c object list \<Rightarrow> bool \<Rightarrow> 's \<times> bool \<times> apply_error option" where
  "Apply_loop srv newLabels s [] createdOrUpdated = (s, createdOrUpdated, None)"
| "Apply_loop srv newLabels s (toolchainObject # rest) createdOrUpdated =
     (case ApplyObject srv s (MergeLabels toolchainObject newLabels) [ForceUpdate True] of
        (s', result, Some err) \<Rightarrow>
          (s', False, Some (UnableToCreateResource (gvk_kind (ob_GVK toolchainObject))
             (gvk_version (ob_GVK toolchainObject)) err))
      | (s', result, None) \<Rightarrow> Apply_loop srv newLabels s' rest (createdOrUpdated \<or> result))"

definition Apply ::
  "('s, 'c) api_server \<Rightarrow> 's \<Rightarrow> 'c object list \<Rightarrow> labels \<Rightarrow> 's \<times> bool \<times> apply_error option" where
  "Apply srv s toolchainObjects newLabels = Apply_loop srv newLabels s toolchainObjects False"

fun ApplyUnstructuredObjectsWithNewLabels ::
  "('s, 'c) api_server \<Rightarrow> 's \<Rightarrow> 'c object list \<Rightarrow> labels \<Rightarrow> 's \<times> apply_error option" where
  "ApplyUnstructuredObjectsWithNewLabels srv s [] newLabels = (s, None)"
| "ApplyUnstructuredObjectsWithNewLabels srv s (unstructuredObj # rest) newLabels =
     (case ApplyObject srv s (MergeLabels unstructuredObj newLabels) [SaveConfiguration False] of
        (s', result, Some err) \<Rightarrow> (s', Some err)
      | (s', result, None) \<Rightarrow> ApplyUnstructuredObjectsWithNewLabels srv s' rest newLabels)"

section \<open>Sorting and comparing objects\<close>

definition joined_name :: "'c object \<Rightarrow> string" where
  "joined_name object = ob_Namespace object @ '','' @ ob_Name object"

text \<open>For each sorted name the first object of that name; every name has one.\<close>

definition SortObjectsByName :: "'c object list \<Rightarrow> 'c object list" where
  "SortObjectsByName objects =
     map (\<lambda>name. the (List.find (\<lambda>object. joined_name object = name) objects))
       (sort_Strings (map joined_name objects))"

definition SameGVKandName :: "'c object \<Rightarrow> 'c object \<Rightarrow> bool" where
  "SameGVKandName a b \<longleftrightarrow> ob_GVK a = ob_GVK b \<and> ob_Name a = ob_Name b"

section \<open>What an application sends\<close>

lemma map_of_MergeLabels:
  "gm_ok new \<Longrightarrow> map_of (the_map (ob_Labels (MergeLabels obj new))) = map_of (the_map (ob_Labels obj)) ++ map_of new"
  by (simp add: MergeLabels_def the_map_def map_of_gm_merge)

lemma map_of_MergeAnnotations:
  "gm_ok new \<Longrightarrow>
   map_of (the_map (ob_Annotations (MergeAnnotations obj new))) = map_of (the_map (ob_Annotations obj)) ++ map_of new"
  by (simp add: MergeAnnotations_def the_map_def map_of_gm_merge)

lemma Merge_frame [simp]:
  "ob_GVK (MergeLabels obj new) = ob_GVK obj" "ob_Name (MergeLabels obj new) = ob_Name obj"
  "ob_Namespace (MergeLabels obj new) = ob_Namespace obj" "Content (MergeLabels obj new) = Content obj"
  "ob_Annotations (MergeLabels obj new) = ob_Annotations obj"
  "ob_ResourceVersion (MergeLabels obj new) = ob_ResourceVersion obj"
  "ob_GVK (MergeAnnotations obj new) = ob_GVK obj" "ob_Name (MergeAnnotations obj new) = ob_Name obj"
  "ob_Namespace (MergeAnnotations obj new) = ob_Namespace obj" "Content (MergeAnnotations obj new) = Content obj"
  "ob_Labels (MergeAnnotations obj new) = ob_Labels obj"
  "ob_ResourceVersion (MergeAnnotations obj new) = ob_ResourceVersion obj"
  by (simp_all add: MergeLabels_def MergeAnnotations_def)

lemma annotate_frame:
  assumes "annotate srv config obj = (obj', conf)"
  shows "ob_GVK obj' = ob_GVK obj" "ob_Name obj' = ob_Name obj" "ob_Namespace obj' = ob_Namespace obj"
    "ob_Labels obj' = ob_Labels obj" "Content obj' = Content obj"
  using assms by (auto simp: annotate_def Let_def split: if_splits)


lemma RetainClusterIP_frame:
  assumes "RetainClusterIP srv obj existing = Inr obj'"
  shows "ob_GVK obj' = ob_GVK obj" "ob_Name obj' = ob_Name obj" "ob_Namespace obj' = ob_Namespace obj"
    "ob_Labels obj' = ob_Labels obj" "ob_Annotations obj' = ob_Annotations obj"
    "ob_ResourceVersion obj' = ob_ResourceVersion obj"
  using assms by (auto simp: RetainClusterIP_def split: sum.splits option.splits content.splits)




section \<open>What the cluster promises\<close>














lemma Apply_loop_flag:
  "Apply_loop srv newLabels s objs flag =
     (case Apply_loop srv newLabels s objs False of
        (s', c, Some e) \<Rightarrow> (s', False, Some e) | (s', c, None) \<Rightarrow> (s', flag \<or> c, None))"
proof (induction objs arbitrary: s flag)
  case Nil
  then show ?case by simp
next
  case (Cons obj rest)
  obtain s' r e where a: "ApplyObject srv s (MergeLabels obj newLabels) [ForceUpdate True] = (s', r, e)"
    by (metis surj_pair)
  obtain s1 c1 e1 where l: "Apply_loop srv newLabels s' rest False = (s1, c1, e1)" by (metis surj_pair)
  show ?case
    using Cons.IH [of s' "flag \<or> r"] Cons.IH [of s' r] a l by (cases e; cases e1) auto
qed

section \<open>The requests of an application\<close>

text \<open>A cluster that keeps the writes it is sent, in order, beside its state.\<close>

datatype 'c request = CreateRequest "'c object" | UpdateRequest "'c object"

definition logging :: "('s, 'c) api_server \<Rightarrow> ('s \<times> 'c request list, 'c) api_server" where
  "logging srv = \<lparr>
     srv_Get = (\<lambda>s. srv_Get srv (fst s)),
     srv_Create = (\<lambda>s obj. let (s', err) = srv_Create srv (fst s) obj in ((s', snd s @ [CreateRequest obj]), err)),
     srv_Update = (\<lambda>s obj. let (s', r) = srv_Update srv (fst s) obj in ((s', snd s @ [UpdateRequest obj]), r)),
     lib_NestedClusterIP = lib_NestedClusterIP srv, lib_SetNestedClusterIP = lib_SetNestedClusterIP srv,
     lib_SetControllerReference = lib_SetControllerReference srv,
     lib_Marshal = lib_Marshal srv, lib_MarshalContent = lib_MarshalContent srv, lib_Sprint = lib_Sprint srv\<rparr>"

lemma logging_fields [simp]:
  "lib_NestedClusterIP (logging srv) = lib_NestedClusterIP srv"
  "lib_SetNestedClusterIP (logging srv) = lib_SetNestedClusterIP srv"
  "lib_SetControllerReference (logging srv) = lib_SetControllerReference srv"
  "lib_Marshal (logging srv) = lib_Marshal srv" "lib_MarshalContent (logging srv) = lib_MarshalContent srv"
  "lib_Sprint (logging srv) = lib_Sprint srv" "srv_Get (logging srv) s = srv_Get srv (fst s)"
  by (simp_all add: logging_def)

lemma logging_writes:
  "srv_Create (logging srv) s obj = (let (s', err) = srv_Create srv (fst s) obj in ((s', snd s @ [CreateRequest obj]), err))"
  "srv_Update (logging srv) s obj = (let (s', r) = srv_Update srv (fst s) obj in ((s', snd s @ [UpdateRequest obj]), r))"
  by (simp_all add: logging_def)

lemma logging_library [simp]:
  "GetNewConfiguration (logging srv) obj = GetNewConfiguration srv obj"
  "annotate (logging srv) config obj = annotate srv config obj"
  "RetainClusterIP (logging srv) obj existing = RetainClusterIP srv obj existing"
  unfolding GetNewConfiguration_def marshalObjectContent_def annotate_def RetainClusterIP_def clusterIP_def
    logging_fields by (rule refl)+

text \<open>The annotations an application is to send, over those an existing ServiceAccount has.\<close>

definition new_annotations ::
  "('s, 'c) api_server \<Rightarrow> apply_configuration \<Rightarrow> 'c object \<Rightarrow> label_key \<Rightarrow> string option" where
  "new_annotations srv config obj =
     (let given = map_of (the_map (ob_Annotations obj))
      in if saveConfiguration config
         then given(LastAppliedConfigurationAnnotationKey \<mapsto> GetNewConfiguration srv obj) else given)"

text \<open>The content \<open>c\<close> with the cluster IP of the existing object, where it has one.\<close>

definition with_cluster_ip :: "('s, 'c) api_server \<Rightarrow> 'c object \<Rightarrow> 'c content \<Rightarrow> 'c content \<Rightarrow> bool" where
  "with_cluster_ip srv existing c c' \<longleftrightarrow>
     (case clusterIP srv existing of
        Inl err \<Rightarrow> False
      | Inr None \<Rightarrow> c' = c
      | Inr (Some ip) \<Rightarrow>
          (case c of
             Service _ svc \<Rightarrow> c' = Service ip svc
           | Unstructured u \<Rightarrow> (\<exists>u'. lib_SetNestedClusterIP srv ip u = Inr u' \<and> c' = Unstructured u')
           | OtherGoType _ \<Rightarrow> c' = c))"

definition right_update ::
  "('s, 'c) api_server \<Rightarrow> apply_configuration \<Rightarrow> 'c object \<Rightarrow> 'c object \<Rightarrow> 'c object \<Rightarrow> bool" where
  "right_update srv config obj existing upd \<longleftrightarrow>
     ob_ResourceVersion upd = ob_ResourceVersion existing \<and>
     (if EqualFold (gvk_kind (ob_GVK obj)) ''ServiceAccount''
      then with_cluster_ip srv existing (Content existing) (Content upd) \<and>
        map_of (the_map (ob_Labels upd)) = map_of (the_map (ob_Labels existing)) ++ map_of (the_map (ob_Labels obj)) \<and>
        map_of (the_map (ob_Annotations upd)) =
          map_of (the_map (ob_Annotations existing)) ++ new_annotations srv config obj
      else with_cluster_ip srv existing (Content obj) (Content upd) \<and> ob_Labels upd = ob_Labels obj \<and>
        map_of (the_map (ob_Annotations upd)) = new_annotations srv config obj)"

definition set_owner :: "('s, 'c) api_server \<Rightarrow> nsname option \<Rightarrow> 'c object \<Rightarrow> string + 'c object" where
  "set_owner srv own obj =
     (case own of None \<Rightarrow> Inr obj | Some o1 \<Rightarrow> lib_SetControllerReference srv o1 obj)"

lemma annotate_annotations:
  assumes "annotate srv config obj = (obj1, conf)"
  shows "map_of (the_map (ob_Annotations obj1)) = new_annotations srv config obj"
    and "gm_ok (the_map (ob_Annotations obj)) \<Longrightarrow> gm_ok (the_map (ob_Annotations obj1))"
  using assms by (auto simp: annotate_def new_annotations_def Let_def the_map_def split: if_splits)

lemma RetainClusterIP_content:
  "RetainClusterIP srv obj existing = Inr obj' \<Longrightarrow> with_cluster_ip srv existing (Content obj) (Content obj')"
  by (auto simp: RetainClusterIP_def with_cluster_ip_def split: sum.splits option.splits content.splits)

lemma right_updateI:
  assumes "annotate srv config obj = (obj1, conf)" and "RetainClusterIP srv (to_update obj1 existing) existing = Inr upd"
    and "gm_ok (the_map (ob_Labels obj))" and "gm_ok (the_map (ob_Annotations obj))"
  shows "right_update srv config obj existing upd"
  using annotate_frame [OF assms(1)] annotate_annotations [OF assms(1)] assms(3,4)
    RetainClusterIP_frame [OF assms(2)] RetainClusterIP_content [OF assms(2)]
  by (simp add: right_update_def to_update_def Let_def map_of_MergeLabels map_of_MergeAnnotations split: if_splits)

section \<open>Properties\<close>


text \<open>A cluster with room for one object, for the witnesses.\<close>

definition sample_server :: "(string object option, string) api_server" where
  "sample_server = \<lparr>
     srv_Get = (\<lambda>s o' key. case s of
        Some e \<Rightarrow> if NamespacedName (ob_Namespace e) (ob_Name e) = key then Inr e
          else Inl \<lparr>StatusReason = NotFound, err_message = ''not found''\<rparr>
      | None \<Rightarrow> Inl \<lparr>StatusReason = NotFound, err_message = ''not found''\<rparr>),
     srv_Create = (\<lambda>s o'. (Some (o'\<lparr>ob_ResourceVersion := ''1'', ob_Generation := 1\<rparr>), None)),
     srv_Update = (\<lambda>s o'. let o'' = o'\<lparr>ob_Generation := ob_Generation o' + 1\<rparr> in (Some o'', Inr o'')),
     lib_NestedClusterIP = (\<lambda>c. Inr None), lib_SetNestedClusterIP = (\<lambda>ip c. Inr c),
     lib_SetControllerReference = (\<lambda>own o'. Inr o'),
     lib_Marshal = (\<lambda>o'. Some (''{'' @ ob_Name o' @ ''}'')),
     lib_MarshalContent = (\<lambda>o'. Some (''{'' @ ob_Name o' @ ''}'')), lib_Sprint = ob_Name\<rparr>"

definition sample_object :: "string object" where
  "sample_object = \<lparr>ob_GVK = GroupVersionKind '''' ''v1'' ''ConfigMap'', ob_Namespace = ''dev'', ob_Name = ''cm'',
     ob_Labels = None, ob_Annotations = None, ob_ResourceVersion = '''', ob_Generation = 0, ManagedFields = [],
     Content = OtherGoType ''data''\<rparr>"



text \<open>An unstructured object is not protected from the recursive embedding of its
  configuration: the configuration of an unstructured object that carries the annotation is
  computed from the object with the annotation, which for any other object is removed.\<close>

theorem unstructured_configuration_embeds:
  "GetNewConfiguration srv (obj\<lparr>Content := Unstructured c, ob_Annotations := Some ann\<rparr>) =
     (case lib_MarshalContent srv (obj\<lparr>Content := Unstructured c, ob_Annotations := Some ann\<rparr>) of
        Some json \<Rightarrow> json | None \<Rightarrow> lib_Sprint srv (obj\<lparr>Content := Unstructured c, ob_Annotations := Some ann\<rparr>)) \<and>
   GetNewConfiguration srv (obj\<lparr>Content := OtherGoType c,
       ob_Annotations := Some (AList.update LastAppliedConfigurationAnnotationKey conf ann)\<rparr>) =
   GetNewConfiguration srv (obj\<lparr>Content := OtherGoType c, ob_Annotations := Some ann\<rparr>)"
  by (auto simp: GetNewConfiguration_def marshalObjectContent_def removeAnnotation_def Let_def delete_update_same
      split: option.splits)

text \<open>Applying a list of objects is applying its parts in order: the first error ends it,
  the change flag of a part that failed is dropped, and otherwise the flags are combined.\<close>

theorem apply_composes:
  "Apply srv s (xs @ ys) newLabels =
     (case Apply srv s xs newLabels of
        (s', _, Some err) \<Rightarrow> (s', False, Some err)
      | (s', changed, None) \<Rightarrow>
          (case Apply srv s' ys newLabels of
             (s'', _, Some err) \<Rightarrow> (s'', False, Some err)
           | (s'', changed', None) \<Rightarrow> (s'', changed \<or> changed', None)))"
proof -
  have "Apply_loop srv newLabels s (xs @ ys) flag =
     (case Apply_loop srv newLabels s xs flag of
        (s', _, Some err) \<Rightarrow> (s', False, Some err)
      | (s', changed, None) \<Rightarrow> Apply_loop srv newLabels s' ys changed)" for flag
    by (induction srv newLabels s xs flag rule: Apply_loop.induct) (auto split: prod.splits option.splits)
  note loop = this [of False]
  obtain s1 c1 e1 where x: "Apply_loop srv newLabels s xs False = (s1, c1, e1)" by (metis surj_pair)
  obtain s2 c2 e2 where y: "Apply_loop srv newLabels s1 ys False = (s2, c2, e2)" by (metis surj_pair)
  show ?thesis
    using loop Apply_loop_flag [of srv newLabels s1 ys c1] x y
    by (cases e1; cases e2) (simp_all add: Apply_def)
qed

text \<open>C13: An application reads the object once and writes at most once. A missing object is created
  without a resource version, with its configuration in the annotation and the owner set; when
  the owner cannot be set nothing is written. An existing object is left alone when its last applied
  configuration is the same and no update is forced; otherwise it is updated at its resource
  version with the new labels and annotations, keeping its cluster IP and, for a ServiceAccount,
  its content with the new labels and annotations over its own. Any other error of the read
  is returned without a write.\<close>

theorem apply_object_requests:
  assumes "ApplyObject (logging srv) (s, []) obj options = ((s', log), changed, err)"
    and "config = newApplyObjectConfiguration options"
    and "gm_ok (the_map (ob_Labels obj))" and "gm_ok (the_map (ob_Annotations obj))"
  shows "case srv_Get srv s obj (NamespacedName (ob_Namespace obj) (ob_Name obj)) of
      Inl e \<Rightarrow>
        if IsNotFound e
        then (case set_owner srv (owner config) ((fst (annotate srv config obj))\<lparr>ob_ResourceVersion := ''''\<rparr>) of
                Inl _ \<Rightarrow> log = [] \<and> err \<noteq> None
              | Inr new \<Rightarrow> log = [CreateRequest new])
        else log = [] \<and> err \<noteq> None
    | Inr existing \<Rightarrow>
        if \<not> forceUpdate config \<and> already_applied existing (snd (annotate srv config obj))
        then log = [] \<and> err = None \<and> \<not> changed
        else (log = [] \<and> err \<noteq> None) \<or> (\<exists>upd. log = [UpdateRequest upd] \<and> right_update srv config obj existing upd)"
proof -
  obtain obj1 conf where an: "annotate srv config obj = (obj1, conf)" by fastforce
  note frame = annotate_frame [OF an]
  show ?thesis
  proof (cases "srv_Get srv s obj (NamespacedName (ob_Namespace obj) (ob_Name obj))")
    case (Inl e)
    with assms(1,2) an frame show ?thesis
      by (auto simp: ApplyObject_def applyObject_def createObj_def set_owner_def logging_writes Let_def
          split: prod.splits if_splits option.splits sum.splits)
  next
    case (Inr existing)
    show ?thesis
    proof (cases "RetainClusterIP srv (to_update obj1 existing) existing")
      case (Inl e)
      with Inr assms(1,2) an frame show ?thesis
        by (auto simp: ApplyObject_def applyObject_def Let_def split: if_splits)
    next
      case (Inr upd)
      from right_updateI [OF an this assms(3,4)] Inr
        \<open>srv_Get srv s obj (NamespacedName (ob_Namespace obj) (ob_Name obj)) = Inr existing\<close> assms(1,2) an frame
      show ?thesis
        by (auto simp: ApplyObject_def applyObject_def logging_writes Let_def split: if_splits prod.splits sum.splits)
    qed
  qed
qed

theorem apply_object_requests_witness:
  "\<exists>s' log changed err. ApplyObject (logging sample_server) (Some (sample_object\<lparr>ob_ResourceVersion := ''7''\<rparr>), [])
       sample_object [ForceUpdate True] = ((s', log), changed, err) \<and>
     (\<exists>upd. log = [UpdateRequest upd] \<and> ob_ResourceVersion upd = ''7'' \<and> Content upd = OtherGoType ''data'')"
proof -
  let ?old = "sample_object\<lparr>ob_ResourceVersion := ''7''\<rparr>"
  have kind: "\<not> EqualFold ''ConfigMap'' ''ServiceAccount''"
    by (simp add: EqualFold_def fold_rune_def rune_class_defs byte_def)
  obtain s' log changed err where
    run: "ApplyObject (logging sample_server) (Some ?old, []) sample_object [ForceUpdate True] = ((s', log), changed, err)"
    by (metis surj_pair)
  moreover have "log \<noteq> []" using run kind
    by (auto simp: ApplyObject_def applyObject_def newApplyObjectConfiguration_def ForceUpdate_def annotate_def
        RetainClusterIP_def clusterIP_def to_update_def sample_server_def sample_object_def logging_writes Let_def)
  moreover have "srv_Get sample_server (Some ?old) sample_object
      (NamespacedName (ob_Namespace sample_object) (ob_Name sample_object)) = Inr ?old"
    by (simp add: sample_server_def sample_object_def)
  ultimately have "\<exists>upd. log = [UpdateRequest upd] \<and>
      right_update sample_server (newApplyObjectConfiguration [ForceUpdate True]) sample_object ?old upd"
    using apply_object_requests [OF run refl]
    by (auto simp: newApplyObjectConfiguration_def ForceUpdate_def sample_object_def the_map_def split: if_splits)
  with run kind show ?thesis
    by (auto simp: right_update_def with_cluster_ip_def clusterIP_def sample_object_def)
qed

text \<open>Updating an existing ServiceAccount, by name of its kind in any case, keeps the
  content the cluster has (its references to secrets) and its resource version, and lays the
  new labels and annotations over the existing ones; an update of another object sends the
  new content and labels with the existing resource version.\<close>

theorem service_account_keeps_secrets:
  assumes "gm_ok (the_map (ob_Labels obj))" and "gm_ok (the_map (ob_Annotations obj))"
  shows "let upd = to_update obj existing
    in ob_ResourceVersion upd = ob_ResourceVersion existing \<and>
       (if EqualFold (gvk_kind (ob_GVK obj)) ''ServiceAccount''
        then Content upd = Content existing \<and>
          map_of (the_map (ob_Labels upd)) = map_of (the_map (ob_Labels existing)) ++ map_of (the_map (ob_Labels obj)) \<and>
          map_of (the_map (ob_Annotations upd)) =
            map_of (the_map (ob_Annotations existing)) ++ map_of (the_map (ob_Annotations obj))
        else Content upd = Content obj \<and> ob_Labels upd = ob_Labels obj \<and> ob_Annotations upd = ob_Annotations obj)"
  using assms by (simp add: to_update_def Let_def map_of_MergeLabels map_of_MergeAnnotations)

theorem service_account_keeps_secrets_witness:
  "Content (to_update (sample_object\<lparr>ob_GVK := GroupVersionKind '''' ''v1'' ''serviceaccount''\<rparr>)
      (sample_object\<lparr>Content := OtherGoType ''secrets''\<rparr>)) = OtherGoType ''secrets''"
proof -
  have "EqualFold ''serviceaccount'' ''ServiceAccount''"
    by (simp add: EqualFold_def fold_rune_def rune_class_defs byte_def)
  then show ?thesis
    using service_account_keeps_secrets [of "sample_object\<lparr>ob_GVK := GroupVersionKind '''' ''v1'' ''serviceaccount''\<rparr>"
        "sample_object\<lparr>Content := OtherGoType ''secrets''\<rparr>"]
    by (simp add: sample_object_def the_map_def Let_def)
qed

text \<open>Sorting gives the objects in the order of their joined names, and all of them when no
  two have the same namespaced name.\<close>

theorem sorted_by_name:
  assumes "distinct (map joined_name objs)"
  shows "sorted (map joined_name (SortObjectsByName objs)) \<and> mset (SortObjectsByName objs) = mset objs"
proof -
  let ?f = "\<lambda>n. the (List.find (\<lambda>obj. joined_name obj = n) objs)"
  have f: "?f (joined_name obj) = obj" if "obj \<in> set objs" for obj
    using assms that by (induction objs) (auto simp: image_iff)
  have "mset (SortObjectsByName objs) = image_mset ?f (mset (map joined_name objs))"
    by (simp add: SortObjectsByName_def sort_Strings_def)
  also have "\<dots> = mset objs"
    using f by (simp add: image_mset.compositionality comp_def flip: mset_map cong: map_cong)
  finally have perm: "mset (SortObjectsByName objs) = mset objs" .
  have "joined_name (?f n) = n" if "n \<in> set (map joined_name objs)" for n
    using that f by auto
  then have "map joined_name (SortObjectsByName objs) = sort (map joined_name objs)"
    by (auto simp: SortObjectsByName_def sort_Strings_def comp_def intro!: map_idI)
  with perm show ?thesis by simp
qed

theorem sorted_by_name_witness:
  "mset (SortObjectsByName [sample_object\<lparr>ob_Name := ''b''\<rparr>, sample_object]) =
     {#sample_object\<lparr>ob_Name := ''b''\<rparr>, sample_object#}"
  using sorted_by_name [of "[sample_object\<lparr>ob_Name := ''b''\<rparr>, sample_object]"]
  by (simp add: joined_name_def sample_object_def)

text \<open>Of two objects of different kinds with the same namespaced name, sorting drops the
  second and returns the first twice.\<close>

theorem sorting_drops_homonyms:
  "SortObjectsByName [obj\<lparr>ob_GVK := k1\<rparr>, obj\<lparr>ob_GVK := k2\<rparr>] = [obj\<lparr>ob_GVK := k1\<rparr>, obj\<lparr>ob_GVK := k1\<rparr>]"
  by (simp add: SortObjectsByName_def sort_Strings_def joined_name_def)

end
