(* ===== verification/SSAClient.thy ===== *)
theory SSAClient
  imports ApplyClient
begin

text \<open>
  \<open>pkg/client/ssa_client.go\<close>: applying objects with server-side apply, with the migration
  of the managed fields before it. The server record of the other client is extended with the
  patch and the library calls. An application changes the object it is given: it sets the
  owner, the labels and the kind, clears the managed fields, and a successful patch overwrites
  it with what the server returned (\<open>Inr\<close>). So the object comes back as the call leaves it.
\<close>

section \<open>The client\<close>

record ('s, 'c) ssa_server = "('s, 'c) api_server" +
  srv_Patch :: "'s \<Rightarrow> string \<Rightarrow> 'c object \<Rightarrow> 's \<times> (api_error + 'c object)"
  lib_GVKForObject :: "'c object \<Rightarrow> string + gvk"
  lib_UpgradeManagedFields :: "'c object \<Rightarrow> string \<Rightarrow> string \<Rightarrow> string + 'c object"
  lib_DefaultUserAgent :: string

record ('s, 'c) ssa_client =
  Server :: "('s, 'c) ssa_server"
  FieldOwner :: string
  MigrateSSAByDefault :: bool
  NonSSAFieldOwner :: string

definition NewSSAApplyClient :: "('s, 'c) ssa_server \<Rightarrow> string \<Rightarrow> ('s, 'c) ssa_client" where
  "NewSSAApplyClient cl fieldOwner =
     \<lparr>Server = cl, FieldOwner = fieldOwner, MigrateSSAByDefault = True, NonSSAFieldOwner = ''''\<rparr>"

datatype migrate_ssa = migrateSSANotSpecified | migrateSSAYes | migrateSSANo

record 'c ssa_configuration =
  ssa_owner :: "nsname option"
  newLabels :: labels
  skipIf :: "('c object \<Rightarrow> bool) option"
  migrateSSA_opt :: migrate_ssa

type_synonym 'c ssa_option = "'c ssa_configuration \<Rightarrow> 'c ssa_configuration"

definition newSSAApplyObjectConfiguration :: "'c ssa_option list \<Rightarrow> 'c ssa_configuration" where
  "newSSAApplyObjectConfiguration options =
     foldl (\<lambda>config apply. apply config)
       \<lparr>ssa_owner = None, newLabels = [], skipIf = None, migrateSSA_opt = migrateSSANotSpecified\<rparr> options"

definition SetOwnerReference :: "nsname option \<Rightarrow> 'c ssa_option" where
  "SetOwnerReference own = (\<lambda>config. config\<lparr>ssa_owner := own\<rparr>)"

definition SkipIf :: "('c object \<Rightarrow> bool) option \<Rightarrow> 'c ssa_option" where
  "SkipIf test = (\<lambda>config. config\<lparr>skipIf := test\<rparr>)"

definition EnsureLabels :: "labels \<Rightarrow> 'c ssa_option" where
  "EnsureLabels lbls = (\<lambda>config. config\<lparr>newLabels := lbls\<rparr>)"

definition MigrateSSA :: "bool \<Rightarrow> 'c ssa_option" where
  "MigrateSSA value =
     (\<lambda>config. if value then config\<lparr>migrateSSA_opt := migrateSSAYes\<rparr>
               else config\<lparr>migrateSSA_opt := migrateSSANo\<rparr>)"

definition Configure ::
  "('s, 'c) ssa_server \<Rightarrow> 'c ssa_configuration \<Rightarrow> 'c object \<Rightarrow> string + 'c object" where
  "Configure srv c obj =
     (case ssa_owner c of
        None \<Rightarrow> Inr (MergeLabels obj (newLabels c))
      | Some own \<Rightarrow>
          (case lib_SetControllerReference srv own obj of
             Inl err \<Rightarrow> Inl err
           | Inr obj' \<Rightarrow> Inr (MergeLabels obj' (newLabels c))))"

definition empty_gvk :: gvk where
  "empty_gvk = GroupVersionKind '''' '''' ''''"

definition EnsureGVK :: "('s, 'c) ssa_server \<Rightarrow> 'c object \<Rightarrow> string + 'c object" where
  "EnsureGVK srv obj =
     (if ob_GVK obj \<noteq> empty_gvk then Inr obj
      else case lib_GVKForObject srv obj of
             Inl err \<Rightarrow> Inl err
           | Inr gvk \<Rightarrow> Inr (obj\<lparr>ob_GVK := gvk\<rparr>))"

definition prepareForSSA :: "('s, 'c) ssa_server \<Rightarrow> 'c object \<Rightarrow> string + 'c object" where
  "prepareForSSA srv obj = EnsureGVK srv (obj\<lparr>ManagedFields := []\<rparr>)"

definition isSsaMigrationNeeded :: "'c object \<Rightarrow> string \<Rightarrow> bool" where
  "isSsaMigrationNeeded obj expectedOwner \<longleftrightarrow>
     list_ex (\<lambda>mf. Manager mf = expectedOwner \<and> Operation mf \<noteq> ManagedFieldsOperationApply) (ManagedFields obj)"

datatype ssa_cause =
    ConfigureFailed string
  | PrepareFailed string
  | MigrationGetFailed api_error
  | MigrationUpgradeFailed string
  | MigrationUpdateFailed api_error
  | PatchFailed api_error

definition migrateToSSA ::
  "('s, 'c) ssa_server \<Rightarrow> 's \<Rightarrow> 'c object \<Rightarrow> string \<Rightarrow> string \<Rightarrow> 's \<times> ssa_cause option" where
  "migrateToSSA srv s obj oldFieldOwner newFieldOwner =
     (case lib_UpgradeManagedFields srv obj oldFieldOwner newFieldOwner of
        Inl err \<Rightarrow> (s, Some (MigrationUpgradeFailed err))
      | Inr obj' \<Rightarrow>
          (case srv_Update srv s obj' of
             (s', Inl err) \<Rightarrow> (s', Some (MigrationUpdateFailed err))
           | (s', Inr _) \<Rightarrow> (s', None)))"

definition migrateSSA :: "('s, 'c) ssa_client \<Rightarrow> 's \<Rightarrow> 'c object \<Rightarrow> 's \<times> ssa_cause option" where
  "migrateSSA c s obj =
     (case srv_Get (Server c) s obj (NamespacedName (ob_Namespace obj) (ob_Name obj)) of
        Inl err \<Rightarrow> if \<not> IsNotFound err then (s, Some (MigrationGetFailed err)) else (s, None)
      | Inr orig \<Rightarrow>
          (let oldFieldOwner =
                 (if NonSSAFieldOwner c = '''' then hd (Split (lib_DefaultUserAgent (Server c)) (CHR ''/''))
                  else NonSSAFieldOwner c)
           in if isSsaMigrationNeeded orig oldFieldOwner
              then migrateToSSA (Server c) s orig oldFieldOwner (FieldOwner c)
              else (s, None)))"

text \<open>The error names the kind, or the Go type when the object has none (\<open>None\<close>).\<close>

datatype ssa_error = UnableToPatch "gvk option" string string ssa_cause

definition composeError :: "'c object \<Rightarrow> ssa_cause \<Rightarrow> ssa_error" where
  "composeError obj err =
     UnableToPatch (if ob_GVK obj \<noteq> empty_gvk then Some (ob_GVK obj) else None)
       (ob_Name obj) (ob_Namespace obj) err"

definition must_migrate :: "('s, 'c) ssa_client \<Rightarrow> 'c ssa_configuration \<Rightarrow> bool" where
  "must_migrate c config \<longleftrightarrow>
     migrateSSA_opt config = migrateSSAYes \<or>
     (migrateSSA_opt config = migrateSSANotSpecified \<and> MigrateSSAByDefault c)"

definition SSAApplyObject ::
  "('s, 'c) ssa_client \<Rightarrow> 's \<Rightarrow> 'c object \<Rightarrow> 'c ssa_option list \<Rightarrow> 's \<times> 'c object \<times> ssa_error option" where
  "SSAApplyObject c s obj0 options =
     (let config = newSSAApplyObjectConfiguration options
      in case Configure (Server c) config obj0 of
           Inl err \<Rightarrow> (s, obj0, Some (composeError obj0 (ConfigureFailed err)))
         | Inr obj1 \<Rightarrow>
             (case prepareForSSA (Server c) obj1 of
                Inl err \<Rightarrow> (s, obj1\<lparr>ManagedFields := []\<rparr>, Some (composeError obj1 (PrepareFailed err)))
              | Inr obj \<Rightarrow>
                  (let (s1, merr) = (if must_migrate c config then migrateSSA c s obj else (s, None))
                   in case merr of
                        Some err \<Rightarrow> (s1, obj, Some (composeError obj err))
                      | None \<Rightarrow>
                          if (case skipIf config of None \<Rightarrow> False | Some test \<Rightarrow> test obj) then (s1, obj, None)
                          else case srv_Patch (Server c) s1 (FieldOwner c) obj of
                                 (s2, Inl err) \<Rightarrow> (s2, obj, Some (composeError obj (PatchFailed err)))
                               | (s2, Inr obj') \<Rightarrow> (s2, obj', None))))"

text \<open>The loop returns at the first error; the objects after it are as they were.\<close>

fun ApplyAll ::
  "('s, 'c) ssa_client \<Rightarrow> 's \<Rightarrow> 'c object list \<Rightarrow> 'c ssa_option list \<Rightarrow> 's \<times> 'c object list \<times> ssa_error option" where
  "ApplyAll cl s [] opts = (s, [], None)"
| "ApplyAll cl s (toolchainObject # rest) opts =
     (case SSAApplyObject cl s toolchainObject opts of
        (s', obj', Some err) \<Rightarrow> (s', obj' # rest, Some err)
      | (s', obj', None) \<Rightarrow>
          (let (s'', rest', err) = ApplyAll cl s' rest opts in (s'', obj' # rest', err)))"

definition SSAApply ::
  "('s, 'c) ssa_client \<Rightarrow> 's \<Rightarrow> 'c object list \<Rightarrow> 'c ssa_option list \<Rightarrow> 's \<times> 'c object list \<times> ssa_error option" where
  "SSAApply c s toolchainObjects opts = ApplyAll c s toolchainObjects opts"

section \<open>What is sent\<close>

lemma prepareForSSA_frame:
  assumes "prepareForSSA srv obj = Inr obj'"
  shows "ManagedFields obj' = [] \<and> ob_Labels obj' = ob_Labels obj \<and> Content obj' = Content obj \<and>
    ob_Name obj' = ob_Name obj \<and> ob_Namespace obj' = ob_Namespace obj \<and>
    (if ob_GVK obj = empty_gvk then lib_GVKForObject srv (obj\<lparr>ManagedFields := []\<rparr>) = Inr (ob_GVK obj')
     else ob_GVK obj' = ob_GVK obj)"
  using assms by (auto simp: prepareForSSA_def EnsureGVK_def split: if_splits sum.splits)

text \<open>
  A cluster that keeps the objects it was sent by patches that succeeded and what it returned
  for them, in order, beside its state.
\<close>

definition recording :: "('s, 'c) ssa_server \<Rightarrow> ('s \<times> ('c object \<times> 'c object) list, 'c) ssa_server" where
  "recording srv = \<lparr>
     srv_Get = (\<lambda>s. srv_Get srv (fst s)),
     srv_Create = (\<lambda>s obj. let (s', err) = srv_Create srv (fst s) obj in ((s', snd s), err)),
     srv_Update = (\<lambda>s obj. let (s', r) = srv_Update srv (fst s) obj in ((s', snd s), r)),
     lib_NestedClusterIP = lib_NestedClusterIP srv, lib_SetNestedClusterIP = lib_SetNestedClusterIP srv,
     lib_SetControllerReference = lib_SetControllerReference srv,
     lib_Marshal = lib_Marshal srv, lib_MarshalContent = lib_MarshalContent srv, lib_Sprint = lib_Sprint srv,
     srv_Patch = (\<lambda>s fieldOwner obj. case srv_Patch srv (fst s) fieldOwner obj of
         (s', Inr obj') \<Rightarrow> ((s', snd s @ [(obj, obj')]), Inr obj')
       | (s', Inl err) \<Rightarrow> ((s', snd s), Inl err)),
     lib_GVKForObject = lib_GVKForObject srv, lib_UpgradeManagedFields = lib_UpgradeManagedFields srv,
     lib_DefaultUserAgent = lib_DefaultUserAgent srv\<rparr>"

lemma migrateSSA_log:
  assumes "migrateSSA c s obj = (s', err)" and "Server c = recording srv"
  shows "snd s' = snd s"
  using assms
  by (auto simp: migrateSSA_def migrateToSSA_def recording_def Let_def
      split: sum.splits if_splits prod.splits)

definition labelled :: "labels \<Rightarrow> 'c object \<Rightarrow> 'c object \<Rightarrow> bool" where
  "labelled ls obj sent \<longleftrightarrow>
     map_of (the_map (ob_Labels sent)) = map_of (the_map (ob_Labels obj)) ++ map_of ls \<and>
     ob_Name sent = ob_Name obj \<and> ob_Namespace sent = ob_Namespace obj \<and>
     Content sent = Content obj \<and> ManagedFields sent = []"

text \<open>
  An application that only adds labels patches once when it succeeds, and the object becomes
  what the server returned; when it fails, no patch has succeeded.
\<close>

lemma recording_Patch:
  "srv_Patch (recording srv) s fieldOwner obj =
     (case srv_Patch srv (fst s) fieldOwner obj of
        (s', Inr obj') \<Rightarrow> ((s', snd s @ [(obj, obj')]), Inr obj')
      | (s', Inl err) \<Rightarrow> ((s', snd s), Inl err))"
  by (simp add: recording_def)

lemma SSAApplyObject_log:
  fixes obj :: "'c object"
  assumes "SSAApplyObject c s obj [EnsureLabels ls] = (s', obj', err)" and "Server c = recording srv" and "gm_ok ls"
  shows "if err = None then \<exists>sent. snd s' = snd s @ [(sent, obj')] \<and> labelled ls obj sent else snd s' = snd s"
proof -
  let ?config = "newSSAApplyObjectConfiguration [EnsureLabels ls] :: 'c ssa_configuration"
  have conf: "Configure (Server c) ?config obj = Inr (MergeLabels obj ls)" and skip: "skipIf ?config = None"
    by (simp_all add: Configure_def newSSAApplyObjectConfiguration_def EnsureLabels_def)
  show ?thesis
  proof (cases "prepareForSSA (Server c) (MergeLabels obj ls)")
    case (Inl e)
    with assms(1) conf show ?thesis by (auto simp: SSAApplyObject_def)
  next
    case (Inr obj2)
    obtain s1 merr where mig: "(if must_migrate c ?config then migrateSSA c s obj2 else (s, None)) = (s1, merr)" by fastforce
    then have s1: "snd s1 = snd s" using migrateSSA_log [OF _ assms(2)] by (auto split: if_splits)
    have "labelled ls obj obj2"
      using prepareForSSA_frame [OF Inr] map_of_MergeLabels [OF assms(3), of obj] by (simp add: labelled_def)
    with assms(1,2) conf skip Inr mig s1 show ?thesis
      by (cases merr) (auto simp: SSAApplyObject_def recording_Patch split: prod.splits sum.splits)
  qed
qed

lemma ApplyAll_log:
  assumes "ApplyAll c s objs [EnsureLabels ls] = (s', objs', err)" and "Server c = recording srv" and "gm_ok ls"
  shows "\<exists>log. snd s' = snd s @ log \<and> length log \<le> length objs \<and> length objs' = length objs \<and>
    list_all2 (\<lambda>obj e. labelled ls obj (fst e)) (take (length log) objs) log \<and>
    take (length log) objs' = map snd log \<and> (err = None \<longrightarrow> length log = length objs)"
  using assms(1)
proof (induction objs arbitrary: s objs')
  case Nil
  then show ?case by simp
next
  case (Cons obj rest)
  obtain s1 obj1 e1 where a: "SSAApplyObject c s obj [EnsureLabels ls] = (s1, obj1, e1)" by (metis surj_pair)
  note one = SSAApplyObject_log [OF a assms(2,3)]
  show ?case
  proof (cases e1)
    case None
    obtain s2 rest2 e2 where r: "ApplyAll c s1 rest [EnsureLabels ls] = (s2, rest2, e2)" by (metis surj_pair)
    from one None obtain sent where sent: "snd s1 = snd s @ [(sent, obj1)]" "labelled ls obj sent" by auto
    have res: "s2 = s'" "objs' = obj1 # rest2" "e2 = err" using Cons.prems a None r by auto
    from Cons.IH [OF r [unfolded res]] obtain log where
      "snd s' = snd s1 @ log" "length log \<le> length rest" "length rest2 = length rest"
      "list_all2 (\<lambda>obj e. labelled ls obj (fst e)) (take (length log) rest) log"
      "take (length log) rest2 = map snd log" "err = None \<longrightarrow> length log = length rest" by blast
    with sent res(2) show ?thesis by (intro exI [of _ "(sent, obj1) # log"]) simp
  next
    case (Some e)
    with Cons.prems a one show ?thesis by auto
  qed
qed

section \<open>Properties\<close>

text \<open>Applying a list with server-side apply is applying its parts in order; the first
  error ends it and is returned.\<close>

theorem apply_all_composes:
  "ApplyAll c s (xs @ ys) opts =
     (case ApplyAll c s xs opts of
        (s', xs', Some err) \<Rightarrow> (s', xs' @ ys, Some err)
      | (s', xs', None) \<Rightarrow> (let (s'', ys', err) = ApplyAll c s' ys opts in (s'', xs' @ ys', err)))"
  by (induction c s xs opts rule: ApplyAll.induct) (auto split: prod.splits option.splits)

text \<open>An object is only rewritten for the migration when the cluster's object has an entry
  of the old owner that is not of an apply: otherwise (and when it is missing) the migration
  sends nothing. An error of the read other than not found ends it.\<close>

theorem migration_only_when_needed:
  "migrateSSA c s obj =
     (case srv_Get (Server c) s obj (NamespacedName (ob_Namespace obj) (ob_Name obj)) of
        Inl err \<Rightarrow> (s, if IsNotFound err then None else Some (MigrationGetFailed err))
      | Inr orig \<Rightarrow>
          (let old = (if NonSSAFieldOwner c \<noteq> '''' then NonSSAFieldOwner c
                      else takeWhile (\<lambda>ch. ch \<noteq> CHR ''/'') (lib_DefaultUserAgent (Server c)))
           in if \<exists>mf. mf \<in> set (ManagedFields orig) \<and> Manager mf = old \<and> Operation mf = ManagedFieldsOperationUpdate
              then migrateToSSA (Server c) s orig old (FieldOwner c) else (s, None)))"
proof -
  have hd_Split: "hd (Split s ch) = takeWhile (\<lambda>x. x \<noteq> ch) s" for s ch
    by (induction s ch rule: Split.induct) (auto split: list.splits)
  have other: "op \<noteq> ManagedFieldsOperationApply \<longleftrightarrow> op = ManagedFieldsOperationUpdate" for op
    by (cases op) auto
  show ?thesis
    by (auto simp: migrateSSA_def Let_def hd_Split isSsaMigrationNeeded_def list_ex_iff other
        split: sum.splits)
qed

end
