(* ===== verification/Templates.thy ===== *)
theory Templates
  imports ResourceCache GoStrings
begin

text \<open>
  \<open>pkg/template\<close>: \<open>processor.go\<close> fills the parameters of an OpenShift template and
  turns it into objects, \<open>filter.go\<close> selects objects, \<open>template.go\<close> loads the objects
  of the files of an embedded directory. The OpenShift processing, the YAML decoders and
  \<open>text/template\<close> are arguments.
\<close>

section \<open>Templates\<close>

record parameter =
  par_Name :: string
  par_Value :: string
  par_Generate :: string

record 'o template_obj =
  Parameters :: "parameter list"
  tmpl_Objects :: 'o

text \<open>\<open>runtime.RawExtension\<close>, whose object may not be a \<open>client.Object\<close>.\<close>

record 'o raw_extension =
  raw_GVK :: gvk
  raw_Object :: "'o option"

section \<open>Filters\<close>

definition RetainNamespaces :: "'o raw_extension \<Rightarrow> bool" where
  "RetainNamespaces obj \<longleftrightarrow> gvk_kind (raw_GVK obj) = ''Namespace''"

definition RetainAllButNamespaces :: "'o raw_extension \<Rightarrow> bool" where
  "RetainAllButNamespaces obj \<longleftrightarrow> gvk_kind (raw_GVK obj) \<noteq> ''Namespace''"

fun passes :: "'o raw_extension \<Rightarrow> ('o raw_extension \<Rightarrow> bool) list \<Rightarrow> bool" where
  "passes obj [] = True"
| "passes obj (keep # filters) = (if \<not> keep obj then False else passes obj filters)"

fun Filter_objects ::
  "'o raw_extension list \<Rightarrow> ('o raw_extension \<Rightarrow> bool) list \<Rightarrow> 'o raw_extension list" where
  "Filter_objects [] filters = []"
| "Filter_objects (obj # objs) filters =
     (if passes obj filters then obj # Filter_objects objs filters else Filter_objects objs filters)"

section \<open>Processing\<close>

text \<open>
  \<open>by_name\<close> is \<open>templateprocessing.GetParameterByName\<close>, which returns a pointer into the
  template's slice: here the index of the parameter.
\<close>

type_synonym by_name = "parameter list \<Rightarrow> string \<Rightarrow> nat option"

definition inject :: "by_name \<Rightarrow> parameter list \<Rightarrow> string \<Rightarrow> string \<Rightarrow> parameter list" where
  "inject by_name ps param val =
     (case by_name ps param of
        None \<Rightarrow> ps
      | Some i \<Rightarrow> ps[i := (ps ! i)\<lparr>par_Value := val, par_Generate := ''''\<rparr>])"

fun inject_all :: "by_name \<Rightarrow> parameter list \<Rightarrow> (string, string) gomap \<Rightarrow> parameter list" where
  "inject_all by_name ps [] = ps"
| "inject_all by_name ps ((param, val) # values) = inject_all by_name (inject by_name ps param val) values"

datatype process_error = UnableToProcess string | UnableToConvert string | UnableToCast gvk

fun cast_all :: "'o raw_extension list \<Rightarrow> process_error + 'o list" where
  "cast_all [] = Inr []"
| "cast_all (rawObject # rest) =
     (case raw_Object rawObject of
        None \<Rightarrow> Inl (UnableToCast (raw_GVK rawObject))
      | Some clientObj \<Rightarrow>
          (case cast_all rest of Inl err \<Rightarrow> Inl err | Inr objects \<Rightarrow> Inr (clientObj # objects)))"

text \<open>
  \<open>process\<close> is the OpenShift processor (with its generator of random values),
  \<open>convert\<close> the conversion by the scheme, which gives the objects of the result.
\<close>

definition Process ::
  "by_name \<Rightarrow> ('o template_obj \<Rightarrow> string + 'p template_obj) \<Rightarrow>
   ('p template_obj \<Rightarrow> string + 'r raw_extension list) \<Rightarrow> 'o template_obj \<Rightarrow> (string, string) gomap \<Rightarrow>
   ('r raw_extension \<Rightarrow> bool) list \<Rightarrow> process_error + 'r list" where
  "Process by_name process convert tmpl values filters =
     (case process (tmpl\<lparr>Parameters := inject_all by_name (Parameters tmpl) values\<rparr>) of
        Inl err \<Rightarrow> Inl (UnableToProcess err)
      | Inr tmpl' \<Rightarrow>
          (case convert tmpl' of
             Inl err \<Rightarrow> Inl (UnableToConvert err)
           | Inr objs \<Rightarrow> cast_all (Filter_objects objs filters)))"

section \<open>Loading the objects of a directory\<close>

text \<open>\<open>unicode.IsSpace\<close> and \<open>bytes.TrimSpace\<close>, by the runes of the bytes.\<close>

definition is_space :: "nat \<Rightarrow> bool" where
  "is_space r \<longleftrightarrow> in_range 9 13 r \<or> r = 32 \<or> r = 133 \<or> r = 160 \<or> r = 5760 \<or> in_range 8192 8202 r \<or>
     r = 8232 \<or> r = 8233 \<or> r = 8239 \<or> r = 8287 \<or> r = 12288"

function chunks :: "string \<Rightarrow> (nat \<times> string) list" where
  "chunks [] = []"
| "chunks (c # cs) =
     (let (r, w) = decode_rune (c # cs); n = max 1 w
      in (r, take n (c # cs)) # chunks (drop n (c # cs)))"
  by pat_completeness auto
termination by (relation "measure length") auto

definition TrimSpace :: "string \<Rightarrow> string" where
  "TrimSpace s =
     concat (map snd (rev (dropWhile (\<lambda>p. is_space (fst p))
       (rev (dropWhile (\<lambda>p. is_space (fst p)) (chunks s))))))"

text \<open>
  \<open>embed.FS\<close>: the paths in the order \<open>fs.WalkDir\<close> visits them, with the content of a file; a
  directory has none.
\<close>

type_synonym embed_fs = "(string \<times> string option) list"

definition ReadFile :: "embed_fs \<Rightarrow> string \<Rightarrow> string + string" where
  "ReadFile efs path =
     (case map_of efs path of
        Some (Some content) \<Rightarrow> Inr content
      | _ \<Rightarrow> Inl (''open '' @ path @ '': file does not exist''))"

definition getAllTemplateNames :: "embed_fs \<Rightarrow> string list" where
  "getAllTemplateNames efs = map fst (filter (\<lambda>(path, content). content \<noteq> None) efs)"

record variables =
  var_Namespace :: string

text \<open>
  The libraries: parsing and executing a \<open>text/template\<close> (an execution may fail after it
  has written a part), the documents the YAML decoder gives before the end of the file or an
  error, and the deserializer.
\<close>

record ('t, 'o) template_env =
  tmpl_Parse :: "string \<Rightarrow> string \<Rightarrow> string + 't"
  tmpl_Execute :: "'t \<Rightarrow> variables \<Rightarrow> string \<times> string option"
  yaml_Documents :: "string \<Rightarrow> string list \<times> string option"
  codec_Decode :: "string \<Rightarrow> string + 'o"

definition replaceTemplateVariables ::
  "('t, 'o) template_env \<Rightarrow> string \<Rightarrow> string \<Rightarrow> variables \<Rightarrow> string \<times> string option" where
  "replaceTemplateVariables env templateName templateContent vars =
     (case tmpl_Parse env templateName templateContent of
        Inl err \<Rightarrow> ('''', Some err)
      | Inr tmpl \<Rightarrow> tmpl_Execute env tmpl vars)"

text \<open>The result is the objects so far and the error; \<open>stop\<close> is the error that ends the documents.\<close>

fun decode_documents ::
  "(string \<Rightarrow> string + 'o) \<Rightarrow> string list \<Rightarrow> string option \<Rightarrow> 'o list \<Rightarrow> 'o list \<times> string option" where
  "decode_documents decode [] stop objects = (objects, stop)"
| "decode_documents decode (raw # rest) stop objects =
     (let trimmed = TrimSpace raw
      in if trimmed = '''' \<or> trimmed = ''null'' then decode_documents decode rest stop objects
         else case decode trimmed of
                Inl err \<Rightarrow> (objects, Some err)
              | Inr obj \<Rightarrow> decode_documents decode rest stop (objects @ [obj]))"

fun load_files ::
  "('t, 'o) template_env \<Rightarrow> embed_fs \<Rightarrow> variables \<Rightarrow> string list \<Rightarrow> 'o list \<Rightarrow> 'o list \<times> string option" where
  "load_files env efs vars [] objects = (objects, None)"
| "load_files env efs vars (templatePath # entries) objects =
     (case ReadFile efs templatePath of
        Inl err \<Rightarrow> (objects, Some err)
      | Inr templateContent \<Rightarrow>
          (case replaceTemplateVariables env templatePath templateContent vars of
             (_, Some err) \<Rightarrow> (objects, Some err)
           | (buf, None) \<Rightarrow>
               (let (docs, stop) = yaml_Documents env buf
                in case decode_documents (codec_Decode env) docs stop objects of
                     (objects', Some err) \<Rightarrow> (objects', Some err)
                   | (objects', None) \<Rightarrow> load_files env efs vars entries objects')))"

definition LoadObjectsFromEmbedFS ::
  "('t, 'o) template_env \<Rightarrow> embed_fs \<Rightarrow> variables \<Rightarrow> 'o list \<times> string option" where
  "LoadObjectsFromEmbedFS env efs vars = load_files env efs vars (getAllTemplateNames efs) []"

section \<open>Lemmas\<close>

lemma passes_list_all: "passes obj filters \<longleftrightarrow> list_all (\<lambda>f. f obj) filters"
  by (induction filters) auto

lemma Filter_objects_filter:
  "Filter_objects objs filters = filter (\<lambda>obj. list_all (\<lambda>f. f obj) filters) objs"
  by (induction objs) (auto simp: passes_list_all)

text \<open>The two filters split the objects.\<close>

lemma namespaces_and_the_rest:
  "mset (Filter_objects objs [RetainNamespaces]) + mset (Filter_objects objs [RetainAllButNamespaces]) = mset objs"
  by (induction objs) (auto simp: RetainNamespaces_def RetainAllButNamespaces_def)

lemma chunks_concat: "concat (map snd (chunks s)) = s"
  by (induction s rule: chunks.induct) (auto simp: Let_def split: prod.splits)

text \<open>Changing the first element with a key changes the only one when the keys are distinct.\<close>

lemma update_first:
  assumes "distinct (map key xs)"
  shows "(case index_where (\<lambda>x. key x = k) xs of None \<Rightarrow> xs | Some i \<Rightarrow> xs[i := f (xs ! i)]) =
    map (\<lambda>x. if key x = k then f x else x) xs"
  using assms
proof (induction xs)
  case Nil
  then show ?case by simp
next
  case (Cons x xs)
  show ?case
  proof (cases "key x = k")
    case True
    with Cons.prems have "map (\<lambda>x. if key x = k then f x else x) xs = xs"
      by (auto simp: image_iff intro!: map_idI)
    with True show ?thesis by simp
  next
    case False
    with Cons show ?thesis by (auto split: option.splits)
  qed
qed

definition first_by_name :: by_name where
  "first_by_name ps name = index_where (\<lambda>p. par_Name p = name) ps"

lemma inject_map:
  "distinct (map par_Name ps) \<Longrightarrow>
   inject first_by_name ps n v = map (\<lambda>p. if par_Name p = n then p\<lparr>par_Value := v, par_Generate := ''''\<rparr> else p) ps"
  using update_first [where key = par_Name and xs = ps and k = n and f = "\<lambda>p. p\<lparr>par_Value := v, par_Generate := ''''\<rparr>"]
  by (simp add: inject_def first_by_name_def)

lemma inject_all_map:
  assumes "distinct (map par_Name ps)" and "gm_ok vals"
  shows "inject_all first_by_name ps vals =
    map (\<lambda>p. case map_of vals (par_Name p) of
       None \<Rightarrow> p | Some v \<Rightarrow> p\<lparr>par_Value := v, par_Generate := ''''\<rparr>) ps"
  using assms
proof (induction vals arbitrary: ps)
  case Nil
  then show ?case by simp
next
  case (Cons nv vs)
  obtain n v where nv: "nv = (n, v)" by fastforce
  let ?f = "\<lambda>p. if par_Name p = n then p\<lparr>par_Value := v, par_Generate := ''''\<rparr> else p"
  have names: "par_Name (?f p) = par_Name p" for p by simp
  have "distinct (map par_Name (map ?f ps))" using Cons.prems by (simp add: comp_def names cong: if_cong)
  moreover have "gm_ok vs" "map_of vs n = None"
    using Cons.prems nv by (auto simp: gm_ok_def map_of_eq_None_iff)
  ultimately show ?case
    using Cons.IH [of "map ?f ps"] Cons.prems nv by (auto simp: inject_map split: option.splits)
qed

section \<open>What the files give\<close>

text \<open>Results in order up to the first error, which ends them.\<close>

fun until_error :: "('e + 'o) list \<Rightarrow> 'o list \<times> 'e option" where
  "until_error [] = ([], None)"
| "until_error (Inl err # rs) = ([], Some err)"
| "until_error (Inr obj # rs) = apfst (Cons obj) (until_error rs)"

lemma until_error_append:
  "until_error (rs @ rs') =
     (case until_error rs of
        (objs, None) \<Rightarrow> apfst ((@) objs) (until_error rs')
      | (objs, Some err) \<Rightarrow> (objs, Some err))"
  by (induction rs rule: until_error.induct) (auto simp: apfst_def map_prod_def split: prod.splits option.splits)

text \<open>The results of one file: an error when it cannot be rendered; otherwise its documents that are
  neither blank nor null, decoded, and the error the documents end with, if any.\<close>

definition file_results :: "('t, 'o) template_env \<Rightarrow> variables \<Rightarrow> string \<Rightarrow> string \<Rightarrow> (string + 'o) list" where
  "file_results env vars path content =
     (case replaceTemplateVariables env path content vars of
        (_, Some err) \<Rightarrow> [Inl err]
      | (buf, None) \<Rightarrow>
          map (codec_Decode env) (filter (\<lambda>d. d \<noteq> '''' \<and> d \<noteq> ''null'') (map TrimSpace (fst (yaml_Documents env buf)))) @
          (case snd (yaml_Documents env buf) of None \<Rightarrow> [] | Some err \<Rightarrow> [Inl err]))"

lemma decode_documents_until_error:
  "decode_documents decode docs stop objects =
     apfst ((@) objects) (until_error
       (map decode (filter (\<lambda>d. d \<noteq> '''' \<and> d \<noteq> ''null'') (map TrimSpace docs)) @
        (case stop of None \<Rightarrow> [] | Some err \<Rightarrow> [Inl err])))"
  by (induction decode docs stop objects rule: decode_documents.induct)
     (auto simp: Let_def apfst_def map_prod_def split: sum.splits option.splits prod.splits)

lemma load_files_until_error:
  assumes "\<And>p. p \<in> set paths \<Longrightarrow> ReadFile efs p = Inr (content p)"
  shows "load_files env efs vars paths objects =
     apfst ((@) objects) (until_error (concat (map (\<lambda>p. file_results env vars p (content p)) paths)))"
  using assms
proof (induction paths arbitrary: objects)
  case (Cons p paths)
  obtain buf err where buf: "replaceTemplateVariables env p (content p) vars = (buf, err)" by fastforce
  show ?case
  proof (cases err)
    case None
    obtain docs stop where docs: "yaml_Documents env buf = (docs, stop)" by fastforce
    with buf None have results: "file_results env vars p (content p) =
        map (codec_Decode env) (filter (\<lambda>d. d \<noteq> '''' \<and> d \<noteq> ''null'') (map TrimSpace docs)) @
        (case stop of None \<Rightarrow> [] | Some err \<Rightarrow> [Inl err])" by (simp add: file_results_def)
    obtain objs e where until: "until_error (file_results env vars p (content p)) = (objs, e)" by fastforce
    then have decoded: "decode_documents (codec_Decode env) docs stop objects = (objects @ objs, e)"
      unfolding decode_documents_until_error results by (simp add: apfst_def)
    have more: "until_error (concat (map (\<lambda>p. file_results env vars p (content p)) (p # paths))) =
      (case e of
         None \<Rightarrow> apfst ((@) objs) (until_error (concat (map (\<lambda>p. file_results env vars p (content p)) paths)))
       | Some err \<Rightarrow> (objs, Some err))"
      using until by (simp add: until_error_append)
    from Cons.prems buf None docs decoded have load: "load_files env efs vars (p # paths) objects =
      (case e of None \<Rightarrow> load_files env efs vars paths (objects @ objs) | Some err \<Rightarrow> (objects @ objs, Some err))"
      by (auto split: option.split)
    show ?thesis
      unfolding load more using Cons.IH [of "objects @ objs"] Cons.prems
      by (cases e) (auto simp: apfst_def map_prod_def split: prod.splits)
  qed (use Cons buf in \<open>simp add: file_results_def\<close>)
qed simp

section \<open>Properties\<close>

text \<open>C32: Processing a template gives every parameter the value of its name, with no generator
  left, and leaves the others as they are, whatever the order in which the map of values is
  visited; the objects are those of the processed template that pass all the filters.\<close>

theorem process_injects_values:
  assumes "distinct (map par_Name (Parameters tmpl))" and "gm_ok values"
  shows "Process first_by_name process convert tmpl values filters =
    (case process (tmpl\<lparr>Parameters := map (\<lambda>p. case map_of values (par_Name p) of
         None \<Rightarrow> p | Some v \<Rightarrow> p\<lparr>par_Value := v, par_Generate := ''''\<rparr>) (Parameters tmpl)\<rparr>) of
       Inl err \<Rightarrow> Inl (UnableToProcess err)
     | Inr tmpl' \<Rightarrow>
         (case convert tmpl' of
            Inl err \<Rightarrow> Inl (UnableToConvert err)
          | Inr objs \<Rightarrow> cast_all (filter (\<lambda>obj. list_all (\<lambda>f. f obj) filters) objs)))"
  using assms by (simp add: Process_def inject_all_map Filter_objects_filter split: sum.split)

definition sample_parameters :: "parameter list" where
  "sample_parameters =
     [\<lparr>par_Name = ''NAMESPACE'', par_Value = '''', par_Generate = ''expression''\<rparr>,
      \<lparr>par_Name = ''QUOTA'', par_Value = ''5'', par_Generate = ''''\<rparr>]"

theorem process_injects_values_witness:
  "Process first_by_name Inr (\<lambda>t. Inr [\<lparr>raw_GVK = GroupVersionKind '''' ''v1'' ''Namespace'',
        raw_Object = Some (map par_Value (Parameters t))\<rparr>])
      \<lparr>Parameters = sample_parameters, tmpl_Objects = ()\<rparr> [(''OTHER'', ''x''), (''NAMESPACE'', ''host'')]
      [RetainNamespaces] = Inr [[''host'', ''5'']]"
  using process_injects_values [of "\<lparr>Parameters = sample_parameters, tmpl_Objects = ()\<rparr>"
      "[(''OTHER'', ''x''), (''NAMESPACE'', ''host'')]" Inr
      "\<lambda>t. Inr [\<lparr>raw_GVK = GroupVersionKind '''' ''v1'' ''Namespace'',
        raw_Object = Some (map par_Value (Parameters t))\<rparr>]" "[RetainNamespaces]"]
  by (simp add: sample_parameters_def gm_ok_def RetainNamespaces_def)


text \<open>C33: Loading an embedded directory gives the objects of the documents of its files, in the
  order of the walk and of the documents, without the blank and null ones: all of them, or, when a
  file cannot be rendered, its documents not split or one not decoded, those before that
  failure, with its error.\<close>

theorem all_documents_loaded:
  assumes "gm_ok efs"
  shows "LoadObjectsFromEmbedFS env efs vars =
    until_error (concat (map (\<lambda>e. case snd e of None \<Rightarrow> [] | Some c \<Rightarrow> file_results env vars (fst e) c) efs))"
proof -
  have read: "ReadFile efs p = Inr c" if "(p, Some c) \<in> set efs" for p c
    using that assms by (simp add: ReadFile_def gm_ok_def)
  let ?content = "\<lambda>p. projr (ReadFile efs p)"
  have "ReadFile efs p = Inr (?content p)" if "p \<in> set (getAllTemplateNames efs)" for p
    using that read by (fastforce simp: getAllTemplateNames_def)
  note load = load_files_until_error [of "getAllTemplateNames efs" efs ?content, OF this]
  have "concat (map (\<lambda>p. file_results env vars p (?content p)) (getAllTemplateNames m)) =
      concat (map (\<lambda>e. case snd e of None \<Rightarrow> [] | Some c \<Rightarrow> file_results env vars (fst e) c) m)"
    if "set m \<subseteq> set efs" for m
    using that read by (induction m) (auto simp: getAllTemplateNames_def split: option.splits)
  then show ?thesis
    by (simp add: LoadObjectsFromEmbedFS_def load apfst_def map_prod_def split: prod.split)
qed

theorem all_documents_loaded_witness:
  "LoadObjectsFromEmbedFS
     \<lparr>tmpl_Parse = (\<lambda>name t. Inr t), tmpl_Execute = (\<lambda>t vars. (t @ var_Namespace vars, None)),
      yaml_Documents = (\<lambda>buf. ([buf, ''null''], if buf = ''ns:host'' then Some ''bad yaml'' else None)), codec_Decode = Inr\<rparr>
     [(''dir'', None), (''dir/a.yaml'', Some ''namespace:''), (''dir/b.yaml'', Some ''ns:''), (''dir/c.yaml'', Some ''c'')]
     \<lparr>var_Namespace = ''host''\<rparr> = ([''namespace:host'', ''ns:host''], Some ''bad yaml'')"
proof -
  have trim: "TrimSpace ''namespace:host'' = ''namespace:host''" "TrimSpace ''ns:host'' = ''ns:host''"
    "TrimSpace ''null'' = ''null''"
    by (simp_all add: TrimSpace_def is_space_def in_range_def byte_def Let_def)
  show ?thesis
    by (subst all_documents_loaded)
       (simp_all add: gm_ok_def file_results_def replaceTemplateVariables_def trim)
qed

end
