(* ===== verification/EventFilters.thy ===== *)
theory EventFilters
  imports ApiTypes
begin

text \<open>
  What turns events into reconcile requests: the mappers of
  \<open>controllers/label_event_handler.go\<close> and the predicates of
  \<open>pkg/predicate/predicate.go\<close>. \<open>GetLabels\<close> may return a nil map, which
  \<open>reflect.DeepEqual\<close> tells from an empty one, so the labels of an object are an option.
  A nil object of an event is \<open>None\<close>.
\<close>

section \<open>Mappers\<close>

record event_object =
  eo_Namespace :: string
  eo_Name :: string
  eo_Labels :: "labels option"
  Generation :: int

definition labels_of :: "event_object \<Rightarrow> labels" where
  "labels_of obj = (case eo_Labels obj of None \<Rightarrow> [] | Some l \<Rightarrow> l)"

definition MapToOwnerByLabel :: "string \<Rightarrow> label_key \<Rightarrow> event_object \<Rightarrow> nsname list" where
  "MapToOwnerByLabel namespace label obj =
     (case map_of (labels_of obj) label of
        Some name \<Rightarrow> [NamespacedName namespace name]
      | None \<Rightarrow> [])"

definition MapToControllerByMatchingLabel :: "label_key \<Rightarrow> string \<Rightarrow> event_object \<Rightarrow> nsname list" where
  "MapToControllerByMatchingLabel labelKey labelValue obj =
     (case map_of (labels_of obj) labelKey of
        Some labelValueFound \<Rightarrow>
          if labelValue = labelValueFound then [NamespacedName (eo_Namespace obj) (eo_Name obj)] else []
      | None \<Rightarrow> [])"

section \<open>Predicates\<close>

datatype object_event =
    Create event_object
  | Update "event_object option" "event_object option"
  | Delete event_object
  | Generic event_object

fun EitherUpdateWhenGenerationNotChangedOrDelete :: "object_event \<Rightarrow> bool" where
  "EitherUpdateWhenGenerationNotChangedOrDelete (Update None objectNew) = False"
| "EitherUpdateWhenGenerationNotChangedOrDelete (Update (Some old) None) = False"
| "EitherUpdateWhenGenerationNotChangedOrDelete (Update (Some old) (Some new)) =
     (Generation new = Generation old)"
| "EitherUpdateWhenGenerationNotChangedOrDelete (Create obj) = False"
| "EitherUpdateWhenGenerationNotChangedOrDelete (Delete obj) = True"
| "EitherUpdateWhenGenerationNotChangedOrDelete (Generic obj) = False"

definition DeepEqual_labels :: "labels option \<Rightarrow> labels option \<Rightarrow> bool" where
  "DeepEqual_labels a b =
     (case (a, b) of
        (None, None) \<Rightarrow> True
      | (Some l, Some m) \<Rightarrow> gm_equal l m
      | _ \<Rightarrow> False)"

text \<open>The events other than updates pass by the embedded \<open>predicate.Funcs\<close>.\<close>

fun LabelsAndGenerationPredicate :: "object_event \<Rightarrow> bool" where
  "LabelsAndGenerationPredicate (Update None objectNew) = False"
| "LabelsAndGenerationPredicate (Update (Some old) None) = False"
| "LabelsAndGenerationPredicate (Update (Some old) (Some new)) =
     (\<not> DeepEqual_labels (eo_Labels old) (eo_Labels new) \<or> Generation new \<noteq> Generation old)"
| "LabelsAndGenerationPredicate (Create obj) = True"
| "LabelsAndGenerationPredicate (Delete obj) = True"
| "LabelsAndGenerationPredicate (Generic obj) = True"

section \<open>Lemmas\<close>

lemma DeepEqual_labels_iff:
  "DeepEqual_labels a b \<longleftrightarrow> map_option map_of a = map_option map_of b"
  by (auto simp: DeepEqual_labels_def gm_equal_iff split: option.splits)

lemma labels_decide_mapping:
  assumes "DeepEqual_labels (eo_Labels a) (eo_Labels b)"
  shows "MapToOwnerByLabel ns l a = MapToOwnerByLabel ns l b"
  using assms by (auto simp: DeepEqual_labels_iff MapToOwnerByLabel_def labels_of_def split: option.splits)

lemma mapped_iff:
  "MapToControllerByMatchingLabel k v obj = [NamespacedName (eo_Namespace obj) (eo_Name obj)] \<longleftrightarrow>
     map_of (labels_of obj) k = Some v"
  by (auto simp: MapToControllerByMatchingLabel_def split: option.splits)

section \<open>Properties\<close>

text \<open>The labels predicate misses no update that matters: one it drops, between two objects
  of the same identity, changes neither the generation nor the requests either mapper makes
  for the object, whatever the label it looks at.\<close>

theorem dropped_updates_change_no_request:
  assumes "\<not> LabelsAndGenerationPredicate (Update (Some old) (Some new))"
    and "eo_Name old = eo_Name new" and "eo_Namespace old = eo_Namespace new"
  shows "Generation old = Generation new \<and> MapToOwnerByLabel ns k old = MapToOwnerByLabel ns k new \<and>
    MapToControllerByMatchingLabel k v old = MapToControllerByMatchingLabel k v new"
  using assms
  by (auto simp: DeepEqual_labels_iff MapToOwnerByLabel_def MapToControllerByMatchingLabel_def labels_of_def
      split: option.splits)

theorem dropped_updates_change_no_request_witness:
  "MapToOwnerByLabel ''host'' ProviderLabelKey
     \<lparr>eo_Namespace = ''ns'', eo_Name = ''sa'', eo_Labels = Some [(ProviderLabelKey, ''p''), (Key ''a'', ''b'')],
      Generation = 1\<rparr> =
   MapToOwnerByLabel ''host'' ProviderLabelKey
     \<lparr>eo_Namespace = ''ns'', eo_Name = ''sa'', eo_Labels = Some [(Key ''a'', ''b''), (ProviderLabelKey, ''p'')],
      Generation = 1\<rparr>"
proof -
  let ?a = "\<lparr>eo_Namespace = ''ns'', eo_Name = ''sa'',
    eo_Labels = Some [(ProviderLabelKey, ''p''), (Key ''a'', ''b'')], Generation = 1\<rparr>"
  let ?b = "\<lparr>eo_Namespace = ''ns'', eo_Name = ''sa'',
    eo_Labels = Some [(Key ''a'', ''b''), (ProviderLabelKey, ''p'')], Generation = 1\<rparr>"
  have "\<not> LabelsAndGenerationPredicate (Update (Some ?a) (Some ?b))"
    by (simp add: DeepEqual_labels_def gm_equal_def)
  then show ?thesis
    using dropped_updates_change_no_request [of ?a ?b "''host''" ProviderLabelKey "''p''"] by simp
qed

end
