(* ===== verification/ResourcesController.thy ===== *)
theory ResourcesController
  imports SSAClient Templates EventFilters
begin

text \<open>
  \<open>controllers/toolchainclusterresources\<close>: the controller that applies the objects of an
  embedded directory with server-side apply and watches them. It composes the loader of
  \<open>Templates\<close>, the client of \<open>SSAClient\<close> and the event filters of \<open>EventFilters\<close>. The
  objects are loaded once, in the set-up, and every reconciliation applies these same objects
  in place, so the reconciler is part of the state.
\<close>

section \<open>The controller\<close>

definition ResourceControllerLabelValue :: string where
  "ResourceControllerLabelValue = ''toolchaincluster-resources-controller''"

record 'c resources_reconciler =
  rr_Templates :: "embed_fs option"
  rr_FieldManager :: string
  templateObjects :: "'c object list"

text \<open>What \<open>Watches\<close> registers for one object.\<close>

record 'c watch =
  watched :: "'c object"
  watch_mapper :: "event_object \<Rightarrow> nsname list"
  watch_predicate :: "object_event \<Rightarrow> bool"

datatype resources_error = NoTemplatesConfigured | LoadError string | ManagerError string | ApplyError ssa_error

definition watch_object :: "'c object \<Rightarrow> 'c watch" where
  "watch_object obj =
     \<lparr>watched = obj,
      watch_mapper = MapToControllerByMatchingLabel ProviderLabelKey ResourceControllerLabelValue,
      watch_predicate = LabelsAndGenerationPredicate\<rparr>"

text \<open>
  \<open>complete\<close> is the builder's \<open>Complete\<close> with the watches registered. The objects are set on
  the reconciler even when loading ends with an error.
\<close>

definition SetupWithManager ::
  "('t, 'c object) template_env \<Rightarrow> ('c watch list \<Rightarrow> string option) \<Rightarrow> 'c resources_reconciler \<Rightarrow> string \<Rightarrow>
   'c resources_reconciler \<times> 'c watch list \<times> resources_error option" where
  "SetupWithManager env complete r operatorNamespace =
     (case rr_Templates r of
        None \<Rightarrow> (r, [], Some NoTemplatesConfigured)
      | Some efs \<Rightarrow>
          (case LoadObjectsFromEmbedFS env efs \<lparr>var_Namespace = operatorNamespace\<rparr> of
             (objs, Some err) \<Rightarrow> (r\<lparr>templateObjects := objs\<rparr>, [], Some (LoadError err))
           | (objs, None) \<Rightarrow>
               (let build = map watch_object objs
                in (r\<lparr>templateObjects := objs\<rparr>, build, map_option ManagerError (complete build)))))"

definition ResourcesReconcile ::
  "('s, 'c) ssa_server \<Rightarrow> 'c resources_reconciler \<Rightarrow> 's \<Rightarrow>
   's \<times> 'c resources_reconciler \<times> resources_error option" where
  "ResourcesReconcile cl r s =
     (case rr_Templates r of
        None \<Rightarrow> (s, r, Some NoTemplatesConfigured)
      | Some _ \<Rightarrow>
          (let (s', objs, err) = ApplyAll (NewSSAApplyClient cl (rr_FieldManager r)) s (templateObjects r)
                 [EnsureLabels [(ProviderLabelKey, ResourceControllerLabelValue)]]
           in (s', r\<lparr>templateObjects := objs\<rparr>, map_option ApplyError err)))"

section \<open>One reconciliation\<close>

abbreviation controller_labels :: labels where
  "controller_labels \<equiv> [(ProviderLabelKey, ResourceControllerLabelValue)]"

text \<open>The patches that succeeded, each with what the server returned.\<close>

lemma ResourcesReconcile_log:
  assumes "ResourcesReconcile (recording srv) r s = (s', r', err)"
  shows "\<exists>log. snd s' = snd s @ log \<and> length log \<le> length (templateObjects r) \<and>
    list_all2 (\<lambda>obj e. labelled controller_labels obj (fst e)) (take (length log) (templateObjects r)) log \<and>
    length (templateObjects r') = length (templateObjects r) \<and>
    take (length log) (templateObjects r') = map snd log \<and>
    (err = None \<longrightarrow> length log = length (templateObjects r))"
proof (cases "rr_Templates r")
  case None
  with assms show ?thesis by (auto simp: ResourcesReconcile_def)
next
  case (Some efs)
  let ?c = "NewSSAApplyClient (recording srv) (rr_FieldManager r)"
  obtain s1 objs e where a: "ApplyAll ?c s (templateObjects r) [EnsureLabels controller_labels] = (s1, objs, e)"
    by (metis surj_pair)
  with assms Some have "s1 = s'" "r' = r\<lparr>templateObjects := objs\<rparr>" "err = map_option ApplyError e"
    by (auto simp: ResourcesReconcile_def)
  with ApplyAll_log [OF a, of srv] show ?thesis by (auto simp: NewSSAApplyClient_def gm_ok_def)
qed

section \<open>Runs of reconciliations\<close>

definition reconcile_again ::
  "('s, 'c) ssa_server \<Rightarrow> 's \<times> 'c resources_reconciler \<Rightarrow> 's \<times> 'c resources_reconciler" where
  "reconcile_again cl = (\<lambda>(s, r). let (s', r', err) = ResourcesReconcile cl r s in (s', r'))"

text \<open>What every patch of the controller sends, whatever object it started from.\<close>

definition controlled :: "'c object \<Rightarrow> bool" where
  "controlled sent \<longleftrightarrow>
     map_of (the_map (ob_Labels sent)) ProviderLabelKey = Some ResourceControllerLabelValue \<and> ManagedFields sent = []"

lemma labelled_controlled: "labelled controller_labels obj sent \<Longrightarrow> controlled sent"
  by (simp add: labelled_def controlled_def)

lemma reconcile_again_controlled:
  assumes "list_all (\<lambda>e. controlled (fst e)) (snd (fst st))"
  shows "list_all (\<lambda>e. controlled (fst e)) (snd (fst (reconcile_again (recording srv) st)))"
proof -
  obtain s r s' r' err where st: "st = (s, r)" and run: "ResourcesReconcile (recording srv) r s = (s', r', err)"
    by (metis surj_pair)
  from ResourcesReconcile_log [OF run] obtain log where log: "snd s' = snd s @ log"
    and lab: "list_all2 (\<lambda>obj e. labelled controller_labels obj (fst e)) (take (length log) (templateObjects r)) log" by blast
  from lab have "list_all (\<lambda>e. controlled (fst e)) log"
    by induction (auto intro: labelled_controlled)
  with assms st run log show ?thesis by (simp add: reconcile_again_def)
qed

lemma reconciliations_controlled:
  "list_all (\<lambda>e. controlled (fst e)) (snd (fst ((reconcile_again (recording srv) ^^ n) ((s, []), r))))"
proof (induction n)
  case 0
  then show ?case by simp
next
  case (Suc n)
  then show ?case by (simp add: reconcile_again_controlled)
qed

text \<open>The object of an event, as the mappers and predicates see it.\<close>

definition event_of :: "'c object \<Rightarrow> event_object" where
  "event_of obj = \<lparr>eo_Namespace = ob_Namespace obj, eo_Name = ob_Name obj, eo_Labels = ob_Labels obj,
     Generation = ob_Generation obj\<rparr>"

lemma labels_of_event: "labels_of (event_of obj) = the_map (ob_Labels obj)"
  by (simp add: labels_of_def event_of_def the_map_def)

lemma label_change_passes:
  assumes "map_of (labels_of old) k \<noteq> map_of (labels_of new) k"
  shows "LabelsAndGenerationPredicate (Update (Some old) (Some new))"
  using assms by (auto simp: DeepEqual_labels_iff labels_of_def split: option.splits)

section \<open>Properties\<close>

text \<open>C14: After a set-up without error the objects of the embedded templates, rendered for the
  operator's namespace, are watched, and the first reconciliation patches them in order, each
  once, with its content and labels, the controller's provider label added (over any the
  template has) and no managed fields: all of them when it succeeds, and those before the
  first failure otherwise.\<close>

theorem templates_are_patched:
  assumes "SetupWithManager env complete r operatorNamespace = (r1, watches, None)"
    and "ResourcesReconcile (recording srv) r1 (s, []) = ((s', log), r2, err)"
  shows "\<exists>efs objs. rr_Templates r = Some efs \<and>
    LoadObjectsFromEmbedFS env efs \<lparr>var_Namespace = operatorNamespace\<rparr> = (objs, None) \<and>
    map watched watches = objs \<and> length log \<le> length objs \<and>
    list_all2 (labelled controller_labels) (take (length log) objs) (map fst log) \<and>
    (err = None \<longrightarrow> length log = length objs)"
proof -
  from assms(1) obtain efs objs where loaded: "rr_Templates r = Some efs"
    "LoadObjectsFromEmbedFS env efs \<lparr>var_Namespace = operatorNamespace\<rparr> = (objs, None)"
    "r1 = r\<lparr>templateObjects := objs\<rparr>" "watches = map watch_object objs"
    by (auto simp: SetupWithManager_def Let_def split: option.splits prod.splits)
  then have "map watched watches = objs" by (simp add: comp_def watch_object_def)
  with loaded ResourcesReconcile_log [OF assms(2)] show ?thesis by (auto simp: list_all2_map2)
qed

text \<open>A cluster that accepts every patch and sets a version, and one template file.\<close>

definition sample_ssa :: "(nat, string) ssa_server" where
  "sample_ssa = \<lparr>
     srv_Get = (\<lambda>s o' key. Inl \<lparr>StatusReason = NotFound, err_message = ''''\<rparr>),
     srv_Create = (\<lambda>s o'. (s, None)), srv_Update = (\<lambda>s o'. (s, Inr o')),
     lib_NestedClusterIP = (\<lambda>c. Inr None), lib_SetNestedClusterIP = (\<lambda>ip c. Inr c),
     lib_SetControllerReference = (\<lambda>own o'. Inr o'), lib_Marshal = (\<lambda>o'. None), lib_MarshalContent = (\<lambda>o'. None),
     lib_Sprint = ob_Name,
     srv_Patch = (\<lambda>s own o'. (Suc s, Inr (o'\<lparr>ob_ResourceVersion := ''1''\<rparr>))),
     lib_GVKForObject = (\<lambda>o'. Inl ''no kind''),
     lib_UpgradeManagedFields = (\<lambda>o' a b. Inr o'), lib_DefaultUserAgent = ''host-operator/v1''\<rparr>"

definition sample_templates :: "(string, string object) template_env" where
  "sample_templates = \<lparr>tmpl_Parse = (\<lambda>name t. Inr t), tmpl_Execute = (\<lambda>t vars. (t, None)),
     yaml_Documents = (\<lambda>buf. ([buf], None)), codec_Decode = (\<lambda>d. Inr sample_object)\<rparr>"

definition sample_resources :: "string resources_reconciler" where
  "sample_resources = \<lparr>rr_Templates = Some [(''sa.yaml'', Some ''sa'')], rr_FieldManager = ''kubesaw'', templateObjects = []\<rparr>"

abbreviation sample_loaded_resources :: "string resources_reconciler" where
  "sample_loaded_resources \<equiv> sample_resources\<lparr>templateObjects := [sample_object]\<rparr>"

lemma sample_setup:
  "SetupWithManager sample_templates (\<lambda>ws. None) sample_resources ''host'' =
     (sample_loaded_resources, [watch_object sample_object], None)"
proof -
  have "TrimSpace ''sa'' = ''sa''" by (simp add: TrimSpace_def is_space_def in_range_def byte_def Let_def)
  then show ?thesis
    by (simp add: SetupWithManager_def LoadObjectsFromEmbedFS_def getAllTemplateNames_def ReadFile_def
        replaceTemplateVariables_def sample_templates_def sample_resources_def Let_def)
qed

lemma sample_reconciled:
  "\<exists>s' log r2. ResourcesReconcile (recording sample_ssa) sample_loaded_resources (0, []) = ((s', log), r2, None)"
  by (simp add: ResourcesReconcile_def NewSSAApplyClient_def SSAApplyObject_def Configure_def prepareForSSA_def
      EnsureGVK_def newSSAApplyObjectConfiguration_def EnsureLabels_def must_migrate_def migrateSSA_def
      recording_def sample_ssa_def sample_resources_def sample_object_def MergeLabels_def empty_gvk_def IsNotFound_def)

theorem templates_are_patched_witness:
  "\<exists>s' log r2. ResourcesReconcile (recording sample_ssa) sample_loaded_resources (0, []) = ((s', log), r2, None) \<and>
     list_all2 (labelled controller_labels) [sample_object] (map fst log)"
proof -
  obtain s' log r2 where
    run: "ResourcesReconcile (recording sample_ssa) sample_loaded_resources (0, []) = ((s', log), r2, None)"
    using sample_reconciled by blast
  from templates_are_patched [OF sample_setup run] obtain objs where
    "map watched [watch_object sample_object] = objs" "length log = length objs"
    "list_all2 (labelled controller_labels) (take (length log) objs) (map fst log)" by auto
  then have "list_all2 (labelled controller_labels) [sample_object] (map fst log)" by (auto simp: watch_object_def)
  with run show ?thesis by blast
qed

text \<open>C15: In any run of reconciliations, whatever the cluster answers, every object that was patched
  carries the controller's label and no managed fields, so the watches bring its events back: an
  event about it is mapped to the request for it, and an update that takes the label
  away passes the predicate.\<close>

theorem patched_objects_come_back:
  assumes "SetupWithManager env complete r operatorNamespace = (r1, watches, None)" and "w \<in> set watches"
    and "(reconcile_again (recording srv) ^^ n) ((s, []), r1) = ((s', log), r2)" and "(sent, got) \<in> set log"
  shows "ManagedFields sent = [] \<and>
    watch_mapper w (event_of sent) = [NamespacedName (ob_Namespace sent) (ob_Name sent)] \<and>
    (map_of (labels_of new) ProviderLabelKey \<noteq> Some ResourceControllerLabelValue \<longrightarrow>
       watch_predicate w (Update (Some (event_of sent)) (Some new)))"
proof -
  have sent: "controlled sent"
    using reconciliations_controlled [where srv = srv and n = n and s = s and r = r1] assms(3,4) by (auto simp: list_all_iff)
  from assms(1,2) have w: "watch_mapper w = MapToControllerByMatchingLabel ProviderLabelKey ResourceControllerLabelValue"
    "watch_predicate w = LabelsAndGenerationPredicate"
    by (auto simp: SetupWithManager_def Let_def watch_object_def split: option.splits prod.splits)
  have "watch_mapper w (event_of sent) = [NamespacedName (eo_Namespace (event_of sent)) (eo_Name (event_of sent))]"
    unfolding w mapped_iff using sent by (simp add: labels_of_event controlled_def)
  moreover have "watch_predicate w (Update (Some (event_of sent)) (Some new))"
    if "map_of (labels_of new) ProviderLabelKey \<noteq> Some ResourceControllerLabelValue"
    unfolding w by (rule label_change_passes [where k = ProviderLabelKey])
      (use sent that in \<open>auto simp: labels_of_event controlled_def\<close>)
  ultimately show ?thesis using sent by (simp add: controlled_def event_of_def)
qed

theorem patched_objects_come_back_witness:
  "\<exists>s' log r2 sent got. (reconcile_again (recording sample_ssa) ^^ 1) ((0, []), sample_loaded_resources) = ((s', log), r2) \<and>
     (sent, got) \<in> set log \<and>
     watch_mapper (watch_object sample_object) (event_of sent) = [NamespacedName (ob_Namespace sent) (ob_Name sent)]"
proof -
  obtain s' log r2 where
    run: "ResourcesReconcile (recording sample_ssa) sample_loaded_resources (0, []) = ((s', log), r2, None)"
    using sample_reconciled by blast
  then have again: "(reconcile_again (recording sample_ssa) ^^ 1) ((0, []), sample_loaded_resources) = ((s', log), r2)"
    by (simp add: reconcile_again_def)
  from ResourcesReconcile_log [OF run] have "length log = 1" by (simp add: sample_resources_def)
  then obtain sent got where log: "log = [(sent, got)]" by (cases log) auto
  from patched_objects_come_back [OF sample_setup _ again, of "watch_object sample_object" sent got] again log
  show ?thesis by fastforce
qed

text \<open>The objects a patch was sent for are overwritten with what the server returned, so a
  second reconciliation does not apply the templates again: it applies what the first one got back.\<close>

theorem later_reconciliations_send_responses:
  assumes "ResourcesReconcile (recording srv) r (s, []) = ((s1, log1), r1, None)"
    and "ResourcesReconcile (recording srv) r1 (s1, []) = ((s2, log2), r2, None)"
  shows "list_all2 (labelled controller_labels) (map snd log1) (map fst log2)"
proof -
  from ResourcesReconcile_log [OF assms(1)]
  have "length log1 = length (templateObjects r)" "length (templateObjects r1) = length (templateObjects r)"
    "take (length log1) (templateObjects r1) = map snd log1" by auto
  then have "templateObjects r1 = map snd log1" by simp
  with ResourcesReconcile_log [OF assms(2)] show ?thesis by (auto simp: list_all2_map2)
qed

theorem later_reconciliations_send_responses_witness:
  "\<exists>s1 log1 r1 s2 log2 r2. ResourcesReconcile (recording sample_ssa) sample_loaded_resources (0, []) = ((s1, log1), r1, None) \<and>
     ResourcesReconcile (recording sample_ssa) r1 (s1, []) = ((s2, log2), r2, None) \<and>
     list_all2 (labelled controller_labels) (map snd log1) (map fst log2) \<and>
     map (ob_ResourceVersion \<circ> fst) log2 = [''1'']"
proof -
  obtain s1 log1 r1 where
    run1: "ResourcesReconcile (recording sample_ssa) sample_loaded_resources (0, []) = ((s1, log1), r1, None)"
    using sample_reconciled by blast
  then obtain s2 log2 r2 where run2: "ResourcesReconcile (recording sample_ssa) r1 (s1, []) = ((s2, log2), r2, None)"
    and "map (ob_ResourceVersion \<circ> fst) log2 = [''1'']"
    by (auto simp: ResourcesReconcile_def NewSSAApplyClient_def SSAApplyObject_def Configure_def prepareForSSA_def
      EnsureGVK_def newSSAApplyObjectConfiguration_def EnsureLabels_def must_migrate_def migrateSSA_def
      recording_def sample_ssa_def sample_resources_def sample_object_def MergeLabels_def empty_gvk_def IsNotFound_def)
  with later_reconciliations_send_responses [OF run1 run2] run1 run2 show ?thesis by (intro exI conjI)
qed

end
