(* ===== verification/ClusterSystem.thy ===== *)
theory ClusterSystem
  imports ClusterControllers
begin

text \<open>
  The controllers at work together: the ToolchainClusters of the API, the cluster cache and the
  work queue of the cache controller. The objects change (by users, or by the status updates of
  the health controller), every change is an event that passes the namespace predicate or not,
  the cache controller reconciles what is queued, and lookups refresh the cache, all in any
  order. The service is one for all steps; its Kubernetes client lists what the API holds, or
  fails, and a read returns the object or an error of the moment. Secrets do not change.
\<close>

section \<open>States and steps\<close>

record 'cl cluster_system =
  api :: "(nsname, toolchain_cluster) gomap"
  sysCache :: "'cl cluster_cache"
  queue :: "nsname set"

definition listed :: "(nsname, toolchain_cluster) gomap \<Rightarrow> string \<Rightarrow> toolchain_cluster list" where
  "listed a namespace = map snd (filter (\<lambda>(k, tc). ns_of k = namespace) a)"

text \<open>The service over an API; \<open>list_error\<close> is the error of the moment.\<close>

definition over_api ::
  "('e, 'k, 'cl) cluster_service \<Rightarrow> 'e option \<Rightarrow> (nsname, toolchain_cluster) gomap \<Rightarrow> ('e, 'k, 'cl) cluster_service" where
  "over_api s list_error a =
     s\<lparr>svc_client := (svc_client s)\<lparr>env_list :=
         (\<lambda>namespace. if list_error = None then (listed a namespace, None) else ([], list_error))\<rparr>\<rparr>"

definition api_get ::
  "api_error option \<Rightarrow> (nsname, toolchain_cluster) gomap \<Rightarrow> nsname \<Rightarrow> api_error + toolchain_cluster" where
  "api_get failure a k =
     (case failure of
        Some err \<Rightarrow> Inl err
      | None \<Rightarrow>
          (case map_of a k of
             None \<Rightarrow> Inl \<lparr>StatusReason = NotFound, err_message = ''not found''\<rparr>
           | Some tc \<Rightarrow> Inr tc))"

definition enqueue :: "string \<Rightarrow> event \<Rightarrow> nsname \<Rightarrow> nsname set \<Rightarrow> nsname set" where
  "enqueue namespace ev k q = (if namespacePredicate namespace ev then insert k q else q)"

definition put_object ::
  "string \<Rightarrow> nsname \<Rightarrow> toolchain_cluster \<Rightarrow> 'cl cluster_system \<Rightarrow> 'cl cluster_system" where
  "put_object namespace k tc st =
     st\<lparr>api := AList.update k tc (api st),
        queue := enqueue namespace
          (if map_of (api st) k = None then CreateEvent (ns_of k) else UpdateEvent (ns_of k) (ns_of k)) k (queue st)\<rparr>"

definition delete_object :: "string \<Rightarrow> nsname \<Rightarrow> 'cl cluster_system \<Rightarrow> 'cl cluster_system" where
  "delete_object namespace k st =
     st\<lparr>api := AList.delete k (api st), queue := enqueue namespace (DeleteEvent (ns_of k)) k (queue st)\<rparr>"

text \<open>A reconciliation that returns an error stays queued.\<close>

definition sync ::
  "('e, 'k, 'cl) cluster_service \<Rightarrow> api_error option \<Rightarrow> 'e option \<Rightarrow> nsname \<Rightarrow> 'cl cluster_system \<Rightarrow> 'cl cluster_system" where
  "sync s failure list_error k st =
     (case CacheReconcile \<lparr>client_get = api_get failure (api st), clusterCacheService = over_api s list_error (api st),
                           rec_namespace = svc_namespace s\<rparr> k (sysCache st) of
        (c', err) \<Rightarrow> st\<lparr>sysCache := c', queue := if err = None then queue st - {k} else queue st\<rparr>)"

definition health ::
  "('e, 'k, 'cl) cluster_service \<Rightarrow> api_error option \<Rightarrow> 'e option \<Rightarrow> 'cs health_reconciler \<Rightarrow> nsname \<Rightarrow>
   'cl cluster_system \<Rightarrow> 'cl cluster_system" where
  "health s failure list_error h k st =
     (case Reconcile (over_api s list_error (api st)) (h\<lparr>rec_get := api_get failure (api st)\<rparr>) k (sysCache st) of
        (c', upds, _, _) \<Rightarrow>
          fold (\<lambda>upd st. if rec_statusUpdate h upd = None then put_object (svc_namespace s) k upd st else st)
            upds (st\<lparr>sysCache := c'\<rparr>))"

text \<open>\<open>hs\<close> holds the health reconciler as it is (its clock, its clients' answers) when it runs.\<close>

inductive sys_step ::
  "('e, 'k, 'cl) cluster_service \<Rightarrow> 'cs health_reconciler set \<Rightarrow> 'cl cluster_system \<Rightarrow> 'cl cluster_system \<Rightarrow> bool"
  for s hs where
  put: "tc_Name tc = name_of k \<Longrightarrow> tc_Namespace tc = ns_of k \<Longrightarrow>
    sys_step s hs st (put_object (svc_namespace s) k tc st)"
| delete: "map_of (api st) k \<noteq> None \<Longrightarrow> sys_step s hs st (delete_object (svc_namespace s) k st)"
| sync: "k \<in> queue st \<Longrightarrow> (case failure of None \<Rightarrow> True | Some err \<Rightarrow> \<not> IsNotFound err) \<Longrightarrow>
    sys_step s hs st (sync s failure list_error k st)"
| health: "(case failure of None \<Rightarrow> True | Some err \<Rightarrow> \<not> IsNotFound err) \<Longrightarrow>
    h \<in> hs \<Longrightarrow> sys_step s hs st (health s failure list_error h k st)"
| lookup: "sys_step s hs st (st\<lparr>sysCache := fst (GetCachedToolchainCluster (over_api s list_error (api st)) name (sysCache st))\<rparr>)"
| members: "sys_step s hs st
    (st\<lparr>sysCache := fst (GetMemberClusters (refreshCache (over_api s list_error (api st))) conditions (sysCache st))\<rparr>)"
| host: "sys_step s hs st
    (st\<lparr>sysCache := fst (GetHostCluster (refreshCache (over_api s list_error (api st))) (sysCache st))\<rparr>)"

definition start_system :: "'cl cluster_system" where
  "start_system = \<lparr>api = [], sysCache = initial_cache\<lparr>hasRefreshCache := True\<rparr>, queue = {}\<rparr>"


section \<open>What is in step\<close>



text \<open>The cache agrees with the API on one key.\<close>

definition in_step ::
  "('e, 'k, 'cl) cluster_service \<Rightarrow> toolchain_cluster option \<Rightarrow> 'cl cluster_cache \<Rightarrow> string \<Rightarrow> bool" where
  "in_step s object c name \<longleftrightarrow>
     (case object of
        None \<Rightarrow> map_of (clusters c) name = None
      | Some tc \<Rightarrow> \<exists>cfg cl. NewClusterConfig (svc_client s) tc (svc_timeout s) = Inr cfg \<and>
          map_of (clusters c) name = Some \<lparr>Config = cfg, Client = cl, ClusterStatus = tc_Status tc\<rparr>)"


lemma over_api_simps [simp]:
  "svc_timeout (over_api s le a) = svc_timeout s" "svc_namespace (over_api s le a) = svc_namespace s"
  "svc_newClient (over_api s le a) = svc_newClient s"
  "NewClusterConfig (svc_client (over_api s le a)) tc t = NewClusterConfig (svc_client s) tc t"
  by (simp_all add: over_api_def NewClusterConfig_def loadConfigFromKubeConfig_def Let_def split: sum.split)


lemma in_step_entry:
  "map_of (clusters c') name = map_of (clusters c) name \<Longrightarrow> in_step s obj c' name = in_step s obj c name"
  by (simp add: in_step_def split: option.split)

lemma in_step_emit [simp]: "in_step s obj (emit evs c) name = in_step s obj c name"
  by (rule in_step_entry) simp





section \<open>Every step keeps what is in step\<close>

















inductive_cases sys_stepE: "sys_step s hs st st'"



section \<open>Emptying the queue\<close>

definition loadable :: "('e, 'k, 'cl) cluster_service \<Rightarrow> toolchain_cluster \<Rightarrow> bool" where
  "loadable s tc \<longleftrightarrow> (\<exists>cfg. NewClusterConfig (svc_client s) tc (svc_timeout s) = Inr cfg \<and>
     OperatorNamespace cfg \<noteq> '''' \<and> creates_clients s (RestConfig cfg))"

lemma creates_clients_over_api [simp]: "creates_clients (over_api s le a) cfg = creates_clients s cfg"
  by (simp add: creates_clients_def client_constructor_def over_api_def split: option.split)



section \<open>Properties\<close>



text \<open>One cluster, created and queued, for the witnesses.\<close>

abbreviation sample_key :: nsname where
  "sample_key \<equiv> NamespacedName ''host-operator'' ''member-1''"

definition sample_system :: "nat cluster_system" where
  "sample_system = put_object ''host-operator'' sample_key sample_cluster start_system"

lemma sample_system_simps [simp]:
  "api sample_system = [(sample_key, sample_cluster)]" "queue sample_system = {sample_key}"
  "svc_namespace sample_service = ''host-operator''"
  by (simp_all add: sample_system_def put_object_def start_system_def enqueue_def sample_service_def)


lemma sample_loadable: "tc_Name tc = tc_Name sample_cluster \<Longrightarrow> SecretRefName tc = ''secret'' \<Longrightarrow> loadable sample_service tc"
  by (simp add: loadable_def sample_service_def sample_env_def NewClusterConfig_def
      loadConfigFromKubeConfig_def creates_clients_def client_constructor_def)

lemma sample_loadable' [simp]: "loadable sample_service sample_cluster"
  by (rule sample_loadable) (simp_all add: sample_cluster_def)



section \<open>From the health check to the reported status\<close>





end
