(* ===== verification/CacheThreads.thy ===== *)
theory CacheThreads
  imports ClusterCache
begin

text \<open>
  The cluster cache under concurrency. A goroutine inside an operation of \<open>pkg/cluster\<close> is a
  stack of tasks; each task is what the code does with the lock held once, or between two
  critical sections (the creation of a client, the listing of the clusters). Goroutines
  interleave task by task. A goroutine alone does what the operation of \<open>ClusterCache\<close> does.
  Below that, the lock itself is a state machine over the traces of the operations.
\<close>

section \<open>Goroutines\<close>

datatype ('e, 'k, 'cl) task =
    AddTask "('e, 'k, 'cl) cluster_service" toolchain_cluster
  | ClientTask "('e, 'k, 'cl) cluster_service" toolchain_cluster cluster_config "'cl cached_cluster option"
  | StoreTask "'cl cached_cluster"
  | DeleteTask string
  | LookupTask "('e, 'k, 'cl) cluster_service" string
  | LookupAgainTask string
  | ScanTask "('e, 'k, 'cl) cluster_service" "('cl cached_cluster \<Rightarrow> bool) list"
  | ScanAgainTask "('cl cached_cluster \<Rightarrow> bool) list"
  | RefreshTask "('e, 'k, 'cl) cluster_service"

text \<open>One task: the cache it leaves, and the tasks it leads to.\<close>

fun do_task :: "('e, 'k, 'cl) task \<Rightarrow> 'cl cluster_cache \<Rightarrow> 'cl cluster_cache \<times> ('e, 'k, 'cl) task list" where
  "do_task (AddTask s tc) c =
     (case NewClusterConfig (svc_client s) tc (svc_timeout s) of
        Inl err \<Rightarrow> (c, [])
      | Inr cfg \<Rightarrow> (emit [RLock, ReadMap, ReadMap, RUnlock] c, [ClientTask s tc cfg (map_of (clusters c) (tc_Name tc))]))"
| "do_task (ClientTask s tc cfg cached) c =
     (case client_for s cfg cached c of
        (c', Inl err) \<Rightarrow> (c', [])
      | (c', Inr cl) \<Rightarrow>
          if OperatorNamespace cfg = '''' then (c', [])
          else (c', [StoreTask \<lparr>Config = cfg, Client = cl, ClusterStatus = tc_Status tc\<rparr>]))"
| "do_task (StoreTask cluster) c = (addCachedToolchainCluster cluster c, [])"
| "do_task (DeleteTask name) c = (deleteCachedToolchainCluster name c, [])"
| "do_task (LookupTask s name) c =
     (if map_of (clusters c) name = None \<and> hasRefreshCache c
      then (emit [RLock, ReadMap, RUnlock] c, [RefreshTask s, LookupAgainTask name])
      else (emit [RLock, ReadMap, ReadMap, RUnlock] c, []))"
| "do_task (LookupAgainTask name) c = (emit [RLock, ReadMap, RUnlock] c, [])"
| "do_task (ScanTask s conditions) c =
     (emit [RLock, ReadMap, RUnlock] c,
      if Filter (clusters c) conditions = []
      then (if hasRefreshCache c then [RefreshTask s, ScanAgainTask conditions] else [ScanAgainTask conditions])
      else [])"
| "do_task (ScanAgainTask conditions) c = (emit [RLock, ReadMap, RUnlock] c, [])"
| "do_task (RefreshTask s) c = (c, map (AddTask s) (fst (env_list (svc_client s) (svc_namespace s))))"

text \<open>The tasks of a goroutine decrease in weight, so a goroutine alone ends.\<close>

fun weight :: "('e, 'k, 'cl) task \<Rightarrow> nat" where
  "weight (AddTask s tc) = 3"
| "weight (ClientTask s tc cfg cached) = 2"
| "weight (StoreTask cluster) = 1"
| "weight (DeleteTask name) = 1"
| "weight (LookupTask s name) = 3 + 3 * length (fst (env_list (svc_client s) (svc_namespace s)))"
| "weight (LookupAgainTask name) = 1"
| "weight (ScanTask s conditions) = 3 + 3 * length (fst (env_list (svc_client s) (svc_namespace s)))"
| "weight (ScanAgainTask conditions) = 1"
| "weight (RefreshTask s) = 1 + 3 * length (fst (env_list (svc_client s) (svc_namespace s)))"

definition weights :: "('e, 'k, 'cl) task list \<Rightarrow> nat" where
  "weights ts = sum_list (map weight ts)"

lemma weights_simps [simp]:
  "weights [] = 0" "weights (t # ts) = weight t + weights ts" "weights (ts @ us) = weights ts + weights us"
  "weights (map (AddTask s) tcs) = 3 * length tcs"
  by (auto simp: weights_def comp_def sum_list_triv)

lemma do_task_weight: "do_task t c = (c', ts) \<Longrightarrow> weights ts < weight t"
  by (cases t) (auto split: sum.splits prod.splits if_splits)

function run_alone :: "('e, 'k, 'cl) task list \<Rightarrow> 'cl cluster_cache \<Rightarrow> 'cl cluster_cache" where
  "run_alone [] c = c"
| "run_alone (t # ts) c = (let (c', new) = do_task t c in run_alone (new @ ts) c')"
  by pat_completeness auto
termination
  by (relation "measure (\<lambda>(ts, c). weights ts)") (auto dest: do_task_weight [OF sym])

text \<open>The operations as stacks of tasks.\<close>

fun tasks_of :: "('e, 'k, 'cl) cache_op \<Rightarrow> ('e, 'k, 'cl) task list" where
  "tasks_of (NewServiceOp env ns t f) = []"
| "tasks_of (AddOrUpdateOp s tc) = [AddTask s tc]"
| "tasks_of (DeleteOp name) = [DeleteTask name]"
| "tasks_of (GetOp s name) = [LookupTask s name]"
| "tasks_of (GetMembersOp s conditions) = [ScanTask s conditions]"
| "tasks_of (GetHostOp s) = [ScanTask s []]"

section \<open>A goroutine alone is the operation\<close>

lemma run_alone_append: "run_alone (ts @ us) c = run_alone us (run_alone ts c)"
proof (induction ts c rule: run_alone.induct)
  case (2 t ts c)
  obtain c' new where t: "do_task t c = (c', new)" by fastforce
  with "2.IH" [OF t [symmetric] refl] show ?case by simp
qed simp

lemma run_add: "run_alone [AddTask s tc] c = fst (addToolchainCluster s tc c)"
proof (cases "NewClusterConfig (svc_client s) tc (svc_timeout s)")
  case (Inl e)
  then show ?thesis by (simp add: addToolchainCluster_def)
next
  case (Inr cfg)
  obtain c1 r where cf: "client_for s cfg (map_of (clusters c) (tc_Name tc)) (emit [RLock, ReadMap, ReadMap, RUnlock] c) = (c1, r)"
    by fastforce
  with Inr show ?thesis
    by (cases r) (auto simp: addToolchainCluster_def get_no_refresh)
qed

lemma run_adds: "run_alone (map (AddTask s) items) c = add_listed s items c"
proof (induction items arbitrary: c)
  case (Cons tc items)
  have "run_alone (map (AddTask s) (tc # items)) c = run_alone (map (AddTask s) items) (run_alone [AddTask s tc] c)"
    using run_alone_append [of "[AddTask s tc]" "map (AddTask s) items" c] by (simp only: list.map append.simps)
  then show ?case by (simp only: run_add Cons.IH add_listed.simps)
qed simp

lemma run_refresh: "run_alone (RefreshTask s # ts) c = run_alone ts (refreshCache s c)"
  by (simp add: run_alone_append run_adds refreshCache_def)

lemma emit_emit [simp]: "emit evs' (emit evs c) = emit (evs @ evs') c"
  by (simp add: emit_def)

lemma run_again:
  "run_alone [ScanAgainTask conditions] d = emit [RLock, ReadMap, RUnlock] d"
  "run_alone [LookupAgainTask name] d = emit [RLock, ReadMap, RUnlock] d"
  by simp_all

lemma run_scan:
  "run_alone [ScanTask s conditions] c = fst (GetMemberClusters (refreshCache s) conditions c)"
proof -
  let ?c1 = "emit [RLock, ReadMap, RUnlock] c"

  have "run_alone [ScanTask s conditions] c =
      (if Filter (clusters c) conditions = []
       then if hasRefreshCache c then run_alone [RefreshTask s, ScanAgainTask conditions] ?c1
         else run_alone [ScanAgainTask conditions] ?c1
       else ?c1)"
    by simp
  then show ?thesis
    by (simp only: run_refresh run_again)
      (simp add: GetMemberClusters_def getCachedToolchainClusters_def Let_def split: if_splits)
qed

lemma run_scan_host: "run_alone [ScanTask s []] c = fst (GetHostCluster (refreshCache s) c)"
proof -
  have "fst (GetHostCluster (refreshCache s) c) = fst (GetMemberClusters (refreshCache s) [] c)"
    by (auto simp: GetHostCluster_def GetMemberClusters_def getCachedToolchainClusters_def Let_def split: list.split)
  then show ?thesis by (simp only: run_scan)
qed

lemma run_lookup: "run_alone [LookupTask s name] c = fst (GetCachedToolchainCluster s name c)"
proof -
  have "run_alone [LookupTask s name] c =
      (if map_of (clusters c) name = None \<and> hasRefreshCache c
       then run_alone [RefreshTask s, LookupAgainTask name] (emit [RLock, ReadMap, RUnlock] c)
       else emit [RLock, ReadMap, ReadMap, RUnlock] c)"
    by simp
  then show ?thesis
    by (simp only: run_refresh run_again)
      (auto simp: GetCachedToolchainCluster_def getCachedToolchainCluster_def Let_def emit_def)
qed

lemma run_alone_op:
  "run_alone (tasks_of op) c = (case op of NewServiceOp env ns t f \<Rightarrow> c | _ \<Rightarrow> run_op op c)"
proof (cases op)
  case (AddOrUpdateOp s tc)
  then show ?thesis
    by (simp only: tasks_of.simps run_add) (simp add: AddOrUpdateToolchainCluster_def split: prod.split)
next
  case (DeleteOp name)
  then show ?thesis by (simp add: DeleteToolchainCluster_def)
next
  case (GetOp s name)
  then show ?thesis by (simp only: tasks_of.simps run_lookup) simp
next
  case (GetMembersOp s conditions)
  then show ?thesis by (simp only: tasks_of.simps run_scan) simp
next
  case (GetHostOp s)
  then show ?thesis by (simp only: tasks_of.simps run_scan_host) simp
qed simp

section \<open>Interleavings\<close>

text \<open>
  The cache with its goroutines. A goroutine starts any of the \<open>allowed\<close> operations at any time,
  any of them does its next task, and a new service may install the refresh function.
\<close>

inductive par_step ::
  "(('e, 'k, 'cl) cache_op \<Rightarrow> bool) \<Rightarrow>
   'cl cluster_cache \<times> ('e, 'k, 'cl) task list list \<Rightarrow> 'cl cluster_cache \<times> ('e, 'k, 'cl) task list list \<Rightarrow> bool"
  for allowed where
  start: "allowed op \<Longrightarrow> par_step allowed (c, threads) (c, threads @ [tasks_of op])"
| service: "par_step allowed (c, threads) (run_op (NewServiceOp env ns t f :: ('e, 'k, 'cl) cache_op) c, threads)"
| task: "i < length threads \<Longrightarrow> threads ! i = t # ts \<Longrightarrow> do_task t c = (c', new) \<Longrightarrow>
    par_step allowed (c, threads) (c', threads[i := new @ ts])"

abbreviation par_reaches ::
  "(('e, 'k, 'cl) cache_op \<Rightarrow> bool) \<Rightarrow> 'cl cluster_cache \<times> ('e, 'k, 'cl) task list list \<Rightarrow> bool" where
  "par_reaches allowed \<equiv> (par_step allowed)\<^sup>*\<^sup>* (initial_cache, [])"

text \<open>
  What every entry is, for a relation \<open>made_for\<close> between REST configurations and clients that
  every constructor of the services respects: the name it is stored under, an operator
  namespace, and a client made for its own REST configuration.
\<close>

definition entry_ok :: "(rest_config \<Rightarrow> 'cl option \<Rightarrow> bool) \<Rightarrow> 'cl cached_cluster \<Rightarrow> bool" where
  "entry_ok made_for cl \<longleftrightarrow> OperatorNamespace (Config cl) \<noteq> '''' \<and> made_for (RestConfig (Config cl)) (Client cl)"

definition entries_ok :: "(rest_config \<Rightarrow> 'cl option \<Rightarrow> bool) \<Rightarrow> 'cl cluster_cache \<Rightarrow> bool" where
  "entries_ok made_for c \<longleftrightarrow> gm_ok (clusters c) \<and>
     (\<forall>name cl. map_of (clusters c) name = Some cl \<longrightarrow> Name (Config cl) = name \<and> entry_ok made_for cl)"

definition service_ok :: "(rest_config \<Rightarrow> 'cl option \<Rightarrow> bool) \<Rightarrow> ('e, 'k, 'cl) cluster_service \<Rightarrow> bool" where
  "service_ok made_for s \<longleftrightarrow> (\<forall>n cfg cl. client_constructor s n cfg = Inr cl \<longrightarrow> made_for cfg cl)"

fun task_ok :: "(rest_config \<Rightarrow> 'cl option \<Rightarrow> bool) \<Rightarrow> ('e, 'k, 'cl) task \<Rightarrow> bool" where
  "task_ok made_for (AddTask s tc) \<longleftrightarrow> service_ok made_for s"
| "task_ok made_for (ClientTask s tc cfg cached) \<longleftrightarrow> service_ok made_for s \<and>
     (case cached of None \<Rightarrow> True | Some cl \<Rightarrow> entry_ok made_for cl)"
| "task_ok made_for (StoreTask cl) \<longleftrightarrow> entry_ok made_for cl"
| "task_ok made_for (LookupTask s name) \<longleftrightarrow> service_ok made_for s"
| "task_ok made_for (ScanTask s conditions) \<longleftrightarrow> service_ok made_for s"
| "task_ok made_for (RefreshTask s) \<longleftrightarrow> service_ok made_for s"
| "task_ok made_for t \<longleftrightarrow> True"

lemma client_for_made:
  assumes "client_for s cfg cached c = (c', Inr cl)" and "service_ok made_for s"
    and "case cached of None \<Rightarrow> True | Some old \<Rightarrow> entry_ok made_for old"
  shows "made_for (RestConfig cfg) cl"
proof (cases "must_create cfg cached")
  case True
  with assms(1,2) show ?thesis
    by (auto simp: client_for_def new_client_def service_ok_def client_constructor_def Let_def
        split: option.splits sum.splits)
next
  case False
  with assms(1,3) show ?thesis
    by (auto simp: client_for_def must_create_def entry_ok_def split: option.splits)
qed

lemma do_task_ok:
  assumes "do_task t c = (c', new)" and "entries_ok made_for c" and "task_ok made_for t"
  shows "entries_ok made_for c' \<and> list_all (task_ok made_for) new"
proof (cases t)
  case (AddTask s tc)
  with assms show ?thesis by (auto simp: entries_ok_def split: sum.splits option.split)
next
  case (ClientTask s tc cfg cached)
  obtain c1 r where cf: "client_for s cfg cached c = (c1, r)" by fastforce
  from client_for_frame [OF cf] have "entries_ok made_for c1" using assms(2) by (simp add: entries_ok_def)
  with ClientTask assms(1,3) cf client_for_made [of s cfg cached c c1 _ made_for] show ?thesis
    by (cases r) (auto simp: entry_ok_def split: if_splits)
next
  case (StoreTask cl)
  with assms show ?thesis by (auto simp: entries_ok_def cache.lkup_add split: if_splits)
next
  case (DeleteTask name)
  with assms show ?thesis by (auto simp: entries_ok_def deleteCachedToolchainCluster_def split: if_splits)
qed (use assms in \<open>auto simp: entries_ok_def list_all_iff split: if_splits\<close>)

definition par_ok ::
  "(rest_config \<Rightarrow> 'cl option \<Rightarrow> bool) \<Rightarrow> 'cl cluster_cache \<times> ('e, 'k, 'cl) task list list \<Rightarrow> bool" where
  "par_ok made_for = (\<lambda>(c, threads). entries_ok made_for c \<and> list_all (list_all (task_ok made_for)) threads)"

lemma par_ok_step:
  assumes "par_step allowed st st'" and "par_ok made_for st"
    and "\<And>op. allowed op \<Longrightarrow> list_all (task_ok made_for) (tasks_of op)"
  shows "par_ok made_for st'"
  using assms(1,2)
proof (cases rule: par_step.cases)
  case (start op c threads)
  with assms(2,3) show ?thesis by (simp add: par_ok_def)
next
  case (service c threads env ns t f)
  with assms(2) show ?thesis
    by (cases f) (auto simp: par_ok_def entries_ok_def NewToolchainClusterService_def NewToolchainClusterServiceWithClient_def)
next
  case (task i threads t ts c c' new)
  then have "t # ts \<in> set threads" by (metis nth_mem)
  with task assms(2) have "entries_ok made_for c" "task_ok made_for t" "list_all (task_ok made_for) ts"
    by (auto simp: par_ok_def list_all_iff)
  with do_task_ok [OF task(5)] task assms(2) show ?thesis
    by (auto simp: par_ok_def list_all_iff dest!: set_update_subset_insert [THEN subsetD])
qed

lemma par_ok_reaches:
  assumes "par_reaches allowed st" and "\<And>op. allowed op \<Longrightarrow> list_all (task_ok made_for) (tasks_of op)"
  shows "par_ok made_for st"
  using assms(1)
proof (induction rule: rtranclp_induct)
  case base
  show ?case by (simp add: par_ok_def entries_ok_def initial_cache_def)
next
  case (step st st')
  with par_ok_step [OF _ _ assms(2)] show ?case by blast
qed

section \<open>The lock\<close>

text \<open>Every task releases what it takes.\<close>

lemma do_task_trace:
  assumes "do_task t c = (c', new)"
  shows "\<exists>evs. lockTrace c' = lockTrace c @ evs \<and> lock_run Free evs = Some Free"
proof (cases t)
  case (ClientTask s tc cfg cached)
  obtain c1 r where cf: "client_for s cfg cached c = (c1, r)" by fastforce
  with assms ClientTask client_for_frame [OF cf] show ?thesis
    by (cases r) (auto intro!: exI [of _ "[]"] split: if_splits)
qed (use assms in \<open>auto simp: deleteCachedToolchainCluster_def split: sum.splits if_splits\<close>)

lemma run_alone_trace: "\<exists>evs. lockTrace (run_alone ts c) = lockTrace c @ evs \<and> lock_run Free evs = Some Free"
proof (induction ts c rule: run_alone.induct)
  case (2 t ts c)
  obtain c' new where t: "do_task t c = (c', new)" by fastforce
  from do_task_trace [OF t] obtain evs where evs: "lockTrace c' = lockTrace c @ evs" "lock_run Free evs = Some Free" by blast
  from "2.IH" [OF t [symmetric] refl] obtain evs' where
    "lockTrace (run_alone (new @ ts) c') = lockTrace c' @ evs'" "lock_run Free evs' = Some Free" by blast
  with evs t show ?case by (intro exI [of _ "evs @ evs'"]) simp
qed simp

definition op_trace :: "('e, 'k, 'cl) cache_op \<Rightarrow> 'cl cluster_cache \<Rightarrow> lock_event list" where
  "op_trace op c = drop (length (lockTrace c)) (lockTrace (run_op op c))"

lemma op_trace_closed: "lock_run Free (op_trace op c) = Some Free"
proof (cases op)
  case (NewServiceOp env ns t f)
  then show ?thesis
    by (cases f) (simp_all add: op_trace_def NewToolchainClusterService_def NewToolchainClusterServiceWithClient_def)
qed (use run_alone_trace [of "tasks_of op" c] run_alone_op [of op c] in \<open>auto simp: op_trace_def simp del: tasks_of.simps\<close>)

text \<open>
  The lock under several goroutines. Each one has a mode and the events it still has to go
  through. A writer takes the lock when no other goroutine holds it; a reader when there is no
  writer, and, as a waiting writer may block new readers, possibly only when none waits:
  \<open>may_take\<close> is what is sometimes allowed, \<open>must_take\<close> what is always allowed.
\<close>

type_synonym lock_thread = "lock_mode \<times> lock_event list"

definition may_take :: "lock_thread list \<Rightarrow> lock_event \<Rightarrow> bool" where
  "may_take ths e =
     (case e of
        RLock \<Rightarrow> list_all (\<lambda>th. fst th \<noteq> Writing) ths
      | Lock \<Rightarrow> list_all (\<lambda>th. fst th = Free) ths
      | _ \<Rightarrow> True)"

definition must_take :: "lock_thread list \<Rightarrow> lock_event \<Rightarrow> bool" where
  "must_take ths e \<longleftrightarrow> may_take ths e \<and>
     (case e of RLock \<Rightarrow> list_all (\<lambda>th. snd th = [] \<or> hd (snd th) \<noteq> Lock) ths | _ \<Rightarrow> True)"

inductive lock_sys_step ::
  "(lock_thread list \<Rightarrow> lock_event \<Rightarrow> bool) \<Rightarrow> lock_thread list \<Rightarrow> lock_thread list \<Rightarrow> bool" for take_ok where
  "i < length ths \<Longrightarrow> ths ! i = (m, e # es) \<Longrightarrow> take_ok ths e \<Longrightarrow> lock_step m e = Some m' \<Longrightarrow>
   lock_sys_step take_ok ths (ths[i := (m', es)])"

inductive_cases lock_sys_stepE: "lock_sys_step take_ok ths ths'"

text \<open>No goroutine is inside while another writes, and each has a good trace before it.\<close>

definition exclusive :: "lock_thread list \<Rightarrow> bool" where
  "exclusive ths \<longleftrightarrow> (\<forall>i j. i < length ths \<longrightarrow> j < length ths \<longrightarrow> i \<noteq> j \<longrightarrow>
     fst (ths ! i) = Writing \<longrightarrow> fst (ths ! j) = Free)"

definition lock_sys_ok :: "lock_thread list \<Rightarrow> bool" where
  "lock_sys_ok ths \<longleftrightarrow> exclusive ths \<and> list_all (\<lambda>th. lock_run (fst th) (snd th) = Some Free) ths"

lemma lock_step_modes:
  "lock_step m e = Some m' \<Longrightarrow> (m' = Writing \<longrightarrow> e = Lock \<and> m = Free \<or> m = Writing) \<and>
   (m' \<noteq> Free \<longrightarrow> e = Lock \<or> e = RLock \<or> m = m')"
  by (cases "(m, e)" rule: lock_step.cases) auto

lemma lock_sys_ok_step:
  assumes "lock_sys_step may_take ths ths'" and "lock_sys_ok ths"
  shows "lock_sys_ok ths'"
proof -
  from assms(1) obtain i m e es m' where step: "ths' = ths[i := (m', es)]" "i < length ths" "ths ! i = (m, e # es)"
    "may_take ths e" "lock_step m e = Some m'" by (rule lock_sys_stepE)
  have all: "list_all (\<lambda>th. lock_run (fst th) (snd th) = Some Free) ths" and ex: "exclusive ths"
    using assms(2) by (simp_all add: lock_sys_ok_def)
  have "lock_run m (e # es) = Some Free" using all step(2,3) nth_mem [of i ths] by (auto simp: list_all_iff)
  then have run: "lock_run m' es = Some Free" using step(5) by simp
  have "list_all (\<lambda>th. lock_run (fst th) (snd th) = Some Free) ths'"
    using all run step(1) by (auto simp: list_all_iff dest!: set_update_subset_insert [THEN subsetD])
  moreover have "exclusive ths'"
    unfolding exclusive_def
  proof (intro allI impI)
    fix a b
    assume ab: "a < length ths'" "b < length ths'" "a \<noteq> b" "fst (ths' ! a) = Writing"
    have old: "fst (ths ! j) = Writing \<Longrightarrow> j < length ths \<Longrightarrow> l < length ths \<Longrightarrow> j \<noteq> l \<Longrightarrow> fst (ths ! l) = Free" for j l
      using ex by (auto simp: exclusive_def)
    consider "a = i" | "b = i" "a \<noteq> i" | "a \<noteq> i" "b \<noteq> i" by blast
    then show "fst (ths' ! b) = Free"
    proof cases
      case 1
      then have "m' = Writing" using ab step(1) by simp
      with lock_step_modes [OF step(5)] consider "e = Lock" | "m = Writing" by blast
      then have "fst (ths ! b) = Free"
      proof cases
        case 1
        with step(4) ab step(1) show ?thesis
          using nth_mem [of b ths] by (auto simp: may_take_def list_all_iff split: prod.splits)
      next
        case 2
        with old [of i b] \<open>a = i\<close> ab step show ?thesis by simp
      qed
      with \<open>a = i\<close> ab step(1) show ?thesis by simp
    next
      case 2
      then have w: "fst (ths ! a) = Writing" using ab step(1) by simp
      then have "m = Free" using old [of a i] ab 2 step by simp
      have "m' = Free"
      proof (rule ccontr)
        assume "m' \<noteq> Free"
        with lock_step_modes [OF step(5)] \<open>m = Free\<close> have "e = Lock \<or> e = RLock" by auto
        with step(4) w ab step(1) show False
          using nth_mem [of a ths] by (auto simp: may_take_def list_all_iff split: prod.splits)
      qed
      with 2 ab step(1) show ?thesis by simp
    next
      case 3
      with old [of a b] ab step(1) show ?thesis by simp
    qed
  qed
  ultimately show ?thesis by (simp add: lock_sys_ok_def)
qed

text \<open>Some goroutine can go on, even if waiting writers block the readers.\<close>

lemma lock_sys_progress:
  assumes "lock_sys_ok ths" and "\<exists>th\<in>set ths. snd th \<noteq> []"
  shows "\<exists>ths'. lock_sys_step must_take ths ths'"
proof -
  have run: "lock_run m es = Some Free" if "(m, es) \<in> set ths" for m es
    using assms(1) that by (auto simp: lock_sys_ok_def list_all_iff)
  have go: "\<exists>ths'. lock_sys_step must_take ths ths'"
    if "(m, e # es) \<in> set ths" "must_take ths e" for m e es
  proof -
    from run [OF that(1)] obtain m' where "lock_step m e = Some m'" by (auto split: option.splits)
    moreover from that(1) obtain i where "i < length ths" "ths ! i = (m, e # es)" by (metis in_set_conv_nth)
    ultimately show ?thesis using that(2) lock_sys_step.intros by blast
  qed
  show ?thesis
  proof (cases "\<exists>th\<in>set ths. fst th \<noteq> Free")
    case True
    then obtain m es where th: "(m, es) \<in> set ths" "m \<noteq> Free" by force
    with run obtain e rest m' where es: "es = e # rest" and step: "lock_step m e = Some m'"
      by (cases es) (fastforce split: option.splits)+
    then have "must_take ths e"
      using th(2) by (cases "(m, e)" rule: lock_step.cases) (auto simp: must_take_def may_take_def)
    with go th(1) es show ?thesis by blast
  next
    case free: False
    then have all: "list_all (\<lambda>th. fst th = Free) ths" by (auto simp: list_all_iff)
    show ?thesis
    proof (cases "\<exists>m es. (m, Lock # es) \<in> set ths")
      case True
      with all go show ?thesis by (force simp: must_take_def may_take_def)
    next
      case False
      obtain m e es where th: "(m, e # es) \<in> set ths" using assms(2) by (metis list.exhaust prod.collapse)
      with free have "m = Free" by force
      with run [OF th] have "e = RLock \<or> e = Lock" by (cases e) auto
      with False th have "e = RLock" by blast
      moreover have "list_all (\<lambda>th. snd th = [] \<or> hd (snd th) \<noteq> Lock) ths"
        using False by (auto simp: list_all_iff) (metis list.collapse)
      ultimately have "must_take ths e" using all by (auto simp: must_take_def may_take_def list_all_iff)
      with go th show ?thesis by blast
    qed
  qed
qed

definition remaining :: "lock_thread list \<Rightarrow> nat" where
  "remaining ths = sum_list (map (\<lambda>th. length (snd th)) ths)"

lemma lock_sys_step_remaining: "lock_sys_step take_ok ths ths' \<Longrightarrow> remaining ths' < remaining ths"
proof (induction rule: lock_sys_step.induct)
  case (1 i ths m e es m')
  then have "ths = take i ths @ (m, e # es) # drop (Suc i) ths" by (metis id_take_nth_drop)
  then have "remaining ths = remaining (take i ths) + Suc (length es) + remaining (drop (Suc i) ths)"
    by (metis (no_types, lifting) add.assoc length_Cons list.simps(9) map_append remaining_def snd_conv sum_list.Cons sum_list_append)
  moreover have "remaining (ths[i := (m', es)]) = remaining (take i ths) + length es + remaining (drop (Suc i) ths)"
    using 1(1) by (simp add: upd_conv_take_nth_drop remaining_def)
  ultimately show ?case by simp
qed

lemma lock_sys_start: "lock_sys_ok (map (\<lambda>(op, c). (Free, op_trace op c)) ops)"
  by (auto simp: lock_sys_ok_def exclusive_def list_all_iff op_trace_closed split_beta)

lemma lock_sys_reaches:
  assumes "(lock_sys_step may_take)\<^sup>*\<^sup>* ths ths'" and "lock_sys_ok ths"
  shows "lock_sys_ok ths'"
  using assms by (induction rule: rtranclp_induct) (auto intro: lock_sys_ok_step)

text \<open>A goroutine that runs to its end without the others is one of the interleavings.\<close>

lemma par_run_goroutine:
  "i < length threads \<Longrightarrow> threads ! i = ts \<Longrightarrow>
   (par_step allowed)\<^sup>*\<^sup>* (c, threads) (run_alone ts c, threads[i := []])"
proof (induction ts c arbitrary: threads rule: run_alone.induct)
  case (1 c)
  then have "threads[i := []] = threads" by (metis list_update_id)
  then show ?case by simp
next
  case (2 t ts c)
  obtain c' new where t: "do_task t c = (c', new)" by fastforce
  have "par_step allowed (c, threads) (c', threads[i := new @ ts])"
    using "2.prems" t by (intro par_step.task) simp_all
  moreover have "(par_step allowed)\<^sup>*\<^sup>* (c', threads[i := new @ ts]) (run_alone (new @ ts) c', threads[i := []])"
    using "2.IH" [OF t [symmetric] refl, of "threads[i := new @ ts]"] "2.prems" by simp
  ultimately show ?case using t by simp
qed

text \<open>
  A race: a lookup lists the clusters for its refresh, a cluster is deleted and removed from the
  cache, and the refresh then adds what it had listed. No event follows, so the entry stays.
\<close>

lemma refresh_resurrects_deleted_cluster:
  assumes "fst (env_list (svc_client s) (svc_namespace s)) = [tc]"
    and "NewClusterConfig (svc_client s) tc (svc_timeout s) = Inr cfg" and "OperatorNamespace cfg \<noteq> ''''"
    and "creates_clients s (RestConfig cfg)"
  shows "\<exists>c'. (par_step (\<lambda>op. False))\<^sup>*\<^sup>*
      (c, [[RefreshTask s, LookupAgainTask name], [DeleteTask (tc_Name tc)]]) (c', [[], []]) \<and>
    map_of (clusters c') (tc_Name tc) \<noteq> None"
proof -
  let ?later = "[AddTask s tc, LookupAgainTask name]" and ?d = "deleteCachedToolchainCluster (tc_Name tc) c"
  let ?step = "par_step (\<lambda>op. False)"
  have "?step\<^sup>*\<^sup>* (c, [[RefreshTask s, LookupAgainTask name], [DeleteTask (tc_Name tc)]]) (c, [?later, [DeleteTask (tc_Name tc)]])"
    using par_step.task [of 0 "[[RefreshTask s, LookupAgainTask name], [DeleteTask (tc_Name tc)]]"] assms(1)
    by (intro r_into_rtranclp) fastforce
  also have "?step\<^sup>*\<^sup>* (c, [?later, [DeleteTask (tc_Name tc)]]) (?d, [?later, []])"
    using par_run_goroutine [of 1 "[?later, [DeleteTask (tc_Name tc)]]" "[DeleteTask (tc_Name tc)]"] by simp
  also have "?step\<^sup>*\<^sup>* (?d, [?later, []]) (run_alone ?later ?d, [[], []])"
    using par_run_goroutine [of 0 "[?later, []]" ?later "\<lambda>op. False" ?d] by (simp del: run_alone.simps(2))
  finally have run: "?step\<^sup>*\<^sup>* (c, [[RefreshTask s, LookupAgainTask name], [DeleteTask (tc_Name tc)]])
    (run_alone ?later ?d, [[], []])" .
  have "run_alone ?later ?d = emit [RLock, ReadMap, RUnlock] (fst (addToolchainCluster s tc ?d))"
    using run_alone_append [of "[AddTask s tc]" "[LookupAgainTask name]" ?d] run_add [of s tc ?d]
    by (simp only: append.simps run_again)
  with run addToolchainCluster_succeeds [OF assms(2-4), of ?d] show ?thesis by (metis emit_simps(1) option.discI)
qed

section \<open>Properties\<close>


text \<open>C4: However the operations of any number of goroutines interleave, no name has two entries, every
  entry is stored under its own name with an operator namespace, and its client was made for its
  own REST configuration, even when another goroutine has replaced the entry between the
  lookup and the store.\<close>

theorem concurrent_cache_consistent:
  assumes "par_reaches allowed (c, threads)" and "\<And>op. allowed op \<Longrightarrow> list_all (task_ok made_for) (tasks_of op)"
  shows "entries_ok made_for c"
  using par_ok_reaches [OF assms] by (simp add: par_ok_def)

theorem concurrent_cache_consistent_witness:
  "\<exists>c. par_reaches (\<lambda>op. op = AddOrUpdateOp sample_service sample_cluster) (c, [[], []]) \<and>
     clusters c \<noteq> [] \<and> entries_ok (\<lambda>cfg cl. cl \<noteq> None) c"
proof -
  let ?ok = "\<lambda>op. op = AddOrUpdateOp sample_service sample_cluster"
  let ?add = "AddTask sample_service sample_cluster"
  obtain cfg where cfg: "NewClusterConfig sample_env sample_cluster 3 = Inr cfg" "OperatorNamespace cfg = ''member-operator''"
    by (simp add: sample_env_def sample_cluster_def NewClusterConfig_def loadConfigFromKubeConfig_def)
  have svc: "svc_client sample_service = sample_env" "svc_timeout sample_service = 3" "svc_newClient sample_service = None"
    "env_AddToScheme sample_env = None" "env_clientNew sample_env n rc = Inr (Some n)" for n rc
    by (simp_all add: sample_service_def sample_env_def)
  define c1 where "c1 = emit [RLock, ReadMap, ReadMap, RUnlock] (initial_cache :: nat cluster_cache)"
  define c2 where "c2 = emit [RLock, ReadMap, ReadMap, RUnlock] c1"
  let ?cl = "ClientTask sample_service sample_cluster cfg None"
  let ?store = "\<lambda>n :: nat. StoreTask \<lparr>Config = cfg, Client = Some n, ClusterStatus = tc_Status sample_cluster\<rparr>"
  let ?c3 = "c2\<lparr>clientsCreated := 1\<rparr>" and ?c4 = "c2\<lparr>clientsCreated := 2\<rparr>"
  let ?entry = "\<lambda>n :: nat. \<lparr>Config = cfg, Client = Some n, ClusterStatus = tc_Status sample_cluster\<rparr>"
  note step = par_step.task [where allowed = ?ok]
  note [simp] = c1_def c2_def initial_cache_def
  have "par_reaches ?ok (initial_cache, [])" by simp
  also have "par_step ?ok (initial_cache, []) (initial_cache, [[?add]])" 
    using par_step.start [of ?ok "AddOrUpdateOp sample_service sample_cluster" initial_cache "[]"] by simp
  also have "par_step ?ok (initial_cache, [[?add]]) (initial_cache, [[?add], [?add]])" 
    using par_step.start [of ?ok "AddOrUpdateOp sample_service sample_cluster" initial_cache "[[?add]]"] by simp
  also have "par_step ?ok (initial_cache, [[?add], [?add]]) (c1, [[?cl], [?add]])"
    using step [of 0 "[[?add], [?add]]" ?add "[]" initial_cache] by (simp add: svc cfg)
  also have "par_step ?ok (c1, [[?cl], [?add]]) (c2, [[?cl], [?cl]])"
    using step [of 1 "[[?cl], [?add]]" ?add "[]" c1] by (simp add: svc cfg)
  also have "par_step ?ok (c2, [[?cl], [?cl]]) (?c3, [[?store 0], [?cl]])"
    using step [of 0 "[[?cl], [?cl]]" ?cl "[]" c2] by (simp add: svc cfg client_for_def must_create_def new_client_def)
  also have "par_step ?ok (?c3, [[?store 0], [?cl]]) (?c4, [[?store 0], [?store 1]])"
    using step [of 1 "[[?store 0], [?cl]]" ?cl "[]" ?c3]
    by (simp add: svc cfg client_for_def must_create_def new_client_def numeral_2_eq_2)
  also have "par_step ?ok (?c4, [[?store 0], [?store 1]]) (addCachedToolchainCluster (?entry 0) ?c4, [[], [?store 1]])"
    using step [of 0 "[[?store 0], [?store 1]]" "?store 0" "[]" ?c4] by simp
  also have "par_step ?ok (addCachedToolchainCluster (?entry 0) ?c4, [[], [?store 1]])
      (addCachedToolchainCluster (?entry 1) (addCachedToolchainCluster (?entry 0) ?c4), [[], []])"
    using step [of 1 "[[], [?store 1]]" "?store 1" "[]" "addCachedToolchainCluster (?entry 0) ?c4"] by simp
  finally have reach: "par_reaches ?ok (addCachedToolchainCluster (?entry 1) (addCachedToolchainCluster (?entry 0) ?c4), [[], []])" .
  have "service_ok (\<lambda>cfg cl. cl \<noteq> None) sample_service"
    by (auto simp: service_ok_def client_constructor_def svc)
  with concurrent_cache_consistent [OF reach, of "\<lambda>cfg cl. cl \<noteq> None"]
  have "entries_ok (\<lambda>cfg cl. cl \<noteq> None) (addCachedToolchainCluster (?entry 1) (addCachedToolchainCluster (?entry 0) ?c4))"
    by simp
  with reach show ?thesis by (intro exI conjI) (auto simp: addCachedToolchainCluster_def)
qed

text \<open>C5: The operations never block each other for good: whatever operations run on whatever caches,
  at every point of their way through the lock the goroutines exclude each other, and as long as
  one has not ended, one can go on, even when waiting writers hold back new readers; every step
  leaves less to do, so all of them end, with the lock free.\<close>

theorem cache_operations_complete:
  assumes "(lock_sys_step may_take)\<^sup>*\<^sup>* (map (\<lambda>(op, c). (Free, op_trace op c)) ops) ths"
  shows "exclusive ths \<and>
    (if list_all (\<lambda>th. snd th = []) ths then list_all (\<lambda>th. fst th = Free) ths
     else \<exists>ths'. lock_sys_step must_take ths ths') \<and>
    Collect (lock_sys_step may_take ths) \<subseteq> {ths'. remaining ths' < remaining ths}"
proof -
  have ok: "lock_sys_ok ths" using lock_sys_reaches [OF assms lock_sys_start] .
  have "list_all (\<lambda>th. fst th = Free) ths" if "list_all (\<lambda>th. snd th = []) ths"
    using ok that by (auto simp: lock_sys_ok_def list_all_iff)
  moreover have "\<exists>ths'. lock_sys_step must_take ths ths'" if "\<not> list_all (\<lambda>th. snd th = []) ths"
    using lock_sys_progress [OF ok] that by (auto simp: list_all_iff)
  ultimately show ?thesis
    using ok lock_sys_step_remaining by (auto simp: lock_sys_ok_def)
qed

theorem cache_operations_complete_witness:
  "\<exists>ths'. lock_sys_step must_take
     (map (\<lambda>(op, c). (Free, op_trace op c))
       [(DeleteOp ''a'' :: (string, string, nat) cache_op, initial_cache), (DeleteOp ''b'', initial_cache)]) ths'"
proof -
  have "op_trace (DeleteOp name :: (string, string, nat) cache_op) initial_cache = [Lock, WriteMap, Unlock]" for name
    by (simp add: op_trace_def DeleteToolchainCluster_def deleteCachedToolchainCluster_def initial_cache_def)
  with cache_operations_complete [OF rtranclp.rtrancl_refl,
      of "[(DeleteOp ''a'' :: (string, string, nat) cache_op, initial_cache), (DeleteOp ''b'', initial_cache)]"]
  show ?thesis by simp
qed

end
