(* ===== verification/TierGenerator.thy ===== *)
theory TierGenerator
  imports Templates ApiTypes
begin

text \<open>
  \<open>pkg/template/nstemplatetiers\<close>: from the files of the tiers to the TierTemplates and
  NSTemplateTiers of the cluster. A Go map of files or tiers is a list in the order in which
  \<^theory_text>\<open>range\<close> visits it. The decoders (\<open>te_Decode\<close> of the TierTemplates,
  \<open>te_DecodeTier\<close> of the NSTemplateTiers), the OpenShift processing, the provider label's
  value of the API and the cluster are the fields of \<open>tier_env\<close>; the parts of an object the
  code does not read have the type \<open>'o\<close>. A step that dereferences nil is a \<open>Panic\<close>;
  errors are values inside.
\<close>

section \<open>Data\<close>

record template_file =
  revision :: string
  content :: string

record based_on_tier =
  From :: string
  bt_Parameters :: "parameter list"

record templates =
  nsTemplateTier :: "template_file option"
  clusterTemplate :: "template_file option"
  namespaceTemplates :: "(string, template_file) gomap"
  spaceroleTemplates :: "(string, template_file) gomap"
  basedOnTierFile :: "template_file option"

record 'o tier_template =
  tt_Namespace :: string
  tt_Name :: string
  tt_Revision :: string
  TierName :: string
  tt_Type :: string
  Template :: "'o template_obj"

text \<open>
  An object the template of a tier is processed to: whether it is an \<open>*Unstructured\<close>, and
  its name.
\<close>

record 'o tier_object =
  to_Unstructured :: bool
  to_Name :: string
  to_Rest :: 'o

record 'o tier_data =
  td_name :: string
  rawTemplates :: templates
  tierTemplates :: "'o tier_template list"
  objects :: "'o tier_object list"
  basedOnTier :: "based_on_tier option"

record 'o ns_template_tier =
  nt_Name :: string
  nt_Labels :: "labels option"
  nt_Spec :: 'o

datatype tier_error =
    InvalidFileName string
  | UnableToUnmarshal string string
  | UnknownScope string
  | MixedTier string
  | TierTemplateManifest string string
  | MissingTierFile string
  | NSTemplateTierManifest string string
  | ProcessFailed process_error
  | CreateTierTemplateFailed string string string
  | UnexpectedNumberOfObjects string nat
  | NotUnstructured string
  | FromUnstructuredFailed string
  | CreateNSTemplateTierFailed string string
  | UnableToInitGenerator tier_error
  | UnableToCreateTierTemplates tier_error
  | UnableToCreateNSTemplateTiers tier_error

record ('o, 's) tier_env =
  te_Unmarshal :: "string \<Rightarrow> string + based_on_tier"
  te_Decode :: "string \<Rightarrow> string + 'o template_obj"
  te_DecodeTier :: "string \<Rightarrow> string + 'o template_obj"
  te_by_name :: by_name
  te_process :: "'o template_obj \<Rightarrow> string + 'o template_obj"
  te_convert :: "'o template_obj \<Rightarrow> string + 'o tier_object raw_extension list"
  te_FromUnstructured :: "'o tier_object \<Rightarrow> string + 'o ns_template_tier"
  te_ProviderLabelValue :: string
  te_ensureTierTemplate :: "'s \<Rightarrow> 'o tier_template \<Rightarrow> string \<Rightarrow> 's \<times> string option"
  te_ensureTier :: "'s \<Rightarrow> 'o ns_template_tier \<Rightarrow> string \<Rightarrow> 's \<times> string option"

section \<open>Loading the files\<close>

definition empty_tier :: "string \<Rightarrow> 'o tier_data" where
  "empty_tier tier =
     \<lparr>td_name = tier,
      rawTemplates = \<lparr>nsTemplateTier = None, clusterTemplate = None, namespaceTemplates = [],
        spaceroleTemplates = [], basedOnTierFile = None\<rparr>,
      tierTemplates = [], objects = [], basedOnTier = None\<rparr>"

text \<open>The dispatch of one file by its name.\<close>

definition add_file ::
  "(string \<Rightarrow> string + based_on_tier) \<Rightarrow> string \<Rightarrow> string \<Rightarrow> template_file \<Rightarrow> 'o tier_data \<Rightarrow>
   tier_error + 'o tier_data" where
  "add_file unmarshal name filename tmpl td =
     (let raw = rawTemplates td
      in if filename = ''tier.yaml'' then Inr (td\<lparr>rawTemplates := raw\<lparr>nsTemplateTier := Some tmpl\<rparr>\<rparr>)
         else if filename = ''cluster.yaml'' then Inr (td\<lparr>rawTemplates := raw\<lparr>clusterTemplate := Some tmpl\<rparr>\<rparr>)
         else if HasPrefix filename ''ns_'' then
           let kind = TrimSuffix (TrimPrefix filename ''ns_'') ''.yaml''
           in Inr (td\<lparr>rawTemplates := raw\<lparr>namespaceTemplates := AList.update kind tmpl (namespaceTemplates raw)\<rparr>\<rparr>)
         else if HasPrefix filename ''spacerole_'' then
           let role = TrimSuffix (TrimPrefix filename ''spacerole_'') ''.yaml''
           in Inr (td\<lparr>rawTemplates := raw\<lparr>spaceroleTemplates := AList.update role tmpl (spaceroleTemplates raw)\<rparr>\<rparr>)
         else if filename = ''based_on_tier.yaml'' then
           (case unmarshal (content tmpl) of
              Inl err \<Rightarrow> Inl (UnableToUnmarshal name err)
            | Inr b \<Rightarrow> Inr (td\<lparr>rawTemplates := raw\<lparr>basedOnTierFile := Some tmpl\<rparr>, basedOnTier := Some b\<rparr>))
         else Inl (UnknownScope name))"

fun load_tier_files ::
  "(string \<Rightarrow> string + based_on_tier) \<Rightarrow> (string, string) gomap \<Rightarrow> (string, string) gomap \<Rightarrow>
   (string, 'o tier_data) gomap \<Rightarrow> tier_error + (string, 'o tier_data) gomap" where
  "load_tier_files unmarshal metadata [] results = Inr results"
| "load_tier_files unmarshal metadata ((name, contents) # files) results =
     (case Split name (CHR ''/'') of
        [tier, filename] \<Rightarrow>
          (let td = (case map_of results tier of None \<Rightarrow> empty_tier tier | Some td \<Rightarrow> td);
               tmpl = \<lparr>revision = gm_index '''' metadata (TrimSuffix name ''.yaml''), content = contents\<rparr>
           in case add_file unmarshal name filename tmpl td of
                Inl err \<Rightarrow> Inl err
              | Inr td' \<Rightarrow> load_tier_files unmarshal metadata files (AList.update tier td' results))
      | _ \<Rightarrow> Inl (InvalidFileName name))"

definition mixed :: "'o tier_data \<Rightarrow> bool" where
  "mixed td \<longleftrightarrow> basedOnTierFile (rawTemplates td) \<noteq> None \<and>
     (clusterTemplate (rawTemplates td) \<noteq> None \<or> length (namespaceTemplates (rawTemplates td)) > 0 \<or>
      nsTemplateTier (rawTemplates td) \<noteq> None)"

definition loadTemplatesByTiers ::
  "(string \<Rightarrow> string + based_on_tier) \<Rightarrow> (string, string) gomap \<Rightarrow> (string, string) gomap \<Rightarrow>
   tier_error + (string, 'o tier_data) gomap" where
  "loadTemplatesByTiers unmarshal metadata files =
     (case load_tier_files unmarshal metadata files [] of
        Inl err \<Rightarrow> Inl err
      | Inr results \<Rightarrow>
          (case List.find (\<lambda>(tier, td). mixed td) results of
             Some (tier, td) \<Rightarrow> Inl (MixedTier tier)
           | None \<Rightarrow> Inr results))"

section \<open>The TierTemplates\<close>

text \<open>\<open>setParams\<close>: the first parameter of each name gets the value; the others are kept.\<close>

fun setParams :: "parameter list \<Rightarrow> parameter list \<Rightarrow> parameter list" where
  "setParams [] ps = ps"
| "setParams (paramToSet # parametersToSet) ps =
     setParams parametersToSet
       (case index_where (\<lambda>param. par_Name param = par_Name paramToSet) ps of
          None \<Rightarrow> ps
        | Some i \<Rightarrow> ps[i := (ps ! i)\<lparr>par_Value := par_Value paramToSet\<rparr>])"

definition newTierTemplateName :: "(nat \<Rightarrow> nat) \<Rightarrow> string \<Rightarrow> string \<Rightarrow> string \<Rightarrow> string" where
  "newTierTemplateName ulow tier kind rvn = ToLower ulow (tier @ ''-'' @ kind @ ''-'' @ rvn)"

definition newTierTemplate ::
  "(nat \<Rightarrow> nat) \<Rightarrow> ('o, 's) tier_env \<Rightarrow> string \<Rightarrow> string \<Rightarrow> string \<Rightarrow> string \<Rightarrow> template_file \<Rightarrow> parameter list \<Rightarrow>
   tier_error + 'o tier_template" where
  "newTierTemplate ulow env namespace basedOnTierFileRevision0 tier kind tmpl parameters =
     (let basedOnTierFileRevision =
            (if basedOnTierFileRevision0 = '''' then revision tmpl else basedOnTierFileRevision0);
          rvn = basedOnTierFileRevision @ ''-'' @ revision tmpl;
          name = newTierTemplateName ulow tier kind rvn
      in case te_Decode env (content tmpl) of
           Inl err \<Rightarrow> Inl (TierTemplateManifest name err)
         | Inr tmplObj \<Rightarrow>
             Inr \<lparr>tt_Namespace = namespace, tt_Name = name, tt_Revision = rvn, TierName = tier, tt_Type = kind,
                  Template = tmplObj\<lparr>Parameters := setParams parameters (Parameters tmplObj)\<rparr>\<rparr>)"

text \<open>The loop over the sorted keys of a map of templates.\<close>

fun tier_templates_of ::
  "(nat \<Rightarrow> nat) \<Rightarrow> ('o, 's) tier_env \<Rightarrow> string \<Rightarrow> string \<Rightarrow> string \<Rightarrow> parameter list \<Rightarrow>
   (string \<times> template_file) list \<Rightarrow> tier_error + 'o tier_template list" where
  "tier_templates_of ulow env namespace rvn tier parameters [] = Inr []"
| "tier_templates_of ulow env namespace rvn tier parameters ((kind, tmpl) # rest) =
     (case newTierTemplate ulow env namespace rvn tier kind tmpl parameters of
        Inl err \<Rightarrow> Inl err
      | Inr tt \<Rightarrow>
          (case tier_templates_of ulow env namespace rvn tier parameters rest of
             Inl err \<Rightarrow> Inl err
           | Inr tts \<Rightarrow> Inr (tt # tts)))"

definition zero_template_file :: template_file where
  "zero_template_file = \<lparr>revision = '''', content = ''''\<rparr>"

definition sorted_entries :: "(string, template_file) gomap \<Rightarrow> (string \<times> template_file) list" where
  "sorted_entries m = map (\<lambda>k. (k, gm_index zero_template_file m k)) (sort_Strings (map fst m))"

definition ClusterResourcesTemplateType :: string where
  "ClusterResourcesTemplateType = ''clusterresources''"

definition newTierTemplates ::
  "(nat \<Rightarrow> nat) \<Rightarrow> ('o, 's) tier_env \<Rightarrow> string \<Rightarrow> string \<Rightarrow> 'o tier_data \<Rightarrow> string \<Rightarrow> parameter list \<Rightarrow>
   tier_error + 'o tier_template list" where
  "newTierTemplates ulow env namespace rvn td tier parameters =
     (let raw = rawTemplates td
      in tier_templates_of ulow env namespace rvn tier parameters
           (sorted_entries (namespaceTemplates raw) @ sorted_entries (spaceroleTemplates raw) @
            (case clusterTemplate raw of None \<Rightarrow> [] | Some t \<Rightarrow> [(ClusterResourcesTemplateType, t)])))"

text \<open>
  The source of a tier: the revision of its \<open>based_on_tier.yaml\<close>, the parameters to set
  and the tier whose files are used. A missing one is a nil pointer that is dereferenced.
\<close>

definition tier_source ::
  "(string, 'o tier_data) gomap \<Rightarrow> 'o tier_data \<Rightarrow> (string \<times> parameter list \<times> 'o tier_data) go" where
  "tier_source tiers td =
     (case basedOnTier td of
        None \<Rightarrow> Ret ('''', [], td)
      | Some b \<Rightarrow>
          (case basedOnTierFile (rawTemplates td) of
             None \<Rightarrow> Panic NilDereference
           | Some f \<Rightarrow>
               (case map_of tiers (From b) of
                  None \<Rightarrow> Panic NilDereference
                | Some src \<Rightarrow> Ret (revision f, bt_Parameters b, src))))"

fun init_tiers ::
  "(nat \<Rightarrow> nat) \<Rightarrow> ('o, 's) tier_env \<Rightarrow> string \<Rightarrow> string list \<Rightarrow> (string, 'o tier_data) gomap \<Rightarrow>
   (tier_error + (string, 'o tier_data) gomap) go" where
  "init_tiers ulow env namespace [] tiers = Ret (Inr tiers)"
| "init_tiers ulow env namespace (tier # rest) tiers =
     (case map_of tiers tier of
        None \<Rightarrow> Panic NilDereference
      | Some td \<Rightarrow>
          go_bind (tier_source tiers td) (\<lambda>(rvn, parameters, src).
            case newTierTemplates ulow env namespace rvn src tier parameters of
              Inl err \<Rightarrow> Ret (Inl err)
            | Inr tts \<Rightarrow>
                init_tiers ulow env namespace rest (AList.update tier (td\<lparr>tierTemplates := tts\<rparr>) tiers)))"

definition initTierTemplates ::
  "(nat \<Rightarrow> nat) \<Rightarrow> ('o, 's) tier_env \<Rightarrow> string \<Rightarrow> (string, 'o tier_data) gomap \<Rightarrow>
   (tier_error + (string, 'o tier_data) gomap) go" where
  "initTierTemplates ulow env namespace tiers =
     init_tiers ulow env namespace (sort_Strings (map fst tiers)) tiers"

section \<open>The NSTemplateTiers\<close>

text \<open>The parameters of the template: the namespace and the name of every TierTemplate.\<close>

definition template_refs ::
  "(nat \<Rightarrow> nat) \<Rightarrow> string \<Rightarrow> 'o tier_template list \<Rightarrow> (string, string) gomap" where
  "template_refs uup namespace tts =
     foldl (\<lambda>params tt.
         if tt_Type tt = ClusterResourcesTemplateType
         then AList.update ''CLUSTER_TEMPL_REF'' (tt_Name tt) params
         else AList.update (ToUpper uup (tt_Type tt) @ ''_TEMPL_REF'') (tt_Name tt) params)
       [(''NAMESPACE'', namespace)] tts"

definition newNSTemplateTier ::
  "(nat \<Rightarrow> nat) \<Rightarrow> ('o, 's) tier_env \<Rightarrow> string \<Rightarrow> string \<Rightarrow> string \<Rightarrow> template_file option \<Rightarrow>
   'o tier_template list \<Rightarrow> parameter list \<Rightarrow> tier_error + 'o tier_object list" where
  "newNSTemplateTier uup env namespace sourceTierName tierName nsTier tts parameters =
     (case nsTier of
        None \<Rightarrow> Inl (MissingTierFile tierName)
      | Some f \<Rightarrow>
          (case te_DecodeTier env (content f) of
             Inl err \<Rightarrow> Inl (NSTemplateTierManifest tierName err)
           | Inr tmplObj \<Rightarrow>
               (case Process (te_by_name env) (te_process env) (te_convert env)
                       (tmplObj\<lparr>Parameters := setParams parameters (Parameters tmplObj)\<rparr>)
                       (template_refs uup namespace tts) [] of
                  Inl err \<Rightarrow> Inl (ProcessFailed err)
                | Inr objs \<Rightarrow>
                    Inr (map (\<lambda>obj. obj\<lparr>to_Name := ReplaceFirst (to_Name obj) sourceTierName tierName\<rparr>) objs))))"

fun init_ns_tiers ::
  "(nat \<Rightarrow> nat) \<Rightarrow> ('o, 's) tier_env \<Rightarrow> string \<Rightarrow> string list \<Rightarrow> (string, 'o tier_data) gomap \<Rightarrow>
   (tier_error + (string, 'o tier_data) gomap) go" where
  "init_ns_tiers uup env namespace [] tiers = Ret (Inr tiers)"
| "init_ns_tiers uup env namespace (tierName # rest) tiers =
     (case map_of tiers tierName of
        None \<Rightarrow> Panic NilDereference
      | Some td \<Rightarrow>
          go_bind (case basedOnTier td of
              None \<Rightarrow> Ret (tierName, [], nsTemplateTier (rawTemplates td))
            | Some b \<Rightarrow>
                (case map_of tiers (From b) of
                   None \<Rightarrow> Panic NilDereference
                 | Some src \<Rightarrow> Ret (td_name src, bt_Parameters b, nsTemplateTier (rawTemplates src))))
            (\<lambda>(sourceTierName, parameters, nsTier).
              case newNSTemplateTier uup env namespace sourceTierName tierName nsTier (tierTemplates td) parameters of
                Inl err \<Rightarrow> Ret (Inl err)
              | Inr objs \<Rightarrow>
                  init_ns_tiers uup env namespace rest (AList.update tierName (td\<lparr>objects := objs\<rparr>) tiers)))"

text \<open>The loop ranges over the map it updates: its keys do not change.\<close>

definition initNSTemplateTiers ::
  "(nat \<Rightarrow> nat) \<Rightarrow> ('o, 's) tier_env \<Rightarrow> string \<Rightarrow> (string, 'o tier_data) gomap \<Rightarrow>
   (tier_error + (string, 'o tier_data) gomap) go" where
  "initNSTemplateTiers uup env namespace tiers = init_ns_tiers uup env namespace (map fst tiers) tiers"

section \<open>Creating the resources\<close>

fun ensure_templates ::
  "('o, 's) tier_env \<Rightarrow> string \<Rightarrow> 's \<Rightarrow> 'o tier_template list \<Rightarrow> 's \<times> tier_error option" where
  "ensure_templates env tierName s [] = (s, None)"
| "ensure_templates env tierName s (tierTmpl # rest) =
     (case te_ensureTierTemplate env s tierTmpl tierName of
        (s', Some err) \<Rightarrow> (s', Some (CreateTierTemplateFailed (tt_Name tierTmpl) (tt_Namespace tierTmpl) err))
      | (s', None) \<Rightarrow> ensure_templates env tierName s' rest)"

fun createTierTemplates ::
  "('o, 's) tier_env \<Rightarrow> 's \<Rightarrow> (string, 'o tier_data) gomap \<Rightarrow> 's \<times> tier_error option" where
  "createTierTemplates env s [] = (s, None)"
| "createTierTemplates env s ((tierName, td) # rest) =
     (case ensure_templates env tierName s (tierTemplates td) of
        (s', Some err) \<Rightarrow> (s', Some err)
      | (s', None) \<Rightarrow> createTierTemplates env s' rest)"

text \<open>
  The labels of the tier with the provider label: the map is the tier's own, except that a
  nil map is replaced by a new one that is not set on the tier.
\<close>

definition label_tier :: "string \<Rightarrow> 'o ns_template_tier \<Rightarrow> 'o ns_template_tier" where
  "label_tier ProviderLabelValue tier =
     (case nt_Labels tier of
        None \<Rightarrow> tier
      | Some lbls \<Rightarrow> tier\<lparr>nt_Labels := Some (AList.update ProviderLabelKey ProviderLabelValue lbls)\<rparr>)"

fun createNSTemplateTiers ::
  "('o, 's) tier_env \<Rightarrow> 's \<Rightarrow> (string, 'o tier_data) gomap \<Rightarrow> 's \<times> tier_error option" where
  "createNSTemplateTiers env s [] = (s, None)"
| "createNSTemplateTiers env s ((tierName, td) # rest) =
     (if length (objects td) \<noteq> 1 then (s, Some (UnexpectedNumberOfObjects tierName (length (objects td))))
      else if \<not> to_Unstructured (objects td ! 0) then (s, Some (NotUnstructured tierName))
      else case te_FromUnstructured env (objects td ! 0) of
             Inl err \<Rightarrow> (s, Some (FromUnstructuredFailed err))
           | Inr tier \<Rightarrow>
               (case te_ensureTier env s (label_tier (te_ProviderLabelValue env) tier) tierName of
                  (s', Some err) \<Rightarrow> (s', Some (CreateNSTemplateTierFailed tierName err))
                | (s', None) \<Rightarrow> createNSTemplateTiers env s' rest))"

definition newNSTemplateTierGenerator ::
  "(nat \<Rightarrow> nat) \<Rightarrow> (nat \<Rightarrow> nat) \<Rightarrow> ('o, 's) tier_env \<Rightarrow> string \<Rightarrow> (string, string) gomap \<Rightarrow>
   (string, string) gomap \<Rightarrow> (tier_error + (string, 'o tier_data) gomap) go" where
  "newNSTemplateTierGenerator ulow uup env namespace metadata files =
     (case loadTemplatesByTiers (te_Unmarshal env) metadata files of
        Inl err \<Rightarrow> Ret (Inl err)
      | Inr tiers \<Rightarrow>
          go_bind (initTierTemplates ulow env namespace tiers) (\<lambda>r.
            case r of
              Inl err \<Rightarrow> Ret (Inl err)
            | Inr tiers' \<Rightarrow> initNSTemplateTiers uup env namespace tiers'))"

definition GenerateTiers ::
  "(nat \<Rightarrow> nat) \<Rightarrow> (nat \<Rightarrow> nat) \<Rightarrow> ('o, 's) tier_env \<Rightarrow> string \<Rightarrow> (string, string) gomap \<Rightarrow>
   (string, string) gomap \<Rightarrow> 's \<Rightarrow> ('s \<times> tier_error option) go" where
  "GenerateTiers ulow uup env namespace metadata files s =
     go_bind (newNSTemplateTierGenerator ulow uup env namespace metadata files) (\<lambda>r.
       case r of
         Inl err \<Rightarrow> Ret (s, Some (UnableToInitGenerator err))
       | Inr tiers \<Rightarrow>
           (case createTierTemplates env s tiers of
              (s', Some err) \<Rightarrow> Ret (s', Some (UnableToCreateTierTemplates err))
            | (s', None) \<Rightarrow>
                (case createNSTemplateTiers env s' tiers of
                   (s'', Some err) \<Rightarrow> Ret (s'', Some (UnableToCreateNSTemplateTiers err))
                 | (s'', None) \<Rightarrow> Ret (s'', None))))"

section \<open>Parameters\<close>

lemma setParams_append: "setParams (xs @ ys) ps = setParams ys (setParams xs ps)"
  by (induction xs ps rule: setParams.induct) auto

lemma setParams_one:
  "distinct (map par_Name ps) \<Longrightarrow>
   setParams [x] ps = map (\<lambda>p. if par_Name p = par_Name x then p\<lparr>par_Value := par_Value x\<rparr> else p) ps"
  using update_first [where key = par_Name and xs = ps and k = "par_Name x"
      and f = "\<lambda>p. p\<lparr>par_Value := par_Value x\<rparr>"] by simp

definition overrides :: "parameter list \<Rightarrow> string \<Rightarrow> string option" where
  "overrides parametersToSet = map_of (rev (map (\<lambda>p. (par_Name p, par_Value p)) parametersToSet))"

lemma setParams_map:
  assumes "distinct (map par_Name ps)"
  shows "setParams xs ps = map (\<lambda>p. case overrides xs (par_Name p) of
    None \<Rightarrow> p | Some v \<Rightarrow> p\<lparr>par_Value := v\<rparr>) ps"
  using assms
proof (induction xs rule: rev_induct)
  case Nil
  then show ?case by (simp add: overrides_def)
next
  case (snoc x xs)
  let ?g = "\<lambda>p. case overrides xs (par_Name p) of None \<Rightarrow> p | Some v \<Rightarrow> p\<lparr>par_Value := v\<rparr>"
  have names: "par_Name (?g p) = par_Name p" for p :: parameter by (simp split: option.split)
  then have "map par_Name (map ?g ps) = map par_Name ps" by (simp add: comp_def)
  then have "distinct (map par_Name (map ?g ps))" using snoc.prems by (simp only:)
  from setParams_one [OF this, of x] show ?case
    unfolding setParams_append snoc.IH [OF snoc.prems]
    by (simp add: overrides_def split: option.split del: setParams.simps)
qed

section \<open>The TierTemplates of every tier\<close>

lemma sorted_entries_keys: "map fst (sorted_entries m) = sort_Strings (map fst m)"
  by (simp add: sorted_entries_def comp_def)

definition source_revision :: "string \<Rightarrow> template_file \<Rightarrow> string" where
  "source_revision rvn tmpl = (if rvn = '''' then revision tmpl else rvn) @ ''-'' @ revision tmpl"

lemma newTierTemplate_Inr:
  assumes "newTierTemplate ulow env namespace rvn tier kind tmpl parameters = Inr tt"
  shows "tt_Namespace tt = namespace \<and> TierName tt = tier \<and> tt_Type tt = kind \<and>
    tt_Revision tt = source_revision rvn tmpl \<and>
    tt_Name tt = ToLower ulow (tier @ ''-'' @ kind @ ''-'' @ tt_Revision tt) \<and>
    (\<exists>t. te_Decode env (content tmpl) = Inr t \<and>
       Template tt = t\<lparr>Parameters := setParams parameters (Parameters t)\<rparr>)"
  using assms
  by (auto simp: newTierTemplate_def newTierTemplateName_def source_revision_def Let_def split: sum.splits)

text \<open>What one TierTemplate is to be, made of a file of the source tier.\<close>

definition made_from ::
  "(nat \<Rightarrow> nat) \<Rightarrow> ('o, 's) tier_env \<Rightarrow> string \<Rightarrow> string \<Rightarrow> string \<Rightarrow> parameter list \<Rightarrow>
   string \<times> template_file \<Rightarrow> 'o tier_template \<Rightarrow> bool" where
  "made_from ulow env namespace rvn tier parameters entry tt \<longleftrightarrow>
     tt_Namespace tt = namespace \<and> TierName tt = tier \<and> tt_Type tt = fst entry \<and>
     tt_Revision tt = source_revision rvn (snd entry) \<and>
     tt_Name tt = ToLower ulow (tier @ ''-'' @ fst entry @ ''-'' @ tt_Revision tt) \<and>
     (\<exists>t. te_Decode env (content (snd entry)) = Inr t \<and>
       Template tt = t\<lparr>Parameters := setParams parameters (Parameters t)\<rparr>)"

lemma tier_templates_of_Inr:
  "tier_templates_of ulow env namespace rvn tier parameters entries = Inr tts \<Longrightarrow>
   list_all2 (made_from ulow env namespace rvn tier parameters) entries tts"
proof (induction entries arbitrary: tts)
  case Nil
  then show ?case by simp
next
  case (Cons e entries)
  obtain kind tmpl where e: "e = (kind, tmpl)" by fastforce
  with Cons show ?case
    by (auto split: sum.splits dest: newTierTemplate_Inr simp: made_from_def)
qed

definition source_entries :: "templates \<Rightarrow> (string \<times> template_file) list" where
  "source_entries raw =
     sorted_entries (namespaceTemplates raw) @ sorted_entries (spaceroleTemplates raw) @
     (case clusterTemplate raw of None \<Rightarrow> [] | Some t \<Rightarrow> [(ClusterResourcesTemplateType, t)])"

lemma newTierTemplates_eq:
  "newTierTemplates ulow env namespace rvn td tier parameters =
     tier_templates_of ulow env namespace rvn tier parameters (source_entries (rawTemplates td))"
  by (simp add: newTierTemplates_def source_entries_def Let_def)

text \<open>The input of a tier does not change when the TierTemplates of other tiers are set.\<close>

definition same_input :: "(string, 'o tier_data) gomap \<Rightarrow> (string, 'o tier_data) gomap \<Rightarrow> bool" where
  "same_input tiers tiers' \<longleftrightarrow>
     (\<forall>t. map_option (\<lambda>td. (td_name td, rawTemplates td, basedOnTier td)) (map_of tiers t) =
          map_option (\<lambda>td. (td_name td, rawTemplates td, basedOnTier td)) (map_of tiers' t))"

lemma same_inputD:
  "same_input tiers tiers' \<Longrightarrow> map_of tiers t = Some td \<Longrightarrow>
   \<exists>td'. map_of tiers' t = Some td' \<and> td_name td' = td_name td \<and> rawTemplates td' = rawTemplates td \<and>
     basedOnTier td' = basedOnTier td"
  by (cases "map_of tiers' t") (auto simp: same_input_def dest!: spec [of _ t])

lemma same_input_None: "same_input tiers tiers' \<Longrightarrow> map_of tiers t = None \<longleftrightarrow> map_of tiers' t = None"
  by (auto simp: same_input_def dest!: spec [of _ t])

lemma same_input_refl [simp]: "same_input tiers tiers"
  by (simp add: same_input_def)

lemma same_input_trans: "same_input a b \<Longrightarrow> same_input b c \<Longrightarrow> same_input a c"
  by (simp add: same_input_def)

lemma same_input_update:
  "map_of tiers t = Some td \<Longrightarrow> td_name td' = td_name td \<Longrightarrow> rawTemplates td' = rawTemplates td \<Longrightarrow>
   basedOnTier td' = basedOnTier td \<Longrightarrow> same_input tiers (AList.update t td' tiers)"
  by (simp add: same_input_def)

definition tier_input ::
  "(string, 'o tier_data) gomap \<Rightarrow> 'o tier_data \<Rightarrow> (string \<times> parameter list \<times> templates) option" where
  "tier_input tiers td =
     (case tier_source tiers td of
        Ret (rvn, parameters, src) \<Rightarrow> Some (rvn, parameters, rawTemplates src)
      | Panic p \<Rightarrow> None)"

lemma tier_input_same:
  assumes "same_input tiers tiers'"
  shows "tier_input tiers' td = tier_input tiers td"
proof (cases "basedOnTier td")
  case None
  then show ?thesis by (simp add: tier_input_def tier_source_def)
next
  case (Some b)
  show ?thesis
  proof (cases "map_of tiers (From b)")
    case None
    with same_input_None [OF assms, of "From b"] Some show ?thesis
      by (cases "basedOnTierFile (rawTemplates td)") (simp_all add: tier_input_def tier_source_def)
  next
    case (Some src)
    from same_inputD [OF assms this] \<open>basedOnTier td = Some b\<close> Some show ?thesis
      by (auto simp: tier_input_def tier_source_def split: option.split)
  qed
qed

lemma init_tiers_Inr:
  assumes "init_tiers ulow env namespace keys tiers = Ret (Inr tiers')" and "distinct keys"
  shows "same_input tiers tiers' \<and> (\<forall>t. t \<notin> set keys \<longrightarrow> map_of tiers' t = map_of tiers t) \<and>
    (\<forall>t\<in>set keys. \<exists>td rvn parameters raw tts. map_of tiers t = Some td \<and>
       tier_input tiers td = Some (rvn, parameters, raw) \<and>
       map_of tiers' t = Some (td\<lparr>tierTemplates := tts\<rparr>) \<and>
       list_all2 (made_from ulow env namespace rvn t parameters) (source_entries raw) tts)"
  using assms
proof (induction keys arbitrary: tiers)
  case Nil
  then show ?case by simp
next
  case (Cons t rest)
  obtain td where td: "map_of tiers t = Some td" using Cons.prems by (cases "map_of tiers t") auto
  obtain rvn parameters src where src: "tier_source tiers td = Ret (rvn, parameters, src)"
    using Cons.prems td by (cases "tier_source tiers td") auto
  obtain tts where tts: "newTierTemplates ulow env namespace rvn src t parameters = Inr tts"
    using Cons.prems td src by (cases "newTierTemplates ulow env namespace rvn src t parameters") auto
  have rest: "init_tiers ulow env namespace rest (AList.update t (td\<lparr>tierTemplates := tts\<rparr>) tiers) = Ret (Inr tiers')"
    using Cons.prems td src tts by simp
  let ?tiers = "AList.update t (td\<lparr>tierTemplates := tts\<rparr>) tiers"
  have same: "same_input tiers ?tiers" using td by (intro same_input_update) auto
  from Cons.IH [OF rest] Cons.prems(2) have ih: "same_input ?tiers tiers'"
    "\<forall>t. t \<notin> set rest \<longrightarrow> map_of tiers' t = map_of ?tiers t"
    "\<forall>t\<in>set rest. \<exists>td rvn parameters raw tts. map_of ?tiers t = Some td \<and>
       tier_input ?tiers td = Some (rvn, parameters, raw) \<and>
       map_of tiers' t = Some (td\<lparr>tierTemplates := tts\<rparr>) \<and>
       list_all2 (made_from ulow env namespace rvn t parameters) (source_entries raw) tts" by auto
  have "list_all2 (made_from ulow env namespace rvn t parameters) (source_entries (rawTemplates src)) tts"
    using tts tier_templates_of_Inr by (simp add: newTierTemplates_eq)
  moreover have "tier_input tiers td = Some (rvn, parameters, rawTemplates src)"
    using src by (simp add: tier_input_def)
  moreover have "map_of tiers' t = Some (td\<lparr>tierTemplates := tts\<rparr>)" using ih(2) Cons.prems(2) by simp
  ultimately have here: "\<exists>td rvn parameters raw tts. map_of tiers t = Some td \<and>
       tier_input tiers td = Some (rvn, parameters, raw) \<and>
       map_of tiers' t = Some (td\<lparr>tierTemplates := tts\<rparr>) \<and>
       list_all2 (made_from ulow env namespace rvn t parameters) (source_entries raw) tts"
    using td by blast
  have there: "\<exists>td rvn parameters raw tts. map_of tiers u = Some td \<and>
       tier_input tiers td = Some (rvn, parameters, raw) \<and>
       map_of tiers' u = Some (td\<lparr>tierTemplates := tts\<rparr>) \<and>
       list_all2 (made_from ulow env namespace rvn u parameters) (source_entries raw) tts"
    if "u \<in> set rest" for u
  proof -
    have "u \<noteq> t" using that Cons.prems(2) by auto
    with bspec [OF ih(3) that] show ?thesis by (simp add: tier_input_same [OF same])
  qed
  show ?case
    using same_input_trans [OF same ih(1)] here there ih(2) by (auto simp: td)
qed

section \<open>The order of the maps\<close>

text \<open>A result as a map: a panic, an error, or what a lookup of each tier gives.\<close>

fun as_map :: "(tier_error + (string, 'o tier_data) gomap) go \<Rightarrow> (tier_error + (string \<Rightarrow> 'o tier_data option)) go" where
  "as_map (Panic p) = Panic p"
| "as_map (Ret (Inl err)) = Ret (Inl err)"
| "as_map (Ret (Inr tiers)) = Ret (Inr (map_of tiers))"

lemma tier_source_order: "map_of a = map_of b \<Longrightarrow> tier_source a td = tier_source b td"
  by (auto simp: tier_source_def split: option.split)

lemma init_tiers_order:
  "map_of a = map_of b \<Longrightarrow>
   as_map (init_tiers ulow env namespace keys a) = as_map (init_tiers ulow env namespace keys b)"
proof (induction keys arbitrary: a b)
  case Nil
  then show ?case by simp
next
  case (Cons t rest)
  show ?case
  proof (cases "map_of b t")
    case None
    with Cons.prems show ?thesis by simp
  next
    case (Some td)
    then show ?thesis
      using Cons.prems Cons.IH tier_source_order [OF Cons.prems, of td]
      by (cases "tier_source b td") (auto split: sum.split)
  qed
qed

lemma sorted_keys_order:
  assumes "gm_ok a" and "gm_ok b" and "map_of a = map_of b"
  shows "sort_Strings (map fst a) = sort_Strings (map fst b)"
proof (rule sort_Strings_perm)
  have "set (map fst a) = set (map fst b)"
    using arg_cong [OF assms(3), of dom] by (simp add: dom_map_of_conv_image_fst)
  then show "mset (map fst a) = mset (map fst b)"
    using assms(1,2) set_eq_iff_mset_eq_distinct unfolding gm_ok_def by blast
qed

section \<open>The order of the resources\<close>

text \<open>A cluster that keeps what was ensured, beside its state.\<close>

datatype 'o ensured = EnsuredTierTemplate "'o tier_template" string | EnsuredTier "'o ns_template_tier" string

definition recording_env :: "('o, 's) tier_env \<Rightarrow> ('o, 's \<times> 'o ensured list) tier_env" where
  "recording_env env = \<lparr>te_Unmarshal = te_Unmarshal env, te_Decode = te_Decode env,
     te_DecodeTier = te_DecodeTier env, te_by_name = te_by_name env, te_process = te_process env,
     te_convert = te_convert env, te_FromUnstructured = te_FromUnstructured env,
     te_ProviderLabelValue = te_ProviderLabelValue env,
     te_ensureTierTemplate = (\<lambda>(s, log) tt name.
       let (s', err) = te_ensureTierTemplate env s tt name in ((s', log @ [EnsuredTierTemplate tt name]), err)),
     te_ensureTier = (\<lambda>(s, log) t name.
       let (s', err) = te_ensureTier env s t name in ((s', log @ [EnsuredTier t name]), err))\<rparr>"

lemma ensure_templates_log:
  "ensure_templates (recording_env env) name s tts = (s', None) \<Longrightarrow>
   snd s' = snd s @ map (\<lambda>tt. EnsuredTierTemplate tt name) tts"
proof (induction tts arbitrary: s)
  case (Cons tt tts)
  obtain s0 l0 where s: "s = (s0, l0)" by fastforce
  with Cons show ?case
    by (fastforce simp: recording_env_def split: prod.splits option.splits)
qed simp

lemma createTierTemplates_log:
  "createTierTemplates (recording_env env) s tiers = (s', None) \<Longrightarrow>
   snd s' = snd s @ concat (map (\<lambda>(name, td). map (\<lambda>tt. EnsuredTierTemplate tt name) (tierTemplates td)) tiers)"
proof (induction tiers arbitrary: s)
  case (Cons e tiers)
  obtain name td where e: "e = (name, td)" by fastforce
  obtain s1 err where s1: "ensure_templates (recording_env env) name s (tierTemplates td) = (s1, err)" by fastforce
  with Cons.prems e have "err = None" and "createTierTemplates (recording_env env) s1 tiers = (s', None)"
    by (auto split: option.splits)
  with Cons.IH [of s1] ensure_templates_log [of env name s] s1 e show ?case by simp
qed simp

lemma createNSTemplateTiers_log:
  "createNSTemplateTiers (recording_env env) s tiers = (s', None) \<Longrightarrow>
   \<exists>ts. snd s' = snd s @ map (\<lambda>(t, name). EnsuredTier t name) (zip ts (map fst tiers)) \<and>
     length ts = length tiers"
proof (induction tiers arbitrary: s)
  case Nil
  then show ?case by simp
next
  case (Cons e tiers)
  obtain name td where e: "e = (name, td)" by fastforce
  obtain s0 l0 where s: "s = (s0, l0)" by fastforce
  from Cons.prems e s obtain tier s1 where "createNSTemplateTiers (recording_env env) s1 tiers = (s', None)"
    and "snd s1 = l0 @ [EnsuredTier tier name]"
    by (auto simp: recording_env_def Let_def split: if_splits sum.splits prod.splits option.splits)
  with Cons.IH [of s1] obtain ts where
    "snd s' = l0 @ EnsuredTier tier name # map (\<lambda>(t, name). EnsuredTier t name) (zip ts (map fst tiers))"
    and "length ts = length tiers" by auto
  with e s show ?case by (intro exI [of _ "tier # ts"]) simp
qed

section \<open>Properties\<close>

text \<open>C27: Generating the TierTemplates, when it succeeds, gives every tier exactly one TierTemplate
  per namespace file, spacerole file and cluster file of its source tier (itself, or the one
  its based_on_tier file names), by kind in alphabetical order, named after the tier, the kind and
  the two revisions in lower case, with the parameters of the based_on_tier file set in its template.\<close>

theorem tier_templates_complete:
  assumes "initTierTemplates ulow env namespace tiers = Ret (Inr tiers')" and "gm_ok tiers"
    and "map_of tiers tier = Some td"
  shows "\<exists>rvn parameters src tts. tier_source tiers td = Ret (rvn, parameters, src) \<and>
    map_of tiers' tier = Some (td\<lparr>tierTemplates := tts\<rparr>) \<and>
    list_all2 (made_from ulow env namespace rvn tier parameters) (source_entries (rawTemplates src)) tts"
proof -
  have keys: "distinct (sort_Strings (map fst tiers))" "tier \<in> set (sort_Strings (map fst tiers))"
    using assms(2,3) map_of_SomeD [OF assms(3)] by (force simp: sort_Strings_def gm_ok_def)+
  from init_tiers_Inr [OF assms(1) [unfolded initTierTemplates_def] keys(1)] keys(2) assms(3)
  obtain rvn parameters raw tts where "tier_input tiers td = Some (rvn, parameters, raw)"
    "map_of tiers' tier = Some (td\<lparr>tierTemplates := tts\<rparr>)"
    "list_all2 (made_from ulow env namespace rvn tier parameters) (source_entries raw) tts" by fastforce
  then show ?thesis
    by (cases "tier_source tiers td") (auto simp: tier_input_def)
qed

text \<open>An environment whose templates are their contents, for the witnesses.\<close>

definition sample_tier_env :: "(string, nat) tier_env" where
  "sample_tier_env = \<lparr>
     te_Unmarshal = (\<lambda>y. Inr \<lparr>From = y, bt_Parameters = [\<lparr>par_Name = ''IDLER'', par_Value = ''43200'', par_Generate = ''''\<rparr>]\<rparr>),
     te_Decode = (\<lambda>c. Inr \<lparr>Parameters = [\<lparr>par_Name = ''IDLER'', par_Value = ''30'', par_Generate = ''''\<rparr>], tmpl_Objects = c\<rparr>),
     te_DecodeTier = (\<lambda>c. Inr \<lparr>Parameters = [], tmpl_Objects = c\<rparr>),
     te_by_name = first_by_name, te_process = Inr,
     te_convert = (\<lambda>t. Inr [\<lparr>raw_GVK = GroupVersionKind '''' '''' ''NSTemplateTier'',
       raw_Object = Some \<lparr>to_Unstructured = True, to_Name = tmpl_Objects t, to_Rest = ''''\<rparr>\<rparr>]),
     te_FromUnstructured = (\<lambda>obj. Inr \<lparr>nt_Name = to_Name obj, nt_Labels = None, nt_Spec = ''''\<rparr>),
     te_ProviderLabelValue = ''codeready-toolchain'',
     te_ensureTierTemplate = (\<lambda>s tt name. (Suc s, None)), te_ensureTier = (\<lambda>s t name. (Suc s, None))\<rparr>"

definition sample_file :: template_file where
  "sample_file = \<lparr>revision = ''abc'', content = ''objects''\<rparr>"

definition sample_tiers :: "(string, string tier_data) gomap" where
  "sample_tiers =
     [(''adv'', (empty_tier ''adv'')\<lparr>rawTemplates := (rawTemplates (empty_tier ''adv'' :: string tier_data))\<lparr>basedOnTierFile :=
         Some \<lparr>revision = ''123'', content = ''base''\<rparr>\<rparr>,
         basedOnTier := Some \<lparr>From = ''base'', bt_Parameters = [\<lparr>par_Name = ''IDLER'', par_Value = ''43200'', par_Generate = ''''\<rparr>]\<rparr>\<rparr>),
      (''base'', (empty_tier ''base'')\<lparr>rawTemplates := (rawTemplates (empty_tier ''base'' :: string tier_data))\<lparr>namespaceTemplates :=
         [(''dev'', sample_file)]\<rparr>\<rparr>)]"

lemma sample_tiers_sorted: "sort_Strings (map fst sample_tiers) = [''adv'', ''base'']"
  by (simp add: sample_tiers_def sort_Strings_def less_list_code less_char_def)

theorem tier_templates_complete_witness:
  "\<exists>tiers' tts. initTierTemplates id sample_tier_env ''host'' sample_tiers = Ret (Inr tiers') \<and>
     tts \<noteq> [] \<and> list_all2 (made_from id sample_tier_env ''host'' ''123'' ''adv''
         [\<lparr>par_Name = ''IDLER'', par_Value = ''43200'', par_Generate = ''''\<rparr>]) [(''dev'', sample_file)] tts"
proof -
  obtain tiers' where run: "initTierTemplates id sample_tier_env ''host'' sample_tiers = Ret (Inr tiers')"
    unfolding initTierTemplates_def sample_tiers_sorted
    by (simp add: sample_tiers_def tier_source_def newTierTemplates_def sorted_entries_def empty_tier_def
        sort_Strings_def newTierTemplate_def sample_tier_env_def Let_def)
  have ok: "gm_ok sample_tiers" by (simp add: gm_ok_def sample_tiers_def)
  obtain td where td: "map_of sample_tiers ''adv'' = Some td" by (simp add: sample_tiers_def)
  from tier_templates_complete [OF run ok this] td obtain tts where
    "list_all2 (made_from id sample_tier_env ''host'' ''123'' ''adv''
         [\<lparr>par_Name = ''IDLER'', par_Value = ''43200'', par_Generate = ''''\<rparr>]) [(''dev'', sample_file)] tts"
    by (auto simp: sample_tiers_def tier_source_def source_entries_def sorted_entries_def empty_tier_def
        sort_Strings_def gm_index_def)
  moreover from this have "tts \<noteq> []" by (cases tts) simp_all
  ultimately show ?thesis using run by blast
qed

text \<open>C28: The TierTemplates do not depend on the order in which the map of the tiers is visited.\<close>

theorem tier_templates_order_independent:
  assumes "gm_ok a" and "gm_ok b" and "map_of a = map_of b"
  shows "as_map (initTierTemplates ulow env namespace a) = as_map (initTierTemplates ulow env namespace b)"
  unfolding initTierTemplates_def sorted_keys_order [OF assms] by (rule init_tiers_order [OF assms(3)])

theorem tier_templates_order_independent_witness:
  "as_map (initTierTemplates id sample_tier_env ''host'' sample_tiers) =
   as_map (initTierTemplates id sample_tier_env ''host'' (rev sample_tiers))"
  by (rule tier_templates_order_independent) (auto simp: sample_tiers_def gm_ok_def)

text \<open>Setting parameters changes exactly the values of the template's parameters that are
  named, to the last value given, and neither adds, drops nor moves one.\<close>

theorem set_params_overrides:
  assumes "distinct (map par_Name ps)"
  shows "setParams xs ps = map (\<lambda>p. case overrides xs (par_Name p) of
      None \<Rightarrow> p | Some v \<Rightarrow> p\<lparr>par_Value := v\<rparr>) ps"
  using assms by (rule setParams_map)

theorem set_params_overrides_witness:
  "setParams [\<lparr>par_Name = ''A'', par_Value = ''1'', par_Generate = ''''\<rparr>,
      \<lparr>par_Name = ''B'', par_Value = ''2'', par_Generate = ''''\<rparr>,
      \<lparr>par_Name = ''A'', par_Value = ''3'', par_Generate = ''''\<rparr>]
    [\<lparr>par_Name = ''A'', par_Value = ''0'', par_Generate = ''''\<rparr>] =
   [\<lparr>par_Name = ''A'', par_Value = ''3'', par_Generate = ''''\<rparr>]"
  by (subst set_params_overrides) (simp_all add: overrides_def)

text \<open>C29: When generating succeeds, all the TierTemplates of all the tiers were ensured before the
  first NSTemplateTier, each once and under its tier, and then one NSTemplateTier per tier.\<close>

theorem templates_before_tiers:
  assumes "GenerateTiers ulow uup (recording_env env) namespace metadata files (s, []) = Ret ((s', log), None)"
  shows "\<exists>tiers ts. newNSTemplateTierGenerator ulow uup (recording_env env) namespace metadata files = Ret (Inr tiers) \<and>
    length ts = length tiers \<and>
    log = concat (map (\<lambda>(name, td). map (\<lambda>tt. EnsuredTierTemplate tt name) (tierTemplates td)) tiers) @
      map (\<lambda>(t, name). EnsuredTier t name) (zip ts (map fst tiers))"
proof -
  let ?env = "recording_env env"
  obtain tiers s1 where gen: "newNSTemplateTierGenerator ulow uup ?env namespace metadata files = Ret (Inr tiers)"
    and s1: "createTierTemplates ?env (s, []) tiers = (s1, None)"
    and s2: "createNSTemplateTiers ?env s1 tiers = ((s', log), None)"
  proof (cases "newNSTemplateTierGenerator ulow uup ?env namespace metadata files")
    case (Ret r)
    with assms that show ?thesis by (cases r) (auto simp: GenerateTiers_def split: prod.splits option.splits)
  next
    case (Panic p)
    with assms show ?thesis by (simp add: GenerateTiers_def)
  qed
  from createTierTemplates_log [OF s1] createNSTemplateTiers_log [OF s2] gen show ?thesis by auto
qed

lemma inject_all_none: "inject_all first_by_name [] vals = []"
  by (induction "first_by_name" "[] :: parameter list" vals rule: inject_all.induct)
     (auto simp: inject_def first_by_name_def)

theorem templates_before_tiers_witness:
  "\<exists>s' log ts. \<exists>tiers :: (string, string tier_data) gomap. GenerateTiers id id (recording_env sample_tier_env) ''host'' []
       [(''base/tier.yaml'', ''base''), (''base/ns_dev.yaml'', ''dev'')] (0, []) = Ret ((s', log), None) \<and>
     log = concat (map (\<lambda>(name, td). map (\<lambda>tt. EnsuredTierTemplate tt name) (tierTemplates td)) tiers) @
       map (\<lambda>(t, name). EnsuredTier t name) (zip ts (map fst tiers)) \<and> length log = 2"
proof -
  obtain s' log where run: "GenerateTiers id id (recording_env sample_tier_env) ''host'' []
       [(''base/tier.yaml'', ''base''), (''base/ns_dev.yaml'', ''dev'')] (0, []) = Ret ((s', log), None)"
    and "length log = 2"
    by (simp add: GenerateTiers_def newNSTemplateTierGenerator_def loadTemplatesByTiers_def add_file_def
        HasPrefix_def mixed_def empty_tier_def initTierTemplates_def sort_Strings_def tier_source_def
        newTierTemplates_def sorted_entries_def newTierTemplate_def initNSTemplateTiers_def newNSTemplateTier_def
        Process_def recording_env_def sample_tier_env_def Let_def inject_all_none)
  with templates_before_tiers [OF run] show ?thesis by blast
qed

text \<open>A tier that is based on a tier with no files makes the generator panic: the missing entry
  of the map is dereferenced.\<close>

theorem missing_source_tier_panics:
  assumes "te_Unmarshal env yaml = Inr b" and "From b \<noteq> ''derived''"
  shows "GenerateTiers ulow uup env namespace metadata [(''derived/based_on_tier.yaml'', yaml)] s =
    Panic NilDereference"
  using assms
  by (simp add: GenerateTiers_def newNSTemplateTierGenerator_def loadTemplatesByTiers_def add_file_def
      HasPrefix_def mixed_def empty_tier_def initTierTemplates_def sort_Strings_def tier_source_def)

theorem missing_source_tier_panics_witness:
  "GenerateTiers id id sample_tier_env ''host'' [] [(''derived/based_on_tier.yaml'', ''missing'')] 0 =
    Panic NilDereference"
  by (rule missing_source_tier_panics [of _ _ "\<lparr>From = ''missing'',
        bt_Parameters = [\<lparr>par_Name = ''IDLER'', par_Value = ''43200'', par_Generate = ''''\<rparr>]\<rparr>"])
    (simp_all add: sample_tier_env_def)

text \<open>The check that a tier with a based_on_tier file has no other template overlooks the
  spacerole templates: such a tier is loaded.\<close>

theorem spacerole_mix_is_loaded:
  "case unmarshal yaml of
     Inl err \<Rightarrow> loadTemplatesByTiers unmarshal metadata
         [(''a/based_on_tier.yaml'', yaml), (''a/spacerole_admin.yaml'', role)] =
       Inl (UnableToUnmarshal ''a/based_on_tier.yaml'' err)
   | Inr b \<Rightarrow> \<exists>td. loadTemplatesByTiers unmarshal metadata
         [(''a/based_on_tier.yaml'', yaml), (''a/spacerole_admin.yaml'', role)] = Inr [(''a'', td)] \<and>
       basedOnTier td = Some b \<and> map fst (spaceroleTemplates (rawTemplates td)) = [''admin'']"
  by (simp add: loadTemplatesByTiers_def add_file_def HasPrefix_def HasSuffix_def TrimPrefix_def
      TrimSuffix_def mixed_def empty_tier_def split: sum.split)

end
