(* ===== verification/TierTypes.thy ===== *)
theory TierTypes
  imports TierGenerator
begin

text \<open>
  The well-formedness of the generator's map of tiers, in the manner of a type system: loading
  the files gives a well-formed map, every stage keeps it, and on a well-formed map whose
  based_on_tier files name loaded tiers no stage panics.
\<close>

section \<open>Well-formed tiers\<close>

text \<open>
  A tier is stored under its own name, a decoded \<open>BasedOnTier\<close> comes with its file, and the
  maps of templates have each kind once.
\<close>

definition input_wf :: "string \<Rightarrow> 'o tier_data \<Rightarrow> bool" where
  "input_wf tier td \<longleftrightarrow>
     td_name td = tier \<and> (basedOnTier td = None \<longleftrightarrow> basedOnTierFile (rawTemplates td) = None) \<and>
     gm_ok (namespaceTemplates (rawTemplates td)) \<and> gm_ok (spaceroleTemplates (rawTemplates td))"

definition templates_wf :: "string \<Rightarrow> string \<Rightarrow> 'o tier_template list \<Rightarrow> bool" where
  "templates_wf namespace tier = list_all (\<lambda>tt. tt_Namespace tt = namespace \<and> TierName tt = tier)"

text \<open>A tier that is based on another has no template of its own for the cluster, a namespace or the tier.\<close>

definition unmixed :: "templates \<Rightarrow> bool" where
  "unmixed raw \<longleftrightarrow>
     (case basedOnTierFile raw of
        None \<Rightarrow> True
      | Some f \<Rightarrow> clusterTemplate raw = None \<and> namespaceTemplates raw = [] \<and> nsTemplateTier raw = None)"

lemma unmixed_iff: "unmixed (rawTemplates td) \<longleftrightarrow> \<not> mixed td"
  by (auto simp: unmixed_def mixed_def split: option.split)

definition tier_wf :: "string \<Rightarrow> string \<Rightarrow> 'o tier_data \<Rightarrow> bool" where
  "tier_wf namespace tier td \<longleftrightarrow>
     input_wf tier td \<and> unmixed (rawTemplates td) \<and> templates_wf namespace tier (tierTemplates td)"

definition tiers_wf :: "string \<Rightarrow> (string, 'o tier_data) gomap \<Rightarrow> bool" where
  "tiers_wf namespace tiers \<longleftrightarrow> gm_ok tiers \<and> list_all (\<lambda>e. tier_wf namespace (fst e) (snd e)) tiers"

text \<open>Every \<open>From\<close> names a tier of the map.\<close>

definition sources_loaded :: "(string, 'o tier_data) gomap \<Rightarrow> bool" where
  "sources_loaded tiers \<longleftrightarrow>
     list_all (\<lambda>e. case basedOnTier (snd e) of None \<Rightarrow> True | Some b \<Rightarrow> map_of tiers (From b) \<noteq> None) tiers"

lemma all_entries_iff:
  "gm_ok m \<Longrightarrow> list_all (\<lambda>e. P (fst e) (snd e)) m \<longleftrightarrow> (\<forall>k v. map_of m k = Some v \<longrightarrow> P k v)"
  by (auto simp: list_all_iff map_of_in_set)

lemma tiers_wf_iff:
  "tiers_wf namespace tiers \<longleftrightarrow>
     gm_ok tiers \<and> (\<forall>t td. map_of tiers t = Some td \<longrightarrow> tier_wf namespace t td)"
  by (auto simp: tiers_wf_def all_entries_iff)

lemma sources_loaded_iff:
  "gm_ok tiers \<Longrightarrow> sources_loaded tiers \<longleftrightarrow>
     (\<forall>t td b. map_of tiers t = Some td \<longrightarrow> basedOnTier td = Some b \<longrightarrow> map_of tiers (From b) \<noteq> None)"
  unfolding sources_loaded_def all_entries_iff [where P = "\<lambda>k td. case basedOnTier td of
      None \<Rightarrow> True | Some b \<Rightarrow> map_of tiers (From b) \<noteq> None"]
  by (fastforce split: option.splits)

section \<open>Loading\<close>

lemma input_wf_empty [simp]: "input_wf tier (empty_tier tier)" "tierTemplates (empty_tier tier) = []"
  by (simp_all add: input_wf_def empty_tier_def)

lemma add_file_wf:
  assumes "add_file unmarshal name filename tmpl td = Inr td'" and "input_wf tier td"
  shows "input_wf tier td' \<and> tierTemplates td' = tierTemplates td"
  using assms by (auto simp: add_file_def input_wf_def Let_def split: if_splits sum.splits)

definition loading_wf :: "(string, 'o tier_data) gomap \<Rightarrow> bool" where
  "loading_wf results \<longleftrightarrow> gm_ok results \<and>
     (\<forall>t td. map_of results t = Some td \<longrightarrow> input_wf t td \<and> tierTemplates td = [])"

lemma load_tier_files_wf:
  "load_tier_files unmarshal metadata files results = Inr results' \<Longrightarrow> loading_wf results \<Longrightarrow>
   loading_wf results'"
proof (induction unmarshal metadata files results rule: load_tier_files.induct)
  case (2 unmarshal metadata name contents files results)
  from "2.prems"(1) obtain tier filename where split: "Split name (CHR ''/'') = [tier, filename]"
    by (auto split: list.splits)
  let ?td = "case map_of results tier of None \<Rightarrow> empty_tier tier | Some td \<Rightarrow> td"
  let ?tmpl = "\<lparr>revision = gm_index '''' metadata (TrimSuffix name ''.yaml''), content = contents\<rparr>"
  obtain td' where td': "add_file unmarshal name filename ?tmpl ?td = Inr td'"
    using "2.prems"(1) split by (auto simp: Let_def split: sum.splits)
  with "2.prems"(1) split
  have rest: "load_tier_files unmarshal metadata files (AList.update tier td' results) = Inr results'"
    by (simp add: Let_def)
  have "input_wf tier ?td \<and> tierTemplates ?td = []"
    using "2.prems"(2) by (simp add: loading_wf_def split: option.split)
  with add_file_wf [OF td'] have "input_wf tier td' \<and> tierTemplates td' = []" by auto
  with "2.prems"(2) have "loading_wf (AList.update tier td' results)" by (simp add: loading_wf_def)
  with "2.IH" split td' rest show ?case by fastforce
qed simp

lemma loadTemplatesByTiers_wf:
  assumes "loadTemplatesByTiers unmarshal metadata files = Inr tiers"
  shows "tiers_wf namespace tiers"
proof -
  from assms have load: "load_tier_files unmarshal metadata files [] = Inr tiers"
    and "List.find (\<lambda>(tier, td). mixed td) tiers = None"
    by (auto simp: loadTemplatesByTiers_def split: sum.splits option.splits)
  then have "\<not> mixed td" if "(t, td) \<in> set tiers" for t td
    using that by (auto simp: find_None_iff)
  moreover have "loading_wf tiers" by (rule load_tier_files_wf [OF load]) (simp add: loading_wf_def)
  ultimately show ?thesis
    by (auto simp: tiers_wf_iff loading_wf_def tier_wf_def templates_wf_def unmixed_iff dest: map_of_SomeD)
qed

section \<open>Preservation\<close>

lemma update_keeps_keys: "map_of m k \<noteq> None \<Longrightarrow> map fst (AList.update k v m) = map fst m"
  by (auto simp: update_keys map_of_eq_None_iff)

lemma tiers_wf_update:
  assumes "tiers_wf namespace tiers" and "map_of tiers t = Some td"
    and "input_wf t td' \<longleftrightarrow> input_wf t td" and "rawTemplates td' = rawTemplates td"
    and "templates_wf namespace t (tierTemplates td')"
  shows "tiers_wf namespace (AList.update t td' tiers)"
  using assms by (auto simp: tiers_wf_iff tier_wf_def)

lemma sources_loaded_same:
  assumes "same_input tiers tiers'" and "gm_ok tiers" and "gm_ok tiers'" and "sources_loaded tiers"
  shows "sources_loaded tiers'"
proof -
  have "same_input tiers' tiers" using assms(1) by (simp add: same_input_def)
  from same_inputD [OF this] same_input_None [OF assms(1)] assms(2-4) show ?thesis
    unfolding sources_loaded_iff [OF assms(2)] sources_loaded_iff [OF assms(3)] by metis
qed

lemma newTierTemplates_wf:
  assumes "newTierTemplates ulow env namespace rvn src tier parameters = Inr tts"
  shows "templates_wf namespace tier tts"
proof -
  from assms have "list_all2 (made_from ulow env namespace rvn tier parameters)
      (source_entries (rawTemplates src)) tts"
    by (auto simp: newTierTemplates_eq intro: tier_templates_of_Inr)
  then show ?thesis by induction (simp_all add: templates_wf_def made_from_def)
qed

text \<open>One iteration of the loop of \<open>initTierTemplates\<close>.\<close>

lemma init_tiers_cases:
  assumes "init_tiers ulow env namespace (t # rest) tiers = Ret (Inr tiers')"
  obtains td rvn parameters src tts where "map_of tiers t = Some td"
    and "tier_source tiers td = Ret (rvn, parameters, src)"
    and "newTierTemplates ulow env namespace rvn src t parameters = Inr tts"
    and "init_tiers ulow env namespace rest (AList.update t (td\<lparr>tierTemplates := tts\<rparr>) tiers) = Ret (Inr tiers')"
proof -
  from assms obtain td where td: "map_of tiers t = Some td" by (auto split: option.splits)
  with assms obtain rvn parameters src where src: "tier_source tiers td = Ret (rvn, parameters, src)"
    by (cases "tier_source tiers td") auto
  with assms td that show thesis by (auto split: sum.splits)
qed

lemma set_templates_wf:
  assumes "tiers_wf namespace tiers" and "map_of tiers t = Some td" and "templates_wf namespace t tts"
  shows "tiers_wf namespace (AList.update t (td\<lparr>tierTemplates := tts\<rparr>) tiers)"
  using assms by (intro tiers_wf_update) (simp_all add: input_wf_def)

lemma init_tiers_wf:
  "init_tiers ulow env namespace keys tiers = Ret (Inr tiers') \<Longrightarrow> tiers_wf namespace tiers \<Longrightarrow>
   tiers_wf namespace tiers' \<and> same_input tiers tiers'"
proof (induction keys arbitrary: tiers)
  case (Cons t rest)
  from Cons.prems(1) show ?case
  proof (rule init_tiers_cases)
    fix td rvn parameters src tts
    assume step: "map_of tiers t = Some td" "newTierTemplates ulow env namespace rvn src t parameters = Inr tts"
      and rest: "init_tiers ulow env namespace rest (AList.update t (td\<lparr>tierTemplates := tts\<rparr>) tiers) = Ret (Inr tiers')"
    have "same_input tiers (AList.update t (td\<lparr>tierTemplates := tts\<rparr>) tiers)"
      using step by (intro same_input_update) auto
    with Cons.IH [OF rest] set_templates_wf [OF Cons.prems(2) step(1) newTierTemplates_wf [OF step(2)]]
    show ?thesis by (blast intro: same_input_trans)
  qed
qed simp


section \<open>Progress\<close>

lemma tier_source_progress:
  assumes "tiers_wf namespace tiers" and "sources_loaded tiers" and "map_of tiers t = Some td"
  shows "\<exists>r. tier_source tiers td = Ret r"
proof (cases "basedOnTier td")
  case (Some b)
  from assms(1,3) have "input_wf t td" by (simp add: tiers_wf_iff tier_wf_def)
  with Some obtain f where "basedOnTierFile (rawTemplates td) = Some f" by (auto simp: input_wf_def)
  moreover from assms Some obtain src where "map_of tiers (From b) = Some src"
    using sources_loaded_iff [of tiers] by (fastforce simp: tiers_wf_def)
  ultimately show ?thesis using Some by (simp add: tier_source_def)
qed (simp add: tier_source_def)

lemma init_tiers_progress:
  "tiers_wf namespace tiers \<Longrightarrow> sources_loaded tiers \<Longrightarrow> set keys \<subseteq> dom (map_of tiers) \<Longrightarrow>
   \<exists>r. init_tiers ulow env namespace keys tiers = Ret r"
proof (induction keys arbitrary: tiers)
  case (Cons t rest)
  from Cons.prems(3) obtain td where td: "map_of tiers t = Some td" by auto
  from tier_source_progress [OF Cons.prems(1,2) td] obtain rvn parameters src
    where src: "tier_source tiers td = Ret (rvn, parameters, src)" by fastforce
  show ?case
  proof (cases "newTierTemplates ulow env namespace rvn src t parameters")
    case (Inl err)
    with td src show ?thesis by simp
  next
    case (Inr tts)
    let ?tiers = "AList.update t (td\<lparr>tierTemplates := tts\<rparr>) tiers"
    have wf: "tiers_wf namespace ?tiers"
      using set_templates_wf [OF Cons.prems(1) td newTierTemplates_wf [OF Inr]] .
    have same: "same_input tiers ?tiers" using td by (intro same_input_update) auto
    have "sources_loaded ?tiers"
      using sources_loaded_same [OF same] wf Cons.prems(1,2) by (simp add: tiers_wf_def)
    moreover have "set rest \<subseteq> dom (map_of ?tiers)" using Cons.prems(3) by auto
    ultimately have "\<exists>r. init_tiers ulow env namespace rest ?tiers = Ret r" by (rule Cons.IH [OF wf])
    with td src Inr show ?thesis by simp
  qed
qed simp

lemma init_ns_tiers_progress:
  "tiers_wf ns tiers \<Longrightarrow> sources_loaded tiers \<Longrightarrow> set keys \<subseteq> dom (map_of tiers) \<Longrightarrow>
   \<exists>r. init_ns_tiers uup env namespace keys tiers = Ret r"
proof (induction keys arbitrary: tiers)
  case (Cons t rest)
  from Cons.prems(3) obtain td where td: "map_of tiers t = Some td" by auto
  have src: "map_of tiers (From b) \<noteq> None" if "basedOnTier td = Some b" for b
    using that Cons.prems(1,2) td sources_loaded_iff [of tiers] by (auto simp: tiers_wf_def)
  have next_state: "tiers_wf ns (AList.update t (td\<lparr>objects := objs\<rparr>) tiers) \<and>
      sources_loaded (AList.update t (td\<lparr>objects := objs\<rparr>) tiers)" for objs
  proof -
    have same: "same_input tiers (AList.update t (td\<lparr>objects := objs\<rparr>) tiers)"
      using td by (intro same_input_update) auto
    have "tiers_wf ns (AList.update t (td\<lparr>objects := objs\<rparr>) tiers)"
      using Cons.prems(1) td
      by (intro tiers_wf_update [OF Cons.prems(1) td]) (auto simp: input_wf_def tiers_wf_iff tier_wf_def)
    with sources_loaded_same [OF same] Cons.prems(1,2) show ?thesis by (simp add: tiers_wf_def)
  qed
  have IH: "\<exists>r. init_ns_tiers uup env namespace rest (AList.update t (td\<lparr>objects := objs\<rparr>) tiers) = Ret r" for objs
  proof -
    have "set rest \<subseteq> dom (map_of (AList.update t (td\<lparr>objects := objs\<rparr>) tiers))" using Cons.prems(3) by auto
    with Cons.IH next_state [of objs] show ?thesis by blast
  qed
  show ?case
    using td src IH by (auto split: option.split sum.split)
qed simp

section \<open>Properties\<close>

lemma go_bind_Panic_iff:
  "go_bind m f = Panic p \<longleftrightarrow> m = Panic p \<or> (\<exists>x. m = Ret x \<and> f x = Panic p)"
  by (cases m) auto

lemma tier_source_Panic: "tier_source tiers td = Panic p \<Longrightarrow> p = NilDereference"
  by (auto simp: tier_source_def split: option.splits)

lemma init_tiers_Panic: "init_tiers ulow env namespace keys tiers = Panic p \<Longrightarrow> p = NilDereference"
proof (induction keys arbitrary: tiers)
  case (Cons t rest)
  show ?case
  proof (cases "map_of tiers t")
    case None
    with Cons.prems show ?thesis by simp
  next
    case (Some td)
    show ?thesis
    proof (cases "tier_source tiers td")
      case (Ret r)
      obtain rvn parameters src where "r = (rvn, parameters, src)" by (rule prod_cases3)
      with Ret Some Cons.prems Cons.IH show ?thesis
        by (cases "newTierTemplates ulow env namespace rvn src t parameters") simp_all
    next
      case (Panic q)
      with Some Cons.prems tier_source_Panic [OF Panic] show ?thesis by simp
    qed
  qed
qed simp

lemma init_ns_tiers_Panic: "init_ns_tiers uup env namespace keys tiers = Panic p \<Longrightarrow> p = NilDereference"
  by (induction keys arbitrary: tiers) (auto simp: go_bind_Panic_iff split: option.splits sum.splits)












text \<open>C31: Generating the tiers panics only on a based_on_tier file that names a tier without files:
  the files were all loaded, into a well-formed map of tiers, and the nil entry of the missing
  tier is dereferenced. A malformed file, a mix of files, a failed decoding, processing or
  creation is an error that is returned.\<close>

theorem generator_panics_only_on_missing_source:
  fixes env :: "('o, 's) tier_env"
  assumes "GenerateTiers ulow uup env namespace metadata files s = Panic p"
  shows "p = NilDereference \<and>
    (\<exists>tiers :: (string, 'o tier_data) gomap. loadTemplatesByTiers (te_Unmarshal env) metadata files = Inr tiers \<and>
       tiers_wf namespace tiers \<and> \<not> sources_loaded tiers)"
proof -
  have new: "newNSTemplateTierGenerator ulow uup env namespace metadata files = Panic p"
    using assms
    by (cases "newNSTemplateTierGenerator ulow uup env namespace metadata files")
       (auto simp: GenerateTiers_def split: sum.splits prod.splits option.splits)
  then obtain tiers :: "(string, 'o tier_data) gomap"
    where load: "loadTemplatesByTiers (te_Unmarshal env) metadata files = Inr tiers"
    by (auto simp: newNSTemplateTierGenerator_def split: sum.splits)
  have wf: "tiers_wf namespace tiers" by (rule loadTemplatesByTiers_wf [OF load])
  have "\<not> sources_loaded tiers"
  proof
    assume sources: "sources_loaded tiers"
    have "set (sort_Strings (map fst tiers)) \<subseteq> dom (map_of tiers)"
      by (simp add: sort_Strings_def dom_map_of_conv_image_fst)
    from init_tiers_progress [OF wf sources this] obtain r
      where r: "initTierTemplates ulow env namespace tiers = Ret r" unfolding initTierTemplates_def by blast
    with new load obtain tiers1 where tiers1: "r = Inr tiers1"
      by (cases r) (auto simp: newNSTemplateTierGenerator_def)
    from init_tiers_wf [OF r [unfolded initTierTemplates_def tiers1] wf]
    have wf1: "tiers_wf namespace tiers1" and "same_input tiers tiers1" by auto
    then have "sources_loaded tiers1" using sources sources_loaded_same wf by (auto simp: tiers_wf_def)
    have "set (map fst tiers1) \<subseteq> dom (map_of tiers1)" by (simp add: dom_map_of_conv_image_fst)
    from init_ns_tiers_progress [OF wf1 \<open>sources_loaded tiers1\<close> this] obtain r'
      where "initNSTemplateTiers uup env namespace tiers1 = Ret r'" unfolding initNSTemplateTiers_def by blast
    with new load r tiers1 show False by (simp add: newNSTemplateTierGenerator_def)
  qed
  moreover have "p = NilDereference"
  proof (cases "initTierTemplates ulow env namespace tiers")
    case (Ret r)
    with new load show ?thesis
      by (cases r) (auto simp: newNSTemplateTierGenerator_def initNSTemplateTiers_def dest: init_ns_tiers_Panic)
  next
    case (Panic q)
    with new load init_tiers_Panic show ?thesis
      by (auto simp: newNSTemplateTierGenerator_def initTierTemplates_def)
  qed
  ultimately show ?thesis using load wf by blast
qed

theorem generator_panics_only_on_missing_source_witness:
  "\<exists>tiers :: (string, string tier_data) gomap.
     loadTemplatesByTiers (te_Unmarshal sample_tier_env) [] [(''derived/based_on_tier.yaml'', ''missing'')] = Inr tiers \<and>
     tiers_wf ''host'' tiers \<and> \<not> sources_loaded tiers"
proof -
  have run: "GenerateTiers id id sample_tier_env ''host'' [] [(''derived/based_on_tier.yaml'', ''missing'')] 0 =
    Panic NilDereference"
    by (simp add: GenerateTiers_def newNSTemplateTierGenerator_def loadTemplatesByTiers_def add_file_def
        HasPrefix_def mixed_def empty_tier_def initTierTemplates_def sort_Strings_def tier_source_def sample_tier_env_def)
  from generator_panics_only_on_missing_source [OF run] show ?thesis by blast
qed

end
