(* ===== verification/Configuration.thy ===== *)
theory Configuration
  imports GoStrings ApiTypes
begin

text \<open>
  \<open>pkg/configuration\<close>: loading secrets and config maps (\<open>load.go\<close>), the cache of the
  operator's configuration (\<open>cache.go\<close>) and the getters with defaults (\<open>get.go\<close>). The
  process environment is a Go map; the answers of the Kubernetes client are arguments. The
  copies the cache makes (\<open>DeepCopyObject\<close>, \<open>CopyOf\<close>) are equal values.
\<close>

type_synonym env = "(string, string) gomap"
type_synonym secret_data = "(string, string) gomap"
type_synonym secrets_map = "(string, secret_data) gomap"

section \<open>The environment\<close>

definition WatchNamespaceEnvVar :: string where
  "WatchNamespaceEnvVar = ''WATCH_NAMESPACE''"

definition OperatorNameEnvVar :: string where
  "OperatorNameEnvVar = ''OPERATOR_NAME''"

text \<open>\<open>os.Setenv\<close>: a key must not be empty nor hold = or NUL, a value must not hold NUL.\<close>

definition Setenv :: "string \<Rightarrow> string \<Rightarrow> env \<Rightarrow> env option" where
  "Setenv key value e =
     (if key = '''' \<or> CHR ''='' \<in> set key \<or> CHR 0x00 \<in> set key \<or> CHR 0x00 \<in> set value then None
      else Some (AList.update key value e))"

datatype config_error =
    MustBeSet string
  | MustNotBeEmpty string
  | ClientError api_error
  | SetenvError string
  | WatchNamespaceError config_error

definition lookup_required :: "string \<Rightarrow> env \<Rightarrow> config_error + string" where
  "lookup_required var e =
     (case map_of e var of
        None \<Rightarrow> Inl (MustBeSet var)
      | Some ns \<Rightarrow> if length ns = 0 then Inl (MustNotBeEmpty var) else Inr ns)"

definition GetWatchNamespace :: "env \<Rightarrow> config_error + string" where
  "GetWatchNamespace e = lookup_required WatchNamespaceEnvVar e"

definition GetOperatorName :: "env \<Rightarrow> config_error + string" where
  "GetOperatorName e = lookup_required OperatorNameEnvVar e"

definition getResourceName :: "env \<Rightarrow> string \<Rightarrow> string" where
  "getResourceName e key = gm_index '''' e key"

definition createOperatorEnvVarKey :: "(nat \<Rightarrow> nat) \<Rightarrow> string \<Rightarrow> string \<Rightarrow> string" where
  "createOperatorEnvVarKey uup prefix key =
     prefix @ ''_'' @ ToUpper uup (ReplaceAll (ReplaceAll key ''.'' ''_'') ''-'' ''_'')"

section \<open>Loading\<close>

text \<open>\<open>for key, value := range secret.Data\<close> into a new map; a missing secret has no data.\<close>

definition copy_data :: "secret_data \<Rightarrow> secret_data" where
  "copy_data data = gm_merge [] data"

definition LoadFromSecret ::
  "env \<Rightarrow> (nsname \<Rightarrow> api_error + secret_data) \<Rightarrow> string \<Rightarrow> secret_data \<times> config_error option" where
  "LoadFromSecret e get resourceKey =
     (let secretName = getResourceName e resourceKey
      in if secretName = '''' then ([], None)
         else case GetWatchNamespace e of
                Inl err \<Rightarrow> ([], Some err)
              | Inr namespace \<Rightarrow>
                  (case get (NamespacedName namespace secretName) of
                     Inl err \<Rightarrow> if \<not> IsNotFound err then ([], Some (ClientError err)) else ([], None)
                   | Inr data \<Rightarrow> (copy_data data, None)))"

fun set_all :: "(nat \<Rightarrow> nat) \<Rightarrow> string \<Rightarrow> env \<Rightarrow> secret_data \<Rightarrow> env \<times> config_error option" where
  "set_all uup prefix e [] = (e, None)"
| "set_all uup prefix e ((key, val) # data) =
     (let configKey = createOperatorEnvVarKey uup prefix key
      in case Setenv configKey val e of
           None \<Rightarrow> (e, Some (SetenvError configKey))
         | Some e' \<Rightarrow> set_all uup prefix e' data)"

definition LoadFromConfigMap ::
  "(nat \<Rightarrow> nat) \<Rightarrow> env \<Rightarrow> (nsname \<Rightarrow> api_error + secret_data) \<Rightarrow> string \<Rightarrow> string \<Rightarrow> env \<times> config_error option" where
  "LoadFromConfigMap uup e get prefix resourceKey =
     (let configMapName = getResourceName e resourceKey
      in if configMapName = '''' then (e, None)
         else case GetWatchNamespace e of
                Inl err \<Rightarrow> (e, Some err)
              | Inr namespace \<Rightarrow>
                  (case get (NamespacedName namespace configMapName) of
                     Inl err \<Rightarrow> if \<not> IsNotFound err then (e, Some (ClientError err)) else (e, None)
                   | Inr data \<Rightarrow> set_all uup prefix e data))"

record secret =
  sec_Name :: string
  sec_Annotations :: "(string, string) gomap"
  Data :: secret_data

definition service_account_annotation :: string where
  "service_account_annotation = ''kubernetes.io/service-account.name''"

fun index_secrets :: "secrets_map \<Rightarrow> secret list \<Rightarrow> secrets_map" where
  "index_secrets allSecrets [] = allSecrets"
| "index_secrets allSecrets (secret # items) =
     (if map_of (sec_Annotations secret) service_account_annotation \<noteq> None
      then index_secrets allSecrets items
      else index_secrets (AList.update (sec_Name secret) (copy_data (Data secret)) allSecrets) items)"

definition LoadSecrets :: "(string \<Rightarrow> api_error + secret list) \<Rightarrow> string \<Rightarrow> secrets_map \<times> config_error option" where
  "LoadSecrets list_fn namespace =
     (case list_fn namespace of
        Inl err \<Rightarrow> ([], Some (ClientError err))
      | Inr items \<Rightarrow> (index_secrets [] items, None))"

section \<open>The cache\<close>

record 'o config_cache =
  configObj :: "'o option"
  secrets :: secrets_map

fun CopyOf_into :: "secrets_map \<Rightarrow> secrets_map \<Rightarrow> secrets_map" where
  "CopyOf_into targetMap [] = targetMap"
| "CopyOf_into targetMap ((key, val) # originalMap) =
     CopyOf_into (AList.update key (gm_merge [] val) targetMap) originalMap"

definition CopyOf :: "secrets_map \<Rightarrow> secrets_map" where
  "CopyOf originalMap = CopyOf_into [] originalMap"

definition cache_set :: "'o \<Rightarrow> secrets_map \<Rightarrow> 'o config_cache \<Rightarrow> 'o config_cache" where
  "cache_set config secs c = c\<lparr>configObj := Some config, secrets := CopyOf secs\<rparr>"

definition cache_get :: "'o config_cache \<Rightarrow> 'o option \<times> secrets_map" where
  "cache_get c =
     (case configObj c of
        None \<Rightarrow> (None, CopyOf (secrets c))
      | Some config \<Rightarrow> (Some config, CopyOf (secrets c)))"

definition UpdateConfig :: "'o \<Rightarrow> secrets_map \<Rightarrow> 'o config_cache \<Rightarrow> 'o config_cache" where
  "UpdateConfig config secs c = cache_set config secs c"

record 'o config_client =
  cl_env :: env
  cl_get :: "nsname \<Rightarrow> api_error + 'o"
  cl_list :: "string \<Rightarrow> api_error + secret list"

text \<open>The result: the cache, the object and the secrets (nil and nil maps), and the error.\<close>

definition LoadLatest ::
  "'o config_client \<Rightarrow> 'o config_cache \<Rightarrow> 'o config_cache \<times> 'o option \<times> secrets_map \<times> config_error option" where
  "LoadLatest cl c =
     (case GetWatchNamespace (cl_env cl) of
        Inl err \<Rightarrow> (c, None, [], Some (WatchNamespaceError err))
      | Inr namespace \<Rightarrow>
          (case cl_get cl (NamespacedName namespace ''config'') of
             Inl err \<Rightarrow> if IsNotFound err then (c, None, [], None) else (c, None, [], Some (ClientError err))
           | Inr config \<Rightarrow>
               (case LoadSecrets (cl_list cl) namespace of
                  (_, Some err) \<Rightarrow> (c, None, [], Some err)
                | (allSecrets, None) \<Rightarrow>
                    (let c' = cache_set config allSecrets c;
                         (configCopy, secretsCopy) = cache_get c'
                     in (c', configCopy, secretsCopy, None)))))"

definition GetConfig ::
  "'o config_client \<Rightarrow> 'o config_cache \<Rightarrow> 'o config_cache \<times> 'o option \<times> secrets_map \<times> config_error option" where
  "GetConfig cl c =
     (let (config, secs) = cache_get c
      in if config = None then LoadLatest cl c else (c, config, secs, None))"

definition GetCachedConfig :: "'o config_cache \<Rightarrow> 'o option \<times> secrets_map" where
  "GetCachedConfig c = cache_get c"

definition ResetCache :: "'o config_cache" where
  "ResetCache = \<lparr>configObj = None, secrets = []\<rparr>"

section \<open>Defaults\<close>

text \<open>\<open>GetBool\<close>, \<open>GetInt\<close>, \<open>GetUint\<close>, \<open>GetInt32\<close> and \<open>GetString\<close>.\<close>

definition get_default :: "'a option \<Rightarrow> 'a \<Rightarrow> 'a" where
  "get_default value_ptr defaultValue = (case value_ptr of Some v \<Rightarrow> v | None \<Rightarrow> defaultValue)"

text \<open>
  \<open>time.ParseDuration\<close>, on unsigned 64-bit values. The product of the fraction with the unit
  over the scale is a floating-point operation: the argument \<open>fmul\<close>.
\<close>

fun leadingInt :: "nat \<Rightarrow> string \<Rightarrow> (nat \<times> string) option" where
  "leadingInt x [] = Some (x, [])"
| "leadingInt x (c # cs) =
     (if \<not> is_digit (byte c) then Some (x, c # cs)
      else if x > 2 ^ 63 div 10 then None
      else let x' = x * 10 + (byte c - 48)
           in if x' > 2 ^ 63 then None else leadingInt x' cs)"

fun leadingFraction :: "nat \<Rightarrow> nat \<Rightarrow> bool \<Rightarrow> string \<Rightarrow> nat \<times> nat \<times> string" where
  "leadingFraction x scale overflow [] = (x, scale, [])"
| "leadingFraction x scale overflow (c # cs) =
     (if \<not> is_digit (byte c) then (x, scale, c # cs)
      else if overflow then leadingFraction x scale overflow cs
      else if x > (2 ^ 63 - 1) div 10 then leadingFraction x scale True cs
      else let y = x * 10 + (byte c - 48)
           in if y > 2 ^ 63 then leadingFraction x scale True cs
              else leadingFraction y (scale * 10) overflow cs)"

definition unit_of :: "string \<Rightarrow> nat option" where
  "unit_of u = map_of
     [(''ns'', 1), (''us'', 10 ^ 3), ([chr 194, chr 181] @ ''s'', 10 ^ 3), ([chr 206, chr 188] @ ''s'', 10 ^ 3),
      (''ms'', 10 ^ 6), (''s'', 10 ^ 9), (''m'', 60 * 10 ^ 9), (''h'', 3600 * 10 ^ 9)] u"

definition parse_component :: "(nat \<Rightarrow> nat \<Rightarrow> nat \<Rightarrow> nat) \<Rightarrow> string \<Rightarrow> (nat \<times> string) option" where
  "parse_component fmul s =
     (if s = [] \<or> \<not> (hd s = CHR ''.'' \<or> is_digit (byte (hd s))) then None
      else case leadingInt 0 s of
             None \<Rightarrow> None
           | Some (v, s1) \<Rightarrow>
               (let pre = length s \<noteq> length s1;
                    (f, scale, s2) = (if s1 \<noteq> [] \<and> hd s1 = CHR ''.'' then leadingFraction 0 1 False (tl s1)
                                      else (0, 1, s1));
                    post = (s1 \<noteq> [] \<and> hd s1 = CHR ''.'' \<and> length (tl s1) \<noteq> length s2);
                    u = takeWhile (\<lambda>c. \<not> (c = CHR ''.'' \<or> is_digit (byte c))) s2
                in if \<not> pre \<and> \<not> post then None
                   else case unit_of u of
                          None \<Rightarrow> None
                        | Some unit \<Rightarrow>
                            if v > 2 ^ 63 div unit then None
                            else let v' = v * unit + (if f > 0 then fmul f unit scale else 0)
                                 in if v' > 2 ^ 63 then None else Some (v', drop (length u) s2)))"

text \<open>Each component takes at least one byte, so the length of the string is enough fuel.\<close>

fun parse_components :: "(nat \<Rightarrow> nat \<Rightarrow> nat \<Rightarrow> nat) \<Rightarrow> nat \<Rightarrow> nat \<Rightarrow> string \<Rightarrow> nat option" where
  "parse_components fmul fuel d [] = Some d"
| "parse_components fmul 0 d (c # cs) = None"
| "parse_components fmul (Suc fuel) d (c # cs) =
     (case parse_component fmul (c # cs) of
        None \<Rightarrow> None
      | Some (v, s') \<Rightarrow> if d + v > 2 ^ 63 then None else parse_components fmul fuel (d + v) s')"

definition ParseDuration :: "(nat \<Rightarrow> nat \<Rightarrow> nat \<Rightarrow> nat) \<Rightarrow> string \<Rightarrow> int option" where
  "ParseDuration fmul s0 =
     (let neg = (s0 \<noteq> [] \<and> hd s0 = CHR ''-'');
          s = (if s0 \<noteq> [] \<and> (hd s0 = CHR ''-'' \<or> hd s0 = CHR ''+'') then tl s0 else s0)
      in if s = ''0'' then Some 0
         else if s = [] then None
         else case parse_components fmul (length s) 0 s of
                None \<Rightarrow> None
              | Some d \<Rightarrow> if neg then Some (- int d)
                          else if d > 2 ^ 63 - 1 then None else Some (int d))"

definition GetDuration :: "(nat \<Rightarrow> nat \<Rightarrow> nat \<Rightarrow> nat) \<Rightarrow> string option \<Rightarrow> int \<Rightarrow> int" where
  "GetDuration fmul value_ptr defaultValue =
     (case ParseDuration fmul (get_default value_ptr ''invalid value'') of
        None \<Rightarrow> defaultValue
      | Some d \<Rightarrow> d)"

section \<open>Copies\<close>

lemma update_new: "k \<notin> fst ` set m \<Longrightarrow> AList.update k v m = m @ [(k, v)]"
  by (induction m) auto

lemma gm_merge_append: "gm_ok (m @ new) \<Longrightarrow> gm_merge m new = m @ new"
proof (induction m new rule: gm_merge.induct)
  case (1 m)
  then show ?case by simp
next
  case (2 m k v new)
  then have "AList.update k v m = m @ [(k, v)]" by (intro update_new) (auto simp: gm_ok_def)
  with 2 show ?case by simp
qed

lemma copy_data_id: "gm_ok data \<Longrightarrow> copy_data data = data"
  by (simp add: copy_data_def gm_merge_append)

definition secrets_ok :: "secrets_map \<Rightarrow> bool" where
  "secrets_ok secs \<longleftrightarrow> gm_ok secs \<and> list_all (\<lambda>(name, data). gm_ok data) secs"

lemma CopyOf_into_append:
  "secrets_ok (m @ new) \<Longrightarrow> CopyOf_into m new = m @ new"
proof (induction m new rule: CopyOf_into.induct)
  case (1 m)
  then show ?case by simp
next
  case (2 m k v new)
  then have "AList.update k v m = m @ [(k, v)]" by (intro update_new) (auto simp: secrets_ok_def gm_ok_def)
  moreover have "gm_merge [] v = v" using "2.prems" by (intro gm_merge_append [of "[]", simplified]) (simp add: secrets_ok_def)
  ultimately show ?case using 2 by simp
qed

lemma CopyOf_id: "secrets_ok secs \<Longrightarrow> CopyOf secs = secs"
  by (simp add: CopyOf_def CopyOf_into_append)

lemma secrets_ok_update: "secrets_ok m \<Longrightarrow> gm_ok d \<Longrightarrow> secrets_ok (AList.update k d m)"
proof -
  assume ok: "secrets_ok m" and d: "gm_ok d"
  have "list_all (\<lambda>(name, data). gm_ok data) m \<Longrightarrow> list_all (\<lambda>(name, data). gm_ok data) (AList.update k d m)"
    using d by (induction m) auto
  with ok show ?thesis by (simp add: secrets_ok_def gm_ok_def distinct_update)
qed

lemma index_secrets_ok: "secrets_ok m \<Longrightarrow> secrets_ok (index_secrets m items)"
  by (induction m items rule: index_secrets.induct) (auto simp: secrets_ok_update copy_data_def)

lemma LoadSecrets_ok: "LoadSecrets list_fn namespace = (secs, err) \<Longrightarrow> secrets_ok secs"
  by (auto simp: LoadSecrets_def secrets_ok_def index_secrets_ok [unfolded secrets_ok_def] split: sum.splits)

lemma index_secrets_other:
  "name \<notin> sec_Name ` set items \<Longrightarrow> map_of (index_secrets m items) name = map_of m name"
  by (induction m items rule: index_secrets.induct) auto

lemma index_secrets_lookup:
  "distinct (map sec_Name items) \<Longrightarrow> map_of (index_secrets m items) name =
    (case List.find (\<lambda>s. sec_Name s = name) items of
       None \<Rightarrow> map_of m name
     | Some s \<Rightarrow> if map_of (sec_Annotations s) service_account_annotation = None
                 then Some (copy_data (Data s)) else map_of m name)"
proof (induction m items rule: index_secrets.induct)
  case (1 m)
  then show ?case by simp
next
  case (2 m s items)
  show ?case
  proof (cases "sec_Name s = name")
    case True
    with "2.prems" have "name \<notin> sec_Name ` set items" by auto
    with True show ?thesis by (simp add: index_secrets_other)
  next
    case False
    with 2 show ?thesis by (auto split: option.splits)
  qed
qed

section \<open>Environment variables\<close>

lemma set_all_other:
  "set_all uup prefix e data = (e', None) \<Longrightarrow>
   var \<notin> (\<lambda>(k, v). createOperatorEnvVarKey uup prefix k) ` set data \<Longrightarrow> map_of e' var = map_of e var"
  by (induction uup prefix e data rule: set_all.induct) (auto simp: Setenv_def Let_def split: if_splits)

lemma set_all_lookup:
  "set_all uup prefix e data = (e', None) \<Longrightarrow>
   distinct (map (\<lambda>(k, v). createOperatorEnvVarKey uup prefix k) data) \<Longrightarrow> (k, v) \<in> set data \<Longrightarrow>
   map_of e' (createOperatorEnvVarKey uup prefix k) = Some v"
proof (induction uup prefix e data rule: set_all.induct)
  case (1 uup prefix e)
  then show ?case by simp
next
  case (2 uup prefix e key val data)
  let ?k = "createOperatorEnvVarKey uup prefix key"
  from "2.prems"(1) have e1: "Setenv ?k val e = Some (AList.update ?k val e)"
    and rest: "set_all uup prefix (AList.update ?k val e) data = (e', None)"
    by (auto simp: Setenv_def Let_def split: if_splits)
  from "2.prems"(3) consider "k = key" "v = val" | "(k, v) \<in> set data" by auto
  then show ?case
  proof cases
    case 1
    have "?k \<notin> (\<lambda>(k, v). createOperatorEnvVarKey uup prefix k) ` set data" using "2.prems"(2) by auto
    from set_all_other [OF rest this] 1 show ?thesis by simp
  next
    case 2
    with "2.IH" [OF refl e1 rest] "2.prems"(2) show ?thesis by simp
  qed
qed

section \<open>Properties\<close>

lemma LoadLatest_cases:
  "case LoadLatest cl c of
     (c', Some config, secs, err) \<Rightarrow> err = None \<and> GetCachedConfig c' = (Some config, secs) \<and>
       GetConfig cl' c' = (c', Some config, secs, None) \<and>
       (\<exists>ns. GetWatchNamespace (cl_env cl) = Inr ns \<and>
          cl_get cl (NamespacedName ns ''config'') = Inr config \<and>
          LoadSecrets (cl_list cl) ns = (secs, None))
   | (c', None, secs, err) \<Rightarrow> c' = c \<and> secs = []"
proof (cases "GetWatchNamespace (cl_env cl)")
  case (Inl err)
  then show ?thesis by (simp add: LoadLatest_def)
next
  case ns: (Inr ns)
  show ?thesis
  proof (cases "cl_get cl (NamespacedName ns ''config'')")
    case (Inl err)
    with ns show ?thesis by (simp add: LoadLatest_def)
  next
    case (Inr config)
    obtain secs err where load: "LoadSecrets (cl_list cl) ns = (secs, err)" by fastforce
    from LoadSecrets_ok [OF this] have "CopyOf (CopyOf secs) = secs" by (simp add: CopyOf_id)
    with ns Inr load show ?thesis
      by (cases err) (simp_all add: LoadLatest_def cache_set_def cache_get_def GetCachedConfig_def GetConfig_def)
  qed
qed

text \<open>A configuration that was loaded is what every later read returns, without asking the
  cluster, until the cache is set or reset; a load that returns no configuration, because the
  resource is missing or for an error, leaves the cache as it was.\<close>

theorem loaded_configuration_is_cached:
  "case LoadLatest cl c of
     (c', Some config, secs, err) \<Rightarrow> err = None \<and> GetCachedConfig c' = (Some config, secs) \<and>
       GetConfig cl' c' = (c', Some config, secs, None) \<and>
       (\<exists>ns. GetWatchNamespace (cl_env cl) = Inr ns \<and>
          cl_get cl (NamespacedName ns ''config'') = Inr config \<and>
          LoadSecrets (cl_list cl) ns = (secs, None))
   | (c', None, secs, err) \<Rightarrow> c' = c \<and> secs = []"
  by (rule LoadLatest_cases)

text \<open>A configuration whose resource was deleted stays in the cache: a forced load finds
  nothing and says so, and the next read still returns the deleted configuration.\<close>

theorem deleted_configuration_stays:
  "let cl = \<lparr>cl_env = [(WatchNamespaceEnvVar, ch # ns)],
             cl_get = (\<lambda>key. Inl \<lparr>StatusReason = NotFound, err_message = msg\<rparr>), cl_list = list_fn\<rparr>;
       c = UpdateConfig config [] ResetCache
   in LoadLatest cl c = (c, None, [], None) \<and> GetConfig cl c = (c, Some config, [], None)"
  by (simp add: LoadLatest_def GetWatchNamespace_def lookup_required_def IsNotFound_def GetConfig_def
      UpdateConfig_def cache_set_def cache_get_def ResetCache_def CopyOf_def Let_def)

text \<open>The loaded secrets are those of the namespace that do not belong to a service account,
  each under its name with its data.\<close>

lemma LoadSecrets_lookup:
  assumes "list_fn namespace = Inr items" and "distinct (map sec_Name items)"
    and "list_all (\<lambda>s. gm_ok (Data s)) items"
  shows "\<exists>secs. LoadSecrets list_fn namespace = (secs, None) \<and> secrets_ok secs \<and>
    map_of secs name =
      (case List.find (\<lambda>s. sec_Name s = name) items of
         None \<Rightarrow> None
       | Some s \<Rightarrow> if map_of (sec_Annotations s) ''kubernetes.io/service-account.name'' = None
                   then Some (Data s) else None)"
proof -
  have "copy_data (Data s) = Data s" if "List.find (\<lambda>s. sec_Name s = name) items = Some s" for s
    using assms(3) find_SomeD [OF that] by (auto simp: list_all_iff copy_data_id)
  moreover have "secrets_ok (index_secrets [] items)" by (rule index_secrets_ok) (simp add: secrets_ok_def)
  ultimately show ?thesis
    using assms(1,2)
    by (auto simp: LoadSecrets_def index_secrets_lookup service_account_annotation_def split: option.splits)
qed


text \<open>Loading a config map sets for every key, converted to upper case with the prefix and
  underscores, the variable to its value, and leaves every other variable alone, provided no
  two keys are converted to the same variable.\<close>

theorem config_map_sets_variables:
  assumes "LoadFromConfigMap uup e get prefix resourceKey = (e', None)"
    and "map_of e resourceKey = Some name" and "name \<noteq> ''''" and "GetWatchNamespace e = Inr ns"
    and "get (NamespacedName ns name) = Inr data"
    and "distinct (map (\<lambda>(k, v). createOperatorEnvVarKey uup prefix k) data)"
  shows "list_all (\<lambda>(k, v). map_of e' (createOperatorEnvVarKey uup prefix k) = Some v) data \<and>
    (\<forall>var. map_of e' var = map_of e var \<or> var \<in> (\<lambda>(k, v). createOperatorEnvVarKey uup prefix k) ` set data)"
proof -
  have run: "set_all uup prefix e data = (e', None)"
    using assms by (simp add: LoadFromConfigMap_def getResourceName_def gm_index_def)
  show ?thesis
    using set_all_lookup [OF run assms(6)] set_all_other [OF run] by (auto simp: list_all_iff)
qed

theorem config_map_sets_variables_witness:
  "map_of (fst (LoadFromConfigMap id [(''CM'', ''config''), (''WATCH_NAMESPACE'', ''host'')]
     (\<lambda>key. Inr [(''a.b'', ''1'')]) ''HOST'' ''CM'')) ''HOST_A_B'' = Some ''1''"
proof -
  let ?e = "[(''CM'', ''config''), (''WATCH_NAMESPACE'', ''host'')] :: env"
  have key: "createOperatorEnvVarKey id ''HOST'' ''a.b'' = ''HOST_A_B''"
    by (simp add: createOperatorEnvVarKey_def HasPrefix_def ToUpper_def upper_rune_def rune_class_defs
        encode_rune_def byte_def chr_def char_of_def bit_iff_odd)
  obtain e' err where run: "LoadFromConfigMap id ?e (\<lambda>key. Inr [(''a.b'', ''1'')]) ''HOST'' ''CM'' = (e', err)"
    by fastforce
  then have "err = None"
    by (auto simp: LoadFromConfigMap_def getResourceName_def gm_index_def GetWatchNamespace_def
        WatchNamespaceEnvVar_def lookup_required_def key Setenv_def)
  with config_map_sets_variables [of id ?e "\<lambda>key. Inr [(''a.b'', ''1'')]" "''HOST''" "''CM''" e' "''config''" "''host''"
      "[(''a.b'', ''1'')]"] run key
  show ?thesis by (simp add: GetWatchNamespace_def WatchNamespaceEnvVar_def lookup_required_def)
qed

end
