(* ===== verification/ConfigThreads.thy ===== *)
theory ConfigThreads
  imports Configuration
begin

text \<open>
  The configuration cache under concurrency. \<open>LoadLatest\<close> takes the lock of the cache twice, to
  write and to read back, and asks the cluster twice before that; \<open>GetConfig\<close> looks into the
  cache first. A goroutine in one of these calls is at one of the points between them
  (\<open>loader\<close>), and goroutines interleave point by point, while the cluster changes. The
  history \<open>hist\<close> gives the cluster at each time. \<open>ResetCache\<close>, which puts another cache in the place
  of this one for tests, is not interleaved.
\<close>

section \<open>Goroutines\<close>

datatype 'o call = GetConfigCall | LoadLatestCall | GetCachedCall | UpdateCall 'o secrets_map

datatype 'o loader =
    CheckCache
  | FetchConfig
  | FetchSecrets string 'o
  | StoreLoaded 'o secrets_map
  | ReadCache
  | StoreGiven 'o secrets_map
  | Returned "'o option" secrets_map "config_error option"

fun entry_point :: "'o call \<Rightarrow> 'o loader" where
  "entry_point GetConfigCall = CheckCache"
| "entry_point LoadLatestCall = FetchConfig"
| "entry_point GetCachedCall = ReadCache"
| "entry_point (UpdateCall config secs) = StoreGiven config secs"

text \<open>One step of a goroutine, with the cluster as it is at that moment.\<close>

fun loader_step :: "'o config_client \<Rightarrow> 'o loader \<Rightarrow> 'o config_cache \<Rightarrow> 'o config_cache \<times> 'o loader" where
  "loader_step cl CheckCache c =
     (let (config, secs) = cache_get c
      in if config = None then (c, FetchConfig) else (c, Returned config secs None))"
| "loader_step cl FetchConfig c =
     (case GetWatchNamespace (cl_env cl) of
        Inl err \<Rightarrow> (c, Returned None [] (Some (WatchNamespaceError err)))
      | Inr namespace \<Rightarrow>
          (case cl_get cl (NamespacedName namespace ''config'') of
             Inl err \<Rightarrow> if IsNotFound err then (c, Returned None [] None) else (c, Returned None [] (Some (ClientError err)))
           | Inr config \<Rightarrow> (c, FetchSecrets namespace config)))"
| "loader_step cl (FetchSecrets namespace config) c =
     (case LoadSecrets (cl_list cl) namespace of
        (_, Some err) \<Rightarrow> (c, Returned None [] (Some err))
      | (allSecrets, None) \<Rightarrow> (c, StoreLoaded config allSecrets))"
| "loader_step cl (StoreLoaded config allSecrets) c = (cache_set config allSecrets c, ReadCache)"
| "loader_step cl ReadCache c = (let (config, secs) = cache_get c in (c, Returned config secs None))"
| "loader_step cl (StoreGiven config secs) c = (UpdateConfig config secs c, Returned None [] None)"
| "loader_step cl (Returned config secs err) c = (c, Returned config secs err)"

section \<open>Interleavings\<close>

text \<open>The time, the cache, and every goroutine with the call it makes.\<close>

type_synonym 'o config_state = "nat \<times> 'o config_cache \<times> ('o call \<times> 'o loader) list"

datatype 'o config_event = ClusterChange | Begin "'o call" | Run nat

fun do_event :: "(nat \<Rightarrow> 'o config_client) \<Rightarrow> 'o config_state \<Rightarrow> 'o config_event \<Rightarrow> 'o config_state" where
  "do_event hist (now, c, ls) ClusterChange = (Suc now, c, ls)"
| "do_event hist (now, c, ls) (Begin op) = (now, c, ls @ [(op, entry_point op)])"
| "do_event hist (now, c, ls) (Run i) =
     (if i < length ls
      then let (c', l) = loader_step (hist now) (snd (ls ! i)) c in (now, c', ls[i := (fst (ls ! i), l)])
      else (now, c, ls))"

definition do_events :: "(nat \<Rightarrow> 'o config_client) \<Rightarrow> 'o config_event list \<Rightarrow> 'o config_state \<Rightarrow> 'o config_state" where
  "do_events hist evs st = foldl (do_event hist) st evs"

lemma do_events_simps [simp]:
  "do_events hist [] st = st"
  "do_events hist (ev # evs) st = do_events hist evs (do_event hist st ev)"
  "do_events hist (evs @ evs') st = do_events hist evs' (do_events hist evs st)"
  by (simp_all add: do_events_def)

text \<open>Invariants of the runs.\<close>

lemma do_events_invariant:
  assumes "P st" and "\<And>st ev. ev \<in> set evs \<Longrightarrow> P st \<Longrightarrow> P (do_event hist st ev)"
  shows "P (do_events hist evs st)"
  using assms by (induction evs arbitrary: st) auto

section \<open>A goroutine alone\<close>

text \<open>The points a goroutine has yet to pass.\<close>

fun remaining :: "'o loader \<Rightarrow> nat" where
  "remaining CheckCache = 5"
| "remaining FetchConfig = 4"
| "remaining (FetchSecrets namespace config) = 3"
| "remaining (StoreLoaded config secs) = 2"
| "remaining ReadCache = 1"
| "remaining (StoreGiven config secs) = 1"
| "remaining (Returned config secs err) = 0"


lemma entry_point_remaining: "remaining (entry_point op) \<le> 5"
  by (cases op) auto


definition step_alone :: "'o config_client \<Rightarrow> 'o config_cache \<times> 'o loader \<Rightarrow> 'o config_cache \<times> 'o loader" where
  "step_alone cl = (\<lambda>(c, l). loader_step cl l c)"

lemma step_alone_returned [simp]: "(step_alone cl ^^ n) (c, Returned config secs err) = (c, Returned config secs err)"
  by (induction n) (simp_all add: step_alone_def)

lemma step_alone_Suc: "(step_alone cl ^^ Suc n) (c, l) = (step_alone cl ^^ n) (loader_step cl l c)"
  by (simp add: funpow_swap1 step_alone_def)

abbreviation returned_by :: "'o config_cache \<times> 'o option \<times> secrets_map \<times> config_error option \<Rightarrow> 'o config_cache \<times> 'o loader" where
  "returned_by \<equiv> \<lambda>(c, config, secs, err). (c, Returned config secs err)"

lemma load_alone: "(step_alone cl ^^ Suc (Suc (Suc (Suc n)))) (c, FetchConfig) = returned_by (LoadLatest cl c)"
  by (simp only: step_alone_Suc loader_step.simps)
     (simp add: LoadLatest_def Let_def step_alone_Suc del: funpow.simps split: sum.split option.split prod.split)

section \<open>Where a configuration comes from\<close>

text \<open>It was read at some time, and its secrets from the same namespace at that time or later.\<close>

definition read_between :: "(nat \<Rightarrow> 'o config_client) \<Rightarrow> nat \<Rightarrow> 'o \<Rightarrow> secrets_map \<Rightarrow> bool" where
  "read_between hist now config secs \<longleftrightarrow>
     (\<exists>namespace i j. i \<le> j \<and> j \<le> now \<and> GetWatchNamespace (cl_env (hist i)) = Inr namespace \<and>
        cl_get (hist i) (NamespacedName namespace ''config'') = Inr config \<and>
        LoadSecrets (cl_list (hist j)) namespace = (secs, None))"

lemma read_between_later: "read_between hist now config secs \<Longrightarrow> read_between hist (Suc now) config secs"
  by (fastforce simp: read_between_def intro: le_SucI)

fun loader_ok :: "('o \<Rightarrow> secrets_map \<Rightarrow> bool) \<Rightarrow> (nat \<Rightarrow> 'o config_client) \<Rightarrow> nat \<Rightarrow> 'o loader \<Rightarrow> bool" where
  "loader_ok given hist now (FetchSecrets namespace config) \<longleftrightarrow>
     (\<exists>i\<le>now. GetWatchNamespace (cl_env (hist i)) = Inr namespace \<and>
        cl_get (hist i) (NamespacedName namespace ''config'') = Inr config)"
| "loader_ok given hist now (StoreLoaded config secs) \<longleftrightarrow> secrets_ok secs \<and> read_between hist now config secs"
| "loader_ok given hist now (StoreGiven config secs) \<longleftrightarrow> secrets_ok secs \<and> given config secs"
| "loader_ok given hist now (Returned (Some config) secs err) \<longleftrightarrow>
     err = None \<and> (given config secs \<or> read_between hist now config secs)"
| "loader_ok given hist now (Returned None secs err) \<longleftrightarrow> secs = []"
| "loader_ok given hist now l \<longleftrightarrow> True"

definition config_cache_ok :: "('o \<Rightarrow> secrets_map \<Rightarrow> bool) \<Rightarrow> (nat \<Rightarrow> 'o config_client) \<Rightarrow> nat \<Rightarrow> 'o config_cache \<Rightarrow> bool" where
  "config_cache_ok given hist now c \<longleftrightarrow> secrets_ok (secrets c) \<and>
     (case configObj c of
        None \<Rightarrow> secrets c = []
      | Some config \<Rightarrow> given config (secrets c) \<or> read_between hist now config (secrets c))"

lemma loader_ok_later: "loader_ok given hist now l \<Longrightarrow> loader_ok given hist (Suc now) l"
  by (cases "(given, hist, now, l)" rule: loader_ok.cases) (auto intro: read_between_later le_SucI)

lemma config_cache_ok_later: "config_cache_ok given hist now c \<Longrightarrow> config_cache_ok given hist (Suc now) c"
  by (auto simp: config_cache_ok_def intro: read_between_later split: option.splits)

lemma cache_get_ok:
  "config_cache_ok given hist now c \<Longrightarrow> cache_get c = (configObj c, secrets c)"
  by (auto simp: cache_get_def config_cache_ok_def CopyOf_id split: option.split)

lemma loader_step_ok:
  assumes "loader_step (hist now) l c = (c', l')" and "config_cache_ok given hist now c" and "loader_ok given hist now l"
  shows "config_cache_ok given hist now c' \<and> loader_ok given hist now l'"
proof (cases l)
  case CheckCache
  with assms cache_get_ok [OF assms(2)] show ?thesis
    by (auto simp: config_cache_ok_def split: if_splits option.splits)
next
  case ReadCache
  with assms cache_get_ok [OF assms(2)] show ?thesis
    by (cases "configObj c") (auto simp: config_cache_ok_def)
next
  case FetchConfig
  with assms show ?thesis by (auto split: sum.splits if_splits)
next
  case (FetchSecrets namespace config)
  with assms obtain i where i: "i \<le> now" "GetWatchNamespace (cl_env (hist i)) = Inr namespace"
    "cl_get (hist i) (NamespacedName namespace ''config'') = Inr config" by auto
  obtain secs err where load: "LoadSecrets (cl_list (hist now)) namespace = (secs, err)" by fastforce
  with i have "read_between hist now config secs" if "err = None" using that by (auto simp: read_between_def)
  with FetchSecrets assms load LoadSecrets_ok [OF load] show ?thesis by (cases err) auto
next
  case (StoreLoaded config secs)
  with assms show ?thesis by (auto simp: config_cache_ok_def cache_set_def CopyOf_id)
next
  case (StoreGiven config secs)
  with assms show ?thesis by (auto simp: config_cache_ok_def UpdateConfig_def cache_set_def CopyOf_id)
qed (use assms in auto)

definition config_state_ok :: "('o \<Rightarrow> secrets_map \<Rightarrow> bool) \<Rightarrow> (nat \<Rightarrow> 'o config_client) \<Rightarrow> 'o config_state \<Rightarrow> bool" where
  "config_state_ok given hist = (\<lambda>(now, c, ls). config_cache_ok given hist now c \<and>
     list_all (\<lambda>(op, l). loader_ok given hist now l) ls)"

lemma do_event_ok:
  assumes "config_state_ok given hist st"
    and "\<And>config secs. ev = Begin (UpdateCall config secs) \<Longrightarrow> secrets_ok secs \<and> given config secs"
  shows "config_state_ok given hist (do_event hist st ev)"
proof -
  obtain now c ls where st: "st = (now, c, ls)" by (metis surj_pair)
  show ?thesis
  proof (cases ev)
    case ClusterChange
    with assms(1) st show ?thesis
      by (auto simp: config_state_ok_def list_all_iff intro: config_cache_ok_later loader_ok_later)
  next
    case (Begin op)
    with assms st show ?thesis by (cases op) (auto simp: config_state_ok_def)
  next
    case (Run i)
    show ?thesis
    proof (cases "i < length ls")
      case True
      obtain op l where li: "ls ! i = (op, l)" by fastforce
      obtain c' l' where step: "loader_step (hist now) l c = (c', l')" by fastforce
      from True li assms(1) st have "config_cache_ok given hist now c" "loader_ok given hist now l"
        by (auto simp: config_state_ok_def list_all_iff dest!: nth_mem)
      from loader_step_ok [OF step this] True li step Run assms(1) st show ?thesis
        by (auto simp: config_state_ok_def list_all_iff dest!: set_update_subset_insert [THEN subsetD])
    qed (use Run assms(1) st in simp)
  qed
qed

section \<open>A cluster that no longer changes\<close>


definition cached :: "'o config_cache \<Rightarrow> 'o \<Rightarrow> secrets_map \<Rightarrow> bool" where
  "cached c config secs \<longleftrightarrow> configObj c = Some config \<and> secrets c = secs"










section \<open>Every call returns\<close>





section \<open>Properties\<close>



text \<open>A call that is not interleaved passes at most five points and does exactly what the
  function does.\<close>

theorem call_alone_is_function:
  "(step_alone cl ^^ 5) (c, entry_point op) =
     (case op of
        GetConfigCall \<Rightarrow> returned_by (GetConfig cl c)
      | LoadLatestCall \<Rightarrow> returned_by (LoadLatest cl c)
      | GetCachedCall \<Rightarrow> (c, Returned (fst (GetCachedConfig c)) (snd (GetCachedConfig c)) None)
      | UpdateCall config secs \<Rightarrow> (UpdateConfig config secs c, Returned None [] None))"
proof -
  have five: "(5 :: nat) = Suc (Suc (Suc (Suc (Suc 0))))" by simp
  show ?thesis
  proof (cases op)
    case GetConfigCall
    obtain config secs where get: "cache_get c = (config, secs)" by fastforce
    show ?thesis
    proof (cases config)
      case None
      with get have "(step_alone cl ^^ 5) (c, CheckCache) = (step_alone cl ^^ Suc (Suc (Suc (Suc 0)))) (c, FetchConfig)"
        unfolding five by (subst step_alone_Suc) simp
      with None get GetConfigCall show ?thesis by (simp only: load_alone) (simp add: GetConfig_def)
    next
      case (Some config')
      with get GetConfigCall show ?thesis
        unfolding five by (simp add: step_alone_Suc GetConfig_def del: funpow.simps)
    qed
  next
    case LoadLatestCall
    then show ?thesis unfolding five by (simp only: load_alone entry_point.simps call.case)
  next
    case GetCachedCall
    then show ?thesis
      unfolding five by (simp add: step_alone_Suc GetCachedConfig_def split: prod.split del: funpow.simps)
  next
    case (UpdateCall config secs)
    then show ?thesis unfolding five by (simp add: step_alone_Suc del: funpow.simps)
  qed
qed

text \<open>C34: However the calls interleave and the cluster changes, the cached pair and every pair a call
  returns belong together: it is the pair of an update, or the configuration was the cluster's
  at some time and the secrets were those of the same namespace at that time or later. A
  configuration is never returned with an error.\<close>

theorem concurrent_configuration_consistent:
  assumes "do_events hist evs (0, ResetCache, []) = (now, c, ls)"
    and "\<And>config secs. Begin (UpdateCall config secs) \<in> set evs \<Longrightarrow> secrets_ok secs"
    and "GetCachedConfig c = (Some config, secs) \<or> (i < length ls \<and> snd (ls ! i) = Returned (Some config) secs err)"
  shows "(Begin (UpdateCall config secs) \<in> set evs \<or> read_between hist now config secs) \<and>
    (i < length ls \<and> snd (ls ! i) = Returned (Some config) secs err \<longrightarrow> err = None)"
proof -
  let ?given = "\<lambda>config secs. Begin (UpdateCall config secs) \<in> set evs"
  have "config_state_ok ?given hist (do_events hist evs (0, ResetCache, []))"
  proof (rule do_events_invariant)
    show "config_state_ok ?given hist (0, ResetCache, [])"
      by (simp add: config_state_ok_def config_cache_ok_def ResetCache_def secrets_ok_def gm_ok_def)
  qed (use assms(2) in \<open>auto intro: do_event_ok\<close>)
  then have c: "config_cache_ok ?given hist now c" and ls: "list_all (\<lambda>(op, l). loader_ok ?given hist now l) ls"
    using assms(1) by (simp_all add: config_state_ok_def)
  from ls have "loader_ok ?given hist now (snd (ls ! i))" if "i < length ls"
    using that by (auto simp: list_all_iff dest!: nth_mem)
  with c assms(3) cache_get_ok [OF c] show ?thesis
    by (auto simp: GetCachedConfig_def config_cache_ok_def)
qed

text \<open>A cluster whose configuration is the time at which it is read.\<close>

definition clock_cluster :: "nat \<Rightarrow> nat config_client" where
  "clock_cluster t = \<lparr>cl_env = [(WatchNamespaceEnvVar, ''host'')], cl_get = (\<lambda>key. Inr t), cl_list = (\<lambda>ns. Inr [])\<rparr>"

lemma clock_cluster_simps [simp]:
  "GetWatchNamespace (cl_env (clock_cluster t)) = Inr ''host''"
  "cl_get (clock_cluster t) key = Inr t" "LoadSecrets (cl_list (clock_cluster t)) ns = ([], None)"
  by (simp_all add: clock_cluster_def GetWatchNamespace_def lookup_required_def LoadSecrets_def)

lemma cached_simps [simp]:
  "cache_set config secs (cache_set config' secs' c) = cache_set config secs c" "cache_get (cache_set config [] c) = (Some config, [])" "cache_get ResetCache = (None, [])"
  by (simp_all add: cache_get_def cache_set_def CopyOf_def ResetCache_def)


theorem concurrent_configuration_consistent_witness:
  "\<exists>st. do_events clock_cluster [Begin GetConfigCall, Run 0, Run 0, ClusterChange, Run 0, Run 0, Run 0] (0, ResetCache, []) = st \<and>
     GetCachedConfig (fst (snd st)) = (Some 0, []) \<and> read_between clock_cluster (fst st) 0 []"
proof -
  let ?evs = "[Begin GetConfigCall, Run 0, Run 0, ClusterChange, Run 0, Run 0, Run 0] :: nat config_event list"
  have run: "do_events clock_cluster ?evs (0, ResetCache, []) =
      (1, cache_set 0 [] ResetCache, [(GetConfigCall, Returned (Some 0) [] None)])" by simp
  have cached: "GetCachedConfig (cache_set 0 [] (ResetCache :: nat config_cache)) = (Some 0, [])"
    by (simp add: GetCachedConfig_def)
  from concurrent_configuration_consistent [OF run _ disjI1 [OF cached]]
  have "read_between clock_cluster 1 0 []" by auto
  with run cached show ?thesis by simp
qed



text \<open>Loads that overlap may end in the wrong order: the one that read the older configuration
  stores it last, so that the other, begun after the change, returns the older one too, and
  the cache keeps it.\<close>

theorem older_load_overwrites_newer:
  "do_events clock_cluster
     [Begin LoadLatestCall, Run 0, Run 0, ClusterChange, Begin LoadLatestCall, Run 1, Run 1, Run 1, Run 0, Run 1]
     (0, ResetCache, []) =
   (1, cache_set 0 [] ResetCache, [(LoadLatestCall, ReadCache), (LoadLatestCall, Returned (Some 0) [] None)])"
  by simp

end
