(* ===== verification/MemberConfig.thy ===== *)
theory MemberConfig
  imports Configuration
begin

text \<open>
  \<open>pkg/configuration/memberoperatorconfig\<close>: the member operator's configuration over the
  cache of \<open>Configuration\<close>, its sections and their getters. A pointer of the API's spec is an
  \<open>option\<close>; a \<open>runtime.Object\<close> is the \<open>MemberOperatorConfig\<close> resource or an object of
  another type. The parts of the API's spec are records named like the API's types; the
  package's own types over them end in \<open>_section\<close>.
\<close>

record auth_spec =
  auth_Idp :: "string option"

record github_secret =
  gh_Ref :: "string option"
  gh_AccessTokenKey :: "string option"

record webhook_secret =
  wh_Ref :: "string option"
  VirtualMachineAccessKey :: "string option"

record webhook_config =
  wh_Deploy :: "bool option"
  Secret :: "webhook_secret option"

record autoscaler_config =
  as_Deploy :: "bool option"
  as_BufferMemory :: "string option"
  as_BufferCPU :: "string option"
  as_BufferReplicas :: "int option"

record console_config =
  con_Namespace :: "string option"
  con_RouteName :: "string option"

record member_status_config =
  ms_GitHubSecret :: github_secret
  ms_RefreshPeriod :: "string option"

record toolchain_cluster_config =
  tc_HealthCheckPeriod :: "string option"
  tc_HealthCheckTimeout :: "string option"

record config_spec =
  spec_Auth :: auth_spec
  spec_Autoscaler :: autoscaler_config
  spec_Console :: console_config
  spec_Environment :: "string option"
  spec_MemberStatus :: member_status_config
  spec_SkipUserCreation :: "bool option"
  spec_ToolchainCluster :: toolchain_cluster_config
  spec_Webhook :: webhook_config

text \<open>\<open>toolchainv1alpha1.MemberOperatorConfigSpec\<close> with the zero value in every field.\<close>

definition zero_spec :: config_spec where
  "zero_spec =
     \<lparr>spec_Auth = \<lparr>auth_Idp = None\<rparr>,
      spec_Autoscaler = \<lparr>as_Deploy = None, as_BufferMemory = None, as_BufferCPU = None, as_BufferReplicas = None\<rparr>,
      spec_Console = \<lparr>con_Namespace = None, con_RouteName = None\<rparr>,
      spec_Environment = None,
      spec_MemberStatus = \<lparr>ms_GitHubSecret = \<lparr>gh_Ref = None, gh_AccessTokenKey = None\<rparr>, ms_RefreshPeriod = None\<rparr>,
      spec_SkipUserCreation = None,
      spec_ToolchainCluster = \<lparr>tc_HealthCheckPeriod = None, tc_HealthCheckTimeout = None\<rparr>,
      spec_Webhook = \<lparr>wh_Deploy = None, Secret = None\<rparr>\<rparr>"

datatype runtime_object = MemberOperatorConfig config_spec | OtherObject string

record configuration =
  cfg :: config_spec
  cfg_secrets :: secrets_map

section \<open>Loading\<close>

definition default_configuration :: configuration where
  "default_configuration = \<lparr>cfg = zero_spec, cfg_secrets = []\<rparr>"

definition newConfiguration :: "runtime_object option \<Rightarrow> secrets_map \<Rightarrow> configuration" where
  "newConfiguration config secs =
     (case config of
        None \<Rightarrow> default_configuration
      | Some (OtherObject _) \<Rightarrow> default_configuration
      | Some (MemberOperatorConfig spec) \<Rightarrow> \<lparr>cfg = spec, cfg_secrets = secs\<rparr>)"

definition GetConfiguration ::
  "runtime_object config_client \<Rightarrow> runtime_object config_cache \<Rightarrow>
   runtime_object config_cache \<times> configuration \<times> config_error option" where
  "GetConfiguration cl c =
     (case GetConfig cl c of
        (c', _, _, Some err) \<Rightarrow> (c', default_configuration, Some err)
      | (c', config, secs, None) \<Rightarrow> (c', newConfiguration config secs, None))"

definition GetCachedConfiguration :: "runtime_object config_cache \<Rightarrow> configuration" where
  "GetCachedConfiguration c = (let (config, secs) = GetCachedConfig c in newConfiguration config secs)"

definition ForceLoadConfiguration ::
  "runtime_object config_client \<Rightarrow> runtime_object config_cache \<Rightarrow>
   runtime_object config_cache \<times> configuration \<times> config_error option" where
  "ForceLoadConfiguration cl c =
     (case LoadLatest cl c of
        (c', _, _, Some err) \<Rightarrow> (c', default_configuration, Some err)
      | (c', config, secs, None) \<Rightarrow> (c', newConfiguration config secs, None))"

section \<open>Sections\<close>

record auth_section =
  auth :: auth_spec

record autoscaler_section =
  autoscaler :: autoscaler_config

record github_secret_section =
  gh_secret :: github_secret
  gh_secrets :: secrets_map

record console_section =
  console :: console_config

record member_status_section =
  memberStatus :: member_status_config

record toolchain_cluster_section =
  tc_config :: toolchain_cluster_config

record webhook_section =
  wh_config :: webhook_config
  wh_secrets :: secrets_map

definition Auth :: "configuration \<Rightarrow> auth_section" where
  "Auth c = \<lparr>auth = spec_Auth (cfg c)\<rparr>"

definition Autoscaler :: "configuration \<Rightarrow> autoscaler_section" where
  "Autoscaler c = \<lparr>autoscaler = spec_Autoscaler (cfg c)\<rparr>"

definition Console :: "configuration \<Rightarrow> console_section" where
  "Console c = \<lparr>console = spec_Console (cfg c)\<rparr>"

definition GitHubSecret :: "configuration \<Rightarrow> github_secret_section" where
  "GitHubSecret c = \<lparr>gh_secret = ms_GitHubSecret (spec_MemberStatus (cfg c)), gh_secrets = cfg_secrets c\<rparr>"

definition MemberStatus :: "configuration \<Rightarrow> member_status_section" where
  "MemberStatus c = \<lparr>memberStatus = spec_MemberStatus (cfg c)\<rparr>"

definition ToolchainCluster :: "configuration \<Rightarrow> toolchain_cluster_section" where
  "ToolchainCluster c = \<lparr>tc_config = spec_ToolchainCluster (cfg c)\<rparr>"

definition Webhook :: "configuration \<Rightarrow> webhook_section" where
  "Webhook c = \<lparr>wh_config = spec_Webhook (cfg c), wh_secrets = cfg_secrets c\<rparr>"

lemmas section_defs = Auth_def Autoscaler_def Console_def GitHubSecret_def MemberStatus_def ToolchainCluster_def
  Webhook_def

section \<open>Getters\<close>

definition Environment :: "configuration \<Rightarrow> string" where
  "Environment c = get_default (spec_Environment (cfg c)) ''prod''"

definition SkipUserCreation :: "configuration \<Rightarrow> bool" where
  "SkipUserCreation c = get_default (spec_SkipUserCreation (cfg c)) False"

definition Idp :: "auth_section \<Rightarrow> string" where
  "Idp a = get_default (auth_Idp (auth a)) ''rhd''"

definition Autoscaler_Deploy :: "autoscaler_section \<Rightarrow> bool" where
  "Autoscaler_Deploy a = get_default (as_Deploy (autoscaler a)) True"

definition BufferMemory :: "autoscaler_section \<Rightarrow> string" where
  "BufferMemory a = get_default (as_BufferMemory (autoscaler a)) ''50Mi''"

definition BufferCPU :: "autoscaler_section \<Rightarrow> string" where
  "BufferCPU a = get_default (as_BufferCPU (autoscaler a)) ''50m''"

definition BufferReplicas :: "autoscaler_section \<Rightarrow> int" where
  "BufferReplicas a = get_default (as_BufferReplicas (autoscaler a)) 2"

definition Console_Namespace :: "console_section \<Rightarrow> string" where
  "Console_Namespace a = get_default (con_Namespace (console a)) ''openshift-console''"

definition RouteName :: "console_section \<Rightarrow> string" where
  "RouteName a = get_default (con_RouteName (console a)) ''console''"

text \<open>\<open>secrets[secret][key]\<close>, where a missing secret is a nil map.\<close>

definition secret_value :: "secrets_map \<Rightarrow> string \<Rightarrow> string \<Rightarrow> string" where
  "secret_value secs secret key = gm_index '''' (gm_index [] secs secret) key"

definition githubSecret :: "github_secret_section \<Rightarrow> string \<Rightarrow> string" where
  "githubSecret gh secretKey = secret_value (gh_secrets gh) (get_default (gh_Ref (gh_secret gh)) '''') secretKey"

definition AccessTokenKey :: "github_secret_section \<Rightarrow> string" where
  "AccessTokenKey gh = githubSecret gh (get_default (gh_AccessTokenKey (gh_secret gh)) '''')"

definition webhookSecret :: "webhook_section \<Rightarrow> string \<Rightarrow> string" where
  "webhookSecret a webhookSecretKey =
     (case Secret (wh_config a) of
        None \<Rightarrow> ''''
      | Some s \<Rightarrow> secret_value (wh_secrets a) (get_default (wh_Ref s) '''') webhookSecretKey)"

definition Webhook_Deploy :: "webhook_section \<Rightarrow> bool" where
  "Webhook_Deploy a = get_default (wh_Deploy (wh_config a)) True"

definition VMSSHKey :: "webhook_section \<Rightarrow> string" where
  "VMSSHKey a =
     (case Secret (wh_config a) of
        None \<Rightarrow> ''''
      | Some s \<Rightarrow> webhookSecret a (get_default (VirtualMachineAccessKey s) ''''))"

text \<open>The body of the three durations: the value or the default, parsed, or the default parsed.\<close>

definition parsed_or_default :: "(nat \<Rightarrow> nat \<Rightarrow> nat \<Rightarrow> nat) \<Rightarrow> string option \<Rightarrow> string \<Rightarrow> int" where
  "parsed_or_default fmul value_ptr defaultPeriod =
     (case ParseDuration fmul (get_default value_ptr defaultPeriod) of
        Some d \<Rightarrow> d
      | None \<Rightarrow> (case ParseDuration fmul defaultPeriod of Some d \<Rightarrow> d | None \<Rightarrow> 0))"

definition RefreshPeriod :: "(nat \<Rightarrow> nat \<Rightarrow> nat \<Rightarrow> nat) \<Rightarrow> member_status_section \<Rightarrow> int" where
  "RefreshPeriod fmul a = parsed_or_default fmul (ms_RefreshPeriod (memberStatus a)) ''5s''"

definition HealthCheckPeriod :: "(nat \<Rightarrow> nat \<Rightarrow> nat \<Rightarrow> nat) \<Rightarrow> toolchain_cluster_section \<Rightarrow> int" where
  "HealthCheckPeriod fmul a = parsed_or_default fmul (tc_HealthCheckPeriod (tc_config a)) ''10s''"

definition HealthCheckTimeout :: "(nat \<Rightarrow> nat \<Rightarrow> nat \<Rightarrow> nat) \<Rightarrow> toolchain_cluster_section \<Rightarrow> int" where
  "HealthCheckTimeout fmul a = parsed_or_default fmul (tc_HealthCheckTimeout (tc_config a)) ''3s''"

section \<open>Durations\<close>

lemma byte_decimal_digit: "d < 10 \<Longrightarrow> byte (digit_char d) = 48 + d"
proof -
  have "list_all (\<lambda>d. byte (digit_char d) = 48 + d) [0..<10]"
    by (simp add: upt_rec digit_char_def byte_def)
  then show "d < 10 \<Longrightarrow> byte (digit_char d) = 48 + d" by (simp add: list_all_iff)
qed

lemma to_base_digits: "c \<in> set (to_base 10 n) \<Longrightarrow> is_digit (byte c)"
proof (induction "10::nat" n rule: to_base.induct)
  case (1 n)
  have digit: "d < 10 \<Longrightarrow> is_digit (byte (digit_char d))" for d
    by (simp add: byte_decimal_digit rune_class_defs)
  show ?case
  proof (cases "n < 10")
    case True
    with "1.prems" digit show ?thesis by (subst (asm) to_base.simps) simp
  next
    case False
    with "1.prems" have "c \<in> set (to_base 10 (n div 10)) \<or> c = digit_char (n mod 10)"
      by (subst (asm) to_base.simps) auto
    with "1.hyps" False digit [of "n mod 10"] show ?thesis by auto
  qed
qed

lemma leadingInt_to_base:
  "n \<le> 2 ^ 63 \<Longrightarrow> leadingInt 0 (to_base 10 n @ s) = leadingInt n s"
proof (induction "10::nat" n arbitrary: s rule: to_base.induct)
  case (1 n)

  have step: "x * 10 + d \<le> 2 ^ 63 \<Longrightarrow> d < 10 \<Longrightarrow> leadingInt x (digit_char d # s) = leadingInt (x * 10 + d) s" for x d
    by (auto simp: byte_decimal_digit rune_class_defs Let_def)
  show ?case
  proof (cases "n < 10")
    case True
    then show ?thesis using step [of 0 n] by (subst to_base.simps) simp
  next
    case False
    have "leadingInt 0 (to_base 10 (n div 10) @ digit_char (n mod 10) # s) = leadingInt (n div 10) (digit_char (n mod 10) # s)"
      using False "1.prems" by (intro "1.hyps") auto
    also have "\<dots> = leadingInt n s" using step [of "n div 10" "n mod 10"] "1.prems" by simp
    finally show ?thesis using False by (subst to_base.simps) simp
  qed
qed

text \<open>A whole number of seconds is read as such.\<close>

lemma parse_seconds:
  assumes n: "n \<le> (2 ^ 63 - 1) div 10 ^ 9"
  shows "ParseDuration fmul (to_base 10 n @ ''s'') = Some (int n * 10 ^ 9)"
proof -
  let ?s = "to_base 10 n @ ''s''"
  obtain c cs where s: "to_base 10 n = c # cs" by (cases "to_base 10 n") auto
  then have digit: "is_digit (byte c)" using to_base_digits [of c n] by simp
  then have c: "c \<noteq> CHR ''-''" "c \<noteq> CHR ''+''" by (auto simp: rune_class_defs byte_def)
  have "\<not> is_digit (byte CHR ''s'')" by (simp add: rune_class_defs byte_def)
  then have int: "leadingInt 0 ?s = Some (n, ''s'')"
    using n leadingInt_to_base [of n "''s''"] by simp
  have component: "parse_component fmul ?s = Some (n * 10 ^ 9, [])"
    using int digit n \<open>\<not> is_digit (byte CHR ''s'')\<close>
    by (simp add: parse_component_def unit_of_def s Let_def)
  have "parse_components fmul (length ?s) 0 ?s = Some (n * 10 ^ 9)"
    using component n by (simp add: s)
  moreover have "?s \<noteq> ''0''" using s by (cases cs) auto
  ultimately show ?thesis using c n by (simp add: ParseDuration_def s Let_def)
qed

lemma parse_default_periods [simp]:
  "ParseDuration fmul ''5s'' = Some 5000000000"
  "ParseDuration fmul ''10s'' = Some 10000000000"
  "ParseDuration fmul ''3s'' = Some 3000000000"
  using parse_seconds [of 5 fmul] parse_seconds [of 10 fmul] parse_seconds [of 3 fmul]
  by (simp_all add: to_base.simps digit_char_def)

section \<open>Properties\<close>

text \<open>C36: A forced load that finds the configuration and the secret it refers to makes the GitHub
  token of that secret available, at once and from the cache afterwards, under the key the
  configuration names.\<close>

theorem github_token_from_secret:
  fixes spec :: config_spec
  assumes "GetWatchNamespace (cl_env cl) = Inr ns"
    and "cl_get cl (NamespacedName ns ''config'') = Inr (MemberOperatorConfig spec)"
    and "cl_list cl ns = Inr items" and "distinct (map sec_Name items)" and "list_all (\<lambda>s. gm_ok (Data s)) items"
    and "ms_GitHubSecret (spec_MemberStatus spec) = \<lparr>gh_Ref = Some ref, gh_AccessTokenKey = Some key\<rparr>"
    and "List.find (\<lambda>s. sec_Name s = ref) items = Some secret"
    and "map_of (sec_Annotations secret) ''kubernetes.io/service-account.name'' = None"
    and "map_of (Data secret) key = Some token"
  shows "\<exists>c' conf. ForceLoadConfiguration cl c = (c', conf, None) \<and> cfg conf = spec \<and>
    AccessTokenKey (GitHubSecret conf) = token \<and> GetCachedConfiguration c' = conf"
proof -
  obtain secs where secs: "LoadSecrets (cl_list cl) ns = (secs, None)" "secrets_ok secs" "map_of secs ref = Some (Data secret)"
    using LoadSecrets_lookup [of "cl_list cl" ns items ref] assms by auto
  have copies: "CopyOf secs = secs" "CopyOf (CopyOf secs) = secs" using secs(2) by (simp_all add: CopyOf_id)
  show ?thesis
    using assms(1,2,6,9) secs(1,3) copies
    by (simp add: ForceLoadConfiguration_def LoadLatest_def cache_set_def cache_get_def newConfiguration_def
        GetCachedConfiguration_def GetCachedConfig_def section_defs AccessTokenKey_def githubSecret_def secret_value_def
        get_default_def gm_index_def)
qed

theorem github_token_from_secret_witness:
  "\<exists>c' conf. ForceLoadConfiguration
     \<lparr>cl_env = [(''WATCH_NAMESPACE'', ''member'')],
      cl_get = (\<lambda>key. Inr (MemberOperatorConfig (zero_spec\<lparr>spec_MemberStatus :=
        \<lparr>ms_GitHubSecret = \<lparr>gh_Ref = Some ''github'', gh_AccessTokenKey = Some ''token''\<rparr>, ms_RefreshPeriod = None\<rparr>\<rparr>))),
      cl_list = (\<lambda>ns. Inr [\<lparr>sec_Name = ''github'', sec_Annotations = [], Data = [(''token'', ''abc'')]\<rparr>])\<rparr>
     ResetCache = (c', conf, None) \<and> AccessTokenKey (GitHubSecret conf) = ''abc''"
proof -
  let ?secret = "\<lparr>sec_Name = ''github'', sec_Annotations = [], Data = [(''token'', ''abc'')]\<rparr>"
  let ?spec = "zero_spec\<lparr>spec_MemberStatus :=
        \<lparr>ms_GitHubSecret = \<lparr>gh_Ref = Some ''github'', gh_AccessTokenKey = Some ''token''\<rparr>, ms_RefreshPeriod = None\<rparr>\<rparr>"
  let ?cl = "\<lparr>cl_env = [(''WATCH_NAMESPACE'', ''member'')], cl_get = (\<lambda>key. Inr (MemberOperatorConfig ?spec)),
    cl_list = (\<lambda>ns. Inr [?secret])\<rparr>"
  from github_token_from_secret [of ?cl "''member''" ?spec "[?secret]" "''github''" "''token''" ?secret "''abc''" ResetCache]
  show ?thesis
    by (auto simp: GetWatchNamespace_def WatchNamespaceEnvVar_def lookup_required_def gm_ok_def)
qed

text \<open>When the configuration cannot be loaded, or there is none, the getters give the
  documented defaults; only the former is an error.\<close>

theorem missing_configuration_defaults:
  assumes "configObj c = None" and "GetWatchNamespace (cl_env cl) = Inr ns"
    and "cl_get cl (NamespacedName ns ''config'') = Inl err"
  shows "\<exists>conf. GetConfiguration cl c = (c, conf, if IsNotFound err then None else Some (ClientError err)) \<and>
    Idp (Auth conf) = ''rhd'' \<and> Environment conf = ''prod'' \<and> \<not> SkipUserCreation conf \<and>
    Autoscaler_Deploy (Autoscaler conf) \<and> BufferMemory (Autoscaler conf) = ''50Mi'' \<and> BufferCPU (Autoscaler conf) = ''50m'' \<and> BufferReplicas (Autoscaler conf) = 2 \<and>
    Console_Namespace (Console conf) = ''openshift-console'' \<and> RouteName (Console conf) = ''console'' \<and>
    AccessTokenKey (GitHubSecret conf) = '''' \<and> Webhook_Deploy (Webhook conf) \<and> VMSSHKey (Webhook conf) = '''' \<and>
    RefreshPeriod fmul (MemberStatus conf) = 5 * 10 ^ 9 \<and> HealthCheckPeriod fmul (ToolchainCluster conf) = 10 * 10 ^ 9 \<and>
    HealthCheckTimeout fmul (ToolchainCluster conf) = 3 * 10 ^ 9"
proof -
  have "GetConfiguration cl c = (c, default_configuration, if IsNotFound err then None else Some (ClientError err))"
    using assms by (simp add: GetConfiguration_def GetConfig_def cache_get_def LoadLatest_def newConfiguration_def)
  then show ?thesis
    by (simp add: default_configuration_def zero_spec_def get_default_def Idp_def Environment_def SkipUserCreation_def
        Autoscaler_Deploy_def BufferMemory_def BufferCPU_def BufferReplicas_def Console_Namespace_def RouteName_def
        section_defs AccessTokenKey_def githubSecret_def secret_value_def gm_index_def Webhook_Deploy_def VMSSHKey_def
        RefreshPeriod_def HealthCheckPeriod_def HealthCheckTimeout_def parsed_or_default_def)
qed

theorem missing_configuration_defaults_witness:
  "\<exists>conf. GetConfiguration \<lparr>cl_env = [(''WATCH_NAMESPACE'', ''member'')],
      cl_get = (\<lambda>key. Inl \<lparr>StatusReason = NotFound, err_message = ''not found''\<rparr>), cl_list = (\<lambda>ns. Inr [])\<rparr> ResetCache =
      (ResetCache, conf, None) \<and> HealthCheckPeriod (\<lambda>f unit scale. 0) (ToolchainCluster conf) = 10 * 10 ^ 9"
  using missing_configuration_defaults [of ResetCache "\<lparr>cl_env = [(''WATCH_NAMESPACE'', ''member'')],
      cl_get = (\<lambda>key. Inl \<lparr>StatusReason = NotFound, err_message = ''not found''\<rparr>), cl_list = (\<lambda>ns. Inr [])\<rparr>"
      "''member''" "\<lparr>StatusReason = NotFound, err_message = ''not found''\<rparr>" "\<lambda>f unit scale. 0"]
  by (auto simp: ResetCache_def GetWatchNamespace_def WatchNamespaceEnvVar_def lookup_required_def IsNotFound_def)

text \<open>A period configured as a whole number of seconds is that number of seconds, up to the
  range of a Go duration, for all three periods.\<close>

theorem periods_in_seconds:
  assumes "0 \<le> n" and "n \<le> 9223372036"
  shows "RefreshPeriod fmul (MemberStatus (c\<lparr>cfg := (cfg c)\<lparr>spec_MemberStatus :=
        (spec_MemberStatus (cfg c))\<lparr>ms_RefreshPeriod := Some (Itoa n @ ''s'')\<rparr>\<rparr>\<rparr>)) = n * 10 ^ 9 \<and>
    HealthCheckPeriod fmul (ToolchainCluster (c\<lparr>cfg := (cfg c)\<lparr>spec_ToolchainCluster :=
        \<lparr>tc_HealthCheckPeriod = Some (Itoa n @ ''s''), tc_HealthCheckTimeout = Some (Itoa n @ ''s'')\<rparr>\<rparr>\<rparr>)) = n * 10 ^ 9 \<and>
    HealthCheckTimeout fmul (ToolchainCluster (c\<lparr>cfg := (cfg c)\<lparr>spec_ToolchainCluster :=
        \<lparr>tc_HealthCheckPeriod = Some (Itoa n @ ''s''), tc_HealthCheckTimeout = Some (Itoa n @ ''s'')\<rparr>\<rparr>\<rparr>)) = n * 10 ^ 9"
proof -
  have "ParseDuration fmul (Itoa n @ ''s'') = Some (n * 10 ^ 9)"
    using assms parse_seconds [of "nat n" fmul] by (simp add: Itoa_def)
  then show ?thesis
    by (simp add: section_defs RefreshPeriod_def HealthCheckPeriod_def HealthCheckTimeout_def parsed_or_default_def get_default_def)
qed

theorem periods_in_seconds_witness:
  "HealthCheckTimeout (\<lambda>f unit scale. 0) (ToolchainCluster (default_configuration\<lparr>cfg := zero_spec\<lparr>spec_ToolchainCluster :=
        \<lparr>tc_HealthCheckPeriod = Some (Itoa 30 @ ''s''), tc_HealthCheckTimeout = Some (Itoa 30 @ ''s'')\<rparr>\<rparr>\<rparr>)) = 30 * 10 ^ 9"
  using periods_in_seconds [of 30 "\<lambda>f unit scale. 0" default_configuration] by (simp add: default_configuration_def)

end
