(* ===== verification/GoEncodings.thy ===== *)
theory GoEncodings
  imports GoStrings
begin

text \<open>
  The encodings of Go's standard library that the repository uses: \<open>encoding/base64\<close>
  (\<open>RawStdEncoding\<close>), \<open>encoding/hex\<close>, \<open>crypto/md5\<close> and the strings of
  \<open>encoding/json\<close>. A slice of bytes is a \<^typ>\<open>string\<close>.
\<close>

section \<open>Base64\<close>

definition base64_alphabet :: string where
  "base64_alphabet = ''ABCDEFGHIJKLMNOPQRSTUVWXYZabcdefghijklmnopqrstuvwxyz0123456789+/''"

text \<open>Three bytes are four groups of six bits; the last group is filled with zero bits.\<close>

fun sextets :: "nat list \<Rightarrow> nat list" where
  "sextets [] = []"
| "sextets [a] = [a div 4, a mod 4 * 16]"
| "sextets [a, b] = [a div 4, a mod 4 * 16 + b div 16, b mod 16 * 4]"
| "sextets (a # b # c # bs) =
     a div 4 # (a mod 4 * 16 + b div 16) # (b mod 16 * 4 + c div 64) # c mod 64 # sextets bs"

definition base64_RawStd :: "string \<Rightarrow> string" where
  "base64_RawStd s = map (\<lambda>d. base64_alphabet ! d) (sextets (map byte s))"

section \<open>Hexadecimal\<close>

definition hex_byte :: "nat \<Rightarrow> string" where
  "hex_byte b = [digit_char (b div 16), digit_char (b mod 16)]"

definition hex_EncodeToString :: "nat list \<Rightarrow> string" where
  "hex_EncodeToString bs = concat (map hex_byte bs)"

section \<open>MD5\<close>

definition md5_table :: "32 word list" where
  "md5_table =
     [3614090360, 3905402710, 606105819, 3250441966, 4118548399, 1200080426, 2821735955, 4249261313,
      1770035416, 2336552879, 4294925233, 2304563134, 1804603682, 4254626195, 2792965006, 1236535329,
      4129170786, 3225465664, 643717713, 3921069994, 3593408605, 38016083, 3634488961, 3889429448,
      568446438, 3275163606, 4107603335, 1163531501, 2850285829, 4243563512, 1735328473, 2368359562,
      4294588738, 2272392833, 1839030562, 4259657740, 2763975236, 1272893353, 4139469664, 3200236656,
      681279174, 3936430074, 3572445317, 76029189, 3654602809, 3873151461, 530742520, 3299628645,
      4096336452, 1126891415, 2878612391, 4237533241, 1700485571, 2399980690, 4293915773, 2240044497,
      1873313359, 4264355552, 2734768916, 1309151649, 4149444226, 3174756917, 718787259, 3951481745]"

definition md5_shifts :: "nat list" where
  "md5_shifts = [7, 12, 17, 22, 5, 9, 14, 20, 4, 11, 16, 23, 6, 10, 15, 21]"

type_synonym md5_state = "32 word \<times> 32 word \<times> 32 word \<times> 32 word"

definition md5_step :: "32 word list \<Rightarrow> nat \<Rightarrow> md5_state \<Rightarrow> md5_state" where
  "md5_step block i = (\<lambda>(a, b, c, d).
     let (f, g) = (if i < 16 then ((b AND c) OR (NOT b AND d), i)
                   else if i < 32 then ((d AND b) OR (NOT d AND c), (5 * i + 1) mod 16)
                   else if i < 48 then (b XOR c XOR d, (3 * i + 5) mod 16)
                   else (c XOR (b OR NOT d), 7 * i mod 16));
         shift = md5_shifts ! (i div 16 * 4 + i mod 4)
     in (d, b + word_rotl shift (f + a + md5_table ! i + block ! g), b, c))"

definition md5_block :: "md5_state \<Rightarrow> 32 word list \<Rightarrow> md5_state" where
  "md5_block st block =
     (case st of (a0, b0, c0, d0) \<Rightarrow>
        (case fold (md5_step block) [0..<64] st of (a, b, c, d) \<Rightarrow> (a0 + a, b0 + b, c0 + c, d0 + d)))"

fun little_endian :: "nat \<Rightarrow> nat \<Rightarrow> nat list" where
  "little_endian 0 n = []"
| "little_endian (Suc k) n = n mod 256 # little_endian k (n div 256)"

text \<open>The message, the byte 128, zeros up to 8 bytes before a block's end, the length in bits.\<close>

definition md5_pad :: "nat list \<Rightarrow> nat list" where
  "md5_pad bs = bs @ [128] @ replicate ((119 - length bs mod 64) mod 64) 0 @ little_endian 8 (8 * length bs)"

fun md5_words :: "nat list \<Rightarrow> 32 word list" where
  "md5_words (a # b # c # d # bs) = word_of_nat (a + 256 * b + 65536 * c + 16777216 * d) # md5_words bs"
| "md5_words _ = []"

fun md5_blocks :: "nat \<Rightarrow> md5_state \<Rightarrow> 32 word list \<Rightarrow> md5_state" where
  "md5_blocks 0 st ws = st"
| "md5_blocks (Suc n) st ws = md5_blocks n (md5_block st (take 16 ws)) (drop 16 ws)"

definition md5_Sum :: "string \<Rightarrow> nat list" where
  "md5_Sum s =
     (let ws = md5_words (md5_pad (map byte s))
      in case md5_blocks (length ws div 16) (1732584193, 4023233417, 2562383102, 271733878) ws of
           (a, b, c, d) \<Rightarrow> concat (map (\<lambda>w. little_endian 4 (unat w)) [a, b, c, d]))"

section \<open>JSON strings\<close>

text \<open>
  The bytes of a string in JSON: control characters, quotes, backslashes and the characters
  of HTML are escaped, bytes that are not UTF-8 are the replacement character, and the line
  separators U+2028 and U+2029 are escaped.
\<close>

definition json_byte :: "nat \<Rightarrow> string" where
  "json_byte b =
     (if b = 34 \<or> b = 92 then [CHR 0x5C, chr b]
      else if b = 8 then CHR 0x5C # ''b''
      else if b = 12 then CHR 0x5C # ''f''
      else if b = 10 then CHR 0x5C # ''n''
      else if b = 13 then CHR 0x5C # ''r''
      else if b = 9 then CHR 0x5C # ''t''
      else if b < 32 \<or> b = 38 \<or> b = 60 \<or> b = 62 then CHR 0x5C # ''u00'' @ hex_byte b
      else [chr b])"

function json_chars :: "string \<Rightarrow> string" where
  "json_chars [] = []"
| "json_chars (c # cs) =
     (if byte c < 128 then json_byte (byte c) @ json_chars cs
      else case decode_rune (c # cs) of (r, n) \<Rightarrow>
        (if r = RuneError \<and> n = 1 then CHR 0x5C # ''ufffd''
         else if r = 8232 \<or> r = 8233 then CHR 0x5C # ''u202'' @ [digit_char (r mod 16)]
         else take n (c # cs)) @ json_chars (drop (n - 1) cs))"
  by pat_completeness auto
termination
  by (relation "measure length") auto

definition json_string :: "string \<Rightarrow> string" where
  "json_string s = CHR 0x22 # json_chars s @ [CHR 0x22]"

definition json_strings :: "string list \<Rightarrow> string" where
  "json_strings xs = ''['' @ join (map json_string xs) CHR '','' @ '']''"

section \<open>Facts\<close>

fun unsextets :: "nat list \<Rightarrow> nat list" where
  "unsextets (x # y # z # w # ds) =
     (x * 4 + y div 16) # (y mod 16 * 16 + z div 4) # (z mod 4 * 64 + w) # unsextets ds"
| "unsextets [x, y, z] = [x * 4 + y div 16, y mod 16 * 16 + z div 4]"
| "unsextets [x, y] = [x * 4 + y div 16]"
| "unsextets _ = []"

lemma digit_div_mod: "q < m \<Longrightarrow> (x * m + q) div m = x" "q < m \<Longrightarrow> (x * m + q) mod m = q" for q m x :: nat
  by simp_all

lemma byte_div: "b < 256 \<Longrightarrow> b div 4 < 64" "b < 256 \<Longrightarrow> b div 16 < 16" "b < 256 \<Longrightarrow> b div 64 < 4" for b :: nat
  by (simp_all add: less_mult_imp_div_less)

lemma sextet_first: "b < 256 \<Longrightarrow> a div 4 * 4 + (a mod 4 * 16 + b div 16) div 16 = (a::nat)"
  by (subst digit_div_mod(1), simp add: byte_div, simp only: div_mult_mod_eq)

lemma sextet_second: "b < 256 \<Longrightarrow> c < 256 \<Longrightarrow> (a mod 4 * 16 + b div 16) mod 16 * 16 + (b mod 16 * 4 + c div 64) div 4 = (b::nat)"
  by (subst digit_div_mod(2), simp, subst digit_div_mod(1), simp, simp only: div_mult_mod_eq)

lemma sextet_third: "c < 256 \<Longrightarrow> (b mod 16 * 4 + c div 64) mod 4 * 64 + c mod 64 = (c::nat)"
  by (subst digit_div_mod(2), simp add: byte_div, simp only: div_mult_mod_eq)

text \<open>Decoding the groups of six bits gives the bytes back.\<close>

lemma unsextets_sextets: "list_all (\<lambda>b. b < 256) bs \<Longrightarrow> unsextets (sextets bs) = bs"
proof (induction bs rule: sextets.induct)
  case (2 a)
  show ?case using sextet_first [of 0 a] by simp
next
  case (3 a b)
  then show ?case using sextet_first [of b a] sextet_second [of b 0 a] by simp
next
  case (4 a b c bs)
  then have "a < 256" "b < 256" "c < 256" "unsextets (sextets bs) = bs" by simp_all
  then show ?case
    by (simp only: sextets.simps unsextets.simps sextet_first sextet_second sextet_third)
qed simp

lemma digit_bound: "x < n \<Longrightarrow> q < m \<Longrightarrow> x * m + q < n * m" for x :: nat
proof -
  assume "x < n" and "q < m"
  then have "x * m + q < Suc x * m" and "Suc x * m \<le> n * m" by simp_all (simp only: mult_Suc [symmetric] mult_le_mono1 Suc_leI)
  then show ?thesis by (rule less_le_trans)
qed

lemma sextets_less: "list_all (\<lambda>b. b < 256) bs \<Longrightarrow> list_all (\<lambda>d. d < 64) (sextets bs)"
proof (induction bs rule: sextets.induct)
  case (2 a)
  then show ?case using digit_bound [of "a mod 4" 4 0 16] by (simp add: byte_div)
next
  case (3 a b)
  then show ?case using digit_bound [of "a mod 4" 4 "b div 16" 16] digit_bound [of "b mod 16" 16 0 4] by (simp add: byte_div)
next
  case (4 a b c bs)
  then show ?case using digit_bound [of "a mod 4" 4 "b div 16" 16] digit_bound [of "b mod 16" 16 "c div 64" 4] by (simp add: byte_div)
qed simp

lemma length_base64_alphabet: "length base64_alphabet = 64"
  by (simp add: base64_alphabet_def)

lemma distinct_base64_alphabet: "distinct base64_alphabet"
  by (simp add: base64_alphabet_def)

lemma base64_RawStd_inject: "base64_RawStd s = base64_RawStd t \<longleftrightarrow> s = t"
proof
  assume eq: "base64_RawStd s = base64_RawStd t"
  let ?d = "\<lambda>s. sextets (map byte s)"
  have bytes: "list_all (\<lambda>b. b < 256) (map byte u)" for u by (simp add: list_all_iff)
  have "inj_on (\<lambda>d. base64_alphabet ! d) {..<64}"
    using distinct_base64_alphabet length_base64_alphabet by (auto simp: inj_on_def nth_eq_iff_index_eq)
  moreover have "set (?d u) \<subseteq> {..<64}" for u using sextets_less [OF bytes] by (auto simp: list_all_iff)
  ultimately have "inj_on (\<lambda>d. base64_alphabet ! d) (set (?d s) \<union> set (?d t))"
    by (blast intro: inj_on_subset)
  with eq have "?d s = ?d t" unfolding base64_RawStd_def by (rule map_inj_on)
  then have "unsextets (?d s) = unsextets (?d t)" by simp
  then have "map byte s = map byte t" by (simp only: unsextets_sextets [OF bytes])
  then show "s = t" by (rule map_injective) (simp add: inj_def)
qed simp

lemma base64_RawStd_chars: "set (base64_RawStd s) \<subseteq> set base64_alphabet"
proof -
  have "list_all (\<lambda>d. d < 64) (sextets (map byte s))" by (rule sextets_less) (simp add: list_all_iff)
  then show ?thesis
    by (auto simp: base64_RawStd_def list_all_iff length_base64_alphabet intro!: nth_mem)
qed

lemma length_little_endian [simp]: "length (little_endian k n) = k"
  by (induction k arbitrary: n) auto

lemma little_endian_bytes: "list_all (\<lambda>b. b < 256) (little_endian k n)"
  by (induction k arbitrary: n) auto

lemma length_md5_Sum: "length (md5_Sum s) = 16"
  by (simp add: md5_Sum_def Let_def split: prod.split)

lemma md5_Sum_bytes: "list_all (\<lambda>b. b < 256) (md5_Sum s)"
  by (simp add: md5_Sum_def Let_def little_endian_bytes split: prod.split)

lemma length_hex: "length (hex_EncodeToString bs) = 2 * length bs"
  by (induction bs) (auto simp: hex_EncodeToString_def hex_byte_def)

lemma hex_chars:
  "list_all (\<lambda>b. b < 256) bs \<Longrightarrow>
   list_all (\<lambda>c. is_digit (byte c) \<or> c \<in> set ''abcdef'') (hex_EncodeToString bs)"
proof -
  have digits: "list_all (\<lambda>d. is_digit (byte (digit_char d)) \<or> digit_char d \<in> set ''abcdef'') [0..<16]"
    by (simp add: upt_rec digit_char_def rune_class_defs byte_def)
  show "list_all (\<lambda>b. b < 256) bs \<Longrightarrow> ?thesis"
    using digits by (induction bs) (auto simp: hex_EncodeToString_def hex_byte_def list_all_iff)
qed

end
