(* ===== verification/Naming.thy ===== *)
theory Naming
  imports GoEncodings
begin

text \<open>
  Names derived from other data: \<open>pkg/identity\<close> (the name of an OpenShift identity),
  \<open>pkg/hash\<close> (the hash label of a tier), \<open>pkg/socialevent\<close> (activation codes) and the
  list splitting of \<open>pkg/utils\<close>.
\<close>

section \<open>Identities\<close>

record identity_naming =
  userID :: string
  provider :: string

record identity =
  id_Name :: string
  ProviderName :: string
  ProviderUserName :: string

definition NewIdentityNamingStandard :: "string \<Rightarrow> string \<Rightarrow> identity_naming" where
  "NewIdentityNamingStandard user prov = \<lparr>userID = user, provider = prov\<rparr>"

definition isIdentityNameCompliant :: "string \<Rightarrow> bool" where
  "isIdentityNameCompliant name \<longleftrightarrow> \<not> ContainsAny name '':/''"

definition username :: "identity_naming \<Rightarrow> string" where
  "username s =
     (if \<not> isIdentityNameCompliant (userID s) then ''b64:'' @ base64_RawStd (userID s) else userID s)"

definition IdentityName :: "identity_naming \<Rightarrow> string" where
  "IdentityName s = provider s @ '':'' @ username s"

definition ApplyToIdentity :: "identity_naming \<Rightarrow> identity \<Rightarrow> identity" where
  "ApplyToIdentity s identity =
     identity\<lparr>id_Name := IdentityName s, ProviderName := provider s, ProviderUserName := username s\<rparr>"

section \<open>Hashes\<close>

definition Encode :: "string \<Rightarrow> string" where
  "Encode bs = hex_EncodeToString (md5_Sum bs)"

definition EncodeString :: "string \<Rightarrow> string" where
  "EncodeString s = Encode s"

text \<open>\<open>LabelKeyPrefix\<close> is a constant of the API package.\<close>

definition TemplateTierHashLabelKey :: "string \<Rightarrow> string \<Rightarrow> string" where
  "TemplateTierHashLabelKey LabelKeyPrefix tierName = LabelKeyPrefix @ tierName @ ''-tier-hash''"

text \<open>Marshalling a struct of strings does not fail, so the error is always nil.\<close>

definition json_templateRefs :: "string list \<Rightarrow> string" where
  "json_templateRefs refs = CHR ''{'' # json_string ''refs'' @ '':'' @ json_strings refs @ ''}''"

definition computeHash :: "string list \<Rightarrow> string \<times> string option" where
  "computeHash refs = (Encode (json_templateRefs (sort_Strings refs)), None)"

text \<open>\<open>Status.Revisions\<close> of the tier, in one order of the map's entries.\<close>

definition ComputeHashForNSTemplateTier :: "(string, string) gomap \<Rightarrow> string \<times> string option" where
  "ComputeHashForNSTemplateTier revisions = computeHash (map snd revisions)"

section \<open>Activation codes\<close>

definition name_chars :: string where
  "name_chars = ''abcdefghjklmnpqrsuvwxyz23456789''"

text \<open>\<open>rand.Int\<close> gives an index below the number of characters; \<open>p i\<close> is its i-th answer.\<close>

definition NewName :: "(nat \<Rightarrow> nat) \<Rightarrow> string" where
  "NewName p = map (\<lambda>i. name_chars ! p i) [0..<5]"

section \<open>Lists\<close>

definition SplitCommaSeparatedList :: "string \<Rightarrow> string list" where
  "SplitCommaSeparatedList s = (if length s = 0 then [] else Split s CHR '','')"

section \<open>Properties\<close>

text \<open>C37: Under one provider two users get the same identity name, and the same provider user name,
  exactly when they are the same user, whether their identifiers have to be encoded or not.\<close>

theorem identity_names_injective:
  "(IdentityName \<lparr>userID = u, provider = p\<rparr> = IdentityName \<lparr>userID = v, provider = p\<rparr> \<longleftrightarrow> u = v) \<and>
   (ProviderUserName (ApplyToIdentity \<lparr>userID = u, provider = p\<rparr> i) =
      ProviderUserName (ApplyToIdentity \<lparr>userID = v, provider = p\<rparr> j) \<longleftrightarrow> u = v)"
proof -
  have encoded: "\<not> isIdentityNameCompliant (''b64:'' @ s)" for s
    by (simp add: isIdentityNameCompliant_def ContainsAny_def)
  have "username \<lparr>userID = u, provider = p\<rparr> = username \<lparr>userID = v, provider = p\<rparr> \<longleftrightarrow> u = v"
    using encoded by (auto simp: username_def base64_RawStd_inject)
  then show ?thesis by (auto simp: IdentityName_def ApplyToIdentity_def)
qed

text \<open>The name given to an encoded user may contain a slash, one of the two characters the
  encoding is there to avoid: its alphabet is that of the standard, not of the URL encoding.\<close>

theorem encoded_identity_has_slash:
  "IdentityName (NewIdentityNamingStandard '':/?'' ''rhd'') = ''rhd:b64:Oi8/''"
  by (simp add: IdentityName_def NewIdentityNamingStandard_def username_def isIdentityNameCompliant_def ContainsAny_def
      base64_RawStd_def byte_def base64_alphabet_def)

text \<open>C38: The hash of a tier does not depend on the order in which its revisions are visited, nor on
  their names: it is the MD5 sum, as 32 lower case hexadecimal digits, of the JSON of the sorted
  references, and there is no error.\<close>

theorem tier_hash_canonical:
  assumes "mset (map snd revisions') = mset (map snd revisions)"
  shows "ComputeHashForNSTemplateTier revisions' = ComputeHashForNSTemplateTier revisions \<and>
    (\<exists>h. ComputeHashForNSTemplateTier revisions = (h, None) \<and> length h = 32 \<and>
       list_all (\<lambda>c. is_digit (byte c) \<or> c \<in> set ''abcdef'') h)"
  using sort_Strings_perm [OF assms] hex_chars [OF md5_Sum_bytes]
  by (simp add: ComputeHashForNSTemplateTier_def computeHash_def Encode_def length_hex length_md5_Sum)

theorem tier_hash_canonical_witness:
  "ComputeHashForNSTemplateTier [(''b'', ''base1ns-dev''), (''a'', ''base1ns-admin'')] =
   ComputeHashForNSTemplateTier [(''a'', ''base1ns-admin''), (''b'', ''base1ns-dev'')]"
  using tier_hash_canonical [of "[(''a'', ''base1ns-admin''), (''b'', ''base1ns-dev'')]"
      "[(''b'', ''base1ns-dev''), (''a'', ''base1ns-admin'')]"]
  by simp

text \<open>Every word of five of the characters is an activation code.\<close>

lemma NewName_image:
  "{NewName p |p. list_all (\<lambda>i. p i < 31) [0..<5]} = {code. set code \<subseteq> set name_chars \<and> length code = 5}"
proof -
  have len: "length name_chars = 31" by (simp add: name_chars_def)
  have "\<exists>p. code = NewName p \<and> (\<forall>i<5. p i < 31)" if code: "set code \<subseteq> set name_chars" "length code = 5" for code
  proof -
    have "\<forall>i. \<exists>k. i < 5 \<longrightarrow> k < 31 \<and> name_chars ! k = code ! i"
      using code len by (metis in_set_conv_nth nth_mem subset_iff)
    then obtain p where p: "\<And>i. i < 5 \<Longrightarrow> p i < 31 \<and> name_chars ! p i = code ! i" by metis
    then have "code = NewName p" using code(2) by (intro nth_equalityI) (simp_all add: NewName_def)
    with p show ?thesis by blast
  qed
  moreover have "set (NewName p) \<subseteq> set name_chars" if "\<forall>i<5. p i < 31" for p
    using that len by (auto simp: NewName_def)
  moreover have "length (NewName p) = 5" for p by (simp add: NewName_def)
  moreover have "list_all (\<lambda>i. p i < 31) [0..<5] \<longleftrightarrow> (\<forall>i<5. p i < 31)" for p :: "nat \<Rightarrow> nat"
    by (auto simp: list_all_iff)
  ultimately show ?thesis by blast
qed

text \<open>There are 31 to the power of 5 activation codes, of five characters each; besides i, o, 0
  and 1, the letter t, which the documentation lists, never occurs in one.\<close>

theorem activation_codes:
  "card {NewName p |p. list_all (\<lambda>i. p i < 31) [0..<5]} = 31 ^ 5 \<and>
   {NewName p |p. list_all (\<lambda>i. p i < 31) [0..<5]} \<subseteq>
     {code. length code = 5 \<and> set code \<inter> set ''iot01'' = {}}"
proof -
  have "card (set name_chars) = 31" by (simp add: name_chars_def)
  moreover have "set name_chars \<inter> set ''iot01'' = {}" by (simp add: name_chars_def)
  ultimately show ?thesis
    unfolding NewName_image by (subst card_lists_length_eq) auto
qed

text \<open>Splitting a comma separated list gives back the elements it was joined from, also when
  there are none.\<close>

theorem split_comma_roundtrip:
  assumes "list_all (\<lambda>w. CHR '','' \<notin> set w) ws" and "ws \<noteq> ['''']"
  shows "SplitCommaSeparatedList (join ws CHR '','') = ws"
proof (cases ws)
  case (Cons w rest)
  have "join ws CHR '','' \<noteq> []" using assms(2) Cons by (cases rest) auto
  with Cons assms(1) show ?thesis
    by (simp add: SplitCommaSeparatedList_def Split_join list_all_iff)
qed (simp add: SplitCommaSeparatedList_def)

theorem split_comma_roundtrip_witness:
  "SplitCommaSeparatedList (join [''a'', '''', ''b''] CHR '','') = [''a'', '''', ''b'']"
  using split_comma_roundtrip [of "[''a'', '''', ''b'']"] by simp

end
