(* ===== verification/Resources.thy ===== *)
theory Resources
  imports ApiTypes GoStrings
begin

text \<open>
  The builders of API objects: \<open>pkg/notification\<close>, \<open>pkg/banneduser\<close>, \<open>pkg/proxy\<close>
  and the token request of \<open>pkg/client/rest_client.go\<close>. An option of a builder is a Go
  closure: a function on the object, which may fail where the code lets it. The parsing of mail
  addresses, the random UUID, the owner reference and the Kubernetes client are arguments.
\<close>

section \<open>Notifications\<close>

record notification =
  nt_Name :: string
  nt_GenerateName :: string
  nt_Namespace :: string
  nt_Labels :: labels
  Recipient :: string
  Context :: "(string, string) gomap"
  Template :: string
  Subject :: string
  Content :: string
  OwnerReferences :: "string list"

type_synonym notification_option = "notification \<Rightarrow> string + notification"

record builder =
  b_namespace :: string
  options :: "notification_option list"

definition NewNotificationBuilder :: "string \<Rightarrow> builder" where
  "NewNotificationBuilder namespace = \<lparr>b_namespace = namespace, options = []\<rparr>"

definition add_option :: "notification_option \<Rightarrow> builder \<Rightarrow> builder" where
  "add_option opt b = b\<lparr>options := options b @ [opt]\<rparr>"

definition WithName :: "string \<Rightarrow> builder \<Rightarrow> builder" where
  "WithName name = add_option (\<lambda>n. Inr (n\<lparr>nt_Name := name\<rparr>))"

definition WithTemplate :: "string \<Rightarrow> builder \<Rightarrow> builder" where
  "WithTemplate t = add_option (\<lambda>n. Inr (n\<lparr>Template := t\<rparr>))"

definition WithSubjectAndContent :: "string \<Rightarrow> string \<Rightarrow> builder \<Rightarrow> builder" where
  "WithSubjectAndContent s c = add_option (\<lambda>n. Inr (n\<lparr>Subject := s, Content := c\<rparr>))"

definition WithNotificationType :: "string \<Rightarrow> builder \<Rightarrow> builder" where
  "WithNotificationType t = add_option (\<lambda>n. Inr (n\<lparr>nt_Labels := AList.update NotificationTypeLabelKey t (nt_Labels n)\<rparr>))"

text \<open>\<open>controllerutil.SetControllerReference\<close> gives the owner references it sets, or fails.\<close>

definition WithControllerReference :: "(notification \<Rightarrow> string + string list) \<Rightarrow> builder \<Rightarrow> builder" where
  "WithControllerReference SetControllerReference = add_option (\<lambda>n.
     case SetControllerReference n of Inl err \<Rightarrow> Inl err | Inr refs \<Rightarrow> Inr (n\<lparr>OwnerReferences := refs\<rparr>))"

definition WithKeysAndValues :: "(string, string) gomap \<Rightarrow> builder \<Rightarrow> builder" where
  "WithKeysAndValues kvs = add_option (\<lambda>n. Inr (n\<lparr>Context := gm_merge (Context n) kvs\<rparr>))"

definition user_context :: "user_signup \<Rightarrow> notification \<Rightarrow> notification" where
  "user_context u n =
     (let c1 = AList.update ''Sub'' (Sub (IdentityClaims u)) (Context n);
          c2 = AList.update ''UserID'' (Sub (IdentityClaims u)) c1;
          c3 = AList.update ''UserName'' (CompliantUsername u) c2;
          c4 = AList.update ''FirstName'' (GivenName (IdentityClaims u)) c3;
          c5 = AList.update ''LastName'' (FamilyName (IdentityClaims u)) c4;
          c6 = AList.update ''CompanyName'' (Company (IdentityClaims u)) c5;
          c7 = (if Email (IdentityClaims u) \<noteq> '''' then AList.update ''UserEmail'' (Email (IdentityClaims u)) c6 else c6)
      in n\<lparr>Context := c7, nt_Labels := AList.update NotificationUserNameLabelKey (CompliantUsername u) (nt_Labels n)\<rparr>)"

definition WithUserContext :: "user_signup \<Rightarrow> builder \<Rightarrow> builder" where
  "WithUserContext u = add_option (\<lambda>n. Inr (user_context u n))"

text \<open>The argument is \<open>userTier.Spec.DeactivationTimeoutDays\<close>.\<close>

definition WithUserTierContext :: "int \<Rightarrow> builder \<Rightarrow> builder" where
  "WithUserTierContext days = add_option (\<lambda>n.
     Inr (n\<lparr>Context := AList.update ''DeactivationTimeoutDays'' (if days > 0 then Itoa days else ''(unlimited)'')
                        (Context n)\<rparr>))"

definition generateName :: "string \<Rightarrow> notification \<Rightarrow> notification" where
  "generateName uuid n =
     (if nt_Name n = '''' then
        (case map_of (Context n) ''UserName'' of
           None \<Rightarrow> n\<lparr>nt_GenerateName := uuid @ ''-untyped''\<rparr>
         | Some username \<Rightarrow>
             if username \<noteq> '''' then
               (case map_of (nt_Labels n) NotificationTypeLabelKey of
                  Some notificationType \<Rightarrow> n\<lparr>nt_GenerateName := username @ ''-'' @ notificationType @ ''-''\<rparr>
                | None \<Rightarrow> n\<lparr>nt_GenerateName := username @ ''-untyped''\<rparr>)
             else n\<lparr>nt_GenerateName := uuid @ ''-untyped''\<rparr>)
      else n)"

fun apply_options :: "notification_option list \<Rightarrow> notification \<Rightarrow> string + notification" where
  "apply_options [] n = Inr n"
| "apply_options (opt # opts) n = (case opt n of Inl err \<Rightarrow> Inl err | Inr n' \<Rightarrow> apply_options opts n')"

definition empty_notification :: "string \<Rightarrow> string \<Rightarrow> notification" where
  "empty_notification namespace recipient =
     \<lparr>nt_Name = '''', nt_GenerateName = '''', nt_Namespace = namespace, nt_Labels = [], Recipient = recipient,
      Context = [], Template = '''', Subject = '''', Content = '''', OwnerReferences = []\<rparr>"

text \<open>
  \<open>mail.ParseAddressList\<close> gives an error or the number of addresses, and the client's
  \<open>Create\<close> the notification as the API returns it, with the error. \<open>errors.Wrap\<close> of a nil
  error is nil: a list without addresses and without error gives neither a notification nor an
  error. The result is the notification (nil or a pointer), the error, and the objects sent to
  the API.
\<close>

definition Create ::
  "(string \<Rightarrow> string + nat) \<Rightarrow> (notification \<Rightarrow> notification \<times> string option) \<Rightarrow> string \<Rightarrow> builder \<Rightarrow> string \<Rightarrow>
   notification option \<times> string option \<times> notification list" where
  "Create ParseAddressList client_Create uuid b recipient =
     (case ParseAddressList recipient of
        Inl err \<Rightarrow> (None, Some (''The specified recipient ['' @ recipient @ ''] is not a valid email address: '' @ err), [])
      | Inr addresses \<Rightarrow>
          if addresses = 0 then (None, None, [])
          else case apply_options (options b) (empty_notification (b_namespace b) recipient) of
                 Inl err \<Rightarrow> (None, Some err, [])
               | Inr n \<Rightarrow>
                   (let n' = generateName uuid n; (created, err) = client_Create n'
                    in (Some created, err, [n'])))"

section \<open>Banned users\<close>

record banned_user =
  bu_Namespace :: string
  bu_Name :: string
  bu_Labels :: labels
  bu_Email :: string
  bu_Reason :: string

datatype banned_user_error = MissingLabel string label_key

definition NewBannedUser :: "user_signup \<Rightarrow> string \<Rightarrow> string \<Rightarrow> banned_user_error + banned_user" where
  "NewBannedUser userSignup bannedBy banReason =
     (case map_of (us_Labels userSignup) UserSignupUserEmailHashLabelKey of
        None \<Rightarrow> Inl (MissingLabel (us_Name userSignup) UserSignupUserEmailHashLabelKey)
      | Some emailHashLbl \<Rightarrow>
          (let bannedUser =
             \<lparr>bu_Namespace = us_Namespace userSignup, bu_Name = ''banneduser-'' @ emailHashLbl,
              bu_Labels = [(BannedUserEmailHashLabelKey, emailHashLbl), (BannedByLabelKey, bannedBy)],
              bu_Email = Email (IdentityClaims userSignup), bu_Reason = banReason\<rparr>
           in case map_of (us_Labels userSignup) UserSignupUserPhoneHashLabelKey of
                Some phoneHashLbl \<Rightarrow>
                  Inr (bannedUser\<lparr>bu_Labels := AList.update BannedUserPhoneNumberHashLabelKey phoneHashLbl (bu_Labels bannedUser)\<rparr>)
              | None \<Rightarrow> Inr bannedUser))"

text \<open>The client lists the banned users that carry the labels in a namespace.\<close>

definition GetBannedUser ::
  "(labels \<Rightarrow> string \<Rightarrow> 'e + banned_user list) \<Rightarrow> string \<Rightarrow> string \<Rightarrow> banned_user option \<times> 'e option" where
  "GetBannedUser client_List userEmailHash hostNamespace =
     (case client_List [(BannedUserEmailHashLabelKey, userEmailHash)] hostNamespace of
        Inl err \<Rightarrow> (None, Some err)
      | Inr [] \<Rightarrow> (None, None)
      | Inr (bannedUser # _) \<Rightarrow> (Some bannedUser, None))"

section \<open>Workspaces\<close>

record workspace =
  ws_Kind :: string
  ws_APIVersion :: string
  ws_Name :: string
  ws_ResourceVersion :: string
  ws_UID :: string
  ws_Generation :: int
  ws_CreationTimestamp :: time
  ws_Namespaces :: "(string \<times> string) list"
  ws_Owner :: string
  ws_Role :: string
  ws_Type :: string
  ws_AvailableRoles :: "string list"
  ws_Bindings :: "(string \<times> string \<times> string list) list"

definition NewWorkspace :: "string \<Rightarrow> string \<Rightarrow> (workspace \<Rightarrow> workspace) list \<Rightarrow> workspace" where
  "NewWorkspace LabelKeyPrefix name opts =
     foldl (\<lambda>ws option. option ws)
       \<lparr>ws_Kind = ''Workspace'', ws_APIVersion = LabelKeyPrefix @ ''v1alpha1'', ws_Name = name, ws_ResourceVersion = '''',
        ws_UID = '''', ws_Generation = 0, ws_CreationTimestamp = 0, ws_Namespaces = [], ws_Owner = '''', ws_Role = '''',
        ws_Type = '''', ws_AvailableRoles = [], ws_Bindings = []\<rparr> opts"

definition WithNamespaces :: "(string \<times> string) list \<Rightarrow> workspace \<Rightarrow> workspace" where
  "WithNamespaces nss ws = ws\<lparr>ws_Namespaces := nss\<rparr>"

definition WithOwner :: "string \<Rightarrow> workspace \<Rightarrow> workspace" where
  "WithOwner owner ws = ws\<lparr>ws_Owner := owner\<rparr>"

definition ws_WithRole :: "string \<Rightarrow> workspace \<Rightarrow> workspace" where
  "ws_WithRole role ws = ws\<lparr>ws_Role := role\<rparr>"

definition WithType :: "string \<Rightarrow> workspace \<Rightarrow> workspace" where
  "WithType wsType ws = ws\<lparr>ws_Type := wsType\<rparr>"

definition WithAvailableRoles :: "string list \<Rightarrow> workspace \<Rightarrow> workspace" where
  "WithAvailableRoles roles ws = ws\<lparr>ws_AvailableRoles := roles\<rparr>"

definition WithBindings :: "(string \<times> string \<times> string list) list \<Rightarrow> workspace \<Rightarrow> workspace" where
  "WithBindings bindings ws = ws\<lparr>ws_Bindings := bindings\<rparr>"

definition WithObjectMetaFrom :: "string \<Rightarrow> string \<Rightarrow> int \<Rightarrow> time \<Rightarrow> workspace \<Rightarrow> workspace" where
  "WithObjectMetaFrom ResourceVersion UID Generation CreationTimestamp ws =
     ws\<lparr>ws_ResourceVersion := ResourceVersion, ws_UID := UID, ws_Generation := Generation,
        ws_CreationTimestamp := CreationTimestamp\<rparr>"

section \<open>Tokens\<close>

text \<open>\<open>Post\<close> is the REST call: the path and the expiration in seconds, to the token.\<close>

definition CreateTokenRequest ::
  "(string \<Rightarrow> int \<Rightarrow> string + string) \<Rightarrow> nsname \<Rightarrow> int \<Rightarrow> string \<times> string option" where
  "CreateTokenRequest Post namespacedName expirationInSeconds =
     (case Post (''api/v1/namespaces/'' @ ns_of namespacedName @ ''/serviceaccounts/'' @ name_of namespacedName @ ''/token'')
             expirationInSeconds of
        Inl err \<Rightarrow> ('''', Some err)
      | Inr Token \<Rightarrow> if length Token = 0 then ('''', Some ''unable to create token, got empty string'') else (Token, None))"

section \<open>Properties\<close>

lemmas option_defs = WithName_def WithTemplate_def WithSubjectAndContent_def WithNotificationType_def
  WithControllerReference_def WithKeysAndValues_def WithUserContext_def WithUserTierContext_def add_option_def
  NewNotificationBuilder_def

text \<open>Options run in the order they were added, and the first error ends them.\<close>

lemma apply_options_append:
  "apply_options (opts @ opts') n = (case apply_options opts n of Inl err \<Rightarrow> Inl err | Inr n' \<Rightarrow> apply_options opts' n')"
  by (induction opts arbitrary: n) (auto split: sum.splits)

lemma generateName_fields [simp]:
  "nt_Namespace (generateName uuid n) = nt_Namespace n" "Recipient (generateName uuid n) = Recipient n"
  "nt_Labels (generateName uuid n) = nt_Labels n" "Context (generateName uuid n) = Context n"
  unfolding generateName_def by (simp_all split: option.split)



text \<open>Nothing is sent to an invalid recipient or when an option fails, and the error is returned;
  but a recipient that parses to no address at all (an empty group such as \<open>team:;\<close>) gives
  neither a notification nor an error.\<close>

theorem notification_not_sent:
  "Create (\<lambda>r. Inr 0) client_Create uuid b recipient = (None, None, []) \<and>
   (\<exists>e. Create (\<lambda>r. Inl err) client_Create uuid b recipient = (None, Some e, [])) \<and>
   Create (\<lambda>r. Inr (Suc k)) client_Create uuid
     (WithTemplate t (WithControllerReference (\<lambda>n. Inl err) (NewNotificationBuilder ns))) recipient = (None, Some err, [])"
  by (simp add: Create_def option_defs)

text \<open>C40: A banned user created from a sign-up is found again by the hash of the sign-up's email: the
  lookup gives a banned user of that namespace with that hash, or the hash is missing and creating
  fails.\<close>

theorem banned_user_found:
  assumes "NewBannedUser u bannedBy banReason = Inr b" and "b \<in> set store"
    and "\<And>ls ns. client_List ls ns =
           Inr (filter (\<lambda>x. bu_Namespace x = ns \<and> list_all (\<lambda>(k, v). map_of (bu_Labels x) k = Some v) ls) store)"
  shows "\<exists>h b'. map_of (us_Labels u) UserSignupUserEmailHashLabelKey = Some h \<and>
    bu_Name b = ''banneduser-'' @ h \<and> bu_Email b = Email (IdentityClaims u) \<and> bu_Reason b = banReason \<and>
    map_of (bu_Labels b) BannedByLabelKey = Some bannedBy \<and>
    map_of (bu_Labels b) BannedUserPhoneNumberHashLabelKey = map_of (us_Labels u) UserSignupUserPhoneHashLabelKey \<and>
    GetBannedUser client_List h (us_Namespace u) = (Some b', None) \<and> b' \<in> set store \<and>
    map_of (bu_Labels b') BannedUserEmailHashLabelKey = Some h"
proof -
  obtain h where h: "map_of (us_Labels u) UserSignupUserEmailHashLabelKey = Some h"
    and b: "bu_Namespace b = us_Namespace u" "bu_Name b = ''banneduser-'' @ h" "bu_Email b = Email (IdentityClaims u)"
      "bu_Reason b = banReason" "map_of (bu_Labels b) BannedByLabelKey = Some bannedBy"
      "map_of (bu_Labels b) BannedUserEmailHashLabelKey = Some h"
      "map_of (bu_Labels b) BannedUserPhoneNumberHashLabelKey = map_of (us_Labels u) UserSignupUserPhoneHashLabelKey"
    using assms(1) by (auto simp: NewBannedUser_def Let_def split: option.splits)
  let ?found = "filter (\<lambda>x. bu_Namespace x = us_Namespace u \<and> map_of (bu_Labels x) BannedUserEmailHashLabelKey = Some h) store"
  have "b \<in> set ?found" using assms(2) b by simp
  then obtain b' rest where found: "?found = b' # rest" by (cases ?found) auto
  then have "b' \<in> set ?found" by (simp only: list.set_intros)
  then have "b' \<in> set store" "map_of (bu_Labels b') BannedUserEmailHashLabelKey = Some h" by simp_all
  then show ?thesis using h b found assms(3) by (simp add: GetBannedUser_def)
qed

theorem banned_user_found_witness:
  "let u = \<lparr>us_Name = ''john'', us_Namespace = ''host'', us_Labels = [(UserSignupUserEmailHashLabelKey, ''abc'')], States = [],
             IdentityClaims = \<lparr>Sub = ''1'', Email = ''j@x.org'', GivenName = ''John'', FamilyName = ''D'', Company = ''''\<rparr>,
             CompliantUsername = ''john''\<rparr>;
       store = (case NewBannedUser u ''admin'' ''spam'' of Inr b \<Rightarrow> [b] | Inl _ \<Rightarrow> [])
   in \<exists>b. GetBannedUser (\<lambda>ls ns. Inr (filter (\<lambda>x. bu_Namespace x = ns \<and>
             list_all (\<lambda>(k, v). map_of (bu_Labels x) k = Some v) ls) store) :: unit + banned_user list) ''abc'' ''host'' = (Some b, None)"
proof -
  let ?u = "\<lparr>us_Name = ''john'', us_Namespace = ''host'', us_Labels = [(UserSignupUserEmailHashLabelKey, ''abc'')], States = [],
             IdentityClaims = \<lparr>Sub = ''1'', Email = ''j@x.org'', GivenName = ''John'', FamilyName = ''D'', Company = ''''\<rparr>,
             CompliantUsername = ''john''\<rparr>"
  obtain b where b: "NewBannedUser ?u ''admin'' ''spam'' = Inr b" by (simp add: NewBannedUser_def)
  from banned_user_found [OF b, of "[b]" "\<lambda>ls ns. Inr (filter (\<lambda>x. bu_Namespace x = ns \<and>
             list_all (\<lambda>(k, v). map_of (bu_Labels x) k = Some v) ls) [b]) :: unit + banned_user list"]
  show ?thesis by (auto simp: Let_def b)
qed

end
