(* ===== verification/Spec2Isabelle.thy ===== *)
theory Spec2Isabelle
  imports UserNames StateSlices BindingSlices ConditionSlices Owners ClusterControllers VersionChecks
    ResourcesController ClusterSystem CacheThreads TierTypes ConfigThreads MemberConfig Naming Resources
begin

text \<open>
  A model of toolchain-common, the Go library shared by the host and member operators of the
  Developer Sandbox: what the operators do with the clusters they are connected to, with the
  objects they apply, with the tiers, with users and with their configuration.

  \<^bold>\<open>Foundations.\<close> \<open>Prelude\<close> holds Go maps (association lists with distinct keys, in one order
  in which \<open>range\<close> may visit them), panics (\<open>'a go\<close>) and the locale \<open>keyed_store\<close>, the
  interface of every keyed table. \<open>ApiTypes\<close> holds the fields of the API types that are used.
  \<open>GoStrings\<close> and \<open>GoEncodings\<close> model what is used of Go's standard library: UTF-8, case,
  splitting, replacing, sorting, decimal numbers, durations, CRC-32, base64, hexadecimal, MD5 and
  JSON strings. \<open>GoSlices\<close> has slices as windows on arrays in a memory, with \<open>append\<close>, \<open>copy\<close> and
  deletion in place; its locales \<open>slice_operations\<close> and \<open>window_keeping\<close> say what a sequence of
  operations does to the elements and to the other slices.

  \<^bold>\<open>Slices in memory.\<close> Most theories take a slice for the list of its elements. Where the code
  writes to a slice it was given, the operations are also modelled in memory and shown to refine
  those on lists: \<open>ConditionSlices\<close> (updates copy and never change the caller's slice),
  \<open>BindingSlices\<close> (the merge of the lister, which overwrites the slices of
  \<open>ListSpaceBindingsFunc\<close>) and \<open>StateSlices\<close> (the setters, which overwrite what shares the array).

  \<^bold>\<open>Clusters.\<close> \<open>Conditions\<close> (\<open>pkg/condition\<close>, \<open>pkg/status/componentconditions.go\<close>) updates
  status conditions; the abstract view is a map from the type to status, reason and message,
  and the locale \<open>upsert_table\<close> is what both timestamp modes share. \<open>ClusterCache\<close>
  (\<open>pkg/cluster\<close>) has the cache of connected clusters as a state with the trace of its lock;
  sequences of its operations keep the entries consistent and the lock in order.
  \<open>ClusterControllers\<close> (\<open>controllers/toolchaincluster\<close>, \<open>controllers/toolchainclustercache\<close>,
  \<open>pkg/status/toolchaincluster.go\<close>) has the reconciliations that fill the cache and the status
  and the reading of that status. \<open>ClusterSystem\<close> puts the controllers, the API and the work queue
  together: the cache follows the API in every order of events. \<open>CacheThreads\<close> cuts the operations
  of the cache into critical sections, interleaves them, and shows that the lock never blocks for
  good. \<open>VersionChecks\<close> (\<open>pkg/status\<close>, \<open>pkg/client/github_client.go\<close>)
  has the deployment status and the rate limited version check. \<open>EventFilters\<close>
  (\<open>controllers/label_event_handler.go\<close>, \<open>pkg/predicate\<close>) has the event mapping and filters.

  \<^bold>\<open>Objects.\<close> \<open>ApplyClient\<close> (\<open>pkg/client/client.go\<close>, \<open>object.go\<close>) and \<open>SSAClient\<close>
  (\<open>ssa_client.go\<close>) apply objects to an API server, a record of functions on its state; the
  servers \<open>logging\<close> and \<open>recording\<close> wrap any server and keep what it is sent.
  \<open>ResourcesController\<close> (\<open>controllers/toolchainclusterresources\<close>) composes the loader of
  \<open>Templates\<close>, the client of \<open>SSAClient\<close> and the filters of \<open>EventFilters\<close>; its objects are part
  of the state, for a patch overwrites them. \<open>ResourceCache\<close> (\<open>resource_cache.go\<close>) finds resources
  and kinds with one discovery, \<open>Owners\<close> (\<open>pkg/owners\<close>) follows owner references.

  \<^bold>\<open>Tiers.\<close> \<open>Templates\<close> (\<open>pkg/template\<close>) fills and filters templates and loads the objects of
  an embedded directory; \<open>TierGenerator\<close>
  (\<open>pkg/template/nstemplatetiers\<close>) makes TierTemplates and NSTemplateTiers of the files of all
  tiers, and \<open>TierTypes\<close> shows that its map of tiers is well-formed after every stage and when
  it panics.

  \<^bold>\<open>Users and configuration.\<close> \<open>UserNames\<close> (\<open>pkg/usersignup\<close>), \<open>SignupStates\<close>
  (\<open>pkg/states\<close>), \<open>SpaceBindings\<close> (\<open>pkg/spacebinding\<close>), \<open>Naming\<close> (\<open>pkg/identity\<close>,
  \<open>pkg/hash\<close>, \<open>pkg/socialevent\<close>, \<open>pkg/utils\<close>), \<open>Resources\<close> (\<open>pkg/notification\<close>,
  \<open>pkg/banneduser\<close>, \<open>pkg/proxy\<close>, \<open>rest_client.go\<close>), \<open>Configuration\<close> and
  \<open>MemberConfig\<close> (\<open>pkg/configuration\<close>). \<open>ConfigThreads\<close> cuts the loads of the configuration at the
  points where they take the lock or ask the cluster, and runs them as lists of events: what is
  cached belongs together in every run, and a load returns what the cluster has once it is quiet.

  \<^bold>\<open>Conventions.\<close> An error is a value of a sum or option type, a nil dereference a \<open>Panic\<close>.
  The Kubernetes API, the OpenShift and YAML libraries, the clock, random values and the Unicode
  tables above ASCII are arguments; what is assumed of them is a hypothesis of the theorem that
  needs it. Recursion that may not end (\<open>GetOwners\<close> on a cycle of owners, \<open>ListForSpace\<close> on
  a cycle of parents, the loops of \<open>TransformUsername\<close>) is a partial function, with theorems that
  say when it returns. The only fuel is in \<open>ParseDuration\<close>: the length of the string, of which
  each component takes at least one byte.

  \<^bold>\<open>Not modelled.\<close> Logging, the registration of schemes and controllers with the manager
  (\<open>pkg/apis\<close>, \<open>SetupWithManager\<close> beyond what it requires), the struct in \<open>pkg/status/health.go\<close>,
  the execution of \<open>text/template\<close> and the YAML decoding (the record \<open>template_env\<close>),
  the parsing of mail addresses (an argument of \<open>Create\<close>), and the test support of \<open>pkg/test\<close>.
\<close>

end
